(* ===== verification/Prelude.thy ===== *)
theory Prelude
  imports Main "HOL-Library.Word" "HOL-Library.Code_Target_Nat"
begin

unbundle bit_operations_syntax

text \<open>
  Shared vocabulary of the development: the machine integer types of the Rust code, the
  standard library's saturating and checked arithmetic on them, \<open>Duration\<close> values as
  nanosecond counts, results as sums with the \<open>?\<close> operator as \<open>and_then\<close>, and the
  generic facts the components share. The collections declared here carry the component
  proofs: \<open>sat_simps\<close> reads saturating arithmetic on natural numbers, \<open>result_simps\<close>
  computes with results, \<open>world_simps\<close> and \<open>access_defs\<close> are filled by the theory of
  the execution model, and \<open>fs_simps\<close> by the theory of the file system.
\<close>

named_theorems sat_simps
named_theorems result_simps
named_theorems world_simps
named_theorems access_defs
named_theorems fs_simps

section \<open>Machine integers\<close>

type_synonym u32 = "32 word"
type_synonym u64 = "64 word"
type_synonym u128 = "128 word"

text \<open>The unsigned integer operations of the Rust standard library the sources use.\<close>

definition saturating_add :: "'a::len word \<Rightarrow> 'a word \<Rightarrow> 'a word" where
  "saturating_add a b = (if unat a + unat b < 2 ^ LENGTH('a) then a + b else - 1)"

definition saturating_sub :: "'a::len word \<Rightarrow> 'a word \<Rightarrow> 'a word" where
  "saturating_sub a b = (if b \<le> a then a - b else 0)"

definition saturating_mul :: "'a::len word \<Rightarrow> 'a word \<Rightarrow> 'a word" where
  "saturating_mul a b = (if unat a * unat b < 2 ^ LENGTH('a) then a * b else - 1)"

definition try_from :: "'a::len word \<Rightarrow> 'b::len word option" where
  "try_from a = (if unat a < 2 ^ LENGTH('b) then Some (ucast a) else None)"

definition unwrap_or :: "'a option \<Rightarrow> 'a \<Rightarrow> 'a" where
  "unwrap_or x d = (case x of None \<Rightarrow> d | Some v \<Rightarrow> v)"

definition clamp :: "'a::linorder \<Rightarrow> 'a \<Rightarrow> 'a \<Rightarrow> 'a" where
  "clamp x lo hi = (if x < lo then lo else if hi < x then hi else x)"

definition is_some_and :: "'a option \<Rightarrow> ('a \<Rightarrow> bool) \<Rightarrow> bool" where
  "is_some_and x p = (case x of None \<Rightarrow> False | Some v \<Rightarrow> p v)"

lemma unat_max_word: "unat (- 1 :: 'a::len word) = 2 ^ LENGTH('a) - 1"
  by (simp add: unsigned_minus_1_eq_mask mask_eq_exp_minus_1)

lemma min_exceeds: "\<not> x < (2::nat) ^ n \<Longrightarrow> min x (2 ^ n - 1) = 2 ^ n - 1"
  by (rule min_absorb2) linarith

lemma unat_saturating_add [sat_simps]:
  "unat (saturating_add a b) = min (unat a + unat b) (2 ^ LENGTH('a) - 1)"
  for a b :: "'a::len word"
proof (cases "unat a + unat b < 2 ^ LENGTH('a)")
  case True
  then show ?thesis
    by (simp add: saturating_add_def unat_word_ariths)
next
  case False
  then show ?thesis
    by (simp only: saturating_add_def if_False unat_max_word min_exceeds)
qed

lemma unat_saturating_sub [sat_simps]:
  "unat (saturating_sub a b) = unat a - unat b"
  by (simp add: saturating_sub_def unat_sub word_le_nat_alt)

lemma unat_saturating_mul [sat_simps]:
  "unat (saturating_mul a b) = min (unat a * unat b) (2 ^ LENGTH('a) - 1)"
  for a b :: "'a::len word"
proof (cases "unat a * unat b < 2 ^ LENGTH('a)")
  case True
  then show ?thesis
    by (simp add: saturating_mul_def unat_word_ariths)
next
  case False
  then show ?thesis
    by (simp only: saturating_mul_def if_False unat_max_word min_exceeds)
qed

lemma unat_max [sat_simps]: "unat (max a b) = max (unat a) (unat b)"
  by (simp add: max_def word_le_nat_alt)

lemma unat_clamp [sat_simps]:
  "unat (clamp x lo hi) = clamp (unat x) (unat lo) (unat hi)"
  by (simp add: clamp_def word_less_nat_alt)

lemma clamp_nat: "lo \<le> hi \<Longrightarrow> clamp (x::nat) lo hi = max lo (min hi x)"
  by (auto simp: clamp_def)

text \<open>Conversion to a narrower width succeeds exactly where the value fits.\<close>

lemma unat_try_from:
  "unat x < 2 ^ LENGTH('b) \<Longrightarrow> try_from x = Some (ucast x :: 'b::len word)"
  by (simp add: try_from_def)

lemma unat_ucast_fits:
  "unat x < 2 ^ LENGTH('b) \<Longrightarrow> unat (ucast x :: 'b::len word) = unat x"
  for x :: "'a::len word"
  by (simp add: unsigned_ucast_eq take_bit_nat_eq_self)

lemma unat_try_from_or_max [sat_simps]:
  "unat (unwrap_or (try_from x) (- 1 :: 'b::len word)) = min (unat x) (2 ^ LENGTH('b) - 1)"
  for x :: "'a::len word"
proof (cases "unat x < 2 ^ LENGTH('b)")
  case True
  then show ?thesis
    by (simp add: unwrap_or_def unat_try_from unat_ucast_fits min_def)
next
  case False
  then show ?thesis
    by (simp only: unwrap_or_def try_from_def if_False option.case unat_max_word min_exceeds)
qed

section \<open>Durations and instants\<close>

text \<open>
  A \<open>Duration\<close> is a whole number of nanoseconds and an \<open>Instant\<close> a reading of the
  monotonic clock in nanoseconds. A \<open>Duration\<close> holds 64 bits of seconds and the
  nanoseconds below one second, which is the bound \<open>duration_max\<close>.
\<close>

type_synonym duration = nat
type_synonym instant = nat

definition duration_max :: duration where
  "duration_max = (2 ^ 64 - 1) * 10 ^ 9 + 999999999"

definition from_millis :: "nat \<Rightarrow> duration" where
  "from_millis n = n * 1000000"

definition from_micros :: "nat \<Rightarrow> duration" where
  "from_micros n = n * 1000"

definition duration_saturating_mul :: "duration \<Rightarrow> nat \<Rightarrow> duration" where
  "duration_saturating_mul d n = min (d * n) duration_max"

definition as_nanos :: "duration \<Rightarrow> u128" where
  "as_nanos d = of_nat d"

lemma duration_max_fits: "duration_max < 2 ^ 128"
  by (simp add: duration_max_def)

lemma unat_as_nanos: "d \<le> duration_max \<Longrightarrow> unat (as_nanos d) = d"
  using duration_max_fits by (simp add: as_nanos_def unsigned_of_nat take_bit_nat_eq_self)

section \<open>Results\<close>

text \<open>
  A Rust \<open>Result<T, E>\<close> is \<open>'e + 'a\<close>: \<open>Inl\<close> the error, \<open>Inr\<close> the value. The
  operator \<open>?\<close> followed by the rest of the body is \<open>and_then\<close>.
\<close>

type_synonym ('a, 'e) result = "'e + 'a"

definition and_then :: "'e + 'a \<Rightarrow> ('a \<Rightarrow> 'e + 'b) \<Rightarrow> 'e + 'b" where
  "and_then r k = (case r of Inl e \<Rightarrow> Inl e | Inr v \<Rightarrow> k v)"

definition map_err :: "('e \<Rightarrow> 'f) \<Rightarrow> 'e + 'a \<Rightarrow> 'f + 'a" where
  "map_err f r = (case r of Inl e \<Rightarrow> Inl (f e) | Inr v \<Rightarrow> Inr v)"

definition ok_or :: "'a option \<Rightarrow> 'e \<Rightarrow> 'e + 'a" where
  "ok_or x e = (case x of None \<Rightarrow> Inl e | Some v \<Rightarrow> Inr v)"

definition is_ok :: "'e + 'a \<Rightarrow> bool" where
  "is_ok r = (case r of Inl _ \<Rightarrow> False | Inr _ \<Rightarrow> True)"

lemma and_then_simps [simp, result_simps]:
  "and_then (Inl e) k = Inl e"
  "and_then (Inr v) k = k v"
  by (simp_all add: and_then_def)

lemma and_then_Inr_iff [result_simps]:
  "and_then r k = Inr y \<longleftrightarrow> (\<exists>x. r = Inr x \<and> k x = Inr y)"
  by (cases r) auto

lemma and_then_Inl_iff [result_simps]:
  "and_then r k = Inl e \<longleftrightarrow> r = Inl e \<or> (\<exists>x. r = Inr x \<and> k x = Inl e)"
  by (cases r) auto

lemma map_err_simps [simp, result_simps]:
  "map_err f (Inl e) = Inl (f e)"
  "map_err f (Inr v) = Inr v"
  by (simp_all add: map_err_def)

lemma map_err_Inr_iff [result_simps]: "map_err f r = Inr v \<longleftrightarrow> r = Inr v"
  by (cases r) auto

lemma ok_or_simps [simp, result_simps]:
  "ok_or None e = Inl e"
  "ok_or (Some v) e = Inr v"
  by (simp_all add: ok_or_def)

lemma ok_or_Inr_iff [result_simps]: "ok_or x e = Inr v \<longleftrightarrow> x = Some v"
  by (cases x) auto

lemma is_ok_iff [result_simps]: "is_ok r \<longleftrightarrow> (\<exists>v. r = Inr v)"
  by (cases r) (auto simp: is_ok_def)

lemma is_some_and_iff [result_simps]: "is_some_and x p \<longleftrightarrow> (\<exists>v. x = Some v \<and> p v)"
  by (cases x) (auto simp: is_some_and_def)

text \<open>A computation that may panic, and what \<open>catch_unwind\<close> makes of it.\<close>

datatype 'a unwound = Finished 'a | Panicked

fun catch_unwind :: "'a unwound \<Rightarrow> 'a option" where
  "catch_unwind (Finished r) = Some r"
| "catch_unwind Panicked = None"

section \<open>Lists\<close>

text \<open>The last of the new elements when a trace grows at the front.\<close>

lemma suffix_of_grown:
  "ys = zs @ xs \<Longrightarrow> length ys - length xs = length zs"
  by simp

text \<open>Sorting the three samples of a calibration: its ends are the extreme samples.\<close>

lemma sorted_nth_bounds:
  assumes "sorted xs" and "x \<in> set xs"
  shows "hd xs \<le> x" and "x \<le> last xs"
proof -
  obtain i where i: "i < length xs" and x: "x = xs ! i"
    using assms(2) by (auto simp: in_set_conv_nth)
  then have "xs \<noteq> []"
    by auto
  with i assms(1) x show "hd xs \<le> x"
    by (simp add: hd_conv_nth sorted_nth_mono)
  from \<open>xs \<noteq> []\<close> i assms(1) x show "x \<le> last xs"
    by (simp add: last_conv_nth sorted_nth_mono)
qed

end
