(* ===== verification/Machine.thy ===== *)
theory Machine
  imports Prelude
begin

text \<open>
  The execution model of the crate. A waiting thread shares one atomic cell with producer
  threads. It runs against an arbitrary schedule: before each of its own accesses the
  environment runs a batch of events (producer stores and read-modify-writes, passing time,
  interrupts, migrations), so a theorem for every schedule is a theorem for every
  interleaving at the granularity of single accesses. Publication is kept by views: a write
  carries the set of items its producer has published before it, an Acquire access adds the
  view of the write it reads to the reader's view, a read-modify-write continues the release
  sequence it reads from and a plain store starts a new one. The monitor and the two wait
  instructions follow the processor manuals: a store to the armed address triggers the
  monitor, and a sleep ends on a trigger, on its timer or for any other cause. The trace of
  accesses is kept for stating what a call did, newest access first.
\<close>

section \<open>Shared state and the environment\<close>

type_synonym view = "nat set"

record 'v shared =
  cell_val :: 'v
  cell_rel :: view
  clock :: instant
  tsc :: nat
  cpu :: u32

datatype 'v env_event =
    EStore 'v view
  | EUpdate "'v \<Rightarrow> 'v" view
  | EAdvance duration nat
  | EInterrupt
  | EMigrate u32

definition store_release :: "'v \<Rightarrow> view \<Rightarrow> 'v shared \<Rightarrow> 'v shared" where
  "store_release v P s = s\<lparr>cell_val := v, cell_rel := P\<rparr>"

definition update_release :: "('v \<Rightarrow> 'v) \<Rightarrow> view \<Rightarrow> 'v shared \<Rightarrow> 'v shared" where
  "update_release f P s = s\<lparr>cell_val := f (cell_val s), cell_rel := cell_rel s \<union> P\<rparr>"

fun run_event :: "'v env_event \<Rightarrow> 'v shared \<Rightarrow> 'v shared" where
  "run_event (EStore v P) s = store_release v P s"
| "run_event (EUpdate f P) s = update_release f P s"
| "run_event (EAdvance ns ticks) s = s\<lparr>clock := clock s + ns, tsc := tsc s + ticks\<rparr>"
| "run_event EInterrupt s = s"
| "run_event (EMigrate c) s = s\<lparr>cpu := c\<rparr>"

fun is_write :: "'v env_event \<Rightarrow> bool" where
  "is_write (EStore v P) = True"
| "is_write (EUpdate f P) = True"
| "is_write _ = False"

fun is_interrupt :: "'v env_event \<Rightarrow> bool" where
  "is_interrupt EInterrupt = True"
| "is_interrupt _ = False"

definition run_batch :: "'v env_event list \<Rightarrow> 'v shared \<Rightarrow> 'v shared" where
  "run_batch es s = fold run_event es s"

text \<open>The shared state after the batches at positions \<open>i\<close> to \<open>j - 1\<close>.\<close>

definition advance :: "(nat \<Rightarrow> 'v env_event list) \<Rightarrow> nat \<Rightarrow> nat \<Rightarrow> 'v shared \<Rightarrow> 'v shared" where
  "advance E i j s = fold (\<lambda>k. run_batch (E k)) [i..<j] s"

section \<open>The waiting thread\<close>

datatype monitor = Unarmed | Armed u64 | Triggered

datatype wake = WakeStore | WakeTimer | WakeOther

datatype 'v access =
    ALoad 'v
  | ARelaxed 'v
  | ACas bool
  | ANow instant
  | ATsc u64
  | ASpin
  | AYield
  | AArm u64
  | ASleep monitor 'v wake
  | AHandoff

record 'v world =
  sh :: "'v shared"
  env :: "nat \<Rightarrow> 'v env_event list"
  pos :: nat
  seen :: view
  monitor :: monitor
  addr :: u64
  trace :: "'v access list"

definition touch :: "'v env_event list \<Rightarrow> u64 \<Rightarrow> monitor \<Rightarrow> monitor" where
  "touch es a m = (if m = Armed a \<and> list_ex is_write es then Triggered else m)"

definition tick :: "'v world \<Rightarrow> 'v world" where
  "tick w = w\<lparr>sh := run_batch (env w (pos w)) (sh w), pos := Suc (pos w),
              monitor := touch (env w (pos w)) (addr w) (monitor w)\<rparr>"

definition log_access :: "'v access \<Rightarrow> 'v world \<Rightarrow> 'v world" where
  "log_access a w = w\<lparr>trace := a # trace w\<rparr>"

definition acquire :: "'v world \<Rightarrow> 'v world" where
  "acquire w = w\<lparr>seen := seen w \<union> cell_rel (sh w)\<rparr>"

text \<open>The accesses of the standard library the sources use.\<close>

definition load_relaxed :: "'v world \<Rightarrow> 'v \<times> 'v world" where
  "load_relaxed w =
     (let w = tick w; v = cell_val (sh w) in (v, log_access (ARelaxed v) w))"

definition compare_exchange :: "'v \<Rightarrow> 'v \<Rightarrow> 'v world \<Rightarrow> bool \<times> 'v world" where
  "compare_exchange current new w =
     (let w = tick w
      in if cell_val (sh w) = current
         then (True, log_access (ACas True) (acquire (w\<lparr>sh := (sh w)\<lparr>cell_val := new\<rparr>\<rparr>)))
         else (False, log_access (ACas False) w))"

definition instant_now :: "'v world \<Rightarrow> instant \<times> 'v world" where
  "instant_now w = (let w = tick w in (clock (sh w), log_access (ANow (clock (sh w))) w))"

definition spin_loop :: "'v world \<Rightarrow> 'v world" where
  "spin_loop w = log_access ASpin (tick w)"

definition yield_now :: "'v world \<Rightarrow> 'v world" where
  "yield_now w = log_access AYield (tick w)"

text \<open>
  The instructions. \<open>RDTSCP\<close> returns the counter's halves and the processor number.
  \<open>MONITORX\<close> and \<open>UMONITOR\<close> arm an address; \<open>MWAITX\<close> with the timer enabled
  (bit 1 of \<open>ECX\<close>) sleeps for at most \<open>EBX\<close> ticks, \<open>UMWAIT\<close> until the counter reaches
  \<open>EDX:EAX\<close>. A sleep lasts for the environment's next batch; \<open>wake_cause\<close> says which
  of its events ended it, a batch with no such event being an unrelated wake.
\<close>

definition exec_rdtscp :: "'v world \<Rightarrow> (u32 \<times> u32 \<times> u32) \<times> 'v world" where
  "exec_rdtscp w =
     (let w = tick w; t = (of_nat (tsc (sh w)) :: u64)
      in ((ucast t, ucast (drop_bit 32 t), cpu (sh w)), log_access (ATsc t) w))"

definition exec_monitor :: "u64 \<Rightarrow> 'v world \<Rightarrow> 'v world" where
  "exec_monitor a w = log_access (AArm a) ((tick w)\<lparr>monitor := Armed a\<rparr>)"

fun wake_cause ::
  "(nat \<Rightarrow> bool) \<Rightarrow> u64 \<Rightarrow> monitor \<Rightarrow> 'v shared \<Rightarrow> 'v env_event list \<Rightarrow> wake" where
  "wake_cause expired a m s [] =
     (if m = Triggered then WakeStore else if expired (tsc s) then WakeTimer else WakeOther)"
| "wake_cause expired a m s (e # es) =
     (if m = Triggered then WakeStore
      else if m \<noteq> Armed a then WakeOther
      else if expired (tsc s) then WakeTimer
      else if is_interrupt e then WakeOther
      else wake_cause expired a (touch [e] a m) (run_event e s) es)"

definition exec_sleep :: "(nat \<Rightarrow> bool) \<Rightarrow> 'v world \<Rightarrow> 'v world" where
  "exec_sleep expired w =
     log_access
       (ASleep (monitor w) (cell_val (sh w))
         (wake_cause expired (addr w) (monitor w) (sh w) (env w (pos w))))
       ((tick w)\<lparr>monitor := Unarmed\<rparr>)"

definition exec_mwaitx :: "u32 \<Rightarrow> u32 \<Rightarrow> u64 \<Rightarrow> 'v world \<Rightarrow> 'v world" where
  "exec_mwaitx eax ecx rbx w =
     exec_sleep (\<lambda>t. bit ecx 1 \<and> tsc (sh w) + unat rbx \<le> t) w"

definition exec_umwait :: "u32 \<Rightarrow> u32 \<Rightarrow> u32 \<Rightarrow> 'v world \<Rightarrow> 'v world" where
  "exec_umwait eax edx ecx w =
     exec_sleep (\<lambda>t. unat edx * 2 ^ 32 + unat eax \<le> t) w"

text \<open>A thread about to make its first access, with the cell holding \<open>v\<close>.\<close>

definition start_world :: "(nat \<Rightarrow> 'v env_event list) \<Rightarrow> 'v \<Rightarrow> 'v world" where
  "start_world E v =
     \<lparr>sh = \<lparr>cell_val = v, cell_rel = {}, clock = 0, tsc = 0, cpu = 0\<rparr>, env = E, pos = 0,
      seen = {}, monitor = Unarmed, addr = 0x1000, trace = []\<rparr>"

section \<open>Facts about the environment\<close>

lemma run_batch_simps [simp]:
  "run_batch [] s = s"
  "run_batch (e # es) s = run_batch es (run_event e s)"
  by (simp_all add: run_batch_def)

lemma advance_same [simp]: "advance E i i s = s"
  by (simp add: advance_def)

lemma advance_Suc:
  "i \<le> j \<Longrightarrow> advance E i (Suc j) s = run_batch (E j) (advance E i j s)"
  by (simp add: advance_def)

lemma advance_one [simp]: "advance E i (Suc i) s = run_batch (E i) s"
  by (simp add: advance_Suc)

lemma advance_compose:
  assumes "i \<le> j" and "j \<le> k"
  shows "advance E j k (advance E i j s) = advance E i k s"
proof -
  from assms have "[i..<k] = [i..<j] @ [j..<k]"
    by (metis le_Suc_ex upt_add_eq_append)
  then show ?thesis
    by (simp add: advance_def)
qed

lemma run_event_clock: "clock s \<le> clock (run_event e s)"
  by (cases e) (simp_all add: store_release_def update_release_def)

lemma run_batch_clock: "clock s \<le> clock (run_batch es s)"
  by (induction es arbitrary: s) (auto intro: order_trans [OF run_event_clock])

lemma advance_clock: "i \<le> j \<Longrightarrow> clock s \<le> clock (advance E i j s)"
proof (induction j)
  case (Suc j)
  then show ?case
    by (cases "i = Suc j") (auto simp: advance_Suc intro: order_trans [OF _ run_batch_clock])
qed simp

text \<open>Without a write in it, a batch leaves the cell alone.\<close>

lemma run_event_no_write:
  "\<not> is_write e \<Longrightarrow> cell_val (run_event e s) = cell_val s \<and> cell_rel (run_event e s) = cell_rel s"
  by (cases e) simp_all

lemma run_batch_no_write:
  "\<not> list_ex is_write es \<Longrightarrow>
     cell_val (run_batch es s) = cell_val s \<and> cell_rel (run_batch es s) = cell_rel s"
  by (induction es arbitrary: s) (auto dest: run_event_no_write)

section \<open>What a stretch of reading accesses does\<close>

text \<open>
  \<open>follows w w'\<close>: the thread went from \<open>w\<close> to \<open>w'\<close> without writing the cell. The
  shared state is then what the environment alone has made of it, the position, the view and
  the trace have only grown.
\<close>

definition follows :: "'v world \<Rightarrow> 'v world \<Rightarrow> bool" where
  "follows w w' \<longleftrightarrow>
     env w' = env w \<and> addr w' = addr w \<and> pos w \<le> pos w' \<and>
     sh w' = advance (env w) (pos w) (pos w') (sh w) \<and>
     seen w \<subseteq> seen w' \<and> (\<exists>zs. trace w' = zs @ trace w)"

lemma follows_refl [simp, intro]: "follows w w"
  by (simp add: follows_def)

lemma follows_trans [trans]:
  assumes "follows u v" and "follows v w"
  shows "follows u w"
  using assms by (auto simp: follows_def advance_compose)

lemma follows_clock: "follows w w' \<Longrightarrow> clock (sh w) \<le> clock (sh w')"
  by (simp add: follows_def advance_clock)

lemma tick_simps [simp]:
  "sh (tick w) = run_batch (env w (pos w)) (sh w)"
  "env (tick w) = env w"
  "pos (tick w) = Suc (pos w)"
  "seen (tick w) = seen w"
  "addr (tick w) = addr w"
  "trace (tick w) = trace w"
  "monitor (tick w) = touch (env w (pos w)) (addr w) (monitor w)"
  by (simp_all add: tick_def)

lemma log_access_simps [simp]:
  "sh (log_access a w) = sh w"
  "env (log_access a w) = env w"
  "pos (log_access a w) = pos w"
  "seen (log_access a w) = seen w"
  "addr (log_access a w) = addr w"
  "monitor (log_access a w) = monitor w"
  "trace (log_access a w) = a # trace w"
  by (simp_all add: log_access_def)

lemma acquire_simps [simp]:
  "sh (acquire w) = sh w"
  "env (acquire w) = env w"
  "pos (acquire w) = pos w"
  "seen (acquire w) = seen w \<union> cell_rel (sh w)"
  "addr (acquire w) = addr w"
  "monitor (acquire w) = monitor w"
  "trace (acquire w) = trace w"
  by (simp_all add: acquire_def)

lemmas follows_step = follows_def tick_simps log_access_simps acquire_simps

lemma follows_tick [intro]: "follows w (tick w)"
  by (simp add: follows_def)

lemma follows_now: "follows w (snd (instant_now w))"
  by (simp add: instant_now_def follows_def)

lemma follows_spin: "follows w (spin_loop w)"
  by (simp add: spin_loop_def follows_def)

lemma follows_yield: "follows w (yield_now w)"
  by (simp add: yield_now_def follows_def)

lemma follows_rdtscp: "follows w (snd (exec_rdtscp w))"
  by (simp add: exec_rdtscp_def follows_def Let_def)

lemma follows_monitor: "follows w (exec_monitor a w)"
  by (simp add: exec_monitor_def follows_def)

lemma follows_sleep: "follows w (exec_sleep x w)"
  by (simp add: exec_sleep_def follows_def)

lemma follows_mwaitx: "follows w (exec_mwaitx a c b w)"
  by (simp add: exec_mwaitx_def follows_sleep)

lemma follows_umwait: "follows w (exec_umwait a d c w)"
  by (simp add: exec_umwait_def follows_sleep)

lemmas follows_accesses =
  follows_now follows_spin follows_yield follows_rdtscp follows_monitor follows_sleep
  follows_mwaitx follows_umwait

lemma pos_accesses [simp]:
  "pos (snd (load_relaxed w)) = Suc (pos w)"
  "pos (snd (compare_exchange c n w)) = Suc (pos w)"
  "pos (snd (instant_now w)) = Suc (pos w)"
  "pos (spin_loop w) = Suc (pos w)"
  "pos (yield_now w) = Suc (pos w)"
  "pos (snd (exec_rdtscp w)) = Suc (pos w)"
  "pos (exec_monitor a w) = Suc (pos w)"
  "pos (exec_sleep x w) = Suc (pos w)"
  "pos (exec_mwaitx ea ec eb w) = Suc (pos w)"
  "pos (exec_umwait ea ed ec w) = Suc (pos w)"
  by (simp_all add: load_relaxed_def compare_exchange_def instant_now_def spin_loop_def
      yield_now_def exec_rdtscp_def exec_monitor_def exec_sleep_def exec_mwaitx_def
      exec_umwait_def Let_def)

lemmas [access_defs] =
  load_relaxed_def compare_exchange_def instant_now_def spin_loop_def yield_now_def
  exec_rdtscp_def exec_monitor_def exec_sleep_def exec_mwaitx_def exec_umwait_def

section \<open>What the schedule promises\<close>

text \<open>
  \<open>settles e w n\<close>: from position \<open>n\<close> on, the schedule keeps the cell different from
  \<open>e\<close>. \<open>expires t w n\<close>: from position \<open>n\<close> on the clock has reached \<open>t\<close>.
\<close>

definition settles :: "'v \<Rightarrow> 'v world \<Rightarrow> nat \<Rightarrow> bool" where
  "settles e w n \<longleftrightarrow>
     (\<forall>k. n < k \<longrightarrow> pos w < k \<longrightarrow> cell_val (advance (env w) (pos w) k (sh w)) \<noteq> e)"

definition expires :: "instant \<Rightarrow> 'v world \<Rightarrow> nat \<Rightarrow> bool" where
  "expires t w n \<longleftrightarrow>
     (\<forall>k. n < k \<longrightarrow> pos w < k \<longrightarrow> t \<le> clock (advance (env w) (pos w) k (sh w)))"

lemma settles_follows: "settles e w n \<Longrightarrow> follows w w' \<Longrightarrow> settles e w' n"
  by (auto simp: settles_def follows_def advance_compose)

lemma expires_follows: "expires t w n \<Longrightarrow> follows w w' \<Longrightarrow> expires t w' n"
  by (auto simp: expires_def follows_def advance_compose)

lemma settles_now:
  "settles e w n \<Longrightarrow> n \<le> pos w \<Longrightarrow> cell_val (run_batch (env w (pos w)) (sh w)) \<noteq> e"
  by (metis settles_def advance_one less_Suc_eq_le lessI)

lemma expires_now:
  "expires t w n \<Longrightarrow> n \<le> pos w \<Longrightarrow> t \<le> clock (run_batch (env w (pos w)) (sh w))"
  by (metis expires_def advance_one less_Suc_eq_le lessI)

text \<open>The clock never goes back, so reaching a time once is reaching it for good.\<close>

lemma expires_onwards:
  assumes "pos w \<le> n" and "t \<le> clock (advance (env w) (pos w) n (sh w))"
  shows "expires t w n"
  unfolding expires_def
proof (intro allI impI)
  fix k assume "n < k"
  then have "clock (advance (env w) (pos w) n (sh w)) \<le> clock (advance (env w) (pos w) k (sh w))"
    using advance_clock [of n k "advance (env w) (pos w) n (sh w)" "env w"] assms(1)
    by (simp add: advance_compose)
  with assms(2) show "t \<le> clock (advance (env w) (pos w) k (sh w))"
    by simp
qed

text \<open>A value that no later batch overwrites stays.\<close>

lemma advance_quiet:
  assumes "i \<le> n" and "n \<le> k" and "\<forall>j\<ge>n. \<not> list_ex is_write (E j)"
  shows "cell_val (advance E i k s) = cell_val (advance E i n s)"
  using assms(2)
proof (induction k rule: dec_induct)
  case (step k)
  then show ?case
    using assms(1,3) by (simp add: advance_Suc run_batch_no_write)
qed simp

lemma settles_quiet:
  assumes "pos w \<le> n" and "cell_val (advance (env w) (pos w) n (sh w)) \<noteq> e"
    and "\<forall>j\<ge>n. \<not> list_ex is_write (env w j)"
  shows "settles e w n"
  unfolding settles_def
proof (intro allI impI)
  fix k assume "n < k"
  with advance_quiet [OF assms(1) _ assms(3), of k] assms(2)
  show "cell_val (advance (env w) (pos w) k (sh w)) \<noteq> e"
    by simp
qed

text \<open>The schedule lets time pass: the clock reaches every instant.\<close>

definition progresses :: "'v world \<Rightarrow> bool" where
  "progresses w \<longleftrightarrow> (\<forall>t. \<exists>n. expires t w n)"

lemma progresses_follows: "progresses w \<Longrightarrow> follows w w' \<Longrightarrow> progresses w'"
  unfolding progresses_def using expires_follows by blast

lemma steady_progress:
  assumes "env w = (\<lambda>_. [EAdvance d t])" and "0 < d"
  shows "progresses w"
proof -
  have clock: "clock (advance (env w) (pos w) (pos w + k) (sh w)) = clock (sh w) + k * d" for k
    by (induction k) (simp_all add: advance_Suc assms(1))
  have "expires T w (pos w + T)" for T
  proof (rule expires_onwards)
    have "T \<le> T * d"
      using assms(2) by (cases d) auto
    then show "T \<le> clock (advance (env w) (pos w) (pos w + T) (sh w))"
      unfolding clock by linarith
  qed simp
  then show ?thesis
    unfolding progresses_def by blast
qed

section \<open>Sleeping\<close>

text \<open>
  With the monitor armed on the cell's address, a write in the batch of a sleep ends the
  sleep unless its timer or an unrelated cause has ended it before.
\<close>

lemma wake_cause_triggered [simp]: "wake_cause x a Triggered s es = WakeStore"
  by (cases es) simp_all

lemma wake_cause_store:
  assumes "\<not> list_ex is_interrupt es" and "list_ex is_write es"
    and "\<forall>t. \<not> x t"
  shows "wake_cause x a (Armed a) s es = WakeStore"
  using assms by (induction es arbitrary: s) (auto simp: touch_def)

end
