(* ===== verification/Atomic.thy ===== *)
theory Atomic
  imports Machine
begin

text \<open>
  The sealed trait \<open>WaitableAtomic\<close> (\<^verbatim>\<open>src/src/atomic.rs\<close>): the Acquire load and the monitored
  address, the same for \<open>AtomicU32\<close> and \<open>AtomicU64\<close>, so one definition polymorphic in
  the value. The locale \<open>waitable_atomic\<close> states what the strategies rely on: a load is one
  access that only reads, returns the cell's value and leaves the reader synchronised with
  the write it read.
\<close>

definition load_acquire :: "'v world \<Rightarrow> 'v \<times> 'v world" where
  "load_acquire w =
     (let w = tick w; v = cell_val (sh w) in (v, log_access (ALoad v) (acquire w)))"

definition monitored_address :: "'v world \<Rightarrow> u64" where
  "monitored_address w = addr w"

text \<open>The last access was an Acquire load of \<open>v\<close>, whose writer's view the thread has.\<close>

definition observed :: "'v \<Rightarrow> 'v world \<Rightarrow> bool" where
  "observed v w \<longleftrightarrow>
     (\<exists>rest. trace w = ALoad v # rest) \<and> cell_val (sh w) = v \<and> cell_rel (sh w) \<subseteq> seen w"

locale waitable_atomic =
  fixes load :: "'v world \<Rightarrow> 'v \<times> 'v world"
    and address :: "'v world \<Rightarrow> u64"
  assumes load_follows: "follows w (snd (load w))"
    and load_one_access: "pos (snd (load w)) = Suc (pos w)"
    and load_observes: "observed (fst (load w)) (snd (load w))"
    and address_stable: "follows w w' \<Longrightarrow> address w' = address w"
begin

text \<open>A load reads what the environment's next batch leaves in the cell.\<close>

lemma load_value: "fst (load w) = cell_val (run_batch (env w (pos w)) (sh w))"
  using load_follows [of w] load_one_access [of w] load_observes [of w]
  by (simp add: follows_def observed_def)

lemma load_sees_settled: "settles e w n \<Longrightarrow> n \<le> pos w \<Longrightarrow> fst (load w) \<noteq> e"
  by (simp add: load_value settles_now)

end

interpretation atomic: waitable_atomic load_acquire monitored_address
  by unfold_locales
    (auto simp: load_acquire_def monitored_address_def follows_def observed_def Let_def)

section \<open>The accesses of a stretch\<close>

text \<open>\<open>new_accesses w w'\<close>: the accesses between \<open>w\<close> and \<open>w'\<close>, newest first.\<close>

definition new_accesses :: "'v world \<Rightarrow> 'v world \<Rightarrow> 'v access list" where
  "new_accesses w w' = take (length (trace w') - length (trace w)) (trace w')"

lemma new_accesses_append: "trace w' = zs @ trace w \<Longrightarrow> new_accesses w w' = zs"
  by (simp add: new_accesses_def)

lemma new_accesses_compose:
  assumes "follows u v" and "follows v w"
  shows "new_accesses u w = new_accesses v w @ new_accesses u v"
proof -
  from assms obtain xs ys where "trace v = xs @ trace u" "trace w = ys @ trace v"
    by (auto simp: follows_def)
  then show ?thesis
    by (simp add: new_accesses_def)
qed

lemma new_accesses_refl [simp]: "new_accesses w w = []"
  by (simp add: new_accesses_def)

lemma new_accesses_cons: "trace w' = a # trace w \<Longrightarrow> new_accesses w w' = [a]"
  using new_accesses_append [of w' "[a]" w] by simp

lemma trace_accesses:
  "trace (snd (load_acquire w)) = ALoad (fst (load_acquire w)) # trace w"
  "trace (snd (instant_now w)) = ANow (fst (instant_now w)) # trace w"
  "trace (spin_loop w) = ASpin # trace w"
  "trace (yield_now w) = AYield # trace w"
  "\<exists>t. trace (snd (exec_rdtscp w)) = ATsc t # trace w"
  "trace (exec_monitor a w) = AArm a # trace w"
  "\<exists>k. trace (exec_sleep x w) = ASleep (monitor w) (cell_val (sh w)) k # trace w"
  by (simp_all add: load_acquire_def instant_now_def spin_loop_def yield_now_def
      exec_rdtscp_def exec_monitor_def exec_sleep_def Let_def)

lemmas new_accesses_one =
  trace_accesses(1-4,6) [THEN new_accesses_cons]

lemma new_accesses_rdtscp: "\<exists>t. new_accesses w (snd (exec_rdtscp w)) = [ATsc t]"
  using trace_accesses(5) [of w] by (auto dest: new_accesses_cons)

lemma new_accesses_sleep:
  "\<exists>k. new_accesses w (exec_sleep x w) = [ASleep (monitor w) (cell_val (sh w)) k]"
  using trace_accesses(7) [of x w] by (auto dest: new_accesses_cons)

fun is_blocking :: "'v access \<Rightarrow> bool" where
  "is_blocking AYield = True"
| "is_blocking (ASleep m v k) = True"
| "is_blocking _ = False"

text \<open>How often the thread gave up the processor between two points.\<close>

definition blocks :: "'v world \<Rightarrow> 'v world \<Rightarrow> nat" where
  "blocks w w' = length (filter is_blocking (new_accesses w w'))"

lemma blocks_refl [simp]: "blocks w w = 0"
  by (simp add: blocks_def)

lemma blocks_compose: "follows u v \<Longrightarrow> follows v w \<Longrightarrow> blocks u w = blocks u v + blocks v w"
  by (simp add: blocks_def new_accesses_compose [of u v w])

lemma blocks_accesses [simp]:
  "blocks w (snd (load_acquire w)) = 0"
  "blocks w (snd (instant_now w)) = 0"
  "blocks w (spin_loop w) = 0"
  "blocks w (yield_now w) = 1"
  "blocks w (snd (exec_rdtscp w)) = 0"
  "blocks w (exec_monitor a w) = 0"
  "blocks w (exec_sleep x w) = 1"
  using new_accesses_rdtscp [of w] new_accesses_sleep [of w x]
  by (auto simp: blocks_def new_accesses_one)

section \<open>Sleeping under guard\<close>

text \<open>
  \<open>guarded e w\<close>: falling asleep now cannot miss a store. Either a store has already
  triggered the monitor, or the monitor is armed on the cell and the cell still holds
  \<open>e\<close>. \<open>sleeps_guarded\<close> says that of every sleep in a stretch.
\<close>

definition guarded :: "'v \<Rightarrow> 'v world \<Rightarrow> bool" where
  "guarded e w \<longleftrightarrow>
     monitor w = Triggered \<or> (monitor w = Armed (addr w) \<and> cell_val (sh w) = e)"

definition sleeps_guarded :: "'v \<Rightarrow> 'v world \<Rightarrow> 'v world \<Rightarrow> bool" where
  "sleeps_guarded e w w' \<longleftrightarrow>
     (\<forall>m v k. ASleep m v k \<in> set (new_accesses w w') \<longrightarrow>
        m = Triggered \<or> (m = Armed (addr w) \<and> v = e))"

lemma sleeps_guarded_refl [simp]: "sleeps_guarded e w w"
  by (simp add: sleeps_guarded_def)

lemma follows_addr: "follows w w' \<Longrightarrow> addr w' = addr w"
  by (simp add: follows_def)

lemma sleeps_guarded_compose:
  assumes "follows u v" and "follows v w" and "sleeps_guarded e u v" and "sleeps_guarded e v w"
  shows "sleeps_guarded e u w"
  using assms(3,4) follows_addr [OF assms(1)]
  unfolding sleeps_guarded_def new_accesses_compose [OF assms(1,2)] by (metis Un_iff set_append)

lemma sleeps_guarded_accesses [simp]:
  "sleeps_guarded e w (snd (load_acquire w))"
  "sleeps_guarded e w (snd (instant_now w))"
  "sleeps_guarded e w (spin_loop w)"
  "sleeps_guarded e w (yield_now w)"
  "sleeps_guarded e w (snd (exec_rdtscp w))"
  "sleeps_guarded e w (exec_monitor a w)"
  using new_accesses_rdtscp [of w] by (auto simp: sleeps_guarded_def new_accesses_one)

lemma sleeps_guarded_sleep: "guarded e w \<Longrightarrow> sleeps_guarded e w (exec_sleep x w)"
  using new_accesses_sleep [of w x] by (auto simp: sleeps_guarded_def guarded_def)

lemma guarded_tick: "guarded e w \<Longrightarrow> guarded e (tick w)"
  by (auto simp: guarded_def touch_def dest: run_batch_no_write)

lemma guarded_now: "guarded e w \<Longrightarrow> guarded e (snd (instant_now w))"
  by (drule guarded_tick) (simp add: guarded_def instant_now_def Let_def)

lemma guarded_rdtscp: "guarded e w \<Longrightarrow> guarded e (snd (exec_rdtscp w))"
  by (drule guarded_tick) (simp add: guarded_def exec_rdtscp_def Let_def)

text \<open>Arming and then loading the expected value establishes the guard.\<close>

lemma guarded_recheck:
  "fst (load_acquire (exec_monitor (addr w) w)) = e \<Longrightarrow>
     guarded e (snd (load_acquire (exec_monitor (addr w) w)))"
  by (simp add: guarded_def load_acquire_def exec_monitor_def Let_def touch_def)

end
