(* ===== verification/Capabilities.thy ===== *)
theory Capabilities
  imports Machine
begin

text \<open>
  The CPUID facts record of \<^verbatim>\<open>src/src/capabilities.rs\<close>, what an execution of CPUID returns,
  and the interface of the two processor modules' timer code. AMD and Intel carry separate
  copies of the timestamp-counter calibration; the locale \<open>tsc_timer\<close> states what both
  promise, and its lemmas are proved once for both.
\<close>

record Capabilities =
  supported_target :: bool
  amd_vendor :: bool
  intel_vendor :: bool
  monitorx_mwaitx :: bool
  waitpkg :: bool
  invariant_tsc :: bool
  rdtscp :: bool

definition default_Capabilities :: Capabilities where
  "default_Capabilities = \<lparr>supported_target = False, amd_vendor = False, intel_vendor = False,
     monitorx_mwaitx = False, waitpkg = False, invariant_tsc = False, rdtscp = False\<rparr>"

section \<open>CPUID\<close>

text \<open>
  The processor's answers are a parameter: a function of leaf and sub-leaf.
\<close>

record cpuid_result =
  eax :: u32
  ebx :: u32
  ecx :: u32
  edx :: u32

type_synonym cpuid = "u32 \<Rightarrow> u32 \<Rightarrow> cpuid_result"

fun from_le_bytes :: "string \<Rightarrow> u32" where
  "from_le_bytes [] = 0"
| "from_le_bytes (c # cs) = of_char c OR push_bit 8 (from_le_bytes cs)"

definition has_bit :: "u32 \<Rightarrow> u32 \<Rightarrow> bool" where
  "has_bit features b \<longleftrightarrow> features AND b \<noteq> 0"

lemma has_bit_shifted: "has_bit x (push_bit n 1) \<longleftrightarrow> bit x n"
  by (simp add: has_bit_def bit_iff_and_push_bit_not_eq_0)

section \<open>The calibrated timer's contract\<close>

text \<open>
  A frequency is computed from a counter difference over an elapsed time, and a budget must
  never rest on a frequency above the one the processor has: the accepted value stays at or
  below four fifths of every sample and is never zero.
\<close>

locale tsc_timer =
  fixes frequency :: "u64 \<Rightarrow> u128 \<Rightarrow> u64"
    and observation :: "u64 \<Rightarrow> u32 \<Rightarrow> u64 \<Rightarrow> u32 \<Rightarrow> u128 \<Rightarrow> u64 option"
    and conservative :: "u64 list \<Rightarrow> u64 option"
  assumes frequency_value:
      "unat (frequency ticks ns) =
         max 1 (min (unat ticks * 10 ^ 9 div max 1 (unat ns)) (2 ^ 64 - 1))"
    and observation_some:
      "observation t0 a0 t1 a1 ns = Some hz \<longleftrightarrow>
         a0 = a1 \<and> t0 < t1 \<and> ns \<noteq> 0 \<and> hz = frequency (t1 - t0) ns"
    and conservative_below:
      "length xs = 3 \<Longrightarrow> conservative xs = Some hz \<Longrightarrow> x \<in> set xs \<Longrightarrow> unat hz * 5 \<le> unat x * 4"
    and conservative_pos:
      "conservative xs = Some hz \<Longrightarrow> 0 < hz"
begin

text \<open>
  An accepted observation never reports more than the counter moved in the elapsed time, up
  to the lower bound of one hertz.
\<close>

lemma observation_bound:
  assumes "observation t0 a0 t1 a1 ns = Some hz" and "1 < hz"
  shows "unat hz * unat ns \<le> (unat t1 - unat t0) * 10 ^ 9"
proof -
  from assms have lt: "t0 < t1" and ns: "ns \<noteq> 0" and hz: "hz = frequency (t1 - t0) ns"
    by (simp_all add: observation_some)
  from lt have ticks: "unat (t1 - t0) = unat t1 - unat t0"
    by (simp add: unat_sub order_less_imp_le)
  from ns have "max 1 (unat ns) = unat ns"
    by (simp add: max_def Suc_leI unat_gt_0)
  with hz ticks assms(2) have "unat hz \<le> (unat t1 - unat t0) * 10 ^ 9 div unat ns"
    using frequency_value [of "t1 - t0" ns] by (auto simp: word_less_nat_alt max_def split: if_splits)
  then have "unat hz * unat ns \<le> (unat t1 - unat t0) * 10 ^ 9 div unat ns * unat ns"
    by (rule mult_le_mono1)
  also have "\<dots> \<le> (unat t1 - unat t0) * 10 ^ 9"
    by simp
  finally show ?thesis .
qed

lemma conservative_below_frequency:
  assumes "length xs = 3" and "conservative xs = Some hz" and "x \<in> set xs"
  shows "hz \<le> x"
  using conservative_below [OF assms] by (simp add: word_le_nat_alt)

end

end
