(* ===== verification/Amd.thy ===== *)
theory Amd
  imports Capabilities
begin

text \<open>
  The AMD boundary (\<^verbatim>\<open>src/src/arch/x86_64/amd.rs\<close>): decoding of the CPUID registers, the
  calibration of the timestamp counter with its sampling loop, and the \<open>RDTSCP\<close>,
  \<open>MONITORX\<close> and \<open>MWAITX\<close> wrappers with the registers they load. The lemmas
  characterise the decoder bit by bit, bound every arithmetic step and show that sampling
  returns on a schedule whose clock passes the calibration interval.
\<close>

section \<open>Constants\<close>

definition AMD_VENDOR_EBX :: u32 where "AMD_VENDOR_EBX = from_le_bytes ''Auth''"
definition AMD_VENDOR_EDX :: u32 where "AMD_VENDOR_EDX = from_le_bytes ''enti''"
definition AMD_VENDOR_ECX :: u32 where "AMD_VENDOR_ECX = from_le_bytes ''cAMD''"
definition EXTENDED_CPUID_BASE :: u32 where "EXTENDED_CPUID_BASE = 0x80000000"
definition EXTENDED_FEATURES_LEAF :: u32 where "EXTENDED_FEATURES_LEAF = 0x80000001"
definition INVARIANT_TSC_LEAF :: u32 where "INVARIANT_TSC_LEAF = 0x80000007"
definition MONITORX_MWAITX_BIT :: u32 where "MONITORX_MWAITX_BIT = push_bit 29 1"
definition RDTSCP_BIT :: u32 where "RDTSCP_BIT = push_bit 27 1"
definition INVARIANT_TSC_BIT :: u32 where "INVARIANT_TSC_BIT = push_bit 8 1"
definition TIMER_CALIBRATION_INTERVAL :: duration where
  "TIMER_CALIBRATION_INTERVAL = from_millis 2"
definition TIMER_CALIBRATION_SAMPLES :: nat where "TIMER_CALIBRATION_SAMPLES = 3"
definition TIMER_CALIBRATION_ATTEMPTS :: nat where "TIMER_CALIBRATION_ATTEMPTS = 9"
definition MAX_CALIBRATION_SPREAD_PERCENT :: u64 where "MAX_CALIBRATION_SPREAD_PERCENT = 20"
definition CONSERVATIVE_FREQUENCY_PERCENT :: u64 where "CONSERVATIVE_FREQUENCY_PERCENT = 80"

section \<open>Capability decoding\<close>

record CapabilityRegisters =
  vendor_ebx :: u32
  vendor_edx :: u32
  vendor_ecx :: u32
  extended_features_ecx :: "u32 option"
  extended_features_edx :: "u32 option"
  invariant_features_edx :: "u32 option"

definition amd_extended_leaf_availability :: "u32 \<Rightarrow> bool \<times> bool" where
  "amd_extended_leaf_availability extended_max =
     (EXTENDED_FEATURES_LEAF \<le> extended_max, INVARIANT_TSC_LEAF \<le> extended_max)"

definition amd_decode_capabilities :: "CapabilityRegisters \<Rightarrow> Capabilities" where
  "amd_decode_capabilities registers =
     \<lparr>supported_target = True,
      amd_vendor = (vendor_ebx registers = AMD_VENDOR_EBX
        \<and> vendor_edx registers = AMD_VENDOR_EDX
        \<and> vendor_ecx registers = AMD_VENDOR_ECX),
      intel_vendor = False,
      monitorx_mwaitx = is_some_and (extended_features_ecx registers)
        (\<lambda>features. has_bit features MONITORX_MWAITX_BIT),
      waitpkg = False,
      invariant_tsc = is_some_and (invariant_features_edx registers)
        (\<lambda>features. has_bit features INVARIANT_TSC_BIT),
      rdtscp = is_some_and (extended_features_edx registers)
        (\<lambda>features. has_bit features RDTSCP_BIT)\<rparr>"

definition amd_detect_capabilities :: "cpuid \<Rightarrow> Capabilities" where
  "amd_detect_capabilities cpuid =
     (let vendor = cpuid 0 0;
          extended_max = eax (cpuid EXTENDED_CPUID_BASE 0);
          (has_extended_features, has_invariant_features) =
            amd_extended_leaf_availability extended_max;
          extended_features =
            (if has_extended_features then Some (cpuid EXTENDED_FEATURES_LEAF 0) else None);
          invariant_features =
            (if has_invariant_features then Some (cpuid INVARIANT_TSC_LEAF 0) else None)
      in amd_decode_capabilities
           \<lparr>vendor_ebx = ebx vendor, vendor_edx = edx vendor, vendor_ecx = ecx vendor,
            extended_features_ecx = map_option ecx extended_features,
            extended_features_edx = map_option edx extended_features,
            invariant_features_edx = map_option edx invariant_features\<rparr>)"

definition amd_timer_calibration_is_usable :: "Capabilities \<Rightarrow> bool" where
  "amd_timer_calibration_is_usable capabilities \<longleftrightarrow>
     amd_vendor capabilities \<and> monitorx_mwaitx capabilities
       \<and> invariant_tsc capabilities \<and> rdtscp capabilities"

section \<open>Calibration\<close>

text \<open>
  The sampler is a closure that may not return: sampling is a function to an option. The
  loop keeps the number of attempts left, the array of samples and how many it holds.
\<close>

fun amd_collect_loop ::
  "('s \<Rightarrow> (u64 option \<times> 's) option) \<Rightarrow> nat \<Rightarrow> u64 list \<Rightarrow> nat \<Rightarrow> 's \<Rightarrow>
     (u64 list option \<times> 's) option" where
  "amd_collect_loop sample_once 0 samples collected s = Some (None, s)"
| "amd_collect_loop sample_once (Suc attempts) samples collected s =
     (case sample_once s of
        None \<Rightarrow> None
      | Some (None, s) \<Rightarrow> amd_collect_loop sample_once attempts samples collected s
      | Some (Some sample, s) \<Rightarrow>
          (let samples = samples[collected := sample]; collected = collected + 1
           in if collected = TIMER_CALIBRATION_SAMPLES then Some (Some samples, s)
              else amd_collect_loop sample_once attempts samples collected s))"

definition amd_collect_tsc_frequencies ::
  "('s \<Rightarrow> (u64 option \<times> 's) option) \<Rightarrow> 's \<Rightarrow> (u64 list option \<times> 's) option" where
  "amd_collect_tsc_frequencies sample_once s =
     amd_collect_loop sample_once TIMER_CALIBRATION_ATTEMPTS
       (replicate TIMER_CALIBRATION_SAMPLES 0) 0 s"

definition amd_frequency_hz :: "u64 \<Rightarrow> u128 \<Rightarrow> u64" where
  "amd_frequency_hz ticks elapsed_nanos =
     (let frequency = saturating_mul (ucast ticks) 1000000000 div max elapsed_nanos 1
      in max (unwrap_or (try_from frequency) (- 1)) 1)"

definition amd_tsc_frequency_from_observation ::
  "u64 \<Rightarrow> u32 \<Rightarrow> u64 \<Rightarrow> u32 \<Rightarrow> u128 \<Rightarrow> u64 option" where
  "amd_tsc_frequency_from_observation first first_aux final last_aux elapsed_nanos =
     (if first_aux \<noteq> last_aux \<or> final \<le> first \<or> elapsed_nanos = 0 then None
      else Some (amd_frequency_hz (final - first) elapsed_nanos))"

definition amd_conservative_timer_hz :: "u64 list \<Rightarrow> u64 option" where
  "amd_conservative_timer_hz samples =
     (let samples = sort samples;
          minimum = samples ! 0;
          maximum = samples ! (TIMER_CALIBRATION_SAMPLES - 1)
      in if saturating_mul maximum MAX_CALIBRATION_SPREAD_PERCENT
              < saturating_mul (saturating_sub maximum minimum) 100
         then None
         else let lower_bound = saturating_mul minimum CONSERVATIVE_FREQUENCY_PERCENT div 100
              in if 0 < lower_bound then Some lower_bound else None)"

definition amd_tsc_from_halves :: "u32 \<Rightarrow> u32 \<Rightarrow> u64" where
  "amd_tsc_from_halves high low = push_bit 32 (ucast high) + ucast low"

definition amd_read_tsc_ordered :: "'v world \<Rightarrow> (u64 \<times> u32) \<times> 'v world" where
  "amd_read_tsc_ordered w =
     (let ((low, high, auxiliary), w) = exec_rdtscp w
      in ((amd_tsc_from_halves high low, auxiliary), w))"

partial_function (option) amd_calibration_spin :: "instant \<Rightarrow> 'v world \<Rightarrow> 'v world option" where
  "amd_calibration_spin started w =
     (let (t, w) = instant_now w
      in if t - started < TIMER_CALIBRATION_INTERVAL
         then amd_calibration_spin started (spin_loop w) else Some w)"

definition amd_sample_tsc_frequency_once :: "'v world \<Rightarrow> (u64 option \<times> 'v world) option" where
  "amd_sample_tsc_frequency_once w =
     (let (started, w) = instant_now w;
          ((first, first_aux), w) = amd_read_tsc_ordered w
      in case amd_calibration_spin started w of
           None \<Rightarrow> None
         | Some w \<Rightarrow>
             (let ((final, last_aux), w) = amd_read_tsc_ordered w;
                  (t, w) = instant_now w
              in Some (amd_tsc_frequency_from_observation first first_aux final last_aux
                         (as_nanos (t - started)), w)))"

definition amd_calibrate_timer_hz :: "cpuid \<Rightarrow> 'v world \<Rightarrow> (u64 option \<times> 'v world) option" where
  "amd_calibrate_timer_hz cpuid w =
     (if amd_timer_calibration_is_usable (amd_detect_capabilities cpuid)
      then map_option (\<lambda>(samples, w). (Option.bind samples amd_conservative_timer_hz, w))
             (amd_collect_tsc_frequencies amd_sample_tsc_frequency_once w)
      else Some (None, w))"

section \<open>Instructions\<close>

definition monitorx :: "u64 \<Rightarrow> 'v world \<Rightarrow> 'v world" where
  "monitorx address w = exec_monitor address w"

definition mwaitx :: "u32 \<Rightarrow> u32 \<Rightarrow> 'v world \<Rightarrow> 'v world" where
  "mwaitx timeout_cycles c_state_hint w =
     exec_mwaitx c_state_hint (push_bit 1 1) (ucast timeout_cycles) w"

section \<open>Decoding, bit by bit\<close>

lemmas amd_constants =
  EXTENDED_CPUID_BASE_def EXTENDED_FEATURES_LEAF_def INVARIANT_TSC_LEAF_def
  TIMER_CALIBRATION_SAMPLES_def TIMER_CALIBRATION_ATTEMPTS_def
  MAX_CALIBRATION_SPREAD_PERCENT_def CONSERVATIVE_FREQUENCY_PERCENT_def

lemma amd_feature_bits:
  "has_bit x MONITORX_MWAITX_BIT \<longleftrightarrow> bit x 29"
  "has_bit x RDTSCP_BIT \<longleftrightarrow> bit x 27"
  "has_bit x INVARIANT_TSC_BIT \<longleftrightarrow> bit x 8"
  by (simp_all add: MONITORX_MWAITX_BIT_def RDTSCP_BIT_def INVARIANT_TSC_BIT_def
      has_bit_shifted del: push_bit_numeral push_bit_of_1)

lemma amd_detect_monitorx:
  "monitorx_mwaitx (amd_detect_capabilities cpuid) \<longleftrightarrow>
     EXTENDED_FEATURES_LEAF \<le> eax (cpuid EXTENDED_CPUID_BASE 0)
     \<and> bit (ecx (cpuid EXTENDED_FEATURES_LEAF 0)) 29"
  by (simp add: amd_detect_capabilities_def amd_decode_capabilities_def
      amd_extended_leaf_availability_def amd_feature_bits is_some_and_def Let_def)

lemma amd_detect_timer:
  "invariant_tsc (amd_detect_capabilities cpuid) \<longleftrightarrow>
     INVARIANT_TSC_LEAF \<le> eax (cpuid EXTENDED_CPUID_BASE 0)
     \<and> bit (edx (cpuid INVARIANT_TSC_LEAF 0)) 8"
  "rdtscp (amd_detect_capabilities cpuid) \<longleftrightarrow>
     EXTENDED_FEATURES_LEAF \<le> eax (cpuid EXTENDED_CPUID_BASE 0)
     \<and> bit (edx (cpuid EXTENDED_FEATURES_LEAF 0)) 27"
  by (simp_all add: amd_detect_capabilities_def amd_decode_capabilities_def
      amd_extended_leaf_availability_def amd_feature_bits is_some_and_def Let_def)

section \<open>Arithmetic of the calibration\<close>

lemma unat_nanos_per_second: "unat (1000000000 :: u128) = 10 ^ 9"
  by simp

lemma unat_amd_frequency_hz:
  "unat (amd_frequency_hz ticks ns) =
     max 1 (min (unat ticks * 10 ^ 9 div max 1 (unat ns)) (2 ^ 64 - 1))"
proof -
  have ticks: "unat (ucast ticks :: u128) = unat ticks"
    using unsigned_less [of ticks, where 'a = nat] by (intro unat_ucast_fits) simp
  have "unat ticks * 10 ^ 9 \<le> (2 ^ 64 - 1) * 10 ^ 9"
    using unsigned_less [of ticks, where 'a = nat] by (intro mult_le_mono1) simp
  then have "unat (saturating_mul (ucast ticks) 1000000000 :: u128) = unat ticks * 10 ^ 9"
    by (simp add: unat_saturating_mul ticks)
  then show ?thesis
    by (simp add: amd_frequency_hz_def Let_def unat_max unat_try_from_or_max unat_div_distrib
        max.commute)
qed

lemma amd_observation_iff:
  "amd_tsc_frequency_from_observation first a0 final a1 ns = Some hz \<longleftrightarrow>
     a0 = a1 \<and> first < final \<and> ns \<noteq> 0 \<and> hz = amd_frequency_hz (final - first) ns"
  by (auto simp: amd_tsc_frequency_from_observation_def)

lemma sort3_ends:
  assumes "length xs = 3" and "x \<in> set xs"
  shows "sort xs ! 0 \<le> x" and "x \<le> sort xs ! 2"
  using sorted_nth_bounds [of "sort xs" x] assms
  by (simp_all add: hd_conv_nth last_conv_nth flip: length_0_conv)

lemma amd_conservative_iff:
  "amd_conservative_timer_hz xs = Some hz \<longleftrightarrow>
     min (100 * (unat (sort xs ! 2) - unat (sort xs ! 0))) (2 ^ 64 - 1)
       \<le> min (20 * unat (sort xs ! 2)) (2 ^ 64 - 1)
     \<and> 0 < hz \<and> unat hz = min (80 * unat (sort xs ! 0)) (2 ^ 64 - 1) div 100"
  by (auto simp: amd_conservative_timer_hz_def amd_constants Let_def word_less_nat_alt
      unat_saturating_mul unat_saturating_sub unat_div_distrib word_unat_eq_iff mult.commute)

interpretation amd_timer: tsc_timer amd_frequency_hz amd_tsc_frequency_from_observation
  amd_conservative_timer_hz
proof
  fix xs hz x
  assume "length xs = 3" "amd_conservative_timer_hz xs = Some hz" "x \<in> set xs"
  then show "unat hz * 5 \<le> unat x * 4"
    using sort3_ends(1) [of xs x] by (simp add: amd_conservative_iff word_le_nat_alt)
qed (auto simp: unat_amd_frequency_hz amd_observation_iff amd_conservative_iff)

section \<open>Sampling\<close>

text \<open>A full counter reading survives the split into register halves.\<close>

lemma amd_tsc_halves: "amd_tsc_from_halves (ucast (drop_bit 32 t)) (ucast t) = t" for t :: u64
proof -
  have "push_bit 32 (ucast (ucast (drop_bit 32 t) :: u32)) + (ucast (ucast t :: u32) :: u64)
      = push_bit 32 (ucast (ucast (drop_bit 32 t) :: u32)) OR ucast (ucast t :: u32)"
    by (rule disjunctive_add) (auto simp: bit_simps)
  also have "\<dots> = t"
    by (rule bit_word_eqI) (auto simp: bit_simps)
  finally show ?thesis
    by (simp add: amd_tsc_from_halves_def)
qed

lemma amd_read_tsc_ordered_eq:
  "amd_read_tsc_ordered w =
     ((of_nat (tsc (sh (tick w))), cpu (sh (tick w))),
      log_access (ATsc (of_nat (tsc (sh (tick w))))) (tick w))"
  by (simp add: amd_read_tsc_ordered_def exec_rdtscp_def Let_def amd_tsc_halves)

text \<open>
  Collecting three samples in at most nine attempts: a full array holds samples the sampler
  returned and nothing else, and collecting returns whenever the sampler does.
\<close>

lemma amd_collect_loop_samples:
  assumes "amd_collect_loop f n samples collected s = Some (Some xs, s')"
    and "length samples = 3" and "collected < 3"
    and "\<forall>i<collected. \<exists>u u'. f u = Some (Some (samples ! i), u')"
  shows "length xs = 3 \<and> (\<forall>x\<in>set xs. \<exists>u u'. f u = Some (Some x, u'))"
  using assms
proof (induction n arbitrary: samples collected s)
  case (Suc n)
  note run = Suc.prems(1) and len = Suc.prems(2) and room = Suc.prems(3) and old = Suc.prems(4)
  from run obtain r s1 where f: "f s = Some (r, s1)"
    by (auto split: option.splits)
  show ?case
  proof (cases r)
    case None
    with f run have "amd_collect_loop f n samples collected s1 = Some (Some xs, s')"
      by simp
    from this len room old show ?thesis
      by (rule Suc.IH)
  next
    case (Some x)
    let ?samples = "samples[collected := x]"
    have filled: "\<forall>i<Suc collected. \<exists>u u'. f u = Some (Some (?samples ! i), u')"
      using len room old f Some by (auto simp: nth_list_update less_Suc_eq)
    show ?thesis
    proof (cases "Suc collected = 3")
      case True
      with run f Some have "xs = ?samples"
        by (simp add: TIMER_CALIBRATION_SAMPLES_def)
      with True filled len show ?thesis
        by (auto simp: in_set_conv_nth)
    next
      case False
      with run f Some have "amd_collect_loop f n ?samples (Suc collected) s1 = Some (Some xs, s')"
        by (simp add: TIMER_CALIBRATION_SAMPLES_def Let_def)
      moreover from False room have "Suc collected < 3"
        by simp
      ultimately show ?thesis
        using len filled by (intro Suc.IH) simp_all
    qed
  qed
qed simp

lemma amd_collect_tsc_frequencies_samples:
  assumes "amd_collect_tsc_frequencies f s = Some (Some xs, s')"
  shows "length xs = 3 \<and> (\<forall>x\<in>set xs. \<exists>u u'. f u = Some (Some x, u'))"
  using amd_collect_loop_samples [of f 9 "replicate 3 0" 0 s xs s'] assms
  by (simp add: amd_collect_tsc_frequencies_def TIMER_CALIBRATION_SAMPLES_def
      TIMER_CALIBRATION_ATTEMPTS_def)

text \<open>Waiting out the interval returns once the schedule's clock passes it.\<close>

lemma amd_calibration_spin_returns:
  assumes "expires (started + TIMER_CALIBRATION_INTERVAL) w n"
  shows "\<exists>w'. amd_calibration_spin started w = Some w' \<and> follows w w' \<and>
           started + TIMER_CALIBRATION_INTERVAL \<le> clock (sh w')"
  using assms
proof (induction "n - pos w" arbitrary: w rule: less_induct)
  case less
  let ?u = "snd (instant_now w)"
  let ?due = "started + TIMER_CALIBRATION_INTERVAL"
  have u: "follows w ?u" "pos ?u = Suc (pos w)" "fst (instant_now w) = clock (sh ?u)"
    by (rule follows_now) (simp_all add: instant_now_def Let_def)
  show ?case
  proof (cases "clock (sh ?u) - started < TIMER_CALIBRATION_INTERVAL")
    case False
    then have "amd_calibration_spin started w = Some ?u"
      using u(3) by (subst amd_calibration_spin.simps) (simp add: split_def Let_def)
    moreover from False have "?due \<le> clock (sh ?u) \<or> TIMER_CALIBRATION_INTERVAL = 0"
      by auto
    ultimately show ?thesis
      using u(1) by (auto simp: TIMER_CALIBRATION_INTERVAL_def from_millis_def)
  next
    case True
    have "\<not> n \<le> pos w"
    proof
      assume "n \<le> pos w"
      with less.prems have "?due \<le> clock (sh ?u)"
        by (auto dest: expires_now simp: instant_now_def Let_def)
      with True show False
        by simp
    qed
    then have closer: "n - pos (spin_loop ?u) < n - pos w"
      using u(2) by simp
    have fol: "follows w (spin_loop ?u)"
      using u(1) follows_spin by (rule follows_trans)
    obtain w' where w': "amd_calibration_spin started (spin_loop ?u) = Some w'"
      "follows (spin_loop ?u) w'" "?due \<le> clock (sh w')"
      using less.hyps [OF closer expires_follows [OF less.prems fol]] by blast
    have "amd_calibration_spin started w = Some w'"
      using True u(3) w'(1) by (subst amd_calibration_spin.simps) (simp add: split_def Let_def)
    with w' fol show ?thesis
      by (blast intro: follows_trans)
  qed
qed

text \<open>While the clock goes on, a sample and with it the whole calibration returns.\<close>

lemma amd_sample_returns:
  assumes "progresses w"
  shows "\<exists>x w'. amd_sample_tsc_frequency_once w = Some (x, w') \<and> progresses w'"
proof -
  define u where "u = snd (amd_read_tsc_ordered (snd (instant_now w)))"
  have tsc: "snd (amd_read_tsc_ordered v) = snd (exec_rdtscp v)" for v :: "'a world"
    by (simp add: amd_read_tsc_ordered_def split_def Let_def)
  have "follows w u"
    unfolding u_def tsc using follows_now follows_rdtscp by (rule follows_trans)
  with assms have u: "progresses u"
    by (rule progresses_follows)
  then obtain n where "expires (fst (instant_now w) + TIMER_CALIBRATION_INTERVAL) u n"
    by (auto simp: progresses_def)
  from amd_calibration_spin_returns [OF this] obtain v
    where v: "amd_calibration_spin (fst (instant_now w)) u = Some v" "follows u v"
    by blast
  have "progresses (snd (instant_now (snd (amd_read_tsc_ordered v))))"
    unfolding tsc
    by (rule progresses_follows [OF progresses_follows [OF u v(2)]
          follows_trans [OF follows_rdtscp follows_now]])
  then show ?thesis
    using v(1) by (simp add: amd_sample_tsc_frequency_once_def split_def Let_def u_def)
qed

lemma amd_collect_loop_returns:
  assumes "\<And>s. I s \<Longrightarrow> \<exists>x s'. f s = Some (x, s') \<and> I s'" and "I s"
  shows "\<exists>x s'. amd_collect_loop f n xs c s = Some (x, s') \<and> I s'"
  using assms(2)
proof (induction n arbitrary: xs c s)
  case (Suc n)
  obtain x s' where "f s = Some (x, s')" "I s'"
    using assms(1) [OF Suc.prems] by blast
  with Suc.IH show ?case
    by (cases x) (auto simp: Let_def)
qed simp

lemma amd_collect_returns:
  assumes "progresses w"
  shows "\<exists>x w'. amd_collect_tsc_frequencies amd_sample_tsc_frequency_once w = Some (x, w') \<and> progresses w'"
  unfolding amd_collect_tsc_frequencies_def
  by (rule amd_collect_loop_returns [of progresses]) (simp_all add: amd_sample_returns assms)

lemma amd_calibrate_returns:
  assumes "progresses w"
  shows "\<exists>x w'. amd_calibrate_timer_hz cpuid w = Some (x, w') \<and> progresses w'"
  using assms amd_collect_returns [OF assms] by (auto simp: amd_calibrate_timer_hz_def)

end
