(* ===== verification/Intel.thy ===== *)
theory Intel
  imports Amd
begin

text \<open>
  The Intel boundary (\<^verbatim>\<open>src/src/arch/x86_64/intel.rs\<close>): decoding of the CPUID registers, the
  query of the thread's timestamp-counter setting, the module's own copy of the calibration,
  and the \<open>RDTSCP\<close>, \<open>UMONITOR\<close> and \<open>UMWAIT\<close> wrappers. The copies of the calibration
  are proved equal to the AMD module's, so the contract \<open>tsc_timer\<close> and the sampling lemmas
  hold for both.
\<close>

section \<open>Constants\<close>

definition INTEL_VENDOR_EBX :: u32 where "INTEL_VENDOR_EBX = from_le_bytes ''Genu''"
definition INTEL_VENDOR_EDX :: u32 where "INTEL_VENDOR_EDX = from_le_bytes ''ineI''"
definition INTEL_VENDOR_ECX :: u32 where "INTEL_VENDOR_ECX = from_le_bytes ''ntel''"
definition WAITPKG_BIT :: u32 where "WAITPKG_BIT = push_bit 5 1"
definition UMWAIT_C01_CONTROL :: u32 where "UMWAIT_C01_CONTROL = 1"
definition WAITPKG_LEAF :: u32 where "WAITPKG_LEAF = 7"
definition PR_GET_TSC :: int where "PR_GET_TSC = 25"
definition PR_TSC_ENABLE :: int where "PR_TSC_ENABLE = 1"

section \<open>Capability decoding\<close>

record IntelCapabilityRegisters =
  i_vendor_ebx :: u32
  i_vendor_edx :: u32
  i_vendor_ecx :: u32
  waitpkg_features_ecx :: "u32 option"
  i_extended_features_edx :: "u32 option"
  i_invariant_features_edx :: "u32 option"

record IntelCapabilities =
  i_intel_vendor :: bool
  i_waitpkg :: bool
  i_invariant_tsc :: bool
  i_rdtscp :: bool
  i_timer_hz :: "u64 option"

definition waitpkg_leaf_is_available :: "u32 \<Rightarrow> bool" where
  "waitpkg_leaf_is_available basic_max \<longleftrightarrow> WAITPKG_LEAF \<le> basic_max"

definition intel_extended_leaf_availability :: "u32 \<Rightarrow> bool \<times> bool" where
  "intel_extended_leaf_availability extended_max =
     (EXTENDED_FEATURES_LEAF \<le> extended_max, INVARIANT_TSC_LEAF \<le> extended_max)"

definition intel_decode_capabilities ::
  "IntelCapabilityRegisters \<Rightarrow> u64 option \<Rightarrow> IntelCapabilities" where
  "intel_decode_capabilities registers calibrated_timer_hz =
     (let vendor = (i_vendor_ebx registers = INTEL_VENDOR_EBX
            \<and> i_vendor_edx registers = INTEL_VENDOR_EDX
            \<and> i_vendor_ecx registers = INTEL_VENDOR_ECX);
          wp = is_some_and (waitpkg_features_ecx registers)
            (\<lambda>features. has_bit features WAITPKG_BIT);
          rd = is_some_and (i_extended_features_edx registers)
            (\<lambda>features. has_bit features RDTSCP_BIT);
          inv = is_some_and (i_invariant_features_edx registers)
            (\<lambda>features. has_bit features INVARIANT_TSC_BIT)
      in \<lparr>i_intel_vendor = vendor, i_waitpkg = wp, i_invariant_tsc = inv, i_rdtscp = rd,
          i_timer_hz = (if vendor \<and> wp \<and> inv \<and> rd then calibrated_timer_hz else None)\<rparr>)"

definition intel_detect_capabilities :: "cpuid \<Rightarrow> IntelCapabilities" where
  "intel_detect_capabilities cpuid =
     (let vendor = cpuid 0 0;
          waitpkg_features =
            (if waitpkg_leaf_is_available (eax vendor) then Some (cpuid WAITPKG_LEAF 0) else None);
          extended_max = eax (cpuid EXTENDED_CPUID_BASE 0);
          (has_extended_features, has_invariant_features) =
            intel_extended_leaf_availability extended_max;
          extended_features =
            (if has_extended_features then Some (cpuid EXTENDED_FEATURES_LEAF 0) else None);
          invariant_features =
            (if has_invariant_features then Some (cpuid INVARIANT_TSC_LEAF 0) else None)
      in intel_decode_capabilities
           \<lparr>i_vendor_ebx = ebx vendor, i_vendor_edx = edx vendor, i_vendor_ecx = ecx vendor,
            waitpkg_features_ecx = map_option ecx waitpkg_features,
            i_extended_features_edx = map_option edx extended_features,
            i_invariant_features_edx = map_option edx invariant_features\<rparr> None)"

definition intel_timer_calibration_is_usable :: "IntelCapabilities \<Rightarrow> bool" where
  "intel_timer_calibration_is_usable capabilities \<longleftrightarrow>
     i_intel_vendor capabilities \<and> i_waitpkg capabilities
       \<and> i_invariant_tsc capabilities \<and> i_rdtscp capabilities"

text \<open>
  The system call is a parameter: given the option number and the initial content of the
  output integer, it returns a status and the integer's new content.
\<close>

definition userspace_tsc_is_enabled :: "(int \<Rightarrow> int \<Rightarrow> int \<times> int) \<Rightarrow> bool" where
  "userspace_tsc_is_enabled prctl =
     (let (status, setting) = prctl PR_GET_TSC 0 in status = 0 \<and> setting = PR_TSC_ENABLE)"

section \<open>Calibration\<close>

fun intel_collect_loop ::
  "('s \<Rightarrow> (u64 option \<times> 's) option) \<Rightarrow> nat \<Rightarrow> u64 list \<Rightarrow> nat \<Rightarrow> 's \<Rightarrow>
     (u64 list option \<times> 's) option" where
  "intel_collect_loop sample_once 0 samples collected s = Some (None, s)"
| "intel_collect_loop sample_once (Suc attempts) samples collected s =
     (case sample_once s of
        None \<Rightarrow> None
      | Some (None, s) \<Rightarrow> intel_collect_loop sample_once attempts samples collected s
      | Some (Some sample, s) \<Rightarrow>
          (let samples = samples[collected := sample]; collected = collected + 1
           in if collected = TIMER_CALIBRATION_SAMPLES then Some (Some samples, s)
              else intel_collect_loop sample_once attempts samples collected s))"

definition intel_collect_tsc_frequencies ::
  "('s \<Rightarrow> (u64 option \<times> 's) option) \<Rightarrow> 's \<Rightarrow> (u64 list option \<times> 's) option" where
  "intel_collect_tsc_frequencies sample_once s =
     intel_collect_loop sample_once TIMER_CALIBRATION_ATTEMPTS
       (replicate TIMER_CALIBRATION_SAMPLES 0) 0 s"

definition intel_frequency_hz :: "u64 \<Rightarrow> u128 \<Rightarrow> u64" where
  "intel_frequency_hz ticks elapsed_nanos =
     (let frequency = saturating_mul (ucast ticks) 1000000000 div max elapsed_nanos 1
      in max (unwrap_or (try_from frequency) (- 1)) 1)"

definition intel_tsc_frequency_from_observation ::
  "u64 \<Rightarrow> u32 \<Rightarrow> u64 \<Rightarrow> u32 \<Rightarrow> u128 \<Rightarrow> u64 option" where
  "intel_tsc_frequency_from_observation first first_aux final last_aux elapsed_nanos =
     (if first_aux \<noteq> last_aux \<or> final \<le> first \<or> elapsed_nanos = 0 then None
      else Some (intel_frequency_hz (final - first) elapsed_nanos))"

definition intel_conservative_timer_hz :: "u64 list \<Rightarrow> u64 option" where
  "intel_conservative_timer_hz samples =
     (let samples = sort samples;
          minimum = samples ! 0;
          maximum = samples ! (TIMER_CALIBRATION_SAMPLES - 1)
      in if saturating_mul maximum MAX_CALIBRATION_SPREAD_PERCENT
              < saturating_mul (saturating_sub maximum minimum) 100
         then None
         else let lower_bound = saturating_mul minimum CONSERVATIVE_FREQUENCY_PERCENT div 100
              in if 0 < lower_bound then Some lower_bound else None)"

definition intel_tsc_from_halves :: "u32 \<Rightarrow> u32 \<Rightarrow> u64" where
  "intel_tsc_from_halves high low = push_bit 32 (ucast high) + ucast low"

definition split_tsc_deadline :: "u64 \<Rightarrow> u32 \<times> u32" where
  "split_tsc_deadline deadline = (ucast deadline, ucast (drop_bit 32 deadline))"

definition read_tsc_ordered :: "'v world \<Rightarrow> (u64 \<times> u32) \<times> 'v world" where
  "read_tsc_ordered w =
     (let ((low, high, auxiliary), w) = exec_rdtscp w
      in ((intel_tsc_from_halves high low, auxiliary), w))"

partial_function (option) intel_calibration_spin :: "instant \<Rightarrow> 'v world \<Rightarrow> 'v world option" where
  "intel_calibration_spin started w =
     (let (t, w) = instant_now w
      in if t - started < TIMER_CALIBRATION_INTERVAL
         then intel_calibration_spin started (spin_loop w) else Some w)"

definition intel_sample_tsc_frequency_once :: "'v world \<Rightarrow> (u64 option \<times> 'v world) option" where
  "intel_sample_tsc_frequency_once w =
     (let (started, w) = instant_now w;
          ((first, first_aux), w) = read_tsc_ordered w
      in case intel_calibration_spin started w of
           None \<Rightarrow> None
         | Some w \<Rightarrow>
             (let ((final, last_aux), w) = read_tsc_ordered w;
                  (t, w) = instant_now w
              in Some (intel_tsc_frequency_from_observation first first_aux final last_aux
                         (as_nanos (t - started)), w)))"

definition intel_calibrate_timer_hz :: "cpuid \<Rightarrow> 'v world \<Rightarrow> (u64 option \<times> 'v world) option" where
  "intel_calibrate_timer_hz cpuid w =
     (if intel_timer_calibration_is_usable (intel_detect_capabilities cpuid)
      then map_option (\<lambda>(samples, w). (Option.bind samples intel_conservative_timer_hz, w))
             (intel_collect_tsc_frequencies intel_sample_tsc_frequency_once w)
      else Some (None, w))"

section \<open>Instructions\<close>

definition umonitor :: "u64 \<Rightarrow> 'v world \<Rightarrow> 'v world" where
  "umonitor address w = exec_monitor address w"

definition umwait_c01 :: "u64 \<Rightarrow> 'v world \<Rightarrow> 'v world" where
  "umwait_c01 deadline w =
     (let (deadline_low, deadline_high) = split_tsc_deadline deadline
      in exec_umwait deadline_low deadline_high UMWAIT_C01_CONTROL w)"

section \<open>Decoding, bit by bit\<close>

lemma intel_feature_bit: "has_bit x WAITPKG_BIT \<longleftrightarrow> bit x 5"
  by (simp add: WAITPKG_BIT_def has_bit_shifted del: push_bit_numeral push_bit_of_1)

lemmas intel_detect_defs =
  intel_detect_capabilities_def intel_decode_capabilities_def waitpkg_leaf_is_available_def
  intel_extended_leaf_availability_def is_some_and_def Let_def

lemma intel_detect_waitpkg:
  "i_waitpkg (intel_detect_capabilities cpuid) \<longleftrightarrow>
     WAITPKG_LEAF \<le> eax (cpuid 0 0) \<and> bit (ecx (cpuid WAITPKG_LEAF 0)) 5"
  by (simp add: intel_detect_defs intel_feature_bit)

lemma intel_detect_timer:
  "i_invariant_tsc (intel_detect_capabilities cpuid) \<longleftrightarrow>
     INVARIANT_TSC_LEAF \<le> eax (cpuid EXTENDED_CPUID_BASE 0)
     \<and> bit (edx (cpuid INVARIANT_TSC_LEAF 0)) 8"
  "i_rdtscp (intel_detect_capabilities cpuid) \<longleftrightarrow>
     EXTENDED_FEATURES_LEAF \<le> eax (cpuid EXTENDED_CPUID_BASE 0)
     \<and> bit (edx (cpuid EXTENDED_FEATURES_LEAF 0)) 27"
  by (simp_all add: intel_detect_defs amd_feature_bits)

text \<open>The vendor strings differ, so no processor is decoded as both vendors'.\<close>

lemma vendors_exclusive: "AMD_VENDOR_EBX \<noteq> INTEL_VENDOR_EBX"
  by (simp add: AMD_VENDOR_EBX_def INTEL_VENDOR_EBX_def)

section \<open>The two copies of the calibration agree\<close>

lemma intel_collect_loop_eq: "intel_collect_loop f n xs c s = amd_collect_loop f n xs c s"
  by (induction f n xs c s rule: intel_collect_loop.induct)
    (simp_all add: Let_def split: option.split prod.split)

lemma intel_copies_eq:
  "intel_frequency_hz = amd_frequency_hz"
  "intel_tsc_frequency_from_observation = amd_tsc_frequency_from_observation"
  "intel_conservative_timer_hz = amd_conservative_timer_hz"
  "intel_tsc_from_halves = amd_tsc_from_halves"
  "intel_collect_tsc_frequencies = amd_collect_tsc_frequencies"
  by (auto simp: fun_eq_iff intel_frequency_hz_def amd_frequency_hz_def
      intel_tsc_frequency_from_observation_def amd_tsc_frequency_from_observation_def
      intel_conservative_timer_hz_def amd_conservative_timer_hz_def
      intel_tsc_from_halves_def amd_tsc_from_halves_def
      intel_collect_tsc_frequencies_def amd_collect_tsc_frequencies_def intel_collect_loop_eq)

lemma read_tsc_ordered_eq: "read_tsc_ordered = amd_read_tsc_ordered"
  by (simp add: fun_eq_iff read_tsc_ordered_def amd_read_tsc_ordered_def intel_copies_eq)

lemma intel_spin_amd:
  "intel_calibration_spin started w = Some w' \<Longrightarrow> amd_calibration_spin started w = Some w'"
  by (rule intel_calibration_spin.raw_induct
      [where P = "\<lambda>started w w'. amd_calibration_spin started w = Some w'"])
    (subst amd_calibration_spin.simps, auto simp: Let_def split: prod.splits if_splits)

lemma amd_spin_intel:
  "amd_calibration_spin started w = Some w' \<Longrightarrow> intel_calibration_spin started w = Some w'"
  by (rule amd_calibration_spin.raw_induct
      [where P = "\<lambda>started w w'. intel_calibration_spin started w = Some w'"])
    (subst intel_calibration_spin.simps, auto simp: Let_def split: prod.splits if_splits)

lemma intel_calibration_spin_eq: "intel_calibration_spin = amd_calibration_spin"
  by (intro ext option.expand) (metis amd_spin_intel intel_spin_amd not_Some_eq option.sel)+

lemma intel_sample_eq: "intel_sample_tsc_frequency_once = amd_sample_tsc_frequency_once"
  unfolding fun_eq_iff intel_sample_tsc_frequency_once_def amd_sample_tsc_frequency_once_def
    intel_copies_eq read_tsc_ordered_eq intel_calibration_spin_eq by simp

interpretation intel_timer: tsc_timer intel_frequency_hz intel_tsc_frequency_from_observation
  intel_conservative_timer_hz
  unfolding intel_copies_eq by (rule amd_timer.tsc_timer_axioms)

lemma intel_calibrate_returns:
  assumes "progresses w"
  shows "\<exists>x w'. intel_calibrate_timer_hz cpuid w = Some (x, w') \<and> progresses w'"
  using assms amd_collect_returns [OF assms]
  by (auto simp: intel_calibrate_timer_hz_def intel_copies_eq intel_sample_eq)

text \<open>The deadline's halves in the two registers carry the whole deadline.\<close>

lemma split_tsc_deadline_halves:
  "(case split_tsc_deadline d of (low, high) \<Rightarrow> intel_tsc_from_halves high low) = d"
  by (simp add: split_tsc_deadline_def intel_copies_eq amd_tsc_halves)

lemma split_tsc_deadline_value:
  "(case split_tsc_deadline d of (low, high) \<Rightarrow> unat high * 2 ^ 32 + unat low) = unat d"
proof -
  have "unat (ucast (drop_bit 32 d) :: u32) = unat d div 2 ^ 32"
    using unsigned_less [of d, where 'a = nat]
    by (simp add: unsigned_ucast_eq unsigned_drop_bit_eq drop_bit_eq_div take_bit_eq_mod
        unat_div_distrib div_less_iff_less_mult)
  moreover have "unat (ucast d :: u32) = unat d mod 2 ^ 32"
    by (simp add: unsigned_ucast_eq take_bit_eq_mod)
  ultimately show ?thesis
    by (simp add: split_tsc_deadline_def)
qed


text \<open>The absolute deadline survives the split into the two register halves: \<open>UMWAIT\<close>
  is told exactly the deadline that was computed.\<close>

theorem umwait_sleeps_until_deadline:
  "umwait_c01 d w = exec_sleep (\<lambda>t. unat d \<le> t) w"
  using split_tsc_deadline_value [of d] by (simp add: umwait_c01_def exec_umwait_def split_def Let_def)

end
