(* ===== verification/Once.thy ===== *)
theory Once
  imports Prelude
begin

text \<open>
  One-time initialisation (\<open>OnceLock\<close>), which the crate uses for the CPUID facts and for
  the preflight verdict. A sequential caller sees \<open>get_or_init\<close>; concurrent callers are the
  step relation \<open>once_step\<close>: the first caller of an empty cell runs the initialiser,
  callers that arrive meanwhile block, and everybody returns what the cell then holds. The
  invariant shows that the initialiser runs at most once and that no two callers ever
  receive different results.
\<close>

section \<open>Sequential callers\<close>

text \<open>
  An initialiser acts on a state of its own, so that running it twice would show, and may
  fail to return.
\<close>

definition get_or_init ::
  "'a option \<Rightarrow> ('s \<Rightarrow> ('a \<times> 's) option) \<Rightarrow> 's \<Rightarrow> ('a \<times> 'a option \<times> 's) option" where
  "get_or_init slot f s =
     (case slot of
        Some v \<Rightarrow> Some (v, Some v, s)
      | None \<Rightarrow> map_option (\<lambda>(v, s). (v, Some v, s)) (f s))"

lemma get_or_init_cached [simp]: "get_or_init (Some v) f s = Some (v, Some v, s)"
  by (simp add: get_or_init_def)

lemma get_or_init_empty: "get_or_init None f s = map_option (\<lambda>(v, s). (v, Some v, s)) (f s)"
  by (simp add: get_or_init_def)

lemma get_or_init_fills: "get_or_init slot f s = Some (v, slot', s') \<Longrightarrow> slot' = Some v"
  by (auto simp: get_or_init_def split: option.splits)

section \<open>Concurrent callers\<close>

datatype 'r caller = NotCalled | Blocked | Running | Returned 'r

record 'r once_sys =
  slot :: "'r option"
  callers :: "nat \<Rightarrow> 'r caller"
  runs :: nat

definition once_init :: "'r once_sys" where
  "once_init = \<lparr>slot = None, callers = (\<lambda>_. NotCalled), runs = 0\<rparr>"

inductive once_step :: "'r once_sys \<Rightarrow> 'r once_sys \<Rightarrow> bool" where
  call_cached:
    "callers s i = NotCalled \<Longrightarrow> slot s = Some r \<Longrightarrow>
       once_step s (s\<lparr>callers := (callers s)(i := Returned r)\<rparr>)"
| call_first:
    "callers s i = NotCalled \<Longrightarrow> slot s = None \<Longrightarrow> (\<forall>j. callers s j \<noteq> Running) \<Longrightarrow>
       once_step s (s\<lparr>callers := (callers s)(i := Running), runs := Suc (runs s)\<rparr>)"
| call_block:
    "callers s i = NotCalled \<Longrightarrow> slot s = None \<Longrightarrow> callers s j = Running \<Longrightarrow>
       once_step s (s\<lparr>callers := (callers s)(i := Blocked)\<rparr>)"
| finish:
    "callers s i = Running \<Longrightarrow>
       once_step s (s\<lparr>slot := Some r, callers := (callers s)(i := Returned r)\<rparr>)"
| resume:
    "callers s i = Blocked \<Longrightarrow> slot s = Some r \<Longrightarrow>
       once_step s (s\<lparr>callers := (callers s)(i := Returned r)\<rparr>)"

inductive once_reachable :: "'r once_sys \<Rightarrow> bool" where
  reach_init: "once_reachable once_init"
| reach_step: "once_reachable s \<Longrightarrow> once_step s t \<Longrightarrow> once_reachable t"

definition once_inv :: "'r once_sys \<Rightarrow> bool" where
  "once_inv s \<longleftrightarrow>
     (\<forall>i r. callers s i = Returned r \<longrightarrow> slot s = Some r) \<and>
     (\<forall>i. callers s i = Running \<longrightarrow> slot s = None \<and> runs s = 1) \<and>
     (\<forall>i j. callers s i = Running \<longrightarrow> callers s j = Running \<longrightarrow> i = j) \<and>
     (slot s = None \<longrightarrow> (\<forall>i. callers s i \<noteq> Running) \<longrightarrow> runs s = 0) \<and>
     (slot s \<noteq> None \<longrightarrow> runs s = 1)"

lemma once_inv_init: "once_inv once_init"
  by (simp add: once_inv_def once_init_def)

lemma once_inv_returned: "once_inv s \<Longrightarrow> callers s i = Returned r \<Longrightarrow> slot s = Some r"
  by (simp add: once_inv_def)

lemma once_inv_runs: "once_inv s \<Longrightarrow> runs s \<le> 1"
  by (cases "slot s = None"; cases "\<exists>i. callers s i = Running") (auto simp: once_inv_def)

lemma once_step_inv:
  assumes "once_step s t" and "once_inv s"
  shows "once_inv t"
  using assms
proof (induction rule: once_step.induct)
  case (call_first s i)
  then show ?case
    by (auto simp: once_inv_def split: if_splits)
next
  case (call_block s i j)
  then have "j \<noteq> i"
    by auto
  with call_block show ?case
    by (auto simp: once_inv_def)
next
  case (finish s i r)
  then have "slot s = None" "runs s = 1" "\<forall>j. callers s j = Running \<longrightarrow> j = i"
    "\<forall>j r. callers s j \<noteq> Returned r"
    by (auto simp: once_inv_def)
  then show ?case
    by (auto simp: once_inv_def)
qed (auto simp: once_inv_def)

lemma once_reachable_inv: "once_reachable s \<Longrightarrow> once_inv s"
  by (induction rule: once_reachable.induct) (auto intro: once_inv_init once_step_inv)

text \<open>Nobody stays blocked: while a caller is blocked the running caller can finish.\<close>

definition once_blocked_inv :: "'r once_sys \<Rightarrow> bool" where
  "once_blocked_inv s \<longleftrightarrow>
     (\<forall>i. callers s i = Blocked \<longrightarrow> slot s \<noteq> None \<or> (\<exists>j. callers s j = Running))"

lemma once_step_blocked:
  assumes "once_step s t" and "once_blocked_inv s"
  shows "once_blocked_inv t"
  using assms
proof (induction rule: once_step.induct)
  case (call_cached s i r)
  then show ?case
    by (simp add: once_blocked_inv_def)
next
  case (call_block s i j)
  then have "j \<noteq> i"
    by auto
  with call_block(3) have "\<exists>k. ((callers s)(i := Blocked)) k = Running"
    by (intro exI [of _ j]) simp
  then show ?case
    by (simp add: once_blocked_inv_def)
qed (auto simp: once_blocked_inv_def)

lemma once_reachable_blocked: "once_reachable s \<Longrightarrow> once_blocked_inv s"
proof (induction rule: once_reachable.induct)
  case reach_init
  then show ?case
    by (simp add: once_blocked_inv_def once_init_def)
qed (rule once_step_blocked)


lemma once_reachable_pair:
  "once_reachable
     \<lparr>slot = Some r, callers = (\<lambda>_. NotCalled)(0 := Returned r, 1 := Returned r), runs = 1\<rparr>"
proof -
  let ?n = "\<lambda>_::nat. NotCalled"
  have "once_step once_init \<lparr>slot = None, callers = ?n(0 := Running), runs = 1\<rparr>"
    using call_first [of once_init 0] by (simp add: once_init_def)
  with reach_init have "once_reachable \<lparr>slot = None, callers = ?n(0 := Running), runs = 1\<rparr>"
    by (rule reach_step)
  moreover have "once_step \<lparr>slot = None, callers = ?n(0 := Running), runs = 1\<rparr>
      \<lparr>slot = None, callers = ?n(0 := Running, 1 := Blocked), runs = 1\<rparr>"
    using call_block [of "\<lparr>slot = None, callers = ?n(0 := Running), runs = 1\<rparr>" 1 0] by simp
  ultimately have "once_reachable \<lparr>slot = None, callers = ?n(0 := Running, 1 := Blocked), runs = 1\<rparr>"
    by (rule reach_step)
  moreover have "once_step \<lparr>slot = None, callers = ?n(0 := Running, 1 := Blocked), runs = 1\<rparr>
      \<lparr>slot = Some r, callers = ?n(0 := Returned r, 1 := Blocked), runs = 1\<rparr>"
    using finish [of "\<lparr>slot = None, callers = ?n(0 := Running, 1 := Blocked), runs = 1\<rparr>" 0 r]
    by (simp add: fun_upd_twist)
  ultimately have "once_reachable \<lparr>slot = Some r, callers = ?n(0 := Returned r, 1 := Blocked), runs = 1\<rparr>"
    by (rule reach_step)
  moreover have "once_step \<lparr>slot = Some r, callers = ?n(0 := Returned r, 1 := Blocked), runs = 1\<rparr>
      \<lparr>slot = Some r, callers = ?n(0 := Returned r, 1 := Returned r), runs = 1\<rparr>"
    using resume [of "\<lparr>slot = Some r, callers = ?n(0 := Returned r, 1 := Blocked), runs = 1\<rparr>" 1 r]
    by simp
  ultimately show ?thesis
    by (rule reach_step)
qed


end
