(* ===== verification/Arch.thy ===== *)
theory Arch
  imports Intel Once
begin

text \<open>
  Capability discovery for the whole process (\<^verbatim>\<open>src/src/arch/x86_64/mod.rs\<close>,
  \<^verbatim>\<open>src/src/arch/mod.rs\<close> and \<^verbatim>\<open>src/src/capabilities.rs\<close>): the merge of the two vendors' decoders, the
  empty facts of an unsupported target, and the cached public query.
\<close>

definition detect_capabilities :: "cpuid \<Rightarrow> Capabilities" where
  "detect_capabilities cpuid =
     (let amd = amd_detect_capabilities cpuid;
          intel = intel_detect_capabilities cpuid
      in \<lparr>supported_target = True,
          amd_vendor = amd_vendor amd,
          intel_vendor = i_intel_vendor intel,
          monitorx_mwaitx = monitorx_mwaitx amd,
          waitpkg = i_waitpkg intel,
          invariant_tsc = (if amd_vendor amd then invariant_tsc amd else i_invariant_tsc intel),
          rdtscp = (if amd_vendor amd then rdtscp amd else i_rdtscp intel)\<rparr>)"

definition detect_capabilities_unsupported :: Capabilities where
  "detect_capabilities_unsupported = default_Capabilities"

definition capabilities ::
  "(unit \<Rightarrow> Capabilities) \<Rightarrow> Capabilities option \<Rightarrow> (Capabilities \<times> Capabilities option) option" where
  "capabilities detect cache =
     map_option (\<lambda>(v, cache, _). (v, cache)) (get_or_init cache (\<lambda>_. Some (detect (), ())) ())"

section \<open>What the merged facts say\<close>

lemma detect_vendors:
  "amd_vendor (detect_capabilities cpuid) \<longleftrightarrow>
     ebx (cpuid 0 0) = AMD_VENDOR_EBX \<and> edx (cpuid 0 0) = AMD_VENDOR_EDX
     \<and> ecx (cpuid 0 0) = AMD_VENDOR_ECX"
  "intel_vendor (detect_capabilities cpuid) \<longleftrightarrow>
     ebx (cpuid 0 0) = INTEL_VENDOR_EBX \<and> edx (cpuid 0 0) = INTEL_VENDOR_EDX
     \<and> ecx (cpuid 0 0) = INTEL_VENDOR_ECX"
  by (simp_all add: detect_capabilities_def amd_detect_capabilities_def
      amd_decode_capabilities_def intel_detect_capabilities_def intel_decode_capabilities_def
      amd_extended_leaf_availability_def intel_extended_leaf_availability_def Let_def)

lemma detect_vendor_exclusive:
  "\<not> (amd_vendor (detect_capabilities cpuid) \<and> intel_vendor (detect_capabilities cpuid))"
  using vendors_exclusive by (auto simp: detect_vendors)

lemma detect_features:
  "supported_target (detect_capabilities cpuid)"
  "monitorx_mwaitx (detect_capabilities cpuid) \<longleftrightarrow>
     EXTENDED_FEATURES_LEAF \<le> eax (cpuid EXTENDED_CPUID_BASE 0)
     \<and> bit (ecx (cpuid EXTENDED_FEATURES_LEAF 0)) 29"
  "waitpkg (detect_capabilities cpuid) \<longleftrightarrow>
     WAITPKG_LEAF \<le> eax (cpuid 0 0) \<and> bit (ecx (cpuid WAITPKG_LEAF 0)) 5"
  "invariant_tsc (detect_capabilities cpuid) \<longleftrightarrow>
     INVARIANT_TSC_LEAF \<le> eax (cpuid EXTENDED_CPUID_BASE 0)
     \<and> bit (edx (cpuid INVARIANT_TSC_LEAF 0)) 8"
  "rdtscp (detect_capabilities cpuid) \<longleftrightarrow>
     EXTENDED_FEATURES_LEAF \<le> eax (cpuid EXTENDED_CPUID_BASE 0)
     \<and> bit (edx (cpuid EXTENDED_FEATURES_LEAF 0)) 27"
  by (auto simp: detect_capabilities_def Let_def amd_detect_monitorx amd_detect_timer
      intel_detect_waitpkg intel_detect_timer)

text \<open>The calibrations run only on the processor whose module they belong to.\<close>

lemma amd_usable_iff:
  "amd_timer_calibration_is_usable (amd_detect_capabilities cpuid) \<longleftrightarrow>
     (let c = detect_capabilities cpuid
      in amd_vendor c \<and> monitorx_mwaitx c \<and> invariant_tsc c \<and> rdtscp c)"
  by (auto simp: amd_timer_calibration_is_usable_def detect_capabilities_def Let_def)

lemma intel_usable_iff:
  "intel_timer_calibration_is_usable (intel_detect_capabilities cpuid) \<longleftrightarrow>
     (let c = detect_capabilities cpuid
      in intel_vendor c \<and> waitpkg c \<and> invariant_tsc c \<and> rdtscp c)"
  by (auto simp: intel_timer_calibration_is_usable_def Let_def detect_features
      intel_detect_waitpkg intel_detect_timer) (auto simp: detect_capabilities_def Let_def)

lemma capabilities_value:
  "capabilities detect cache =
     Some (case cache of None \<Rightarrow> (detect (), Some (detect ())) | Some v \<Rightarrow> (v, Some v))"
  by (simp add: capabilities_def get_or_init_def split: option.split)

text \<open>C34: capability discovery reports exactly the documented CPUID bits: a vendor by its full
  identification string, never two vendors at once, and each feature only when its leaf is
  within the range the processor reports.\<close>

theorem detect_capabilities_exact:
  "let d = detect_capabilities cpuid
   in supported_target d \<and> \<not> (amd_vendor d \<and> intel_vendor d)
    \<and> (amd_vendor d \<longleftrightarrow> ebx (cpuid 0 0) = AMD_VENDOR_EBX \<and> edx (cpuid 0 0) = AMD_VENDOR_EDX
         \<and> ecx (cpuid 0 0) = AMD_VENDOR_ECX)
    \<and> (intel_vendor d \<longleftrightarrow> ebx (cpuid 0 0) = INTEL_VENDOR_EBX \<and> edx (cpuid 0 0) = INTEL_VENDOR_EDX
         \<and> ecx (cpuid 0 0) = INTEL_VENDOR_ECX)
    \<and> (monitorx_mwaitx d \<longleftrightarrow> EXTENDED_FEATURES_LEAF \<le> eax (cpuid EXTENDED_CPUID_BASE 0)
         \<and> bit (ecx (cpuid EXTENDED_FEATURES_LEAF 0)) 29)
    \<and> (waitpkg d \<longleftrightarrow> WAITPKG_LEAF \<le> eax (cpuid 0 0) \<and> bit (ecx (cpuid WAITPKG_LEAF 0)) 5)
    \<and> (invariant_tsc d \<longleftrightarrow> INVARIANT_TSC_LEAF \<le> eax (cpuid EXTENDED_CPUID_BASE 0)
         \<and> bit (edx (cpuid INVARIANT_TSC_LEAF 0)) 8)
    \<and> (rdtscp d \<longleftrightarrow> EXTENDED_FEATURES_LEAF \<le> eax (cpuid EXTENDED_CPUID_BASE 0)
         \<and> bit (edx (cpuid EXTENDED_FEATURES_LEAF 0)) 27)"
  unfolding Let_def detect_vendors using vendors_exclusive by (auto simp: detect_features)

end
