(* ===== verification/Cycles.thy ===== *)
theory Cycles
  imports Arch
begin

text \<open>
  Hardware budgets (\<^verbatim>\<open>src/src/strategy.rs\<close>): the conversions from a duration to timer ticks, the
  two backends' configurations with their precomputed safety budgets, the budget of a timed
  wait and the absolute deadline of \<open>UMWAIT\<close>. The lemmas give the value of every
  computation on natural numbers, saturation included, and the bounds the instruction
  boundary relies on: a budget is never zero, never longer than the safety budget and never
  longer than the time that remains.
\<close>

definition NO_C_STATE_HINT :: u32 where "NO_C_STATE_HINT = 0xf0"
definition C1_STATE_HINT :: u32 where "C1_STATE_HINT = 0"
definition MWAITX_SAFETY_TIMEOUT :: duration where "MWAITX_SAFETY_TIMEOUT = from_millis 1"
definition UMWAIT_SAFETY_TIMEOUT :: duration where "UMWAIT_SAFETY_TIMEOUT = from_millis 1"
definition NANOS_PER_SECOND :: u128 where "NANOS_PER_SECOND = 1000000000"

definition duration_to_cycles :: "duration \<Rightarrow> u64 \<Rightarrow> u32" where
  "duration_to_cycles d timer_hz =
     (let cycles = saturating_mul (as_nanos d) (ucast timer_hz) div NANOS_PER_SECOND
      in unwrap_or (try_from (clamp cycles 1 (ucast (- 1 :: u32)))) (- 1))"

definition duration_to_cycles_u64 :: "duration \<Rightarrow> u64 \<Rightarrow> u64" where
  "duration_to_cycles_u64 d timer_hz =
     (let cycles = saturating_mul (as_nanos d) (ucast timer_hz) div NANOS_PER_SECOND
      in unwrap_or (try_from (clamp cycles 1 (ucast (- 1 :: u64)))) (- 1))"

record AmdConfig =
  amd_timer_hz :: u64
  amd_safety_timeout_cycles :: u32

definition AmdConfig_new :: "u64 \<Rightarrow> AmdConfig" where
  "AmdConfig_new timer_hz =
     \<lparr>amd_timer_hz = timer_hz,
      amd_safety_timeout_cycles = duration_to_cycles MWAITX_SAFETY_TIMEOUT timer_hz\<rparr>"

record IntelConfig =
  intel_timer_hz :: u64
  intel_safety_timeout_cycles :: u64

definition IntelConfig_new :: "u64 \<Rightarrow> IntelConfig" where
  "IntelConfig_new timer_hz =
     \<lparr>intel_timer_hz = timer_hz,
      intel_safety_timeout_cycles = duration_to_cycles_u64 UMWAIT_SAFETY_TIMEOUT timer_hz\<rparr>"

definition mwaitx_timeout_cycles :: "AmdConfig \<Rightarrow> duration \<Rightarrow> u32" where
  "mwaitx_timeout_cycles config remaining =
     (if remaining < MWAITX_SAFETY_TIMEOUT
      then duration_to_cycles remaining (amd_timer_hz config)
      else amd_safety_timeout_cycles config)"

definition umwait_timeout_cycles :: "IntelConfig \<Rightarrow> duration \<Rightarrow> u64" where
  "umwait_timeout_cycles config remaining =
     (if remaining < UMWAIT_SAFETY_TIMEOUT
      then duration_to_cycles_u64 remaining (intel_timer_hz config)
      else intel_safety_timeout_cycles config)"

definition umwait_deadline :: "u64 \<Rightarrow> 'v world \<Rightarrow> u64 \<times> 'v world" where
  "umwait_deadline timeout_cycles w =
     (let ((t, _), w) = read_tsc_ordered w in (saturating_add t (max timeout_cycles 1), w))"

section \<open>Values\<close>

text \<open>The tick count of a duration at a frequency, before clamping to a width.\<close>

definition ticks_of :: "duration \<Rightarrow> u64 \<Rightarrow> nat" where
  "ticks_of d hz = min (d * unat hz) (2 ^ 128 - 1) div 10 ^ 9"

lemma ticks_of_mono: "d \<le> d' \<Longrightarrow> ticks_of d hz \<le> ticks_of d' hz"
  by (auto simp: ticks_of_def intro!: div_le_mono min.mono)

lemma ticks_of_le: "ticks_of d hz * 10 ^ 9 \<le> d * unat hz"
  unfolding ticks_of_def by (metis div_times_less_eq_dividend min.boundedE)

lemma unat_cycles_u128:
  assumes "d \<le> duration_max"
  shows "unat (saturating_mul (as_nanos d) (ucast hz) div NANOS_PER_SECOND) = ticks_of d hz"
proof -
  have "unat (ucast hz :: u128) = unat hz"
    using unsigned_less [of hz, where 'a = nat] by (intro unat_ucast_fits) simp
  with assms show ?thesis
    by (simp add: ticks_of_def unat_div_distrib unat_saturating_mul unat_as_nanos
        NANOS_PER_SECOND_def)
qed

lemma unat_duration_to_cycles:
  "d \<le> duration_max \<Longrightarrow>
     unat (duration_to_cycles d hz) = max 1 (min (2 ^ 32 - 1) (ticks_of d hz))"
  by (simp add: duration_to_cycles_def unat_try_from_or_max unat_clamp unat_cycles_u128
      unat_ucast_fits unat_max_word clamp_nat)

lemma unat_duration_to_cycles_u64:
  "d \<le> duration_max \<Longrightarrow>
     unat (duration_to_cycles_u64 d hz) = max 1 (min (2 ^ 64 - 1) (ticks_of d hz))"
  by (simp add: duration_to_cycles_u64_def unat_try_from_or_max unat_clamp unat_cycles_u128
      unat_ucast_fits unat_max_word clamp_nat)

lemmas cycle_values = unat_duration_to_cycles unat_duration_to_cycles_u64

lemma safety_timeouts [simp]:
  "MWAITX_SAFETY_TIMEOUT = 1000000" "UMWAIT_SAFETY_TIMEOUT = 1000000"
  "(1000000 :: duration) \<le> duration_max"
  by (simp_all add: MWAITX_SAFETY_TIMEOUT_def UMWAIT_SAFETY_TIMEOUT_def from_millis_def
      duration_max_def)

section \<open>Budgets of a timed wait\<close>

lemma below_safety_fits: "r < 1000000 \<Longrightarrow> r \<le> duration_max"
  by (simp add: duration_max_def)

lemma mwaitx_timeout_cycles_bounds:
  assumes "config = AmdConfig_new hz" and "r \<le> duration_max"
  shows "1 \<le> mwaitx_timeout_cycles config r"
    and "mwaitx_timeout_cycles config r \<le> amd_safety_timeout_cycles config"
    and "mwaitx_timeout_cycles config r \<le> duration_to_cycles r hz"
  using assms ticks_of_mono [of r 1000000 hz] ticks_of_mono [of 1000000 r hz]
  by (auto simp: mwaitx_timeout_cycles_def AmdConfig_new_def word_le_nat_alt cycle_values
      below_safety_fits)

lemma umwait_timeout_cycles_bounds:
  assumes "config = IntelConfig_new hz" and "r \<le> duration_max"
  shows "1 \<le> umwait_timeout_cycles config r"
    and "umwait_timeout_cycles config r \<le> intel_safety_timeout_cycles config"
    and "umwait_timeout_cycles config r \<le> duration_to_cycles_u64 r hz"
  using assms ticks_of_mono [of r 1000000 hz] ticks_of_mono [of 1000000 r hz]
  by (auto simp: umwait_timeout_cycles_def IntelConfig_new_def word_le_nat_alt cycle_values
      below_safety_fits)

section \<open>The absolute deadline\<close>

lemma umwait_deadline_eq:
  "umwait_deadline c w =
     (saturating_add (of_nat (tsc (sh (tick w)))) (max c 1),
      log_access (ATsc (of_nat (tsc (sh (tick w))))) (tick w))"
  by (simp add: umwait_deadline_def read_tsc_ordered_eq amd_read_tsc_ordered_eq Let_def)

lemma snd_umwait_deadline: "snd (umwait_deadline c w) = snd (exec_rdtscp w)"
  by (simp add: umwait_deadline_eq exec_rdtscp_def Let_def)

lemma umwait_deadline_value:
  "unat (fst (umwait_deadline c w)) =
     min (tsc (sh (tick w)) mod 2 ^ 64 + max (unat c) 1) (2 ^ 64 - 1)"
  by (simp add: umwait_deadline_eq unat_saturating_add unat_max unsigned_of_nat take_bit_eq_mod)

section \<open>Properties of the budgets\<close>

text \<open>The tick budget of a duration at a conservative frequency, measured against a sample.\<close>

lemma ticks_conservative:
  assumes "unat hz * 5 \<le> unat f * 4" and "n \<le> max 1 (min m (ticks_of r hz))"
  shows "n \<le> 1 \<or> n * 5 * 10 ^ 9 \<le> r * 4 * unat f"
proof -
  have "ticks_of r hz * 5 * 10 ^ 9 \<le> r * unat hz * 5"
    using ticks_of_le [of r hz] by simp
  also have "\<dots> \<le> r * (unat f * 4)"
    using mult_le_mono2 [OF assms(1), of r] by (simp add: mult.assoc)
  finally have bound: "ticks_of r hz * 5 * 10 ^ 9 \<le> r * 4 * unat f"
    by (simp add: ac_simps)
  show ?thesis
  proof (cases "n \<le> 1")
    case False
    then have "n * 5 * 10 ^ 9 \<le> ticks_of r hz * 5 * 10 ^ 9"
      using assms(2) by (intro mult_le_mono1) linarith
    with bound show ?thesis
      by linarith
  qed simp
qed

text \<open>C21: the hardware budget of a timed AMD wait is never zero, never longer than the safety
  budget, and, unless it is the one-tick minimum, never longer than the time that remains: it
  stays within four fifths of the ticks that any of the accepted calibration samples would
  count in it.\<close>

theorem mwaitx_budget_within_deadline:
  assumes "amd_conservative_timer_hz samples = Some hz" and "length samples = 3" and "f \<in> set samples"
    and "r \<le> duration_max"
  shows "1 \<le> mwaitx_timeout_cycles (AmdConfig_new hz) r
     \<and> mwaitx_timeout_cycles (AmdConfig_new hz) r \<le> amd_safety_timeout_cycles (AmdConfig_new hz)
     \<and> (unat (mwaitx_timeout_cycles (AmdConfig_new hz) r) \<le> 1
        \<or> unat (mwaitx_timeout_cycles (AmdConfig_new hz) r) * 5 * 10 ^ 9 \<le> r * 4 * unat f)"
proof -
  note b = mwaitx_timeout_cycles_bounds [OF refl assms(4), of hz]
  have "unat (mwaitx_timeout_cycles (AmdConfig_new hz) r) \<le> max 1 (min (2 ^ 32 - 1) (ticks_of r hz))"
    using b(3) unfolding word_le_nat_alt unat_duration_to_cycles [OF assms(4)] .
  from ticks_conservative [OF amd_timer.conservative_below [OF assms(2,1,3)] this] b show ?thesis
    by blast
qed

theorem mwaitx_budget_within_deadline_witness:
  "amd_conservative_timer_hz [2000000000, 2100000000, 2000000000] = Some 1600000000 \<and>
   (unat (mwaitx_timeout_cycles (AmdConfig_new 1600000000) 50000) \<le> 1 \<or>
    unat (mwaitx_timeout_cycles (AmdConfig_new 1600000000) 50000) * 5 * 10 ^ 9
      \<le> 50000 * 4 * unat (2000000000 :: u64))"
proof -
  have hz: "amd_conservative_timer_hz [2000000000, 2100000000, 2000000000] = Some 1600000000"
    by (simp add: amd_conservative_timer_hz_def amd_constants saturating_mul_def saturating_sub_def
        Let_def)
  have "(50000 :: duration) \<le> duration_max"
    by (simp add: duration_max_def)
  from mwaitx_budget_within_deadline [OF hz, of 2000000000, OF _ _ this] hz show ?thesis
    by simp
qed

text \<open>C22: the same for the Intel backend, whose absolute counter deadline moreover lies at most
  the budget after the counter value it read, with the sum saturating instead of wrapping.\<close>

theorem umwait_budget_within_deadline:
  assumes "intel_conservative_timer_hz samples = Some hz" and "length samples = 3" and "f \<in> set samples"
    and "r \<le> duration_max"
  shows "1 \<le> umwait_timeout_cycles (IntelConfig_new hz) r
     \<and> umwait_timeout_cycles (IntelConfig_new hz) r \<le> intel_safety_timeout_cycles (IntelConfig_new hz)
     \<and> (unat (umwait_timeout_cycles (IntelConfig_new hz) r) \<le> 1
        \<or> unat (umwait_timeout_cycles (IntelConfig_new hz) r) * 5 * 10 ^ 9 \<le> r * 4 * unat f)
     \<and> unat (fst (umwait_deadline (umwait_timeout_cycles (IntelConfig_new hz) r) w)) =
         min (tsc (sh (tick w)) mod 2 ^ 64 + unat (umwait_timeout_cycles (IntelConfig_new hz) r))
           (2 ^ 64 - 1)"
proof -
  note b = umwait_timeout_cycles_bounds [OF refl assms(4), of hz]
  have "unat (umwait_timeout_cycles (IntelConfig_new hz) r) \<le> max 1 (min (2 ^ 64 - 1) (ticks_of r hz))"
    using b(3) unfolding word_le_nat_alt unat_duration_to_cycles_u64 [OF assms(4)] .
  note bound = ticks_conservative [OF intel_timer.conservative_below [OF assms(2,1,3)] this]
  have "max (unat (umwait_timeout_cycles (IntelConfig_new hz) r)) 1 =
      unat (umwait_timeout_cycles (IntelConfig_new hz) r)"
    using b(1) by (simp add: word_le_nat_alt max_def)
  with bound b show ?thesis
    unfolding umwait_deadline_value by metis
qed

theorem umwait_budget_within_deadline_witness:
  "unat (fst (umwait_deadline (umwait_timeout_cycles (IntelConfig_new 1600000000) 50000)
       (start_world (\<lambda>_. [EAdvance 1 7]) (0::u32)))) =
     min (7 + unat (umwait_timeout_cycles (IntelConfig_new 1600000000) 50000)) (2 ^ 64 - 1)"
proof -
  have hz: "intel_conservative_timer_hz [2000000000, 2100000000, 2000000000] = Some 1600000000"
    by (simp add: intel_copies_eq amd_conservative_timer_hz_def amd_constants saturating_mul_def
        saturating_sub_def Let_def)
  have "(50000 :: duration) \<le> duration_max"
    by (simp add: duration_max_def)
  from umwait_budget_within_deadline [OF hz, where f = 2000000000
      and w = "start_world (\<lambda>_. [EAdvance 1 7]) (0::u32)", OF _ _ this] show ?thesis
    by (simp add: start_world_def)
qed

text \<open>
  The spread test compares saturated products: where the largest sample exceeds
  \<open>2 ^ 64 / 20\<close> both sides saturate and samples that differ by any factor pass.
\<close>

lemma spread_check_saturates:
  "amd_conservative_timer_hz [100, 0xFFFFFFFFFFFFFFFF, 0xFFFFFFFFFFFFFFFF] = Some 80"
  by (simp add: amd_conservative_timer_hz_def amd_constants saturating_mul_def saturating_sub_def
      Let_def)

end
