(* ===== verification/Errors.thy ===== *)
theory Errors
  imports Prelude
begin

text \<open>
  The public error vocabulary of the crate (\<^verbatim>\<open>src/src/error.rs\<close>): the built-in strategies,
  the hardware backends, why a target is unsupported, why the functional probe failed, and
  the error of preflight and construction, with the texts their \<open>Display\<close> impls render.
  The lemmas show that an error's rendering never hides which kind of failure it is.
\<close>

section \<open>Enumerations\<close>

datatype Strategy = BusySpin | SpinThenYield | HardwareWait | SpinThenHardwareWait

datatype HardwareBackend = AmdMwaitx | IntelUmwait

datatype UnsupportedReason =
    UnsupportedTarget
  | UnsupportedCpuVendor
  | MissingMonitorxMwaitx
  | MissingWaitpkg
  | MissingInvariantTsc
  | MissingRdtscp
  | TscAccessDisabled
  | UnstableTimerCalibration

record UnsupportedStrategy =
  us_strategy :: Strategy
  us_reason :: UnsupportedReason

datatype PreflightFailure = WaitDidNotBlock | StoreWakeNotObserved | Inconclusive

datatype HardwareWaitError =
    PreflightRequired
  | PreflightPanicked
  | Unsupported UnsupportedStrategy
  | PreflightFailed (pf_backend: HardwareBackend) (pf_reason: PreflightFailure)

section \<open>Rendering\<close>

text \<open>The derived \<open>Debug\<close> output of a field-less enum is its constructor's name.\<close>

fun debug_Strategy :: "Strategy \<Rightarrow> string" where
  "debug_Strategy BusySpin = ''BusySpin''"
| "debug_Strategy SpinThenYield = ''SpinThenYield''"
| "debug_Strategy HardwareWait = ''HardwareWait''"
| "debug_Strategy SpinThenHardwareWait = ''SpinThenHardwareWait''"

fun debug_HardwareBackend :: "HardwareBackend \<Rightarrow> string" where
  "debug_HardwareBackend AmdMwaitx = ''AmdMwaitx''"
| "debug_HardwareBackend IntelUmwait = ''IntelUmwait''"

fun debug_UnsupportedReason :: "UnsupportedReason \<Rightarrow> string" where
  "debug_UnsupportedReason UnsupportedTarget = ''UnsupportedTarget''"
| "debug_UnsupportedReason UnsupportedCpuVendor = ''UnsupportedCpuVendor''"
| "debug_UnsupportedReason MissingMonitorxMwaitx = ''MissingMonitorxMwaitx''"
| "debug_UnsupportedReason MissingWaitpkg = ''MissingWaitpkg''"
| "debug_UnsupportedReason MissingInvariantTsc = ''MissingInvariantTsc''"
| "debug_UnsupportedReason MissingRdtscp = ''MissingRdtscp''"
| "debug_UnsupportedReason TscAccessDisabled = ''TscAccessDisabled''"
| "debug_UnsupportedReason UnstableTimerCalibration = ''UnstableTimerCalibration''"

fun debug_PreflightFailure :: "PreflightFailure \<Rightarrow> string" where
  "debug_PreflightFailure WaitDidNotBlock = ''WaitDidNotBlock''"
| "debug_PreflightFailure StoreWakeNotObserved = ''StoreWakeNotObserved''"
| "debug_PreflightFailure Inconclusive = ''Inconclusive''"

definition display_UnsupportedStrategy :: "UnsupportedStrategy \<Rightarrow> string" where
  "display_UnsupportedStrategy e =
     ''strategy '' @ debug_Strategy (us_strategy e) @ '' is unavailable: ''
       @ debug_UnsupportedReason (us_reason e)"

fun display_HardwareWaitError :: "HardwareWaitError \<Rightarrow> string" where
  "display_HardwareWaitError PreflightRequired =
     ''hardware wait preflight must run once before constructing a strategy''"
| "display_HardwareWaitError PreflightPanicked =
     ''hardware wait preflight panicked; hardware waiting remains unavailable''"
| "display_HardwareWaitError (Unsupported error) = display_UnsupportedStrategy error"
| "display_HardwareWaitError (PreflightFailed backend reason) =
     ''hardware wait preflight for '' @ debug_HardwareBackend backend @ '' failed: ''
       @ debug_PreflightFailure reason"

definition from_UnsupportedStrategy :: "UnsupportedStrategy \<Rightarrow> HardwareWaitError" where
  "from_UnsupportedStrategy value = Unsupported value"

fun error_source :: "HardwareWaitError \<Rightarrow> UnsupportedStrategy option" where
  "error_source (Unsupported error) = Some error"
| "error_source PreflightRequired = None"
| "error_source PreflightPanicked = None"
| "error_source (PreflightFailed backend reason) = None"

lemma error_source_iff: "error_source e = Some u \<longleftrightarrow> e = from_UnsupportedStrategy u"
  by (cases e) (auto simp: from_UnsupportedStrategy_def)

lemma debug_HardwareBackend_inject [simp]:
  "debug_HardwareBackend c = debug_HardwareBackend d \<longleftrightarrow> c = d"
  by (cases c; cases d; simp)

lemma debug_UnsupportedReason_inject [simp]:
  "debug_UnsupportedReason r = debug_UnsupportedReason s \<longleftrightarrow> r = s"
  by (cases r; cases s; simp)

lemma debug_PreflightFailure_inject [simp]:
  "debug_PreflightFailure p = debug_PreflightFailure q \<longleftrightarrow> p = q"
  by (cases p; cases q; simp)

lemma display_UnsupportedStrategy_inject:
  "display_UnsupportedStrategy a = display_UnsupportedStrategy b \<longleftrightarrow> a = b"
  by (cases a; cases b; cases "us_strategy a"; cases "us_strategy b")
    (simp_all add: display_UnsupportedStrategy_def)

text \<open>No two distinct failures of the gate have the same rendering, and exactly the errors
  that wrap an unsupported-target error report it as their source.\<close>

theorem errors_distinguishable:
  "(display_HardwareWaitError e = display_HardwareWaitError f \<longleftrightarrow> e = f)
   \<and> (error_source e = Some u \<longleftrightarrow> e = from_UnsupportedStrategy u)"
proof -
  have "display_HardwareWaitError e = display_HardwareWaitError f \<longleftrightarrow> e = f"
  proof (cases e; cases f)
    fix b r b' r'
    assume "e = PreflightFailed b r" "f = PreflightFailed b' r'"
    then show ?thesis
      by (cases b; cases b') simp_all
  qed (simp_all add: display_UnsupportedStrategy_inject, simp_all add: display_UnsupportedStrategy_def)
  then show ?thesis
    by (simp add: error_source_iff)
qed

end
