(* ===== verification/Waiting.thy ===== *)
theory Waiting
  imports Atomic Cycles Errors
begin

text \<open>
  The waiting protocols of \<^verbatim>\<open>src/src/strategy.rs\<close>: result types, public deadlines, the bounded
  spin prefix, the classification after a wait, and the monitor/recheck/wait protocols of the
  two backends, with the arming and waiting instructions as arguments as in the source.
  \<open>sound\<close> states what any attempt may return: a changed value only from an Acquire load
  that observed it, a timeout only when the clock has reached the deadline after a load of
  the expected value. The lemmas show it for each function, and that the protocols put at
  most one sleep behind an armed monitor and a recheck.
\<close>

section \<open>Results and deadlines\<close>

datatype 'v WaitResult = Changed 'v | Unclassified

datatype 'v WaitUntilTimeoutResult = Changed 'v | TimedOut

datatype 'v WaitTimeoutResult = Changed 'v | Unclassified | TimedOut

record Deadline =
  started :: instant
  timeout :: duration

definition Deadline_new :: "duration \<Rightarrow> 'v world \<Rightarrow> Deadline \<times> 'v world" where
  "Deadline_new d w = (let (t, w) = instant_now w in (\<lparr>started = t, timeout = d\<rparr>, w))"

definition remaining :: "Deadline \<Rightarrow> 'v world \<Rightarrow> duration option \<times> 'v world" where
  "remaining d w =
     (let (t, w) = instant_now w; elapsed = t - started d
      in (if timeout d \<le> elapsed then None else Some (timeout d - elapsed), w))"

text \<open>The test \<open>deadline.is_some_and(|value| value.remaining().is_none())\<close>.\<close>

definition deadline_over :: "Deadline option \<Rightarrow> 'v world \<Rightarrow> bool \<times> 'v world" where
  "deadline_over deadline w =
     (case deadline of
        None \<Rightarrow> (False, w)
      | Some d \<Rightarrow> (let (r, w) = remaining d w in (r = None, w)))"

section \<open>Spinning and classifying\<close>

fun spin_rounds ::
  "nat \<Rightarrow> 'v \<Rightarrow> Deadline option \<Rightarrow> 'v world \<Rightarrow> 'v WaitTimeoutResult option \<times> 'v world" where
  "spin_rounds 0 expected deadline w = (None, w)"
| "spin_rounds (Suc n) expected deadline w =
     (let w = spin_loop w;
          (v, w) = load_acquire w
      in if v \<noteq> expected then (Some (Changed v), w)
         else let (over, w) = deadline_over deadline w
              in if over then (Some TimedOut, w) else spin_rounds n expected deadline w)"

definition spin_prefix ::
  "'v \<Rightarrow> nat \<Rightarrow> Deadline option \<Rightarrow> 'v world \<Rightarrow> 'v WaitTimeoutResult option \<times> 'v world" where
  "spin_prefix expected spin_iterations deadline w =
     (let (v, w) = load_acquire w
      in if v \<noteq> expected then (Some (Changed v), w)
         else let (over, w) = deadline_over deadline w
              in if over then (Some TimedOut, w)
                 else spin_rounds spin_iterations expected deadline w)"

definition classify_after_wait ::
  "'v \<Rightarrow> Deadline option \<Rightarrow> 'v world \<Rightarrow> 'v WaitTimeoutResult \<times> 'v world" where
  "classify_after_wait expected deadline w =
     (let (v, w) = load_acquire w
      in if v \<noteq> expected then (Changed v, w)
         else let (over, w) = deadline_over deadline w
              in if over then (TimedOut, w) else (Unclassified, w))"

section \<open>The monitor protocols\<close>

definition mwaitx_untimed_protocol ::
  "AmdConfig \<Rightarrow> u32 \<Rightarrow> 'v \<Rightarrow> (u64 \<Rightarrow> 'v world \<Rightarrow> 'v world) \<Rightarrow>
     (u32 \<Rightarrow> u32 \<Rightarrow> 'v world \<Rightarrow> 'v world) \<Rightarrow> 'v world \<Rightarrow> 'v WaitTimeoutResult \<times> 'v world" where
  "mwaitx_untimed_protocol config c_state_hint expected arm wait w =
     (let (v, w) = load_acquire w
      in if v \<noteq> expected then (Changed v, w)
         else let w = arm (monitored_address w) w;
                  (v, w) = load_acquire w
              in if v \<noteq> expected then (Changed v, w)
                 else let w = wait (amd_safety_timeout_cycles config) c_state_hint w
                      in classify_after_wait expected None w)"

definition mwaitx_timed_protocol ::
  "AmdConfig \<Rightarrow> u32 \<Rightarrow> 'v \<Rightarrow> Deadline \<Rightarrow> (u64 \<Rightarrow> 'v world \<Rightarrow> 'v world) \<Rightarrow>
     (u32 \<Rightarrow> u32 \<Rightarrow> 'v world \<Rightarrow> 'v world) \<Rightarrow> 'v world \<Rightarrow> 'v WaitTimeoutResult \<times> 'v world" where
  "mwaitx_timed_protocol config c_state_hint expected deadline arm wait w =
     (let (v, w) = load_acquire w
      in if v \<noteq> expected then (Changed v, w)
         else let (r, w) = remaining deadline w
         in if r = None then (TimedOut, w)
         else let w = arm (monitored_address w) w;
                  (v, w) = load_acquire w
              in if v \<noteq> expected then (Changed v, w)
                 else let (r, w) = remaining deadline w
                 in case r of
                      None \<Rightarrow> (TimedOut, w)
                    | Some rest \<Rightarrow>
                        (let w = wait (mwaitx_timeout_cycles config rest) c_state_hint w
                         in classify_after_wait expected (Some deadline) w))"

definition umwait_untimed_protocol ::
  "IntelConfig \<Rightarrow> 'v \<Rightarrow> (u64 \<Rightarrow> 'v world \<Rightarrow> 'v world) \<Rightarrow>
     (u64 \<Rightarrow> 'v world \<Rightarrow> u64 \<times> 'v world) \<Rightarrow> (u64 \<Rightarrow> 'v world \<Rightarrow> 'v world) \<Rightarrow> 'v world \<Rightarrow>
     'v WaitTimeoutResult \<times> 'v world" where
  "umwait_untimed_protocol config expected arm absolute_deadline wait w =
     (let (v, w) = load_acquire w
      in if v \<noteq> expected then (Changed v, w)
         else let w = arm (monitored_address w) w;
                  (v, w) = load_acquire w
              in if v \<noteq> expected then (Changed v, w)
                 else let (t, w) = absolute_deadline (intel_safety_timeout_cycles config) w;
                          w = wait t w
                      in classify_after_wait expected None w)"

definition umwait_timed_protocol ::
  "IntelConfig \<Rightarrow> 'v \<Rightarrow> Deadline \<Rightarrow> (u64 \<Rightarrow> 'v world \<Rightarrow> 'v world) \<Rightarrow>
     (u64 \<Rightarrow> 'v world \<Rightarrow> u64 \<times> 'v world) \<Rightarrow> (u64 \<Rightarrow> 'v world \<Rightarrow> 'v world) \<Rightarrow> 'v world \<Rightarrow>
     'v WaitTimeoutResult \<times> 'v world" where
  "umwait_timed_protocol config expected deadline arm absolute_deadline wait w =
     (let (v, w) = load_acquire w
      in if v \<noteq> expected then (Changed v, w)
         else let (r, w) = remaining deadline w
         in if r = None then (TimedOut, w)
         else let w = arm (monitored_address w) w;
                  (v, w) = load_acquire w
              in if v \<noteq> expected then (Changed v, w)
                 else let (r, w) = remaining deadline w
                 in case r of
                      None \<Rightarrow> (TimedOut, w)
                    | Some rest \<Rightarrow>
                        (let cycles = umwait_timeout_cycles config rest;
                             (t, w) = absolute_deadline cycles w;
                             w = wait t w
                         in classify_after_wait expected (Some deadline) w))"

definition mwaitx_raw_hardware ::
  "AmdConfig \<Rightarrow> u32 \<Rightarrow> 'v \<Rightarrow> 'v world \<Rightarrow> 'v WaitTimeoutResult \<times> 'v world" where
  "mwaitx_raw_hardware config c_state_hint expected w =
     mwaitx_untimed_protocol config c_state_hint expected monitorx mwaitx w"

definition mwaitx_raw_timeout_hardware ::
  "AmdConfig \<Rightarrow> u32 \<Rightarrow> 'v \<Rightarrow> Deadline \<Rightarrow> 'v world \<Rightarrow> 'v WaitTimeoutResult \<times> 'v world" where
  "mwaitx_raw_timeout_hardware config c_state_hint expected deadline w =
     mwaitx_timed_protocol config c_state_hint expected deadline monitorx mwaitx w"

definition umwait_raw_hardware ::
  "IntelConfig \<Rightarrow> 'v \<Rightarrow> 'v world \<Rightarrow> 'v WaitTimeoutResult \<times> 'v world" where
  "umwait_raw_hardware config expected w =
     umwait_untimed_protocol config expected umonitor umwait_deadline umwait_c01 w"

definition umwait_raw_timeout_hardware ::
  "IntelConfig \<Rightarrow> 'v \<Rightarrow> Deadline \<Rightarrow> 'v world \<Rightarrow> 'v WaitTimeoutResult \<times> 'v world" where
  "umwait_raw_timeout_hardware config expected deadline w =
     umwait_timed_protocol config expected deadline umonitor umwait_deadline umwait_c01 w"

datatype HardwareConfig = Amd AmdConfig | Intel IntelConfig

fun backend :: "HardwareConfig \<Rightarrow> HardwareBackend" where
  "backend (Amd _) = AmdMwaitx"
| "backend (Intel _) = IntelUmwait"

fun hardware_wait ::
  "HardwareConfig \<Rightarrow> 'v \<Rightarrow> Deadline option \<Rightarrow> 'v world \<Rightarrow> 'v WaitTimeoutResult \<times> 'v world" where
  "hardware_wait (Amd config) expected (Some deadline) w =
     mwaitx_raw_timeout_hardware config NO_C_STATE_HINT expected deadline w"
| "hardware_wait (Amd config) expected None w =
     mwaitx_raw_hardware config NO_C_STATE_HINT expected w"
| "hardware_wait (Intel config) expected (Some deadline) w =
     umwait_raw_timeout_hardware config expected deadline w"
| "hardware_wait (Intel config) expected None w = umwait_raw_hardware config expected w"

definition hardware_wait_untimed ::
  "HardwareConfig \<Rightarrow> 'v \<Rightarrow> 'v world \<Rightarrow> 'v WaitTimeoutResult \<times> 'v world" where
  "hardware_wait_untimed config expected w = hardware_wait config expected None w"

section \<open>What an attempt may return\<close>

definition reached :: "Deadline \<Rightarrow> instant \<Rightarrow> bool" where
  "reached d t \<longleftrightarrow> timeout d \<le> t - started d"

text \<open>
  A result \<open>r\<close> in \<open>w'\<close> of an attempt started in \<open>w\<close>: it took at least one access,
  wrote nothing, and what it claims is what its last accesses saw.
\<close>

definition sound ::
  "'v \<Rightarrow> Deadline option \<Rightarrow> 'v world \<Rightarrow> 'v WaitTimeoutResult \<Rightarrow> 'v world \<Rightarrow> bool" where
  "sound e dl w r w' \<longleftrightarrow>
     follows w w' \<and> pos w < pos w' \<and>
     (case r of
        Changed v \<Rightarrow> v \<noteq> e \<and> observed v w'
      | TimedOut \<Rightarrow>
          (\<exists>d rest. dl = Some d \<and> reached d (clock (sh w'))
             \<and> trace w' = ANow (clock (sh w')) # ALoad e # rest)
      | Unclassified \<Rightarrow>
          (case dl of
             None \<Rightarrow> \<exists>rest. trace w' = ALoad e # rest
           | Some d \<Rightarrow> \<not> reached d (clock (sh w'))
               \<and> (\<exists>rest. trace w' = ANow (clock (sh w')) # ALoad e # rest)))"

lemma sound_after:
  assumes "follows w u" and "sound e dl u r w'"
  shows "sound e dl w r w'"
proof -
  from assms(1) have "pos w \<le> pos u"
    by (simp add: follows_def)
  with assms show ?thesis
    by (auto simp: sound_def intro: follows_trans)
qed

lemma soundD:
  assumes "sound e dl w r w'"
  shows "follows w w'" "pos w < pos w'"
  using assms by (simp_all add: sound_def)

lemma fst_instant_now: "fst (instant_now w) = clock (sh (snd (instant_now w)))"
  by (simp add: instant_now_def Let_def)

lemma snd_remaining: "snd (remaining d w) = snd (instant_now w)"
  by (simp add: remaining_def split_def Let_def)

lemma remaining_facts:
  "follows w (snd (remaining d w))"
  "pos (snd (remaining d w)) = Suc (pos w)"
  "trace (snd (remaining d w)) = ANow (clock (sh (snd (remaining d w)))) # trace w"
  "blocks w (snd (remaining d w)) = 0"
  "sleeps_guarded e w (snd (remaining d w))"
  unfolding snd_remaining trace_accesses fst_instant_now by (rule follows_now) simp_all

lemma remaining_None:
  "fst (remaining d w) = None \<longleftrightarrow> reached d (clock (sh (snd (remaining d w))))"
  unfolding snd_remaining fst_instant_now [symmetric]
  by (simp add: remaining_def split_def Let_def reached_def)

lemma remaining_rest:
  "fst (remaining d w) = Some r \<Longrightarrow> 0 < r \<and> r \<le> timeout d"
  by (auto simp: remaining_def split_def Let_def split: if_splits)

lemma deadline_over_facts:
  "follows w (snd (deadline_over dl w))"
  "blocks w (snd (deadline_over dl w)) = 0"
  "sleeps_guarded e w (snd (deadline_over dl w))"
  by (cases dl; simp add: deadline_over_def split_def Let_def remaining_facts)+

section \<open>Attempts\<close>

text \<open>
  \<open>attempt n\<close>: a sound result reached with at most \<open>n\<close> blocking operations, every sleep
  among them guarded.
\<close>

definition attempt ::
  "nat \<Rightarrow> 'v \<Rightarrow> Deadline option \<Rightarrow> 'v world \<Rightarrow> 'v WaitTimeoutResult \<times> 'v world \<Rightarrow> bool" where
  "attempt n e dl w x \<longleftrightarrow>
     sound e dl w (fst x) (snd x) \<and> blocks w (snd x) \<le> n \<and> sleeps_guarded e w (snd x)"

lemma attemptD:
  assumes "attempt n e dl w (r, w')"
  shows "sound e dl w r w'" "blocks w w' \<le> n" "sleeps_guarded e w w'"
  using assms by (simp_all add: attempt_def)

lemma attempt_after:
  assumes "follows w u" and "sleeps_guarded e w u" and "attempt n e dl u x" and "blocks w u + n \<le> m"
  shows "attempt m e dl w x"
proof -
  from assms(3) have x: "sound e dl u (fst x) (snd x)" "blocks u (snd x) \<le> n"
    "sleeps_guarded e u (snd x)"
    by (simp_all add: attempt_def)
  have fol: "follows u (snd x)"
    using x(1) by (rule soundD)
  then have "blocks w (snd x) \<le> m" "sleeps_guarded e w (snd x)"
    using assms(2,4) x blocks_compose [OF assms(1) fol] sleeps_guarded_compose [OF assms(1) fol]
    by simp_all
  then show ?thesis
    using sound_after [OF assms(1) x(1)] by (simp add: attempt_def)
qed

lemma attempt_mono: "attempt n e dl w x \<Longrightarrow> n \<le> m \<Longrightarrow> attempt m e dl w x"
  by (auto simp: attempt_def)

lemma attempt_changed:
  "fst (load_acquire w) \<noteq> e \<Longrightarrow>
     attempt n e dl w (Changed (fst (load_acquire w)), snd (load_acquire w))"
  by (simp add: attempt_def sound_def atomic.load_follows atomic.load_one_access
      atomic.load_observes)

lemma attempt_load_now:
  assumes "fst (load_acquire w) = e"
  shows "follows w (snd (remaining d (snd (load_acquire w))))"
    and "blocks w (snd (remaining d (snd (load_acquire w)))) = 0"
    and "sleeps_guarded e w (snd (remaining d (snd (load_acquire w))))"
    and "pos w < pos (snd (remaining d (snd (load_acquire w))))"
    and "trace (snd (remaining d (snd (load_acquire w)))) =
      ANow (clock (sh (snd (remaining d (snd (load_acquire w)))))) # ALoad e # trace w"
proof -
  note fol = atomic.load_follows [of w] remaining_facts(1) [of "snd (load_acquire w)" d]
  show "follows w (snd (remaining d (snd (load_acquire w))))"
    using fol by (rule follows_trans)
  show "blocks w (snd (remaining d (snd (load_acquire w)))) = 0"
    using blocks_compose [OF fol] by (simp add: remaining_facts)
  show "sleeps_guarded e w (snd (remaining d (snd (load_acquire w))))"
    by (rule sleeps_guarded_compose [OF fol]) (simp_all add: remaining_facts)
  show "pos w < pos (snd (remaining d (snd (load_acquire w))))"
    by (simp add: remaining_facts atomic.load_one_access)
  show "trace (snd (remaining d (snd (load_acquire w)))) =
      ANow (clock (sh (snd (remaining d (snd (load_acquire w)))))) # ALoad e # trace w"
    by (simp only: remaining_facts(3) trace_accesses(1) assms)
qed

lemma attempt_timed_out:
  assumes "fst (load_acquire w) = e" and "fst (remaining d (snd (load_acquire w))) = None"
  shows "attempt n e (Some d) w (TimedOut, snd (remaining d (snd (load_acquire w))))"
  using assms(2) attempt_load_now [OF assms(1), of d]
  by (simp add: attempt_def sound_def remaining_None)

lemma attempt_classify: "attempt 0 e dl w (classify_after_wait e dl w)"
proof (cases "fst (load_acquire w) = e")
  case False
  then show ?thesis
    using attempt_changed [of w e 0 dl]
    by (simp add: classify_after_wait_def Let_def split_def)
next
  case load: True
  show ?thesis
  proof (cases dl)
    case None
    with load show ?thesis
      using trace_accesses(1) [of w]
      by (simp add: classify_after_wait_def Let_def split_def deadline_over_def attempt_def
          sound_def atomic.load_follows atomic.load_one_access)
  next
    case (Some d)
    show ?thesis
    proof (cases "fst (remaining d (snd (load_acquire w))) = None")
      case True
      with load Some show ?thesis
        using attempt_timed_out [OF load True]
        by (simp add: classify_after_wait_def Let_def split_def deadline_over_def)
    next
      case False
      with load Some show ?thesis
        using attempt_load_now [OF load, of d]
        by (simp add: classify_after_wait_def Let_def split_def deadline_over_def attempt_def
            sound_def remaining_None)
    qed
  qed
qed

section \<open>The spin prefix\<close>

text \<open>
  The outcome of a spinning stretch: either a decided result of a non-blocking attempt, or
  nothing decided and no more than reading accesses done.
\<close>

definition spun ::
  "'v \<Rightarrow> Deadline option \<Rightarrow> 'v world \<Rightarrow> 'v WaitTimeoutResult option \<times> 'v world \<Rightarrow> bool" where
  "spun e dl w x \<longleftrightarrow>
     (case fst x of
        None \<Rightarrow> follows w (snd x) \<and> blocks w (snd x) = 0 \<and> sleeps_guarded e w (snd x)
      | Some r \<Rightarrow> r \<noteq> Unclassified \<and> attempt 0 e dl w (r, snd x))"

lemma spun_after:
  assumes "follows w u" and "sleeps_guarded e w u" and "blocks w u = 0" and "spun e dl u x"
  shows "spun e dl w x"
proof (cases "fst x")
  case None
  with assms(4) have x: "follows u (snd x)" "blocks u (snd x) = 0" "sleeps_guarded e u (snd x)"
    by (simp_all add: spun_def)
  show ?thesis
    using None assms(1-3) x blocks_compose [OF assms(1) x(1)] follows_trans [OF assms(1) x(1)]
      sleeps_guarded_compose [OF assms(1) x(1)]
    by (simp add: spun_def)
next
  case (Some r)
  then show ?thesis
    using assms attempt_after [OF assms(1,2), of 0 dl "(r, snd x)" 0] by (simp add: spun_def)
qed

text \<open>One round: load, then the deadline test, then whatever the rest does.\<close>

lemma spun_round:
  assumes rest: "\<And>u. spun e dl u (k u)"
  shows "spun e dl w
     (let (v, w) = load_acquire w
      in if v \<noteq> e then (Some (Changed v), w)
         else let (over, w) = deadline_over dl w in if over then (Some TimedOut, w) else k w)"
proof (cases "fst (load_acquire w) = e")
  case False
  then show ?thesis
    using attempt_changed [of w e 0 dl] by (simp add: spun_def split_def Let_def)
next
  case load: True
  let ?u = "snd (load_acquire w)"
  let ?v = "snd (deadline_over dl ?u)"
  note fol = atomic.load_follows [of w] deadline_over_facts(1) [of ?u dl]
  have "spun e dl w (k ?v)"
    using follows_trans [OF fol] sleeps_guarded_compose [OF fol] blocks_compose [OF fol]
    by (intro spun_after [OF _ _ _ rest]) (simp_all add: deadline_over_facts)
  moreover have "spun e dl w (Some TimedOut, ?v)" if "fst (deadline_over dl ?u)"
    using that attempt_timed_out [OF load, of _ 0]
    by (cases dl) (simp_all add: deadline_over_def spun_def split_def Let_def)
  ultimately show ?thesis
    using load by (simp add: split_def Let_def)
qed

lemma spun_rounds: "spun e dl w (spin_rounds n e dl w)"
proof (induction n arbitrary: w)
  case 0
  then show ?case
    by (simp add: spun_def)
next
  case (Suc n)
  show ?case
    using spun_after [OF follows_spin sleeps_guarded_accesses(3) blocks_accesses(3)
        spun_round [of e dl "spin_rounds n e dl", OF Suc]]
    by (simp add: Let_def)
qed

lemma spun_prefix: "spun e dl w (spin_prefix e n dl w)"
  unfolding spin_prefix_def by (rule spun_round) (rule spun_rounds)

section \<open>The protocols\<close>

text \<open>
  The two halves every protocol shares: the recheck after arming, and the sleep with its
  classification. A backend's arming instruction is \<open>exec_monitor\<close> on the watched address
  and its wait is an \<open>exec_sleep\<close>.
\<close>

lemma attempt_sleep:
  assumes "guarded e w"
  shows "attempt 1 e dl w (classify_after_wait e dl (exec_sleep x w))"
  by (rule attempt_after [OF follows_sleep sleeps_guarded_sleep [OF assms] attempt_classify]) simp

lemma attempt_load:
  assumes "fst (load_acquire w) = e \<Longrightarrow> attempt n e dl (snd (load_acquire w)) (k (snd (load_acquire w)))"
  shows "attempt n e dl w
     (let (v, w) = load_acquire w in if v \<noteq> e then (Changed v, w) else k w)"
  using attempt_changed [of w e n dl]
    attempt_after [OF atomic.load_follows [of w] sleeps_guarded_accesses(1) assms]
  by (cases "fst (load_acquire w) = e") (simp_all add: split_def Let_def)

lemma attempt_load_remaining:
  assumes "\<And>r. fst (load_acquire w) = e \<Longrightarrow> fst (remaining d (snd (load_acquire w))) = Some r \<Longrightarrow>
      attempt n e (Some d) (snd (remaining d (snd (load_acquire w))))
        (k r (snd (remaining d (snd (load_acquire w)))))"
  shows "attempt n e (Some d) w
     (let (v, w) = load_acquire w
      in if v \<noteq> e then (Changed v, w)
         else let (r, w) = remaining d w in case r of None \<Rightarrow> (TimedOut, w) | Some r \<Rightarrow> k r w)"
proof (cases "fst (load_acquire w) = e")
  case False
  then show ?thesis
    using attempt_changed [of w e n "Some d"] by (simp add: split_def Let_def)
next
  case load: True
  let ?v = "snd (remaining d (snd (load_acquire w)))"
  note now = attempt_load_now [OF load, of d]
  have "attempt n e (Some d) w (k r ?v)" if "fst (remaining d (snd (load_acquire w))) = Some r" for r
    using attempt_after [OF now(1,3) assms [OF load that]] now(2) by simp
  with load attempt_timed_out [OF load, of d n] show ?thesis
    by (auto simp: split_def Let_def split: option.split)
qed

lemma attempt_armed:
  "attempt n e dl (exec_monitor a w) x \<Longrightarrow> attempt n e dl w x"
  using attempt_after [OF follows_monitor sleeps_guarded_accesses(6), where n = n and m = n] by simp

lemma attempt_rdtscp:
  "attempt n e dl (snd (exec_rdtscp w)) x \<Longrightarrow> attempt n e dl w x"
  using attempt_after [OF follows_rdtscp sleeps_guarded_accesses(5), where n = n and m = n] by simp

lemma guarded_recheck_now:
  "fst (load_acquire (exec_monitor (addr w) w)) = e \<Longrightarrow>
     guarded e (snd (remaining d (snd (load_acquire (exec_monitor (addr w) w)))))"
  by (simp add: snd_remaining guarded_now guarded_recheck)

lemmas protocol_defs =
  monitored_address_def monitorx_def umonitor_def mwaitx_def exec_mwaitx_def umwait_c01_def
  exec_umwait_def

lemma attempt_mwaitx_untimed:
  "attempt 1 e None w (mwaitx_raw_hardware c h e w)"
  unfolding mwaitx_raw_hardware_def mwaitx_untimed_protocol_def protocol_defs
  by (rule attempt_load, simp only: Let_def, rule attempt_armed, rule attempt_load [unfolded Let_def])
    (rule attempt_sleep [OF guarded_recheck])

text \<open>The early \<open>is_none\<close> test of the timed protocols is the same branch as the match.\<close>

lemma is_none_branch:
  "(let (r, w) = x in if r = None then (TimedOut, w) else f w) =
     (let (r, w) = x in case r of None \<Rightarrow> (TimedOut, w) | Some _ \<Rightarrow> f w)"
  by (cases x) (auto split: option.split)

lemma attempt_mwaitx_timed:
  "attempt 1 e (Some d) w (mwaitx_raw_timeout_hardware c h e d w)"
  unfolding mwaitx_raw_timeout_hardware_def mwaitx_timed_protocol_def protocol_defs is_none_branch
  by (rule attempt_load_remaining, simp only: Let_def, rule attempt_armed,
      rule attempt_load_remaining [unfolded Let_def])
    (rule attempt_sleep [OF guarded_recheck_now])

lemma attempt_umwait_sleep:
  assumes "guarded e w"
  shows "attempt 1 e dl w
     (classify_after_wait e dl (exec_sleep x (snd (umwait_deadline c w))))"
  unfolding snd_umwait_deadline
  by (rule attempt_rdtscp, rule attempt_sleep, rule guarded_rdtscp, rule assms)

lemma attempt_umwait_untimed:
  "attempt 1 e None w (umwait_raw_hardware c e w)"
  unfolding umwait_raw_hardware_def umwait_untimed_protocol_def protocol_defs split_def
  by (rule attempt_load [unfolded split_def], simp only: Let_def, rule attempt_armed,
      rule attempt_load [unfolded Let_def split_def])
    (rule attempt_umwait_sleep [OF guarded_recheck])

lemma attempt_umwait_timed:
  "attempt 1 e (Some d) w (umwait_raw_timeout_hardware c e d w)"
  unfolding umwait_raw_timeout_hardware_def umwait_timed_protocol_def protocol_defs is_none_branch
  unfolding split_def
  by (rule attempt_load_remaining [unfolded split_def], simp only: Let_def, rule attempt_armed,
      rule attempt_load_remaining [unfolded Let_def split_def])
    (rule attempt_umwait_sleep [OF guarded_recheck_now])

lemma attempt_hardware_wait: "attempt 1 e dl w (hardware_wait c e dl w)"
  by (cases c; cases dl)
    (simp_all only: hardware_wait.simps attempt_mwaitx_untimed attempt_mwaitx_timed
      attempt_umwait_untimed attempt_umwait_timed)

end
