(* ===== verification/Strategy.thy ===== *)
theory Strategy
  imports Waiting
begin

text \<open>
  The wait strategies of \<^verbatim>\<open>src/src/strategy.rs\<close> and the public operations the macro
  \<open>impl_wait_strategy!\<close> gives each of them. A raw wait that may spin forever has type
  \<open>option\<close>: not returning is \<open>None\<close>. The locale \<open>raw_wait\<close> is the contract of the
  private trait \<open>StrategyImpl\<close>; its lemmas prove the public operations once for every
  strategy, and each strategy interprets it.
\<close>

type_synonym 'v raw = "('v WaitTimeoutResult \<times> 'v world) option"

section \<open>The public operations over a raw wait\<close>

definition wait_if_equal ::
  "('v \<Rightarrow> 'v world \<Rightarrow> 'v raw) \<Rightarrow> 'v \<Rightarrow> 'v world \<Rightarrow> ('v WaitResult \<times> 'v world) option" where
  "wait_if_equal wait_raw_untimed expected w =
     Option.bind (wait_raw_untimed expected w) (\<lambda>(r, w).
       case r of
         Changed v \<Rightarrow> Some (WaitResult.Changed v, w)
       | Unclassified \<Rightarrow> Some (WaitResult.Unclassified, w)
       | TimedOut \<Rightarrow> Some (WaitResult.Unclassified, w))"

partial_function (option) wait_until_different ::
  "('v \<Rightarrow> 'v world \<Rightarrow> 'v raw) \<Rightarrow> 'v \<Rightarrow> 'v world \<Rightarrow> ('v \<times> 'v world) option" where
  "wait_until_different wait_raw_untimed expected w =
     Option.bind (wait_raw_untimed expected w) (\<lambda>(r, w).
       case r of
         Changed v \<Rightarrow> Some (v, w)
       | Unclassified \<Rightarrow> wait_until_different wait_raw_untimed expected w
       | TimedOut \<Rightarrow> wait_until_different wait_raw_untimed expected w)"

definition wait_if_equal_timeout ::
  "('v \<Rightarrow> Deadline option \<Rightarrow> 'v world \<Rightarrow> 'v raw) \<Rightarrow> 'v \<Rightarrow> duration \<Rightarrow> 'v world \<Rightarrow> 'v raw" where
  "wait_if_equal_timeout wait_raw expected t w =
     (let (deadline, w) = Deadline_new t w in wait_raw expected (Some deadline) w)"

text \<open>The loop of \<open>wait_until_different_timeout\<close>, after its deadline is fixed.\<close>

partial_function (option) wait_until_deadline ::
  "('v \<Rightarrow> Deadline option \<Rightarrow> 'v world \<Rightarrow> 'v raw) \<Rightarrow> 'v \<Rightarrow> Deadline \<Rightarrow> 'v world \<Rightarrow>
     ('v WaitUntilTimeoutResult \<times> 'v world) option" where
  "wait_until_deadline wait_raw expected deadline w =
     Option.bind (wait_raw expected (Some deadline) w) (\<lambda>(r, w).
       case r of
         Changed v \<Rightarrow> Some (WaitUntilTimeoutResult.Changed v, w)
       | TimedOut \<Rightarrow> Some (WaitUntilTimeoutResult.TimedOut, w)
       | Unclassified \<Rightarrow> wait_until_deadline wait_raw expected deadline w)"

definition wait_until_different_timeout ::
  "('v \<Rightarrow> Deadline option \<Rightarrow> 'v world \<Rightarrow> 'v raw) \<Rightarrow> 'v \<Rightarrow> duration \<Rightarrow> 'v world \<Rightarrow>
     ('v WaitUntilTimeoutResult \<times> 'v world) option" where
  "wait_until_different_timeout wait_raw expected t w =
     (let (deadline, w) = Deadline_new t w in wait_until_deadline wait_raw expected deadline w)"

section \<open>The strategies\<close>

partial_function (option) BusySpin_wait_raw ::
  "'v \<Rightarrow> Deadline option \<Rightarrow> 'v world \<Rightarrow> 'v raw" where
  "BusySpin_wait_raw expected deadline w =
     (let (v, w) = load_acquire w
      in if v \<noteq> expected then Some (Changed v, w)
         else let (over, w) = deadline_over deadline w
              in if over then Some (TimedOut, w)
                 else BusySpin_wait_raw expected deadline (spin_loop w))"

declare wait_until_different.simps [code] wait_until_deadline.simps [code]
  BusySpin_wait_raw.simps [code]

text \<open>The default method \<open>wait_raw_untimed\<close> of the trait.\<close>

definition default_wait_raw_untimed ::
  "('v \<Rightarrow> Deadline option \<Rightarrow> 'v world \<Rightarrow> 'v raw) \<Rightarrow> 'v \<Rightarrow> 'v world \<Rightarrow> 'v raw" where
  "default_wait_raw_untimed wait_raw expected w = wait_raw expected None w"

record SpinThenYield =
  yield_spin_iterations :: u64

definition SpinThenYield_new :: "u64 \<Rightarrow> SpinThenYield" where
  "SpinThenYield_new n = \<lparr>yield_spin_iterations = n\<rparr>"

definition SpinThenYield_wait_raw ::
  "SpinThenYield \<Rightarrow> 'v \<Rightarrow> Deadline option \<Rightarrow> 'v world \<Rightarrow> 'v raw" where
  "SpinThenYield_wait_raw self expected deadline w =
     (let (result, w) = spin_prefix expected (unat (yield_spin_iterations self)) deadline w
      in case result of
           Some result \<Rightarrow> Some (result, w)
         | None \<Rightarrow> (let w = yield_now w in Some (classify_after_wait expected deadline w)))"

record HardwareWait =
  config :: HardwareConfig

definition HardwareWait_wait_raw_untimed :: "HardwareWait \<Rightarrow> 'v \<Rightarrow> 'v world \<Rightarrow> 'v raw" where
  "HardwareWait_wait_raw_untimed self expected w =
     Some (hardware_wait_untimed (config self) expected w)"

definition HardwareWait_wait_raw ::
  "HardwareWait \<Rightarrow> 'v \<Rightarrow> Deadline option \<Rightarrow> 'v world \<Rightarrow> 'v raw" where
  "HardwareWait_wait_raw self expected deadline w =
     Some (hardware_wait (config self) expected deadline w)"

record SpinThenHardwareWait =
  hw_spin_iterations :: u64
  hardware :: HardwareWait

definition SpinThenHardwareWait_wait_raw_untimed ::
  "SpinThenHardwareWait \<Rightarrow> 'v \<Rightarrow> 'v world \<Rightarrow> 'v raw" where
  "SpinThenHardwareWait_wait_raw_untimed self expected w =
     (let (result, w) = spin_prefix expected (unat (hw_spin_iterations self)) None w
      in case result of
           Some result \<Rightarrow> Some (result, w)
         | None \<Rightarrow> HardwareWait_wait_raw_untimed (hardware self) expected w)"

definition SpinThenHardwareWait_wait_raw ::
  "SpinThenHardwareWait \<Rightarrow> 'v \<Rightarrow> Deadline option \<Rightarrow> 'v world \<Rightarrow> 'v raw" where
  "SpinThenHardwareWait_wait_raw self expected deadline w =
     (let (result, w) = spin_prefix expected (unat (hw_spin_iterations self)) deadline w
      in case result of
           Some result \<Rightarrow> Some (result, w)
         | None \<Rightarrow> HardwareWait_wait_raw (hardware self) expected deadline w)"

record AmdMwaitxC1 =
  c1_config :: AmdConfig

definition AmdMwaitxC1_wait_raw_untimed :: "AmdMwaitxC1 \<Rightarrow> 'v \<Rightarrow> 'v world \<Rightarrow> 'v raw" where
  "AmdMwaitxC1_wait_raw_untimed self expected w =
     Some (mwaitx_raw_hardware (c1_config self) C1_STATE_HINT expected w)"

definition AmdMwaitxC1_wait_raw ::
  "AmdMwaitxC1 \<Rightarrow> 'v \<Rightarrow> Deadline option \<Rightarrow> 'v world \<Rightarrow> 'v raw" where
  "AmdMwaitxC1_wait_raw self expected deadline w =
     (case deadline of
        Some deadline \<Rightarrow>
          Some (mwaitx_raw_timeout_hardware (c1_config self) C1_STATE_HINT expected deadline w)
      | None \<Rightarrow> AmdMwaitxC1_wait_raw_untimed self expected w)"

section \<open>The contract of a raw wait\<close>

text \<open>The schedule lets a raw wait end: a change that stays, or the deadline.\<close>

definition ends :: "'v \<Rightarrow> Deadline option \<Rightarrow> 'v world \<Rightarrow> nat \<Rightarrow> bool" where
  "ends e dl w n \<longleftrightarrow>
     settles e w n \<or> (\<exists>d. dl = Some d \<and> expires (started d + timeout d) w n)"

lemma ends_follows: "ends e dl w n \<Longrightarrow> follows w w' \<Longrightarrow> ends e dl w' n"
  by (auto simp: ends_def intro: settles_follows expires_follows)

fun without_timeout :: "'v WaitTimeoutResult \<Rightarrow> 'v WaitResult" where
  "without_timeout (Changed v) = WaitResult.Changed v"
| "without_timeout Unclassified = WaitResult.Unclassified"
| "without_timeout TimedOut = WaitResult.Unclassified"

lemma wait_if_equal_Some:
  "wait_if_equal f e w = Some x \<longleftrightarrow> (\<exists>q w'. f e w = Some (q, w') \<and> x = (without_timeout q, w'))"
  by (cases "f e w") (auto simp: wait_if_equal_def split: WaitTimeoutResult.splits)

lemma Deadline_new_now:
  "Deadline_new t w = (\<lparr>started = clock (sh (tick w)), timeout = t\<rparr>, snd (instant_now w))"
  by (simp add: Deadline_new_def instant_now_def Let_def)

lemma wait_if_equal_timeout_eq:
  "wait_if_equal_timeout f e t w =
     f e (Some \<lparr>started = clock (sh (tick w)), timeout = t\<rparr>) (snd (instant_now w))"
  by (simp add: wait_if_equal_timeout_def Deadline_new_now)

lemma wait_until_different_timeout_eq:
  "wait_until_different_timeout f e t w =
     wait_until_deadline f e \<lparr>started = clock (sh (tick w)), timeout = t\<rparr> (snd (instant_now w))"
  by (simp add: wait_until_different_timeout_def Deadline_new_now)

text \<open>Induction over the rounds of the two loops.\<close>

lemma wait_until_different_induct [consumes 1, case_names stop again]:
  assumes "wait_until_different f e w = Some (v, w')"
    and "\<And>w v w'. f e w = Some (Changed v, w') \<Longrightarrow> P w v w'"
    and "\<And>w q u v w'. f e w = Some (q, u) \<Longrightarrow> P u v w' \<Longrightarrow> P w v w'"
  shows "P w v w'"
proof -
  have "f = f \<longrightarrow> e = e \<longrightarrow> P w (fst (v, w')) (snd (v, w'))"
  proof (rule wait_until_different.raw_induct
      [where P = "\<lambda>g x w y. g = f \<longrightarrow> x = e \<longrightarrow> P w (fst y) (snd y)", OF _ assms(1)])
    fix loop and g :: "'a \<Rightarrow> 'a world \<Rightarrow> 'a raw" and x w y
    assume "\<And>g x w y. loop g x w = Some y \<Longrightarrow> g = f \<longrightarrow> x = e \<longrightarrow> P w (fst y) (snd y)"
      and "Option.bind (g x w) (\<lambda>(r, w). case r of Changed v \<Rightarrow> Some (v, w)
          | Unclassified \<Rightarrow> loop g x w | TimedOut \<Rightarrow> loop g x w) = Some y"
    moreover obtain q u where "g x w = Some (q, u)"
      using calculation(2) by (cases "g x w") auto
    ultimately show "g = f \<longrightarrow> x = e \<longrightarrow> P w (fst y) (snd y)"
      using assms(2,3) [of w] by (cases q) auto
  qed
  then show ?thesis
    by simp
qed

lemma wait_until_deadline_induct [consumes 1, case_names stop_changed stop_timeout again]:
  assumes "wait_until_deadline f e d w = Some (r, w')"
    and "\<And>w v w'. f e (Some d) w = Some (Changed v, w') \<Longrightarrow> P w (WaitUntilTimeoutResult.Changed v) w'"
    and "\<And>w w'. f e (Some d) w = Some (TimedOut, w') \<Longrightarrow> P w WaitUntilTimeoutResult.TimedOut w'"
    and "\<And>w u r w'. f e (Some d) w = Some (Unclassified, u) \<Longrightarrow> P u r w' \<Longrightarrow> P w r w'"
  shows "P w r w'"
proof -
  have "f = f \<longrightarrow> e = e \<longrightarrow> d = d \<longrightarrow> P w (fst (r, w')) (snd (r, w'))"
  proof (rule wait_until_deadline.raw_induct
      [where P = "\<lambda>g x c w y. g = f \<longrightarrow> x = e \<longrightarrow> c = d \<longrightarrow> P w (fst y) (snd y)", OF _ assms(1)])
    fix loop and g :: "'a \<Rightarrow> Deadline option \<Rightarrow> 'a world \<Rightarrow> 'a raw" and x c w y
    assume "\<And>g x c w y. loop g x c w = Some y \<Longrightarrow>
          g = f \<longrightarrow> x = e \<longrightarrow> c = d \<longrightarrow> P w (fst y) (snd y)"
      and "Option.bind (g x (Some c) w) (\<lambda>(r, w). case r of
            Changed v \<Rightarrow> Some (WaitUntilTimeoutResult.Changed v, w)
          | Unclassified \<Rightarrow> loop g x c w
          | TimedOut \<Rightarrow> Some (WaitUntilTimeoutResult.TimedOut, w)) = Some y"
    moreover obtain q u where "g x (Some c) w = Some (q, u)"
      using calculation(2) by (cases "g x (Some c) w") auto
    ultimately show "g = f \<longrightarrow> x = e \<longrightarrow> c = d \<longrightarrow> P w (fst y) (snd y)"
      using assms(2-4) [of w] by (cases q) auto
  qed
  then show ?thesis
    by simp
qed

lemma expired_remaining:
  assumes "expires (started d + timeout d) w n" and "n \<le> pos w"
  shows "fst (remaining d (snd (load_acquire w))) = None"
proof -
  have "expires (started d + timeout d) (snd (load_acquire w)) n"
    using assms(1) atomic.load_follows by (rule expires_follows)
  then have "started d + timeout d \<le> fst (instant_now (snd (load_acquire w)))"
    using assms(2) expires_now
    by (fastforce simp: instant_now_def Let_def atomic.load_one_access)
  then show ?thesis
    by (simp add: remaining_def split_def Let_def)
qed

locale raw_wait =
  fixes wait_raw :: "'v \<Rightarrow> Deadline option \<Rightarrow> 'v world \<Rightarrow> 'v raw"
    and wait_raw_untimed :: "'v \<Rightarrow> 'v world \<Rightarrow> 'v raw"
  assumes raw_attempt: "wait_raw e dl w = Some x \<Longrightarrow> attempt 1 e dl w x"
    and raw_returns: "ends e dl w n \<Longrightarrow> \<exists>x. wait_raw e dl w = Some x"
    and raw_changed: "fst (load_acquire w) \<noteq> e \<Longrightarrow>
      wait_raw e dl w = Some (Changed (fst (load_acquire w)), snd (load_acquire w))"
    and raw_expired: "fst (load_acquire w) = e \<Longrightarrow>
      fst (remaining d (snd (load_acquire w))) = None \<Longrightarrow>
      wait_raw e (Some d) w = Some (TimedOut, snd (remaining d (snd (load_acquire w))))"
    and untimed_raw: "wait_raw_untimed e w = wait_raw e None w"
begin

lemma raw_facts:
  assumes "wait_raw e dl w = Some (r, w')"
  shows "sound e dl w r w'" "blocks w w' \<le> 1" "sleeps_guarded e w w'" "follows w w'" "pos w < pos w'"
proof -
  note at = attemptD [OF raw_attempt [OF assms]]
  from at show "sound e dl w r w'" "blocks w w' \<le> 1" "sleeps_guarded e w w'" .
  from soundD [OF at(1)] show "follows w w'" "pos w < pos w'" .
qed

text \<open>Once the cell keeps a different value, a raw wait returns it.\<close>

lemma raw_settled:
  assumes "settles e w n" and "n \<le> pos w"
  shows "wait_raw e dl w = Some (Changed (fst (load_acquire w)), snd (load_acquire w))"
  using assms by (intro raw_changed atomic.load_sees_settled)

text \<open>A single attempt.\<close>

lemma if_equal_ok:
  assumes "wait_if_equal wait_raw_untimed e w = Some (r, w')"
  shows "follows w w' \<and> blocks w w' \<le> 1 \<and> sleeps_guarded e w w' \<and>
     (case r of
        WaitResult.Changed v \<Rightarrow> v \<noteq> e \<and> observed v w'
      | WaitResult.Unclassified \<Rightarrow> \<exists>rest. trace w' = ALoad e # rest)"
proof -
  obtain q where q: "wait_raw e None w = Some (q, w')" and r: "r = without_timeout q"
    using assms by (auto simp: wait_if_equal_Some untimed_raw)
  have "case r of WaitResult.Changed v \<Rightarrow> v \<noteq> e \<and> observed v w'
      | WaitResult.Unclassified \<Rightarrow> \<exists>rest. trace w' = ALoad e # rest"
    using raw_facts(1) [OF q] unfolding r by (cases q) (simp_all add: sound_def)
  then show ?thesis
    using raw_facts(2-4) [OF q] by simp
qed

lemma if_equal_returns: "settles e w n \<Longrightarrow> \<exists>x. wait_if_equal wait_raw_untimed e w = Some x"
  using raw_returns [of e None w n] by (auto simp: ends_def wait_if_equal_Some untimed_raw)

lemma if_equal_timeout_ok:
  assumes "wait_if_equal_timeout wait_raw e t w = Some (r, w')"
  shows "attempt 1 e (Some \<lparr>started = clock (sh (tick w)), timeout = t\<rparr>) w (r, w')"
  using assms unfolding wait_if_equal_timeout_eq
  by (intro attempt_after [OF follows_now sleeps_guarded_accesses(2) raw_attempt]) simp_all

lemma if_equal_timeout_returns:
  assumes "ends e (Some \<lparr>started = clock (sh (tick w)), timeout = t\<rparr>) w n"
  shows "\<exists>x. wait_if_equal_timeout wait_raw e t w = Some x"
  unfolding wait_if_equal_timeout_eq by (rule raw_returns) (rule ends_follows [OF assms follows_now])

text \<open>The unbounded filtered wait.\<close>

lemma until_different_ok:
  assumes "wait_until_different wait_raw_untimed e w = Some (v, w')"
  shows "follows w w' \<and> sleeps_guarded e w w' \<and> v \<noteq> e \<and> observed v w'"
  using assms
proof (induction rule: wait_until_different_induct)
  case (stop w v w')
  then show ?case
    using raw_facts [of e None w] by (fastforce simp: untimed_raw sound_def)
next
  case (again w q u v w')
  from again(1) have raw: "wait_raw e None w = Some (q, u)"
    by (simp add: untimed_raw)
  show ?case
    using again(2) raw_facts(3,4) [OF raw] by (auto intro: follows_trans sleeps_guarded_compose)
qed

lemma until_different_returns:
  assumes "settles e w n"
  shows "\<exists>v w'. wait_until_different wait_raw_untimed e w = Some (v, w')"
  using assms
proof (induction "n - pos w" arbitrary: w rule: less_induct)
  case less
  obtain q u where q: "wait_raw e None w = Some (q, u)"
    using raw_returns [of e None w n] less.prems by (auto simp: ends_def)
  show ?case
  proof (cases "n \<le> pos w")
    case True
    then show ?thesis
      using raw_settled [OF less.prems True, of None]
      by (subst wait_until_different.simps) (simp add: untimed_raw)
  next
    case False
    then have "\<exists>v w'. wait_until_different wait_raw_untimed e u = Some (v, w')"
      using raw_facts(5) [OF q] settles_follows [OF less.prems raw_facts(4) [OF q]]
      by (intro less.hyps) auto
    then show ?thesis
      using q by (subst wait_until_different.simps)
        (auto simp: untimed_raw split: WaitTimeoutResult.split)
  qed
qed

text \<open>The bounded filtered wait: the loop, then the operation that fixes the deadline first.\<close>

lemma until_deadline_ok:
  assumes "wait_until_deadline wait_raw e d w = Some (r, w')"
  shows "follows w w' \<and> sleeps_guarded e w w' \<and>
     (case r of
        WaitUntilTimeoutResult.Changed v \<Rightarrow> v \<noteq> e \<and> observed v w'
      | WaitUntilTimeoutResult.TimedOut \<Rightarrow>
          reached d (clock (sh w')) \<and> (\<exists>rest. trace w' = ANow (clock (sh w')) # ALoad e # rest))"
  using assms
proof (induction rule: wait_until_deadline_induct)
  case (stop_changed w v w')
  from raw_facts [OF this] show ?case
    by (simp add: sound_def)
next
  case (stop_timeout w w')
  from raw_facts [OF this] show ?case
    by (simp add: sound_def)
next
  case (again w u r w')
  from again(2) raw_facts(3,4) [OF again(1)] show ?case
    by (auto intro: follows_trans sleeps_guarded_compose)
qed

text \<open>An attempt that starts after the deadline has passed decides.\<close>

lemma raw_decides:
  assumes "expires (started d + timeout d) w n" and "n \<le> pos w"
  shows "\<exists>w'. wait_raw e (Some d) w = Some (TimedOut, w')
     \<or> (\<exists>v. wait_raw e (Some d) w = Some (Changed v, w'))"
  using expired_remaining [OF assms] raw_expired [of w e d] raw_changed [of w e "Some d"]
  by (cases "fst (load_acquire w) = e") blast+

lemma until_deadline_returns:
  assumes "ends e (Some d) w n"
  shows "\<exists>r w'. wait_until_deadline wait_raw e d w = Some (r, w')"
  using assms
proof (induction "n - pos w" arbitrary: w rule: less_induct)
  case less
  obtain q u where q: "wait_raw e (Some d) w = Some (q, u)"
    using raw_returns [OF less.prems] by auto
  show ?case
  proof (cases "n \<le> pos w")
    case True
    with less.prems have "q \<noteq> Unclassified"
      using q raw_settled [of e w n "Some d"] raw_decides [of d w n e] by (auto simp: ends_def)
    then show ?thesis
      using q by (subst wait_until_deadline.simps) (cases q; simp)
  next
    case False
    then have "\<exists>r w'. wait_until_deadline wait_raw e d u = Some (r, w')"
      using raw_facts(5) [OF q] ends_follows [OF less.prems raw_facts(4) [OF q]]
      by (intro less.hyps) auto
    then show ?thesis
      using q by (subst wait_until_deadline.simps) (auto split: WaitTimeoutResult.split)
  qed
qed

lemma until_timeout_ok:
  assumes "wait_until_different_timeout wait_raw e t w = Some (r, w')"
  shows "follows w w' \<and> sleeps_guarded e w w' \<and>
     (case r of
        WaitUntilTimeoutResult.Changed v \<Rightarrow> v \<noteq> e \<and> observed v w'
      | WaitUntilTimeoutResult.TimedOut \<Rightarrow>
          t \<le> clock (sh w') - clock (sh (tick w))
          \<and> (\<exists>rest. trace w' = ANow (clock (sh w')) # ALoad e # rest))"
  using until_deadline_ok [OF assms [unfolded wait_until_different_timeout_eq]]
    follows_trans [OF follows_now, of w w']
    sleeps_guarded_compose [OF follows_now _ sleeps_guarded_accesses(2), of w w' e]
  by (cases r) (simp_all add: reached_def)

lemma until_timeout_returns:
  assumes "ends e (Some \<lparr>started = clock (sh (tick w)), timeout = t\<rparr>) w n"
  shows "\<exists>r w'. wait_until_different_timeout wait_raw e t w = Some (r, w')"
  unfolding wait_until_different_timeout_eq
  by (rule until_deadline_returns) (rule ends_follows [OF assms follows_now])

text \<open>With a zero timeout the operation is one check: no spinning, no blocking.\<close>

lemma until_zero_timeout:
  "wait_until_different_timeout wait_raw e 0 w =
     (let w = snd (instant_now w); (v, u) = load_acquire w
      in if v \<noteq> e then Some (WaitUntilTimeoutResult.Changed v, u)
         else Some (WaitUntilTimeoutResult.TimedOut, snd (instant_now u)))"
proof -
  let ?w = "snd (instant_now w)" and ?d = "\<lparr>started = clock (sh (tick w)), timeout = 0\<rparr>"
  have over: "fst (remaining ?d u) = None" for u :: "'v world"
    by (simp add: remaining_def split_def Let_def)
  show ?thesis
    unfolding wait_until_different_timeout_eq
    using raw_changed [of ?w e "Some ?d"] raw_expired [of ?w e ?d] over
    by (subst wait_until_deadline.simps) (auto simp: Let_def split_def snd_remaining)
qed

end

section \<open>Every strategy keeps the contract\<close>

text \<open>A spin prefix followed by a bounded attempt.\<close>

lemma spun_then:
  assumes "\<And>u. attempt n e dl u (k u)"
  shows "attempt n e dl w
     (case fst (spin_prefix e m dl w) of
        Some r \<Rightarrow> (r, snd (spin_prefix e m dl w))
      | None \<Rightarrow> k (snd (spin_prefix e m dl w)))"
proof (cases "fst (spin_prefix e m dl w)")
  case None
  with spun_prefix [of e dl w m] show ?thesis
    using attempt_after [where m = n, OF _ _ assms] by (simp add: spun_def)
next
  case (Some r)
  with spun_prefix [of e dl w m] show ?thesis
    by (auto simp: spun_def intro: attempt_mono)
qed

lemma spin_prefix_first:
  "fst (load_acquire w) \<noteq> e \<Longrightarrow>
     spin_prefix e m dl w = (Some (Changed (fst (load_acquire w))), snd (load_acquire w))"
  "fst (load_acquire w) = e \<Longrightarrow> fst (remaining d (snd (load_acquire w))) = None \<Longrightarrow>
     spin_prefix e m (Some d) w = (Some TimedOut, snd (remaining d (snd (load_acquire w))))"
  by (simp_all add: spin_prefix_def deadline_over_def split_def Let_def)

lemmas hardware_protocol_defs =
  mwaitx_raw_hardware_def mwaitx_untimed_protocol_def mwaitx_raw_timeout_hardware_def
  mwaitx_timed_protocol_def umwait_raw_hardware_def umwait_untimed_protocol_def
  umwait_raw_timeout_hardware_def umwait_timed_protocol_def

lemma mwaitx_first:
  "fst (load_acquire w) \<noteq> e \<Longrightarrow>
     mwaitx_raw_hardware c h e w = (Changed (fst (load_acquire w)), snd (load_acquire w))"
  "fst (load_acquire w) \<noteq> e \<Longrightarrow>
     mwaitx_raw_timeout_hardware c h e d w = (Changed (fst (load_acquire w)), snd (load_acquire w))"
  "fst (load_acquire w) = e \<Longrightarrow> fst (remaining d (snd (load_acquire w))) = None \<Longrightarrow>
     mwaitx_raw_timeout_hardware c h e d w = (TimedOut, snd (remaining d (snd (load_acquire w))))"
  by (simp_all add: hardware_protocol_defs split_def Let_def)

lemma umwait_first:
  "fst (load_acquire w) \<noteq> e \<Longrightarrow>
     umwait_raw_hardware i e w = (Changed (fst (load_acquire w)), snd (load_acquire w))"
  "fst (load_acquire w) \<noteq> e \<Longrightarrow>
     umwait_raw_timeout_hardware i e d w = (Changed (fst (load_acquire w)), snd (load_acquire w))"
  "fst (load_acquire w) = e \<Longrightarrow> fst (remaining d (snd (load_acquire w))) = None \<Longrightarrow>
     umwait_raw_timeout_hardware i e d w = (TimedOut, snd (remaining d (snd (load_acquire w))))"
  by (simp_all add: hardware_protocol_defs split_def Let_def)

lemma hardware_wait_first:
  "fst (load_acquire w) \<noteq> e \<Longrightarrow>
     hardware_wait c e dl w = (Changed (fst (load_acquire w)), snd (load_acquire w))"
  "fst (load_acquire w) = e \<Longrightarrow> fst (remaining d (snd (load_acquire w))) = None \<Longrightarrow>
     hardware_wait c e (Some d) w = (TimedOut, snd (remaining d (snd (load_acquire w))))"
  by (cases c; cases dl; simp add: mwaitx_first umwait_first)
    (cases c; simp add: mwaitx_first umwait_first)

lemmas raw_defs =
  SpinThenYield_wait_raw_def HardwareWait_wait_raw_def HardwareWait_wait_raw_untimed_def
  SpinThenHardwareWait_wait_raw_def SpinThenHardwareWait_wait_raw_untimed_def
  AmdMwaitxC1_wait_raw_def AmdMwaitxC1_wait_raw_untimed_def default_wait_raw_untimed_def
  hardware_wait_untimed_def

text \<open>One round of the busy loop that decides nothing.\<close>

lemma busy_round:
  fixes w :: "'v world" and dl :: "Deadline option"
  assumes "fst (load_acquire w) = e"
  defines "u \<equiv> spin_loop (snd (deadline_over dl (snd (load_acquire w))))"
  shows "follows w u" "pos w < pos u" "attempt n e dl u x \<Longrightarrow> attempt n e dl w x"
proof -
  let ?a = "snd (load_acquire w)" and ?b = "snd (deadline_over dl (snd (load_acquire w)))"
  have a: "follows w ?a" "follows w ?b"
    by (rule atomic.load_follows) (rule follows_trans [OF atomic.load_follows deadline_over_facts(1)])
  then show "follows w u"
    unfolding u_def by (intro follows_trans [OF _ follows_spin])
  show "pos w < pos u"
    using a(2) by (simp add: u_def follows_def)
  assume "attempt n e dl u x"
  from attempt_after [OF follows_spin sleeps_guarded_accesses(3) this [unfolded u_def], of n]
  have "attempt n e dl ?b x"
    by simp
  from attempt_after [OF deadline_over_facts(1,3) this, of n]
  have "attempt n e dl ?a x"
    by (simp add: deadline_over_facts)
  from attempt_after [OF a(1) sleeps_guarded_accesses(1) this, of n]
  show "attempt n e dl w x"
    by simp
qed

lemma BusySpin_first:
  "fst (load_acquire w) \<noteq> e \<Longrightarrow>
     BusySpin_wait_raw e dl w = Some (Changed (fst (load_acquire w)), snd (load_acquire w))"
  "fst (load_acquire w) = e \<Longrightarrow> fst (remaining d (snd (load_acquire w))) = None \<Longrightarrow>
     BusySpin_wait_raw e (Some d) w = Some (TimedOut, snd (remaining d (snd (load_acquire w))))"
  by (subst BusySpin_wait_raw.simps, simp add: split_def Let_def deadline_over_def)+

lemma BusySpin_attempt: "BusySpin_wait_raw e dl w = Some x \<Longrightarrow> attempt 1 e dl w x"
proof (rule BusySpin_wait_raw.raw_induct [where P = "attempt 1"])
  fix loop e dl and w :: "'a world" and x
  assume "\<And>e dl (w :: 'a world) x. loop e dl w = Some x \<Longrightarrow> attempt 1 e dl w x"
    and "(let (v, w) = load_acquire w
      in if v \<noteq> e then Some (Changed v, w)
         else let (over, w) = deadline_over dl w
              in if over then Some (TimedOut, w) else loop e dl (spin_loop w)) = Some x"
  then show "attempt 1 e dl w x"
    using attempt_changed [of w e 1 dl] attempt_timed_out [of w e _ 1]
      busy_round(3) [of w e 1 dl x]
    by (cases dl) (auto simp: split_def Let_def deadline_over_def split: if_splits)
qed

lemma BusySpin_returns: "ends e dl w n \<Longrightarrow> \<exists>x. BusySpin_wait_raw e dl w = Some x"
proof (induction "n - pos w" arbitrary: w rule: less_induct)
  case less
  let ?u = "spin_loop (snd (deadline_over dl (snd (load_acquire w))))"
  consider "fst (load_acquire w) \<noteq> e" | "n \<le> pos w" "fst (load_acquire w) = e"
    | "\<not> n \<le> pos w" "fst (load_acquire w) = e"
    by blast
  then show ?case
  proof cases
    case 1
    then show ?thesis
      using BusySpin_first(1) [of w e dl] by simp
  next
    case 2
    with less.prems obtain d where "dl = Some d" "expires (started d + timeout d) w n"
      using atomic.load_sees_settled [of e w n] by (auto simp: ends_def)
    with 2 expired_remaining [of d w n] BusySpin_first(2) [of w e d] show ?thesis
      by simp
  next
    case 3
    then have "\<exists>x. BusySpin_wait_raw e dl ?u = Some x"
      using busy_round(1,2) [of w e dl] ends_follows [OF less.prems, of ?u]
      by (intro less.hyps) auto
    then show ?thesis
      by (subst BusySpin_wait_raw.simps) (auto simp: split_def Let_def)
  qed
qed

interpretation busy_spin: raw_wait BusySpin_wait_raw "default_wait_raw_untimed BusySpin_wait_raw"
  by unfold_locales (erule BusySpin_attempt BusySpin_returns BusySpin_first
      | simp only: default_wait_raw_untimed_def)+

lemma attempt_yield: "attempt 1 e dl w (classify_after_wait e dl (yield_now w))"
  by (rule attempt_after [OF follows_yield sleeps_guarded_accesses(4) attempt_classify]) simp

lemma SpinThenYield_attempt:
  "SpinThenYield_wait_raw s e dl w = Some x \<Longrightarrow> attempt 1 e dl w x"
  using spun_then [of 1 e dl "\<lambda>u. classify_after_wait e dl (yield_now u)" w
      "unat (yield_spin_iterations s)", OF attempt_yield]
  by (auto simp: raw_defs split_def Let_def simp del: One_nat_def split: option.splits)

interpretation spin_then_yield:
  raw_wait "SpinThenYield_wait_raw s" "default_wait_raw_untimed (SpinThenYield_wait_raw s)"
  for s :: SpinThenYield
  by unfold_locales (erule SpinThenYield_attempt
      | simp add: raw_defs spin_prefix_first split_def Let_def split: option.split)+

interpretation hardware_wait:
  raw_wait "HardwareWait_wait_raw s" "HardwareWait_wait_raw_untimed s"
  for s :: HardwareWait
  by unfold_locales
    (auto simp: raw_defs attempt_hardware_wait hardware_wait_first simp del: One_nat_def)

lemma SpinThenHardwareWait_attempt:
  "SpinThenHardwareWait_wait_raw s e dl w = Some x \<Longrightarrow> attempt 1 e dl w x"
  using spun_then [of 1 e dl "hardware_wait (config (hardware s)) e dl" w
      "unat (hw_spin_iterations s)", OF attempt_hardware_wait]
  by (auto simp: raw_defs split_def Let_def simp del: One_nat_def split: option.splits)

interpretation spin_then_hardware:
  raw_wait "SpinThenHardwareWait_wait_raw s" "SpinThenHardwareWait_wait_raw_untimed s"
  for s :: SpinThenHardwareWait
  by unfold_locales (erule SpinThenHardwareWait_attempt
      | simp add: raw_defs spin_prefix_first split_def Let_def split: option.split)+

lemma AmdMwaitxC1_attempt: "AmdMwaitxC1_wait_raw s e dl w = Some x \<Longrightarrow> attempt 1 e dl w x"
  using attempt_mwaitx_untimed [of e w] attempt_mwaitx_timed [of e _ w]
  by (cases dl) (auto simp: raw_defs simp del: One_nat_def)

interpretation amd_c1: raw_wait "AmdMwaitxC1_wait_raw s" "AmdMwaitxC1_wait_raw_untimed s"
  for s :: AmdMwaitxC1
  by unfold_locales (erule AmdMwaitxC1_attempt | simp add: raw_defs mwaitx_first split: option.split)+

section \<open>Any strategy\<close>

text \<open>
  The trait \<open>WaitStrategy\<close> is sealed: these are all its implementors. A generic
  \<open>S: WaitStrategy\<close> is a value of this sum, and its methods dispatch on the type.
\<close>

datatype wait_strategy =
    Busy
  | Yielding SpinThenYield
  | Monitoring HardwareWait
  | Hybrid SpinThenHardwareWait
  | MonitoringC1 AmdMwaitxC1

fun strategy :: "wait_strategy \<Rightarrow> Strategy" where
  "strategy Busy = Strategy.BusySpin"
| "strategy (Yielding _) = Strategy.SpinThenYield"
| "strategy (Monitoring _) = Strategy.HardwareWait"
| "strategy (Hybrid _) = Strategy.SpinThenHardwareWait"
| "strategy (MonitoringC1 _) = Strategy.HardwareWait"

fun wait_raw :: "wait_strategy \<Rightarrow> 'v \<Rightarrow> Deadline option \<Rightarrow> 'v world \<Rightarrow> 'v raw" where
  "wait_raw Busy = BusySpin_wait_raw"
| "wait_raw (Yielding s) = SpinThenYield_wait_raw s"
| "wait_raw (Monitoring s) = HardwareWait_wait_raw s"
| "wait_raw (Hybrid s) = SpinThenHardwareWait_wait_raw s"
| "wait_raw (MonitoringC1 s) = AmdMwaitxC1_wait_raw s"

fun wait_raw_untimed :: "wait_strategy \<Rightarrow> 'v \<Rightarrow> 'v world \<Rightarrow> 'v raw" where
  "wait_raw_untimed Busy = default_wait_raw_untimed BusySpin_wait_raw"
| "wait_raw_untimed (Yielding s) = default_wait_raw_untimed (SpinThenYield_wait_raw s)"
| "wait_raw_untimed (Monitoring s) = HardwareWait_wait_raw_untimed s"
| "wait_raw_untimed (Hybrid s) = SpinThenHardwareWait_wait_raw_untimed s"
| "wait_raw_untimed (MonitoringC1 s) = AmdMwaitxC1_wait_raw_untimed s"

interpretation any: raw_wait "wait_raw s" "wait_raw_untimed s"
  for s :: wait_strategy
  by (cases s) (simp_all add: busy_spin.raw_wait_axioms spin_then_yield.raw_wait_axioms
      hardware_wait.raw_wait_axioms spin_then_hardware.raw_wait_axioms amd_c1.raw_wait_axioms)

section \<open>Properties of the public operations\<close>

text \<open>
  The witnesses run a schedule in which a producer that has published item 7 stores 1 before
  the thread's sixth access, time passing before every access.
\<close>

definition demo_env :: "nat \<Rightarrow> nat env_event list" where
  "demo_env n = (if n = 5 then [EAdvance 40 100, EStore 1 {7}] else [EAdvance 10 25])"

definition demo_hybrid :: wait_strategy where
  "demo_hybrid = Hybrid \<lparr>hw_spin_iterations = 1,
     hardware = \<lparr>config = Amd \<lparr>amd_timer_hz = 8, amd_safety_timeout_cycles = 1\<rparr>\<rparr>\<rparr>"

lemma demo_settles: "settles 0 (start_world demo_env 0) 6"
proof (rule settles_quiet)
  show "cell_val (advance (env (start_world demo_env 0)) (pos (start_world demo_env 0)) 6
      (sh (start_world demo_env 0))) \<noteq> 0"
    by code_simp
qed (simp_all add: start_world_def demo_env_def)

lemma fst_run: "map_option fst x = Some r \<Longrightarrow> (\<And>w. x = Some (r, w) \<Longrightarrow> thesis) \<Longrightarrow> thesis"
  by (cases x) auto

text \<open>C11: the unbounded filtered wait of every strategy returns only a value that differs from
  the expected one, read by its last Acquire load, with the writer's publications visible;
  and every sleep on the way began with the monitor armed on the cell and the cell still
  equal, or with the monitor already triggered by a store.\<close>

theorem wait_until_different_sound:
  assumes "wait_until_different (wait_raw_untimed s) expected w = Some (v, w')"
  shows "v \<noteq> expected \<and> observed v w' \<and> sleeps_guarded expected w w' \<and> follows w w'"
  using any.until_different_ok [OF assms] by blast

theorem wait_until_different_sound_witness:
  "\<exists>w'. wait_until_different (wait_raw_untimed demo_hybrid) 0 (start_world demo_env 0) = Some (1, w')
     \<and> observed 1 w'"
proof -
  have "map_option fst (wait_until_different (wait_raw_untimed demo_hybrid) 0
      (start_world demo_env 0)) = Some 1"
    by code_simp
  then obtain w' where run: "wait_until_different (wait_raw_untimed demo_hybrid) 0
      (start_world demo_env 0) = Some (1, w')"
    by (rule fst_run)
  then show ?thesis
    using wait_until_different_sound [OF run] by blast
qed

text \<open>C12: a producer's change that stays is always noticed: whatever the strategy, and however
  often its attempts end for unrelated reasons, the unbounded filtered wait returns.\<close>

theorem wait_until_different_returns:
  assumes "settles expected w n"
  shows "\<exists>v w'. wait_until_different (wait_raw_untimed s) expected w = Some (v, w')"
  using any.until_different_returns [OF assms] .

theorem wait_until_different_returns_witness:
  "settles 0 (start_world demo_env 0) 6 \<and>
   (\<exists>v w'. wait_until_different (wait_raw_untimed demo_hybrid) 0 (start_world demo_env 0) = Some (v, w'))"
  using demo_settles wait_until_different_returns [OF demo_settles] by blast

text \<open>C19: one untimed attempt performs at most one blocking or yielding operation and writes
  nothing; it reports a change only for a value its last Acquire load observed, and otherwise
  its last access is a load that still saw the expected value.\<close>

theorem wait_if_equal_one_attempt:
  assumes "wait_if_equal (wait_raw_untimed s) expected w = Some (r, w')"
  shows "follows w w' \<and> blocks w w' \<le> 1 \<and> sleeps_guarded expected w w' \<and>
     (case r of
        WaitResult.Changed v \<Rightarrow> v \<noteq> expected \<and> observed v w'
      | WaitResult.Unclassified \<Rightarrow> \<exists>rest. trace w' = ALoad expected # rest)"
  using any.if_equal_ok [OF assms] .

theorem wait_if_equal_one_attempt_witness:
  "\<exists>w'. wait_if_equal (wait_raw_untimed (Yielding (SpinThenYield_new 1))) 0 (start_world demo_env 0)
      = Some (WaitResult.Unclassified, w') \<and> blocks (start_world demo_env 0) w' \<le> 1"
proof -
  have "map_option fst (wait_if_equal (wait_raw_untimed (Yielding (SpinThenYield_new 1))) 0
      (start_world demo_env 0)) = Some WaitResult.Unclassified"
    by code_simp
  then obtain w' where run: "wait_if_equal (wait_raw_untimed (Yielding (SpinThenYield_new 1))) 0
      (start_world demo_env 0) = Some (WaitResult.Unclassified, w')"
    by (rule fst_run)
  then show ?thesis
    using wait_if_equal_one_attempt [OF run] by blast
qed

text \<open>C13: the bounded filtered wait reports a timeout only when at least the requested time has
  passed since the call read the clock, and its last load, just before the last clock reading,
  still saw the expected value; it reports a change only for an observed different value.\<close>

theorem wait_until_different_timeout_sound:
  assumes "wait_until_different_timeout (wait_raw s) expected t w = Some (r, w')"
  shows "sleeps_guarded expected w w' \<and>
     (case r of
        WaitUntilTimeoutResult.Changed v \<Rightarrow> v \<noteq> expected \<and> observed v w'
      | WaitUntilTimeoutResult.TimedOut \<Rightarrow>
          t \<le> clock (sh w') - clock (sh (tick w))
          \<and> (\<exists>rest. trace w' = ANow (clock (sh w')) # ALoad expected # rest))"
  using any.until_timeout_ok [OF assms] by blast

theorem wait_until_different_timeout_sound_witness:
  "\<exists>w'. wait_until_different_timeout (wait_raw Busy) 0 25 (start_world demo_env 0)
      = Some (WaitUntilTimeoutResult.TimedOut, w') \<and> 25 \<le> clock (sh w') - 10"
proof -
  have "map_option fst (wait_until_different_timeout (wait_raw Busy) 0 25 (start_world demo_env 0))
      = Some WaitUntilTimeoutResult.TimedOut"
    by code_simp
  then obtain w' where run: "wait_until_different_timeout (wait_raw Busy) 0 25
      (start_world demo_env 0) = Some (WaitUntilTimeoutResult.TimedOut, w')"
    by (rule fst_run)
  then show ?thesis
    using wait_until_different_timeout_sound [OF run] by (simp add: start_world_def demo_env_def)
qed

text \<open>C14: the bounded filtered wait of every strategy returns as soon as the schedule lets the
  clock pass its deadline, whatever the producers do.\<close>

theorem wait_until_different_timeout_returns:
  assumes "pos w \<le> n" and "clock (sh (tick w)) + t \<le> clock (advance (env w) (pos w) n (sh w))"
  shows "\<exists>r w'. wait_until_different_timeout (wait_raw s) expected t w = Some (r, w')"
proof -
  let ?d = "\<lparr>started = clock (sh (tick w)), timeout = t\<rparr>"
  from assms have "expires (started ?d + timeout ?d) w n"
    by (intro expires_onwards) simp_all
  then have "ends expected (Some ?d) w n"
    unfolding ends_def by blast
  then show ?thesis
    by (rule any.until_timeout_returns)
qed

theorem wait_until_different_timeout_returns_witness:
  "\<exists>r w'. wait_until_different_timeout (wait_raw demo_hybrid) 1 25 (start_world demo_env 0) = Some (r, w')"
  by (rule wait_until_different_timeout_returns [where n = 4]) code_simp+

text \<open>With a zero timeout the bounded filtered wait is exactly one check: a differing value
  is reported, an equal one is a timeout, and no strategy spins, yields or sleeps.\<close>

theorem wait_until_different_zero_timeout:
  "wait_until_different_timeout (wait_raw s) expected 0 w =
     (let w = snd (instant_now w); (v, u) = load_acquire w
      in if v \<noteq> expected then Some (WaitUntilTimeoutResult.Changed v, u)
         else Some (WaitUntilTimeoutResult.TimedOut, snd (instant_now u)))"
  by (rule any.until_zero_timeout)

text \<open>C20: one timed attempt performs at most one blocking operation; it answers \<open>TimedOut\<close>
  only when the public deadline has passed and \<open>Unclassified\<close> only when it has not, in both
  cases after a load of the expected value.\<close>

theorem wait_if_equal_timeout_one_attempt:
  assumes "wait_if_equal_timeout (wait_raw s) expected t w = Some (r, w')"
  shows "blocks w w' \<le> 1 \<and> sleeps_guarded expected w w' \<and>
     (case r of
        Changed v \<Rightarrow> v \<noteq> expected \<and> observed v w'
      | TimedOut \<Rightarrow> t \<le> clock (sh w') - clock (sh (tick w))
          \<and> (\<exists>rest. trace w' = ANow (clock (sh w')) # ALoad expected # rest)
      | Unclassified \<Rightarrow> clock (sh w') - clock (sh (tick w)) < t
          \<and> (\<exists>rest. trace w' = ANow (clock (sh w')) # ALoad expected # rest))"
  using any.if_equal_timeout_ok [OF assms]
  by (cases r) (auto simp: attempt_def sound_def reached_def)

theorem wait_if_equal_timeout_one_attempt_witness:
  "\<exists>w'. wait_if_equal_timeout (wait_raw (Yielding (SpinThenYield_new 1))) 0 100 (start_world (\<lambda>_. [EAdvance 10 25]) (0::nat))
      = Some (Unclassified, w') \<and> clock (sh w') - 10 < 100"
proof -
  let ?w = "start_world (\<lambda>_. [EAdvance 10 25]) (0::nat)"
  have "map_option fst (wait_if_equal_timeout (wait_raw (Yielding (SpinThenYield_new 1))) 0 100 ?w) = Some Unclassified"
    by code_simp
  then obtain w' where run:
    "wait_if_equal_timeout (wait_raw (Yielding (SpinThenYield_new 1))) 0 100 ?w = Some (Unclassified, w')"
    by (rule fst_run)
  then show ?thesis
    using wait_if_equal_timeout_one_attempt [OF run] by (auto simp: start_world_def)
qed

end
