(* ===== verification/Parker.thy ===== *)
theory Parker
  imports Strategy
begin

text \<open>
  The notification mailbox of \<^verbatim>\<open>src/src/parker.rs\<close>: one consumer parks on a one-bit token,
  producers publish it. The token is the watched cell of the execution model; a producer's
  \<open>unpark\<close> is an event of the schedule. The locale \<open>notifier\<close> states what the consumer
  relies on from a producer handle, its extension \<open>coalescing\<close> what the multi-producer
  handle adds, and both handles of the source interpret it.
\<close>

section \<open>The token and its operations\<close>

definition EMPTY_TOKEN :: u32 where "EMPTY_TOKEN = 0"
definition NOTIFIED_TOKEN :: u32 where "NOTIFIED_TOKEN = 1"

datatype ParkResult = Notified | Unclassified
datatype NotificationTimeoutResult = Notified | TimedOut
datatype ParkTimeoutResult = Notified | Unclassified | TimedOut

definition SingleUnparker_unpark :: "view \<Rightarrow> u32 env_event" where
  "SingleUnparker_unpark P = EStore NOTIFIED_TOKEN P"

definition publish_token :: "u32 \<Rightarrow> view \<Rightarrow> u32 env_event" where
  "publish_token notification_bits P = EUpdate (\<lambda>token. token OR notification_bits) P"

definition MultiUnparker_unpark :: "view \<Rightarrow> u32 env_event" where
  "MultiUnparker_unpark P = publish_token NOTIFIED_TOKEN P"

text \<open>A fresh pair: the token cell is empty and nothing is published.\<close>

definition pair_token :: "(nat \<Rightarrow> u32 env_event list) \<Rightarrow> u32 world" where
  "pair_token E = start_world E EMPTY_TOKEN"

definition single_pair :: "wait_strategy \<Rightarrow> (nat \<Rightarrow> u32 env_event list) \<Rightarrow>
    (wait_strategy \<times> u32 world) \<times> (view \<Rightarrow> u32 env_event)" where
  "single_pair s E = ((s, pair_token E), SingleUnparker_unpark)"

definition multi_pair :: "wait_strategy \<Rightarrow> (nat \<Rightarrow> u32 env_event list) \<Rightarrow>
    (wait_strategy \<times> u32 world) \<times> (view \<Rightarrow> u32 env_event)" where
  "multi_pair s E = ((s, pair_token E), MultiUnparker_unpark)"

definition take_notification :: "u32 world \<Rightarrow> bool \<times> u32 world" where
  "take_notification w =
     (let (v, w) = load_relaxed w
      in if v \<noteq> NOTIFIED_TOKEN then (False, w)
         else compare_exchange NOTIFIED_TOKEN EMPTY_TOKEN w)"

definition park :: "wait_strategy \<Rightarrow> u32 world \<Rightarrow> (ParkResult \<times> u32 world) option" where
  "park s w =
     (let (taken, w) = take_notification w
      in if taken then Some (ParkResult.Notified, w)
         else Option.bind (wait_if_equal (wait_raw_untimed s) EMPTY_TOKEN w) (\<lambda>(_, w).
                let (taken, w) = take_notification w
                in Some (if taken then ParkResult.Notified else ParkResult.Unclassified, w)))"

text \<open>A failing \<open>debug_assert!\<close> is a panic.\<close>

definition park_until_notified :: "wait_strategy \<Rightarrow> u32 world \<Rightarrow> (unit unwound \<times> u32 world) option" where
  "park_until_notified s w =
     (let (taken, w) = take_notification w
      in if taken then Some (Finished (), w)
         else Option.bind (wait_until_different (wait_raw_untimed s) EMPTY_TOKEN w) (\<lambda>(_, w).
                let (consumed, w) = take_notification w
                in Some (if consumed then Finished () else Panicked, w)))"

definition park_timeout :: "wait_strategy \<Rightarrow> duration \<Rightarrow> u32 world \<Rightarrow> (ParkTimeoutResult \<times> u32 world) option" where
  "park_timeout s t w =
     (let (taken, w) = take_notification w
      in if taken then Some (Notified, w)
         else Option.bind (wait_if_equal_timeout (wait_raw s) EMPTY_TOKEN t w) (\<lambda>(wait_result, w).
                let (taken, w) = take_notification w
                in if taken then Some (Notified, w)
                   else (case wait_result of
                           WaitTimeoutResult.TimedOut \<Rightarrow> Some (TimedOut, w)
                         | WaitTimeoutResult.Changed _ \<Rightarrow> Some (Unclassified, w)
                         | WaitTimeoutResult.Unclassified \<Rightarrow> Some (Unclassified, w))))"

definition park_until_notified_timeout ::
  "wait_strategy \<Rightarrow> duration \<Rightarrow> u32 world \<Rightarrow> (NotificationTimeoutResult unwound \<times> u32 world) option" where
  "park_until_notified_timeout s t w =
     (let (taken, w) = take_notification w
      in if taken then Some (Finished NotificationTimeoutResult.Notified, w)
         else Option.bind (wait_until_different_timeout (wait_raw s) EMPTY_TOKEN t w) (\<lambda>(r, w).
                case r of
                  WaitUntilTimeoutResult.Changed _ \<Rightarrow>
                    (let (consumed, w) = take_notification w
                     in Some (if consumed then Finished NotificationTimeoutResult.Notified else Panicked, w))
                | WaitUntilTimeoutResult.TimedOut \<Rightarrow>
                    (let (taken, w) = take_notification w
                     in Some (Finished (if taken then NotificationTimeoutResult.Notified
                                        else NotificationTimeoutResult.TimedOut), w))))"

section \<open>What a producer handle promises\<close>

definition token_ok :: "u32 shared \<Rightarrow> bool" where
  "token_ok s \<longleftrightarrow> cell_val s = EMPTY_TOKEN \<or> cell_val s = NOTIFIED_TOKEN"

text \<open>Every write of a schedule is an \<open>unpark\<close>.\<close>

definition produced_by :: "(view \<Rightarrow> u32 env_event) \<Rightarrow> (nat \<Rightarrow> u32 env_event list) \<Rightarrow> bool" where
  "produced_by unpark E \<longleftrightarrow> (\<forall>n. \<forall>e\<in>set (E n). is_write e \<longrightarrow> (\<exists>P. e = unpark P))"

text \<open>The items published with the writes of a stretch of the schedule.\<close>

fun event_view :: "'v env_event \<Rightarrow> view" where
  "event_view (EStore v P) = P"
| "event_view (EUpdate f P) = P"
| "event_view _ = {}"

definition published :: "(nat \<Rightarrow> 'v env_event list) \<Rightarrow> nat \<Rightarrow> nat \<Rightarrow> view" where
  "published E i j = (\<Union>k\<in>{i..<j}. \<Union>e\<in>set (E k). event_view e)"

lemma tokens_differ [simp]: "NOTIFIED_TOKEN \<noteq> EMPTY_TOKEN" "EMPTY_TOKEN \<noteq> NOTIFIED_TOKEN"
  by (simp_all add: NOTIFIED_TOKEN_def EMPTY_TOKEN_def)

lemma token_cases: "token_ok s \<Longrightarrow> cell_val s \<noteq> NOTIFIED_TOKEN \<longleftrightarrow> cell_val s = EMPTY_TOKEN"
  by (auto simp: token_ok_def)

text \<open>
  \<open>consumed w w'\<close>: between \<open>w\<close> and \<open>w'\<close> the consumer took the token with its last
  access. The token is empty, and the consumer has the view of the release sequence it took
  the token from, which is what the schedule has made of the cell since \<open>w\<close>.
\<close>

definition consumed :: "u32 world \<Rightarrow> u32 world \<Rightarrow> bool" where
  "consumed w w' \<longleftrightarrow>
     env w' = env w \<and> addr w' = addr w \<and> pos w < pos w' \<and> cell_val (sh w') = EMPTY_TOKEN \<and>
     cell_rel (sh w') = cell_rel (advance (env w) (pos w) (pos w') (sh w)) \<and>
     cell_rel (sh w') \<subseteq> seen w' \<and> seen w \<subseteq> seen w' \<and> (\<exists>zs. trace w' = ACas True # zs @ trace w)"

lemma consumed_after: "follows w u \<Longrightarrow> consumed u w' \<Longrightarrow> consumed w w'"
  by (auto simp: consumed_def follows_def advance_compose)

lemma take_consumes:
  assumes "take_notification w = (True, w')"
  shows "consumed w w'"
proof -
  let ?u = "snd (load_relaxed w)"
  have u: "follows w ?u"
    by (simp add: load_relaxed_def follows_def Let_def)
  from assms have "compare_exchange NOTIFIED_TOKEN EMPTY_TOKEN ?u = (True, w')"
    by (simp add: take_notification_def split_def Let_def split: if_splits)
  then have "consumed ?u w'"
    by (auto simp: compare_exchange_def consumed_def Let_def split: if_splits)
  with u show ?thesis
    by (rule consumed_after)
qed

locale notifier =
  fixes unpark :: "view \<Rightarrow> u32 env_event"
  assumes unpark_writes: "is_write (unpark P)"
    and unpark_notifies: "token_ok s \<Longrightarrow> cell_val (run_event (unpark P) s) = NOTIFIED_TOKEN"
    and unpark_view: "event_view (unpark P) = P"
    and unpark_publishes: "P \<subseteq> cell_rel (run_event (unpark P) s)"
begin

lemma event_token:
  assumes "is_write e \<longrightarrow> (\<exists>P. e = unpark P)" and "token_ok s"
  shows "cell_val (run_event e s) = (if is_write e then NOTIFIED_TOKEN else cell_val s)"
    and "token_ok (run_event e s)"
proof -
  show "cell_val (run_event e s) = (if is_write e then NOTIFIED_TOKEN else cell_val s)"
    using assms run_event_no_write unpark_notifies by auto
  then show "token_ok (run_event e s)"
    using assms(2) by (simp add: token_ok_def)
qed

lemma batch_token:
  assumes "\<forall>e\<in>set es. is_write e \<longrightarrow> (\<exists>P. e = unpark P)" and "token_ok s"
  shows "cell_val (run_batch es s) = (if list_ex is_write es then NOTIFIED_TOKEN else cell_val s)
     \<and> token_ok (run_batch es s)"
  using assms
proof (induction es arbitrary: s)
  case (Cons e es)
  then have "is_write e \<longrightarrow> (\<exists>P. e = unpark P)"
    by simp
  from event_token [OF this Cons.prems(2)] show ?case
    using Cons by auto
qed simp

text \<open>Only \<open>unpark\<close> changes the token, and only to notified: it stays until it is taken.\<close>

lemma advance_token:
  assumes "produced_by unpark E" and "token_ok s" and "i \<le> j"
  shows "cell_val (advance E i j s) =
       (if \<exists>k. i \<le> k \<and> k < j \<and> list_ex is_write (E k) then NOTIFIED_TOKEN else cell_val s)
     \<and> token_ok (advance E i j s)"
  using assms(3)
proof (induction j rule: dec_induct)
  case base
  then show ?case
    using assms(2) by auto
next
  case (step j)
  have "\<forall>e\<in>set (E j). is_write e \<longrightarrow> (\<exists>P. e = unpark P)"
    using assms(1) by (auto simp: produced_by_def)
  from batch_token [OF this, of "advance E i j s"] step show ?case
    by (auto simp: advance_Suc less_Suc_eq)
qed

lemma follows_token:
  assumes "produced_by unpark (env w)" and "token_ok (sh w)" and "follows w w'"
  shows "produced_by unpark (env w')" "token_ok (sh w')"
  using assms advance_token [of "env w" "sh w" "pos w" "pos w'"] by (simp_all add: follows_def)

text \<open>Taking the token.\<close>

lemma take_result:
  assumes "produced_by unpark (env w)" and "token_ok (sh w)"
  shows "fst (take_notification w) \<longleftrightarrow> cell_val (sh (tick w)) = NOTIFIED_TOKEN"
proof -
  have "token_ok (sh (tick w))"
    using follows_token(2) [OF assms follows_tick] .
  moreover have "cell_val (sh (tick (log_access a (tick w)))) = NOTIFIED_TOKEN"
    if "cell_val (sh (tick w)) = NOTIFIED_TOKEN" for a
    using that calculation assms(1) batch_token [of "env w (Suc (pos w))" "sh (tick w)"]
    by (auto simp: produced_by_def)
  ultimately show ?thesis
    by (simp add: take_notification_def load_relaxed_def compare_exchange_def Let_def split_def
        del: tick_simps(1))
qed

lemma take_misses:
  assumes "produced_by unpark (env w)" and "token_ok (sh w)" and "take_notification w = (False, w')"
  shows "follows w w'" and "pos w' = Suc (pos w)" and "cell_val (sh w') = EMPTY_TOKEN"
    and "trace w' = ARelaxed EMPTY_TOKEN # trace w"
proof -
  have tok: "cell_val (sh (tick w)) = EMPTY_TOKEN"
    using take_result [OF assms(1,2)] assms(3) token_cases [OF follows_token(2) [OF assms(1,2) follows_tick]]
    by (simp del: tick_simps(1))
  then have "w' = snd (load_relaxed w)"
    using assms(3) by (simp add: take_notification_def load_relaxed_def split_def Let_def)
  with tok show "follows w w'" "pos w' = Suc (pos w)" "cell_val (sh w') = EMPTY_TOKEN"
    "trace w' = ARelaxed EMPTY_TOKEN # trace w"
    by (simp_all add: load_relaxed_def follows_def Let_def)
qed

text \<open>A token that is present when a stretch of reading ends is taken next.\<close>

lemma take_present:
  assumes "produced_by unpark (env w)" and "token_ok (sh w)" and "cell_val (sh w) = NOTIFIED_TOKEN"
  shows "\<exists>w'. take_notification w = (True, w')"
proof -
  have "cell_val (sh (tick w)) = NOTIFIED_TOKEN"
    using assms advance_token [OF assms(1,2), of "pos w" "Suc (pos w)"] by simp
  with take_result [OF assms(1,2)] show ?thesis
    by (cases "take_notification w") auto
qed

lemma observed_present:
  assumes "produced_by unpark (env w)" and "token_ok (sh w)" and "follows w u"
    and "v \<noteq> EMPTY_TOKEN" and "observed v u"
  shows "\<exists>w'. take_notification u = (True, w')"
proof (rule take_present)
  show "produced_by unpark (env u)" "token_ok (sh u)"
    by (rule follows_token [OF assms(1-3)])+
  then show "cell_val (sh u) = NOTIFIED_TOKEN"
    using assms(4,5) by (auto simp: observed_def token_ok_def)
qed

lemma until_notified_ok:
  assumes "produced_by unpark (env w)" and "token_ok (sh w)" and "park_until_notified s w = Some (r, w')"
  shows "r = Finished () \<and> consumed w w'"
proof (cases "take_notification w")
  case (Pair taken u)
  show ?thesis
  proof (cases taken)
    case True
    with Pair assms(3) take_consumes show ?thesis
      by (simp add: park_until_notified_def)
  next
    case False
    with Pair have miss: "take_notification w = (False, u)"
      by simp
    note m = take_misses [OF assms(1,2) miss]
    obtain v x where wait: "wait_until_different (wait_raw_untimed s) EMPTY_TOKEN u = Some (v, x)"
      using assms(3) miss by (auto simp: park_until_notified_def bind_eq_Some_conv)
    note ok = any.until_different_ok [OF wait]
    have wx: "follows w x"
      using m(1) ok by (blast intro: follows_trans)
    obtain y where take: "take_notification x = (True, y)"
      using observed_present [OF assms(1,2) wx] ok by blast
    then have "r = Finished ()" "w' = y"
      using assms(3) miss wait by (simp_all add: park_until_notified_def)
    then show ?thesis
      using consumed_after [OF wx take_consumes [OF take]] by simp
  qed
qed

text \<open>An \<open>unpark\<close> anywhere in the schedule is never lost: the consumer returns.\<close>

lemma until_notified_returns:
  assumes "produced_by unpark (env w)" and "token_ok (sh w)"
    and "pos w \<le> n" and "list_ex is_write (env w n)"
  shows "\<exists>w'. park_until_notified s w = Some (Finished (), w')"
proof (cases "take_notification w")
  case (Pair taken u)
  show ?thesis
  proof (cases taken)
    case False
    with Pair have miss: "take_notification w = (False, u)"
      by simp
    note m = take_misses [OF assms(1,2) miss]
    note u = follows_token [OF assms(1,2) m(1)]
    have "pos u \<le> n"
    proof (rule ccontr)
      assume "\<not> pos u \<le> n"
      with assms(3) m(2) have "n = pos w"
        by simp
      with assms(4) have "cell_val (sh (tick w)) = NOTIFIED_TOKEN"
        using advance_token [OF assms(1,2), of "pos w" "Suc (pos w)"] by auto
      with take_result [OF assms(1,2)] miss show False
        by simp
    qed
    then have "settles EMPTY_TOKEN u (Suc n)"
      unfolding settles_def using advance_token [OF u, of "pos u"] assms(4) m(1)
      by (auto simp: follows_def)
    from any.until_different_returns [OF this, of s]
    obtain v x where wait: "wait_until_different (wait_raw_untimed s) EMPTY_TOKEN u = Some (v, x)"
      by blast
    then have "park_until_notified s w \<noteq> None"
      using miss by (simp add: park_until_notified_def split_def Let_def)
    then show ?thesis
      using until_notified_ok [OF assms(1,2)] by fastforce
  qed (use Pair in \<open>simp add: park_until_notified_def\<close>)
qed

text \<open>The bounded filtered park.\<close>

lemma until_timeout_ok:
  assumes "produced_by unpark (env w)" and "token_ok (sh w)"
    and "park_until_notified_timeout s t w = Some (r, w')"
  shows "r = Finished NotificationTimeoutResult.Notified \<and> consumed w w' \<or>
     r = Finished NotificationTimeoutResult.TimedOut \<and> follows w w' \<and> cell_val (sh w') = EMPTY_TOKEN
       \<and> t \<le> clock (sh w') - clock (sh (tick w))
       \<and> (\<exists>c rest. trace w' = ARelaxed EMPTY_TOKEN # ANow c # ALoad EMPTY_TOKEN # rest)"
proof (cases "take_notification w")
  case (Pair taken u)
  show ?thesis
  proof (cases taken)
    case True
    with Pair assms(3) take_consumes show ?thesis
      by (simp add: park_until_notified_timeout_def)
  next
    case False
    with Pair have miss: "take_notification w = (False, u)"
      by simp
    note m = take_misses [OF assms(1,2) miss]
    obtain q x where wait: "wait_until_different_timeout (wait_raw s) EMPTY_TOKEN t u = Some (q, x)"
      using assms(3) miss by (auto simp: park_until_notified_timeout_def bind_eq_Some_conv)
    note ok = any.until_timeout_ok [OF wait]
    have wx: "follows w x"
      using m(1) ok by (blast intro: follows_trans)
    note xs = follows_token [OF assms(1,2) wx]
    obtain b y where take: "take_notification x = (b, y)"
      by (cases "take_notification x")
    show ?thesis
    proof (cases q)
      case (Changed v)
      with ok observed_present [OF assms(1,2) wx, of v] take have b
        by auto
      with take have "consumed w y"
        by (auto intro: consumed_after [OF wx] take_consumes)
      then show ?thesis
        using assms(3) miss wait take Changed \<open>b\<close> by (simp add: park_until_notified_timeout_def)
    next
      case TimedOut
      show ?thesis
      proof (cases b)
        case True
        with take have "consumed w y"
          by (auto intro: consumed_after [OF wx] take_consumes)
        then show ?thesis
          using assms(3) miss wait take TimedOut True by (simp add: park_until_notified_timeout_def)
      next
        case False
        with take have miss2: "take_notification x = (False, y)"
          by simp
        note y = take_misses [OF xs miss2]
        have "sh u = sh (tick w)"
          using m(1,2) by (simp add: follows_def)
        then have "clock (sh (tick w)) \<le> clock (sh (tick u))" "clock (sh x) \<le> clock (sh y)"
          using follows_clock [OF follows_tick [of u]] follows_clock [OF y(1)] by simp_all
        moreover have "t \<le> clock (sh x) - clock (sh (tick u))"
          using ok TimedOut by simp
        ultimately have "t \<le> clock (sh y) - clock (sh (tick w))"
          by linarith
        moreover have "w' = y" "r = Finished NotificationTimeoutResult.TimedOut"
          using assms(3) miss wait miss2 TimedOut by (simp_all add: park_until_notified_timeout_def)
        ultimately show ?thesis
          using y follows_trans [OF wx y(1)] ok TimedOut by auto
      qed
    qed
  qed
qed

lemma until_timeout_returns:
  assumes "produced_by unpark (env w)" and "token_ok (sh w)" and "progresses w"
  shows "\<exists>r w'. park_until_notified_timeout s t w = Some (r, w')"
proof (cases "take_notification w")
  case (Pair taken u)
  show ?thesis
  proof (cases taken)
    case False
    with Pair have miss: "take_notification w = (False, u)"
      by simp
    note m = take_misses [OF assms(1,2) miss]
    let ?d = "\<lparr>started = clock (sh (tick u)), timeout = t\<rparr>"
    obtain n where "expires (started ?d + timeout ?d) u n"
      using progresses_follows [OF assms(3) m(1)] unfolding progresses_def by blast
    then have "ends EMPTY_TOKEN (Some ?d) u n"
      unfolding ends_def by blast
    from any.until_timeout_returns [OF this, of s]
    obtain q x where "wait_until_different_timeout (wait_raw s) EMPTY_TOKEN t u = Some (q, x)"
      by blast
    then show ?thesis
      using miss by (cases q) (simp_all add: park_until_notified_timeout_def split_def Let_def)
  qed (use Pair in \<open>simp add: park_until_notified_timeout_def\<close>)
qed

text \<open>The raw parks: at most one blocking operation, and no notification overlooked.\<close>

lemma park_ok:
  assumes "produced_by unpark (env w)" and "token_ok (sh w)" and "park s w = Some (r, w')"
  shows "case r of
       ParkResult.Notified \<Rightarrow> consumed w w'
     | ParkResult.Unclassified \<Rightarrow> follows w w' \<and> blocks w w' \<le> 1 \<and> cell_val (sh w') = EMPTY_TOKEN
         \<and> (\<exists>rest. trace w' = ARelaxed EMPTY_TOKEN # ALoad EMPTY_TOKEN # rest)"
proof (cases "take_notification w")
  case (Pair taken u)
  show ?thesis
  proof (cases taken)
    case True
    with Pair assms(3) take_consumes show ?thesis
      by (auto simp: park_def)
  next
    case False
    with Pair have miss: "take_notification w = (False, u)"
      by simp
    note m = take_misses [OF assms(1,2) miss]
    obtain q x where wait: "wait_if_equal (wait_raw_untimed s) EMPTY_TOKEN u = Some (q, x)"
      using assms(3) miss by (auto simp: park_def bind_eq_Some_conv)
    note ok = any.if_equal_ok [OF wait]
    have ux: "follows u x"
      using ok by blast
    have wx: "follows w x"
      using m(1) ux by (rule follows_trans)
    note xs = follows_token [OF assms(1,2) wx]
    obtain b y where take: "take_notification x = (b, y)"
      by (cases "take_notification x")
    show ?thesis
    proof (cases b)
      case True
      with take have "consumed w y"
        by (auto intro: consumed_after [OF wx] take_consumes)
      then show ?thesis
        using assms(3) miss wait take True by (auto simp: park_def)
    next
      case False
      with take have miss2: "take_notification x = (False, y)"
        by simp
      note y = take_misses [OF xs miss2]
      have "q = WaitResult.Unclassified"
        using ok observed_present [OF assms(1,2) wx] miss2 by (cases q) auto
      moreover have "blocks w y \<le> 1"
        using ok blocks_compose [OF m(1) ux] blocks_compose [OF wx y(1)]
          new_accesses_cons [OF m(4)] new_accesses_cons [OF y(4)]
        by (simp add: blocks_def)
      moreover have "w' = y" "r = ParkResult.Unclassified"
        using assms(3) miss wait miss2 by (simp_all add: park_def)
      ultimately show ?thesis
        using y follows_trans [OF wx y(1)] ok by auto
    qed
  qed
qed

end

section \<open>The two handles\<close>

interpretation single: notifier SingleUnparker_unpark
  by unfold_locales (simp_all add: SingleUnparker_unpark_def store_release_def)

lemma or_notified: "token_ok s \<Longrightarrow> cell_val s OR NOTIFIED_TOKEN = NOTIFIED_TOKEN"
  by (auto simp: token_ok_def EMPTY_TOKEN_def)

locale coalescing = notifier +
  assumes unpark_accumulates: "cell_rel (run_event (unpark P) s) = cell_rel s \<union> P"
begin

lemma batch_published:
  assumes "\<forall>e\<in>set es. is_write e \<longrightarrow> (\<exists>P. e = unpark P)"
  shows "cell_rel (run_batch es s) = cell_rel s \<union> (\<Union>e\<in>set es. event_view e)"
  using assms
proof (induction es arbitrary: s)
  case (Cons e es)
  have "cell_rel (run_event e s) = cell_rel s \<union> event_view e"
  proof (cases "is_write e")
    case True
    with Cons.prems obtain P where "e = unpark P"
      by auto
    then show ?thesis
      using unpark_accumulates unpark_view by simp
  next
    case False
    then show ?thesis
      by (cases e) (simp_all add: run_event_no_write)
  qed
  with Cons show ?case
    by auto
qed simp

lemma advance_published:
  assumes "produced_by unpark E" and "i \<le> j"
  shows "cell_rel (advance E i j s) = cell_rel s \<union> published E i j"
  using assms(2)
proof (induction j rule: dec_induct)
  case base
  then show ?case
    by (simp add: published_def)
next
  case (step j)
  have "\<forall>e\<in>set (E j). is_write e \<longrightarrow> (\<exists>P. e = unpark P)"
    using assms(1) by (auto simp: produced_by_def)
  moreover have "published E i (Suc j) = published E i j \<union> (\<Union>e\<in>set (E j). event_view e)"
    using step.hyps by (auto simp: published_def atLeastLessThanSuc)
  ultimately show ?case
    using step by (simp add: advance_Suc batch_published Un_assoc)
qed

lemma consumed_sees_all:
  assumes "produced_by unpark (env w)" and "consumed w w'"
  shows "published (env w) (pos w) (pos w') \<union> cell_rel (sh w) \<subseteq> seen w'"
  using assms advance_published [OF assms(1), of "pos w" "pos w'" "sh w"]
  by (auto simp: consumed_def)

end

interpretation multi: coalescing MultiUnparker_unpark
  by unfold_locales
    (simp_all add: MultiUnparker_unpark_def publish_token_def update_release_def or_notified)

text \<open>
  The single handle stores, which starts a new release sequence every time. With one producer
  the views only grow along the schedule, so the last store carries all of them.
\<close>

definition later_sees_more :: "'v env_event \<Rightarrow> 'v env_event \<Rightarrow> bool" where
  "later_sees_more e f \<longleftrightarrow> (is_write e \<longrightarrow> is_write f \<longrightarrow> event_view e \<subseteq> event_view f)"

definition one_producer :: "'v world \<Rightarrow> bool" where
  "one_producer w \<longleftrightarrow>
     (\<forall>j. sorted_wrt later_sees_more (concat (map (env w) [pos w..<j])) \<and>
          (\<forall>e\<in>set (concat (map (env w) [pos w..<j])). is_write e \<longrightarrow> cell_rel (sh w) \<subseteq> event_view e))"

lemma run_batch_append: "run_batch (es @ fs) s = run_batch fs (run_batch es s)"
  by (simp add: run_batch_def)

lemma advance_concat: "advance E i j s = run_batch (concat (map E [i..<j])) s"
proof -
  have "fold (\<lambda>k. run_batch (E k)) ks s = run_batch (concat (map E ks)) s" for ks s
    by (induction ks arbitrary: s) (simp_all add: run_batch_append)
  then show ?thesis
    by (simp add: advance_def)
qed

lemma batch_view_grows:
  assumes "\<forall>e\<in>set es. is_write e \<longrightarrow> (\<exists>P. e = SingleUnparker_unpark P)"
    and "sorted_wrt later_sees_more es" and "\<forall>e\<in>set es. is_write e \<longrightarrow> cell_rel s \<subseteq> event_view e"
  shows "cell_rel s \<union> (\<Union>e\<in>set es. event_view e) \<subseteq> cell_rel (run_batch es s)"
  using assms
proof (induction es arbitrary: s)
  case (Cons e es)
  show ?case
  proof (cases "is_write e")
    case True
    with Cons.prems(1) obtain P where e: "e = EStore NOTIFIED_TOKEN P"
      by (auto simp: SingleUnparker_unpark_def)
    let ?s = "run_event e s"
    have "cell_rel ?s = P"
      by (simp add: e store_release_def)
    moreover have "\<forall>f\<in>set es. is_write f \<longrightarrow> P \<subseteq> event_view f" "cell_rel s \<subseteq> P"
      using Cons.prems(2,3) e by (auto simp: later_sees_more_def)
    ultimately show ?thesis
      using Cons.IH [of ?s] Cons.prems e by auto
  next
    case False
    then have "cell_rel (run_event e s) = cell_rel s" "event_view e = {}"
      by (cases e; simp)+
    with Cons.IH [of "run_event e s"] Cons.prems show ?thesis
      by simp
  qed
qed simp

lemma single_sees_all:
  assumes "produced_by SingleUnparker_unpark (env w)" and "one_producer w" and "consumed w w'"
  shows "published (env w) (pos w) (pos w') \<union> cell_rel (sh w) \<subseteq> seen w'"
proof -
  let ?es = "concat (map (env w) [pos w..<pos w'])"
  have "\<forall>e\<in>set ?es. is_write e \<longrightarrow> (\<exists>P. e = SingleUnparker_unpark P)"
    using assms(1) by (auto simp: produced_by_def)
  moreover have "sorted_wrt later_sees_more ?es" "\<forall>e\<in>set ?es. is_write e \<longrightarrow> cell_rel (sh w) \<subseteq> event_view e"
    using assms(2) unfolding one_producer_def by blast+
  ultimately have "cell_rel (sh w) \<union> (\<Union>e\<in>set ?es. event_view e) \<subseteq> cell_rel (sh w')"
    using batch_view_grows [of ?es "sh w"] assms(3) by (simp add: consumed_def advance_concat)
  moreover have "published (env w) (pos w) (pos w') = (\<Union>e\<in>set ?es. event_view e)"
    by (auto simp: published_def)
  moreover have "cell_rel (sh w') \<subseteq> seen w'"
    using assms(3) unfolding consumed_def by blast
  ultimately show ?thesis
    by blast
qed

text \<open>A generic handle, for the statements that hold of both.\<close>

datatype handle = SinglePair | MultiPair

fun unpark :: "handle \<Rightarrow> view \<Rightarrow> u32 env_event" where
  "unpark SinglePair = SingleUnparker_unpark"
| "unpark MultiPair = MultiUnparker_unpark"

interpretation pair: notifier "unpark h" for h :: handle
  by (cases h) (simp_all add: single.notifier_axioms multi.notifier_axioms)

section \<open>Properties of the mailbox\<close>

text \<open>
  The witnesses park on a fresh multi-producer pair while two producers, who have published
  items 3 and 4, unpark before the consumer's fourth access.
\<close>

definition demo_producers :: "nat \<Rightarrow> u32 env_event list" where
  "demo_producers n =
     (if n = 3 then [MultiUnparker_unpark {3}, MultiUnparker_unpark {4}] else [EAdvance 10 20])"

lemma demo_produced: "produced_by MultiUnparker_unpark (env (pair_token demo_producers))"
  by (auto simp: produced_by_def pair_token_def start_world_def demo_producers_def)

lemma demo_produced_pair: "produced_by (unpark MultiPair) (env (pair_token demo_producers))"
  using demo_produced by simp

lemma pair_token_ok [simp]: "token_ok (sh (pair_token E))"
  by (simp add: token_ok_def pair_token_def start_world_def)

lemma demo_parks:
  "map_option fst (park_until_notified Busy (pair_token demo_producers)) = Some (Finished ())"
  by code_simp

text \<open>C2: \<open>park_until_notified\<close> returns only by consuming the token: its last access is the
  successful exchange that empties it, the consumer has synchronised with the release sequence
  it took, and the debug assertion behind the single-consumer argument never fires.\<close>

theorem park_until_notified_consumes:
  assumes "produced_by (unpark h) (env w)" and "token_ok (sh w)"
    and "park_until_notified s w = Some (r, w')"
  shows "r = Finished () \<and> consumed w w'"
  using pair.until_notified_ok [OF assms] .

theorem park_until_notified_consumes_witness:
  "\<exists>w'. park_until_notified Busy (pair_token demo_producers) = Some (Finished (), w')
     \<and> consumed (pair_token demo_producers) w'"
  using fst_run [OF demo_parks] park_until_notified_consumes [OF demo_produced_pair pair_token_ok]
  by metis

text \<open>C1: no notification is lost. If any producer unparks at any later point of the schedule,
  \<open>park_until_notified\<close> returns, whatever the strategy and however the steps interleave.\<close>

theorem no_lost_notification:
  assumes "produced_by (unpark h) (env w)" and "token_ok (sh w)"
    and "pos w \<le> n" and "list_ex is_write (env w n)"
  shows "\<exists>w'. park_until_notified s w = Some (Finished (), w')"
  using pair.until_notified_returns [OF assms] .

theorem no_lost_notification_witness:
  "\<exists>w'. park_until_notified (Yielding (SpinThenYield_new 2)) (pair_token demo_producers) = Some (Finished (), w')"
proof -
  have "pos (pair_token demo_producers) \<le> 3" "list_ex is_write (env (pair_token demo_producers) 3)"
    by (simp_all add: pair_token_def start_world_def demo_producers_def multi.unpark_writes)
  from no_lost_notification [OF demo_produced_pair pair_token_ok this] show ?thesis
    by blast
qed

text \<open>C3: a consumer that returns notified from a multi-producer pair sees what every producer
  published before any \<open>unpark\<close> up to that point, coalesced ones included.\<close>

theorem multi_publication:
  assumes "produced_by MultiUnparker_unpark (env w)" and "token_ok (sh w)"
    and "park_until_notified s w = Some (r, w')"
  shows "published (env w) (pos w) (pos w') \<union> cell_rel (sh w) \<subseteq> seen w'"
  using multi.consumed_sees_all [OF assms(1)] multi.until_notified_ok [OF assms] by blast

theorem multi_publication_witness:
  "\<exists>w'. park_until_notified Busy (pair_token demo_producers) = Some (Finished (), w')
     \<and> published demo_producers 0 (pos w') \<subseteq> seen w'"
proof -
  obtain w' where run: "park_until_notified Busy (pair_token demo_producers) = Some (Finished (), w')"
    using demo_parks by (rule fst_run)
  from run multi_publication [OF demo_produced pair_token_ok run] show ?thesis
    by (auto simp: pair_token_def start_world_def)
qed

text \<open>C25: on a single-producer pair, whose handle publishes with a plain store, the same holds
  because one producer's view only grows.\<close>

theorem single_publication:
  assumes "produced_by SingleUnparker_unpark (env w)" and "one_producer w" and "token_ok (sh w)"
    and "park_until_notified s w = Some (r, w')"
  shows "published (env w) (pos w) (pos w') \<union> cell_rel (sh w) \<subseteq> seen w'"
  using single_sees_all [OF assms(1,2)] single.until_notified_ok [OF assms(1,3,4)] by blast

theorem single_publication_witness:
  "\<exists>w'. park_until_notified Busy (pair_token (\<lambda>n. if n = 2 then [SingleUnparker_unpark {3}] else []))
      = Some (Finished (), w') \<and> published (env w') 0 (pos w') \<subseteq> seen w'"
proof -
  let ?E = "\<lambda>n::nat. if n = 2 then [SingleUnparker_unpark {3}] else []"
  have "concat (map ?E [0..<j]) = (if 2 < j then [SingleUnparker_unpark {3}] else [])" for j
    by (induction j) auto
  then have one: "one_producer (pair_token ?E)" and prod: "produced_by SingleUnparker_unpark (env (pair_token ?E))"
    by (auto simp: one_producer_def produced_by_def pair_token_def start_world_def)
  have "map_option fst (park_until_notified Busy (pair_token ?E)) = Some (Finished ())"
    by code_simp
  then obtain w' where run: "park_until_notified Busy (pair_token ?E) = Some (Finished (), w')"
    by (rule fst_run)
  have "env w' = ?E"
    using single.until_notified_ok [OF prod pair_token_ok run] by (simp add: consumed_def pair_token_def start_world_def)
  with run single_publication [OF prod one pair_token_ok run] show ?thesis
    by (auto simp: pair_token_def start_world_def)
qed


text \<open>C18: the bounded park decides truthfully. It reports a timeout only when at least the
  requested time has passed and its final token check, after the last load and the last clock
  reading, found the token empty; otherwise it has consumed the token. It never panics.\<close>

theorem park_until_notified_timeout_sound:
  assumes "produced_by (unpark h) (env w)" and "token_ok (sh w)"
    and "park_until_notified_timeout s t w = Some (r, w')"
  shows "r = Finished NotificationTimeoutResult.Notified \<and> consumed w w' \<or>
     r = Finished NotificationTimeoutResult.TimedOut \<and> follows w w' \<and> cell_val (sh w') = EMPTY_TOKEN
       \<and> t \<le> clock (sh w') - clock (sh (tick w))
       \<and> (\<exists>c rest. trace w' = ARelaxed EMPTY_TOKEN # ANow c # ALoad EMPTY_TOKEN # rest)"
  using pair.until_timeout_ok [OF assms] .

theorem park_until_notified_timeout_sound_witness:
  "\<exists>w'. park_until_notified_timeout Busy 5 (pair_token demo_producers)
      = Some (Finished NotificationTimeoutResult.Notified, w') \<and> consumed (pair_token demo_producers) w'"
proof -
  have "map_option fst (park_until_notified_timeout Busy 5 (pair_token demo_producers))
      = Some (Finished NotificationTimeoutResult.Notified)"
    by code_simp
  then obtain w' where run: "park_until_notified_timeout Busy 5 (pair_token demo_producers)
      = Some (Finished NotificationTimeoutResult.Notified, w')"
    by (rule fst_run)
  from run park_until_notified_timeout_sound [OF demo_produced_pair pair_token_ok run] show ?thesis
    by simp
qed

text \<open>C28: the bounded park returns while time passes, and a token present at entry wins over any
  timeout, zero included.\<close>

theorem park_until_notified_timeout_returns:
  assumes "produced_by (unpark h) (env w)" and "token_ok (sh w)" and "progresses w"
  shows "(\<exists>r w'. park_until_notified_timeout s t w = Some (r, w')) \<and>
     (cell_val (sh w) = NOTIFIED_TOKEN \<longrightarrow>
        (\<exists>w'. park_until_notified_timeout s t w = Some (Finished NotificationTimeoutResult.Notified, w')))"
  using pair.until_timeout_returns [OF assms] pair.take_present [OF assms(1,2)]
  by (auto simp: park_until_notified_timeout_def)

theorem park_until_notified_timeout_returns_witness:
  "\<exists>r w'. park_until_notified_timeout demo_hybrid 1000 (pair_token (\<lambda>_. [EAdvance 10 25])) = Some (r, w')"
proof -
  let ?w = "pair_token (\<lambda>_. [EAdvance 10 25])"
  have "produced_by (unpark SinglePair) (env ?w)" "progresses ?w"
    by (auto simp: produced_by_def pair_token_def start_world_def intro!: steady_progress)
  from park_until_notified_timeout_returns [OF this(1) pair_token_ok this(2)] show ?thesis
    by blast
qed



text \<open>C29: notifications coalesce into one. However many \<open>unpark\<close> calls precede it, one
  \<open>park_until_notified\<close> empties the token, and the next check finds nothing unless a
  producer has unparked again.\<close>

theorem notifications_coalesce:
  assumes "produced_by (unpark h) (env w)" and "token_ok (sh w)"
    and "park_until_notified s w = Some (r, w')"
  shows "fst (take_notification w') \<longleftrightarrow> list_ex is_write (env w' (pos w'))"
proof -
  have c: "consumed w w'"
    using pair.until_notified_ok [OF assms] by blast
  then have w': "produced_by (unpark h) (env w')" "token_ok (sh w')" "cell_val (sh w') = EMPTY_TOKEN"
    using assms(1) by (simp_all add: consumed_def token_ok_def)
  show ?thesis
    using pair.take_result [OF w'(1,2)] pair.advance_token [OF w'(1,2), of "pos w'" "Suc (pos w')"] w'(3)
    by (auto simp: less_Suc_eq_le)
qed

theorem notifications_coalesce_witness:
  "\<exists>w'. park_until_notified Busy (pair_token demo_producers) = Some (Finished (), w')
     \<and> (fst (take_notification w') \<longleftrightarrow> list_ex is_write (env w' (pos w')))"
proof -
  obtain w' where run: "park_until_notified Busy (pair_token demo_producers) = Some (Finished (), w')"
    using demo_parks by (rule fst_run)
  from run notifications_coalesce [OF demo_produced_pair pair_token_ok run] show ?thesis
    by blast
qed

end
