(* ===== verification/Preflight.thy ===== *)
theory Preflight
  imports Strategy
begin

text \<open>
  The one-time hardware gate of \<^verbatim>\<open>src/src/strategy.rs\<close>: fail-closed selection of a backend,
  preparation of its configuration, the bounded functional probe with its helper thread, the
  process-wide verdict and the constructors that read it. The helper's allocation, its
  creation and what it sends are parameters of the probe; its own code is
  \<open>preflight_helper\<close>. A panic unwinds to the gate and is the value \<open>Panicked\<close>.
\<close>

section \<open>Constants and records\<close>

definition PREFLIGHT_BASELINE_ATTEMPTS :: nat where "PREFLIGHT_BASELINE_ATTEMPTS = 5"
definition PREFLIGHT_STORE_ATTEMPTS :: nat where "PREFLIGHT_STORE_ATTEMPTS = 16"
definition PREFLIGHT_REQUIRED_STORE_OBSERVATIONS :: nat where
  "PREFLIGHT_REQUIRED_STORE_OBSERVATIONS = 2"
definition PREFLIGHT_MIN_BLOCK :: duration where "PREFLIGHT_MIN_BLOCK = from_micros 1"
definition PREFLIGHT_HELPER_DEADLINE :: duration where "PREFLIGHT_HELPER_DEADLINE = from_millis 20"

record PreflightReport =
  report_backend :: HardwareBackend
  attempts :: nat
  verified_store_wakes :: nat
  baseline_wait :: duration

record PreparedHardwareWait =
  prepared_config :: HardwareConfig
  report :: PreflightReport

section \<open>Choosing and preparing a backend\<close>

definition unsupported :: "UnsupportedReason \<Rightarrow> HardwareWaitError" where
  "unsupported reason =
     Unsupported \<lparr>us_strategy = Strategy.HardwareWait, us_reason = reason\<rparr>"

definition select_backend :: "Capabilities \<Rightarrow> (HardwareBackend, UnsupportedReason) result" where
  "select_backend detected =
     (if \<not> supported_target detected then Inl UnsupportedTarget
      else if amd_vendor detected = intel_vendor detected then Inl UnsupportedCpuVendor
      else if amd_vendor detected \<and> \<not> monitorx_mwaitx detected then Inl MissingMonitorxMwaitx
      else if amd_vendor detected then Inr AmdMwaitx
      else if intel_vendor detected \<and> \<not> waitpkg detected then Inl MissingWaitpkg
      else Inr IntelUmwait)"

definition require_shared_timer_capabilities ::
  "Capabilities \<Rightarrow> (unit, HardwareWaitError) result" where
  "require_shared_timer_capabilities detected =
     (if \<not> invariant_tsc detected then Inl (unsupported MissingInvariantTsc)
      else if \<not> rdtscp detected then Inl (unsupported MissingRdtscp)
      else Inr ())"

text \<open>The calibrations run for a while on a state of theirs, and may not return.\<close>

definition prepare_hardware_config ::
  "Capabilities \<Rightarrow> bool \<Rightarrow> ('s \<Rightarrow> (u64 option \<times> 's) option) \<Rightarrow> ('s \<Rightarrow> (u64 option \<times> 's) option) \<Rightarrow>
     's \<Rightarrow> ((HardwareConfig, HardwareWaitError) result \<times> 's) option" where
  "prepare_hardware_config detected tsc_enabled calibrate_amd calibrate_intel s =
     (case and_then (map_err unsupported (select_backend detected)) (\<lambda>b.
             and_then (require_shared_timer_capabilities detected) (\<lambda>_. Inr b)) of
        Inl e \<Rightarrow> Some (Inl e, s)
      | Inr b \<Rightarrow>
          if \<not> tsc_enabled then Some (Inl (unsupported TscAccessDisabled), s)
          else (case b of
                 AmdMwaitx \<Rightarrow>
                   map_option (\<lambda>(timer_hz, s).
                     (and_then (ok_or timer_hz (unsupported UnstableTimerCalibration))
                        (\<lambda>hz. Inr (Amd (AmdConfig_new hz))), s)) (calibrate_amd s)
               | IntelUmwait \<Rightarrow>
                   map_option (\<lambda>(timer_hz, s).
                     (and_then (ok_or timer_hz (unsupported UnstableTimerCalibration))
                        (\<lambda>hz. Inr (Intel (IntelConfig_new hz))), s)) (calibrate_intel s)))"

section \<open>The functional probe\<close>

record PreflightTrialEvidence =
  helper_overlapped :: bool
  verified_store_wake :: bool

definition classify_preflight_trial ::
  "instant option \<Rightarrow> instant \<Rightarrow> u32 \<Rightarrow> duration \<Rightarrow> duration \<Rightarrow> PreflightTrialEvidence" where
  "classify_preflight_trial published_at wait_finished v elapsed wake_threshold =
     (let overlapped = is_some_and published_at (\<lambda>published. published \<le> wait_finished)
      in \<lparr>helper_overlapped = overlapped,
          verified_store_wake = (overlapped \<and> v \<noteq> 0 \<and> elapsed < wake_threshold)\<rparr>)"

definition conclude_preflight ::
  "HardwareBackend \<Rightarrow> nat \<Rightarrow> nat \<Rightarrow> nat \<Rightarrow> duration \<Rightarrow> (PreflightReport, HardwareWaitError) result" where
  "conclude_preflight b n verified helper_overlaps baseline =
     (if helper_overlaps = 0 then Inl (PreflightFailed b Inconclusive)
      else if verified < PREFLIGHT_REQUIRED_STORE_OBSERVATIONS
      then Inl (PreflightFailed b StoreWakeNotObserved)
      else Inr \<lparr>report_backend = b, attempts = n, verified_store_wakes = verified,
                baseline_wait = baseline\<rparr>)"

text \<open>The store to the handoff flag is one access of the waiting thread.\<close>

definition handoff_store :: "'v world \<Rightarrow> 'v world" where
  "handoff_store w = log_access AHandoff (tick w)"

definition preflight_wait_once :: "HardwareConfig \<Rightarrow> u32 world \<Rightarrow> u32 \<times> u32 world" where
  "preflight_wait_once hw w =
     (let (v, w) = load_acquire w
      in if v \<noteq> 0 then (v, w)
         else case hw of
           Amd c \<Rightarrow>
             (let w = monitorx (monitored_address w) w;
                  (v, w) = load_acquire w
              in if v \<noteq> 0 then (v, w)
                 else let w = handoff_store w;
                          (v, w) = load_acquire w
                      in if v \<noteq> 0 then (v, w)
                         else load_acquire
                                (mwaitx (amd_safety_timeout_cycles c) NO_C_STATE_HINT w))
         | Intel c \<Rightarrow>
             (let w = umonitor (monitored_address w) w;
                  (v, w) = load_acquire w
              in if v \<noteq> 0 then (v, w)
                 else let w = handoff_store w;
                          (v, w) = load_acquire w
                      in if v \<noteq> 0 then (v, w)
                         else let (t, w) = umwait_deadline (intel_safety_timeout_cycles c) w
                              in load_acquire (umwait_c01 t w)))"

text \<open>
  The helper thread. Its \<open>k\<close>-th step reads \<open>handoff k\<close> and the clock \<open>now k\<close>. The
  result is what it sends: nothing published, or the step of its store to the target and the
  instant it reads afterwards.
\<close>

partial_function (option) helper_await ::
  "(nat \<Rightarrow> bool) \<Rightarrow> (nat \<Rightarrow> instant) \<Rightarrow> instant \<Rightarrow> nat \<Rightarrow> (bool \<times> nat) option" where
  "helper_await handoff now deadline k =
     (if handoff k then Some (True, k)
      else if deadline \<le> now k then Some (False, k)
      else helper_await handoff now deadline (Suc k))"

partial_function (option) helper_delay ::
  "(nat \<Rightarrow> instant) \<Rightarrow> instant \<Rightarrow> duration \<Rightarrow> nat \<Rightarrow> nat option" where
  "helper_delay now delay_started delay k =
     (if now k - delay_started < delay then helper_delay now delay_started delay (Suc k) else Some k)"

definition preflight_helper ::
  "(nat \<Rightarrow> bool) \<Rightarrow> (nat \<Rightarrow> instant) \<Rightarrow> duration \<Rightarrow> (nat \<times> instant) option option" where
  "preflight_helper handoff now producer_delay =
     (let deadline = now 0 + PREFLIGHT_HELPER_DEADLINE
      in case helper_await handoff now deadline 1 of
           None \<Rightarrow> None
         | Some (False, k) \<Rightarrow> Some None
         | Some (True, k) \<Rightarrow>
             (let delay_started = now (Suc k)
              in case helper_delay now delay_started producer_delay (Suc (Suc k)) of
                   None \<Rightarrow> None
                 | Some j \<Rightarrow> Some (Some (j, now (Suc j)))))"

declare helper_await.simps [code] helper_delay.simps [code]

text \<open>
  What the probe takes from outside: the address of each target (the baseline's is the
  first), whether each helper thread could be created (\<open>thread::spawn\<close> panics otherwise),
  and what the channel delivers before its timeout from a helper started with a delay.
\<close>

record probe_env =
  alloc :: "nat \<Rightarrow> u64"
  spawned :: "nat \<Rightarrow> bool"
  received :: "nat \<Rightarrow> duration \<Rightarrow> instant option option"

definition new_target :: "u64 \<Rightarrow> u32 world \<Rightarrow> u32 world" where
  "new_target a w = w\<lparr>sh := (sh w)\<lparr>cell_val := 0, cell_rel := {}\<rparr>, addr := a\<rparr>"

fun measure_baselines :: "nat \<Rightarrow> HardwareConfig \<Rightarrow> u32 world \<Rightarrow> duration list \<times> u32 world" where
  "measure_baselines 0 hw w = ([], w)"
| "measure_baselines (Suc n) hw w =
     (let (started, w) = instant_now w;
          (_, w) = hardware_wait_untimed hw 0 w;
          (t, w) = instant_now w;
          (rest, w) = measure_baselines n hw w
      in ((t - started) # rest, w))"

definition preflight_trial ::
  "HardwareConfig \<Rightarrow> u64 \<Rightarrow> instant option option \<Rightarrow> duration \<Rightarrow> u32 world \<Rightarrow>
     PreflightTrialEvidence \<times> u32 world" where
  "preflight_trial hw a channel wake_threshold w =
     (let w = new_target a w;
          (started, w) = instant_now w;
          (v, w) = preflight_wait_once hw w;
          (wait_finished, w) = instant_now w;
          elapsed = wait_finished - started;
          w = tick w;
          published_at = Option.bind channel id
      in (classify_preflight_trial published_at wait_finished v elapsed wake_threshold, w))"

text \<open>The trial loop: \<open>n\<close> trials left, the counters as the source has them.\<close>

fun store_trials ::
  "probe_env \<Rightarrow> HardwareConfig \<Rightarrow> duration \<Rightarrow> duration \<Rightarrow> nat \<Rightarrow> nat \<Rightarrow> nat \<Rightarrow> nat \<Rightarrow> u32 world \<Rightarrow>
     (nat \<times> nat \<times> nat) unwound \<times> u32 world" where
  "store_trials e hw wake_threshold delay 0 tried verified overlaps w =
     (Finished (tried, verified, overlaps), w)"
| "store_trials e hw wake_threshold delay (Suc n) tried verified overlaps w =
     (let tried = tried + 1
      in if \<not> spawned e tried then (Panicked, w)
         else let (evidence, w) = preflight_trial hw (alloc e tried)
                    (received e tried delay) wake_threshold w;
                  overlaps = (if helper_overlapped evidence then overlaps + 1 else overlaps)
              in if verified_store_wake evidence
                 then let verified = verified + 1
                      in if PREFLIGHT_REQUIRED_STORE_OBSERVATIONS \<le> verified
                         then (Finished (tried, verified, overlaps), w)
                         else store_trials e hw wake_threshold delay n tried verified overlaps w
                 else store_trials e hw wake_threshold delay n tried verified overlaps w)"

definition functional_preflight ::
  "probe_env \<Rightarrow> HardwareConfig \<Rightarrow> u32 world \<Rightarrow>
     (PreflightReport, HardwareWaitError) result unwound \<times> u32 world" where
  "functional_preflight e hw w =
     (let w = new_target (alloc e 0) w;
          (baselines, w) = measure_baselines PREFLIGHT_BASELINE_ATTEMPTS hw w;
          baselines = sort baselines;
          baseline = baselines ! (length baselines div 2)
      in if baseline < PREFLIGHT_MIN_BLOCK
         then (Finished (Inl (PreflightFailed (backend hw) WaitDidNotBlock)), w)
         else let wake_threshold = duration_saturating_mul baseline 3 div 4;
                  producer_delay = min (max (baseline div 16) (from_micros 1)) (from_micros 20)
              in case store_trials e hw wake_threshold producer_delay
                        PREFLIGHT_STORE_ATTEMPTS 0 0 0 w of
                   (Panicked, w) \<Rightarrow> (Panicked, w)
                 | (Finished (tried, verified, overlaps), w) \<Rightarrow>
                     (Finished (conclude_preflight (backend hw) tried verified overlaps
                        baseline), w))"

section \<open>The gate\<close>

definition prepare_and_probe_hardware_wait ::
  "('s \<Rightarrow> ((HardwareConfig, HardwareWaitError) result \<times> 's) option) \<Rightarrow>
   (HardwareConfig \<Rightarrow> 's \<Rightarrow> (PreflightReport, HardwareWaitError) result unwound \<times> 's) \<Rightarrow>
   's \<Rightarrow> ((PreparedHardwareWait, HardwareWaitError) result unwound \<times> 's) option" where
  "prepare_and_probe_hardware_wait prepare probe s =
     Option.bind (prepare s) (\<lambda>(prepared, s).
       case prepared of
         Inl e \<Rightarrow> Some (Finished (Inl e), s)
       | Inr c \<Rightarrow>
           (case probe c s of
              (Panicked, s) \<Rightarrow> Some (Panicked, s)
            | (Finished (Inl e), s) \<Rightarrow> Some (Finished (Inl e), s)
            | (Finished (Inr r), s) \<Rightarrow>
                Some (Finished (Inr \<lparr>prepared_config = c, report = r\<rparr>), s)))"

text \<open>
  The process: the processor and the kernel's answer about RDTSC, the helpers, the two
  process-wide cells, and the calling thread.
\<close>

record process =
  proc_cpuid :: cpuid
  proc_prctl :: "int \<Rightarrow> int \<Rightarrow> int \<times> int"
  proc_probe :: probe_env
  CAPABILITIES :: "Capabilities option"
  HARDWARE_PREFLIGHT :: "(PreparedHardwareWait, HardwareWaitError) result option"
  proc_thread :: "u32 world"

definition process_capabilities :: "process \<Rightarrow> (Capabilities \<times> process) option" where
  "process_capabilities p =
     map_option (\<lambda>(c, cache). (c, p\<lparr>CAPABILITIES := cache\<rparr>))
       (capabilities (\<lambda>_. detect_capabilities (proc_cpuid p)) (CAPABILITIES p))"

definition run_hardware_preflight ::
  "process \<Rightarrow> ((PreparedHardwareWait, HardwareWaitError) result unwound \<times> process) option" where
  "run_hardware_preflight p =
     Option.bind (process_capabilities p) (\<lambda>(detected, p).
       map_option (\<lambda>(r, w). (r, p\<lparr>proc_thread := w\<rparr>))
         (prepare_and_probe_hardware_wait
            (prepare_hardware_config detected (userspace_tsc_is_enabled (proc_prctl p))
               (amd_calibrate_timer_hz (proc_cpuid p)) (intel_calibrate_timer_hz (proc_cpuid p)))
            (functional_preflight (proc_probe p)) (proc_thread p)))"

text \<open>On every other target the facts are empty and no backend can be chosen.\<close>

definition run_hardware_preflight_unsupported ::
  "Capabilities option \<Rightarrow>
     ((PreparedHardwareWait, HardwareWaitError) result \<times> Capabilities option) option" where
  "run_hardware_preflight_unsupported cache =
     map_option (\<lambda>(detected, cache).
       (and_then (map_err unsupported (select_backend detected))
          (\<lambda>_. Inl (unsupported UnsupportedCpuVendor)), cache))
       (capabilities (\<lambda>_. detect_capabilities_unsupported) cache)"

definition initialize_once ::
  "('a, HardwareWaitError) result option \<Rightarrow>
     ('s \<Rightarrow> (('a, HardwareWaitError) result unwound \<times> 's) option) \<Rightarrow> 's \<Rightarrow>
     (('a, HardwareWaitError) result \<times> ('a, HardwareWaitError) result option \<times> 's) option" where
  "initialize_once state initialize s =
     get_or_init state
       (\<lambda>s. map_option (\<lambda>(r, s). (unwrap_or (catch_unwind r) (Inl PreflightPanicked), s))
              (initialize s)) s"

definition HardwareWait_preflight ::
  "process \<Rightarrow> ((PreflightReport, HardwareWaitError) result \<times> process) option" where
  "HardwareWait_preflight p =
     map_option (\<lambda>(r, state, p). (and_then r (\<lambda>prepared. Inr (report prepared)),
         p\<lparr>HARDWARE_PREFLIGHT := state\<rparr>))
       (initialize_once (HARDWARE_PREFLIGHT p) run_hardware_preflight p)"

definition HardwareWait_new :: "process \<Rightarrow> (HardwareWait, HardwareWaitError) result" where
  "HardwareWait_new p =
     (case HARDWARE_PREFLIGHT p of
        None \<Rightarrow> Inl PreflightRequired
      | Some (Inr prepared) \<Rightarrow> Inr \<lparr>config = prepared_config prepared\<rparr>
      | Some (Inl error) \<Rightarrow> Inl error)"

definition HardwareWait_backend :: "HardwareWait \<Rightarrow> HardwareBackend" where
  "HardwareWait_backend self = backend (config self)"

definition SpinThenHardwareWait_new ::
  "u64 \<Rightarrow> process \<Rightarrow> (SpinThenHardwareWait, HardwareWaitError) result" where
  "SpinThenHardwareWait_new spin_iterations p =
     and_then (HardwareWait_new p) (\<lambda>h.
       Inr \<lparr>hw_spin_iterations = spin_iterations, hardware = h\<rparr>)"

definition AmdMwaitxC1_new :: "process \<Rightarrow> (AmdMwaitxC1, HardwareWaitError) result" where
  "AmdMwaitxC1_new p =
     and_then (HardwareWait_new p) (\<lambda>h.
       case config h of
         Amd c \<Rightarrow> Inr \<lparr>c1_config = c\<rparr>
       | Intel _ \<Rightarrow> Inl (unsupported UnsupportedCpuVendor))"

section \<open>Selection fails closed\<close>

lemma select_backend_AmdMwaitx:
  "select_backend c = Inr AmdMwaitx \<longleftrightarrow>
     supported_target c \<and> amd_vendor c \<and> \<not> intel_vendor c \<and> monitorx_mwaitx c"
  by (auto simp: select_backend_def)

lemma select_backend_IntelUmwait:
  "select_backend c = Inr IntelUmwait \<longleftrightarrow>
     supported_target c \<and> intel_vendor c \<and> \<not> amd_vendor c \<and> waitpkg c"
  by (auto simp: select_backend_def)

lemma require_shared_ok:
  "require_shared_timer_capabilities c = Inr u \<longleftrightarrow> invariant_tsc c \<and> rdtscp c"
  by (auto simp: require_shared_timer_capabilities_def)

lemma prepare_ok:
  assumes "prepare_hardware_config c enabled amd intel s = Some (Inr hw, s')"
  shows "invariant_tsc c \<and> rdtscp c \<and> enabled \<and> select_backend c = Inr (backend hw) \<and>
     (case hw of
        Amd conf \<Rightarrow> \<exists>hz. amd s = Some (Some hz, s') \<and> conf = AmdConfig_new hz
      | Intel conf \<Rightarrow> \<exists>hz. intel s = Some (Some hz, s') \<and> conf = IntelConfig_new hz)"
proof -
  obtain b where b: "select_backend c = Inr b" "invariant_tsc c" "rdtscp c"
    using assms
    by (auto simp: prepare_hardware_config_def result_simps require_shared_ok split: sum.splits)
  then have "and_then (map_err unsupported (select_backend c)) (\<lambda>b.
      and_then (require_shared_timer_capabilities c) (\<lambda>_. Inr b)) = Inr b"
    by (simp add: require_shared_timer_capabilities_def)
  with assms have "enabled"
    and conf: "case b of
       AmdMwaitx \<Rightarrow> \<exists>hz. amd s = Some (Some hz, s') \<and> hw = Amd (AmdConfig_new hz)
     | IntelUmwait \<Rightarrow> \<exists>hz. intel s = Some (Some hz, s') \<and> hw = Intel (IntelConfig_new hz)"
    by (cases b; auto simp: prepare_hardware_config_def result_simps split: if_splits)+
  with b show ?thesis
    by (cases b) auto
qed

section \<open>The bounded probe\<close>

text \<open>
  The evidence of up to \<open>n\<close> trials run one after another, as a specification of the
  loop's counters.
\<close>

fun trial_log ::
  "probe_env \<Rightarrow> HardwareConfig \<Rightarrow> duration \<Rightarrow> duration \<Rightarrow> nat \<Rightarrow> nat \<Rightarrow> u32 world \<Rightarrow>
     PreflightTrialEvidence list" where
  "trial_log e hw threshold delay 0 tried w = []"
| "trial_log e hw threshold delay (Suc n) tried w =
     (let (evidence, w) = preflight_trial hw (alloc e (tried + 1)) (received e (tried + 1) delay)
            threshold w
      in evidence # trial_log e hw threshold delay n (tried + 1) w)"

lemma length_trial_log [simp]: "length (trial_log e hw threshold delay n tried w) = n"
  by (induction n arbitrary: tried w) (simp_all add: split_def Let_def)

definition counted :: "(PreflightTrialEvidence \<Rightarrow> bool) \<Rightarrow> PreflightTrialEvidence list \<Rightarrow> nat" where
  "counted P es = length (filter P es)"

lemma counted_simps [simp]:
  "counted P [] = 0"
  "counted P (e # es) = (if P e then Suc (counted P es) else counted P es)"
  by (simp_all add: counted_def)

lemma verified_overlaps:
  "verified_store_wake (fst (preflight_trial hw a r th w)) \<Longrightarrow>
     helper_overlapped (fst (preflight_trial hw a r th w))"
  by (simp add: preflight_trial_def classify_preflight_trial_def Let_def split_def)

lemma store_trials_spec:
  assumes "store_trials e hw th d n a v ov w = (Finished (a', v', ov'), w')"
    and "v < PREFLIGHT_REQUIRED_STORE_OBSERVATIONS"
  shows "\<exists>k \<le> n. a' = a + k \<and>
     v' = v + counted verified_store_wake (take k (trial_log e hw th d n a w)) \<and>
     ov' = ov + counted helper_overlapped (take k (trial_log e hw th d n a w)) \<and>
     v' \<le> PREFLIGHT_REQUIRED_STORE_OBSERVATIONS \<and>
     (v' < PREFLIGHT_REQUIRED_STORE_OBSERVATIONS \<longrightarrow> k = n)"
  using assms
proof (induction n arbitrary: a v ov w)
  case 0
  then show ?case
    by simp
next
  case (Suc n)
  obtain ev u where trial: "preflight_trial hw (alloc e (a + 1)) (received e (a + 1) d) th w = (ev, u)"
    by (cases "preflight_trial hw (alloc e (a + 1)) (received e (a + 1) d) th w")
  let ?ov = "if helper_overlapped ev then ov + 1 else ov"
  let ?v = "if verified_store_wake ev then v + 1 else v"
  consider (stop) "PREFLIGHT_REQUIRED_STORE_OBSERVATIONS \<le> ?v" "a' = a + 1" "v' = ?v" "ov' = ?ov"
    | (more) "?v < PREFLIGHT_REQUIRED_STORE_OBSERVATIONS"
        "store_trials e hw th d n (a + 1) ?v ?ov u = (Finished (a', v', ov'), w')"
    using Suc.prems trial by (auto simp: Let_def split: if_splits)
  then show ?case
  proof cases
    case stop
    then show ?thesis
      using Suc.prems(2) trial by (intro exI [of _ 1]) (auto split: if_splits)
  next
    case more
    obtain k where "k \<le> n" "a' = a + 1 + k"
      "v' = ?v + counted verified_store_wake (take k (trial_log e hw th d n (a + 1) u))"
      "ov' = ?ov + counted helper_overlapped (take k (trial_log e hw th d n (a + 1) u))"
      "v' \<le> PREFLIGHT_REQUIRED_STORE_OBSERVATIONS"
      "v' < PREFLIGHT_REQUIRED_STORE_OBSERVATIONS \<longrightarrow> k = n"
      using Suc.IH [OF more(2,1)] by blast
    moreover have "trial_log e hw th d (Suc n) a w = ev # trial_log e hw th d n (a + 1) u"
      using trial by simp
    ultimately show ?thesis
      by (intro exI [of _ "Suc k"] conjI) (simp_all only: take_Suc_Cons counted_simps, simp_all)
  qed
qed

text \<open>The baseline, the threshold and the state in which the trials start.\<close>

definition probe_baseline :: "probe_env \<Rightarrow> HardwareConfig \<Rightarrow> u32 world \<Rightarrow> duration" where
  "probe_baseline e hw w =
     sort (fst (measure_baselines PREFLIGHT_BASELINE_ATTEMPTS hw (new_target (alloc e 0) w))) ! 2"

definition probe_trials :: "probe_env \<Rightarrow> HardwareConfig \<Rightarrow> u32 world \<Rightarrow> PreflightTrialEvidence list" where
  "probe_trials e hw w =
     trial_log e hw (duration_saturating_mul (probe_baseline e hw w) 3 div 4)
       (min (max (probe_baseline e hw w div 16) (from_micros 1)) (from_micros 20))
       PREFLIGHT_STORE_ATTEMPTS 0
       (snd (measure_baselines PREFLIGHT_BASELINE_ATTEMPTS hw (new_target (alloc e 0) w)))"

lemma length_measure_baselines [simp]: "length (fst (measure_baselines n hw w)) = n"
  by (induction n arbitrary: w) (simp_all add: split_def Let_def)

lemma functional_preflight_result:
  assumes "functional_preflight e hw w = (Finished r, w')"
  shows "probe_baseline e hw w < PREFLIGHT_MIN_BLOCK \<and>
       r = Inl (PreflightFailed (backend hw) WaitDidNotBlock) \<or>
     PREFLIGHT_MIN_BLOCK \<le> probe_baseline e hw w \<and>
       (\<exists>k \<le> PREFLIGHT_STORE_ATTEMPTS.
          let es = take k (probe_trials e hw w);
              v = counted verified_store_wake es
          in r = conclude_preflight (backend hw) k v (counted helper_overlapped es)
                   (probe_baseline e hw w)
             \<and> v \<le> PREFLIGHT_REQUIRED_STORE_OBSERVATIONS
             \<and> (v < PREFLIGHT_REQUIRED_STORE_OBSERVATIONS \<longrightarrow> k = PREFLIGHT_STORE_ATTEMPTS))"
proof -
  let ?m = "measure_baselines PREFLIGHT_BASELINE_ATTEMPTS hw (new_target (alloc e 0) w)"
  let ?b = "probe_baseline e hw w"
  let ?th = "duration_saturating_mul ?b 3 div 4"
  let ?d = "min (max (?b div 16) (from_micros 1)) (from_micros 20)"
  have mid: "length (sort (fst ?m)) div 2 = 2"
    by (simp add: PREFLIGHT_BASELINE_ATTEMPTS_def)
  show ?thesis
  proof (cases "?b < PREFLIGHT_MIN_BLOCK")
    case True
    then show ?thesis
      using assms
      by (simp add: functional_preflight_def Let_def split_def mid probe_baseline_def [symmetric]
          del: length_sort)
  next
    case False
    obtain q u where run: "store_trials e hw ?th ?d PREFLIGHT_STORE_ATTEMPTS 0 0 0 (snd ?m) = (q, u)"
      by (cases "store_trials e hw ?th ?d PREFLIGHT_STORE_ATTEMPTS 0 0 0 (snd ?m)")
    then obtain a v ov where q: "q = Finished (a, v, ov)" and r: "r = conclude_preflight (backend hw) a v ov ?b"
      using assms False
      by (auto simp: functional_preflight_def Let_def split_def mid probe_baseline_def [symmetric]
          simp del: length_sort split: unwound.splits)
    have "0 < PREFLIGHT_REQUIRED_STORE_OBSERVATIONS"
      by (simp add: PREFLIGHT_REQUIRED_STORE_OBSERVATIONS_def)
    from store_trials_spec [OF run [unfolded q] this, folded probe_trials_def]
    obtain k where "k \<le> PREFLIGHT_STORE_ATTEMPTS" "a = 0 + k"
      "v = 0 + counted verified_store_wake (take k (probe_trials e hw w))"
      "ov = 0 + counted helper_overlapped (take k (probe_trials e hw w))"
      "v \<le> PREFLIGHT_REQUIRED_STORE_OBSERVATIONS"
      "v < PREFLIGHT_REQUIRED_STORE_OBSERVATIONS \<longrightarrow> k = PREFLIGHT_STORE_ATTEMPTS"
      by (elim exE conjE) (rule that)
    then show ?thesis
      using False unfolding r Let_def by (intro disjI2 conjI exI [of _ k]) (simp_all only: not_less add_0)
  qed
qed

section \<open>One probing wait\<close>

text \<open>A stretch of accesses with at most \<open>n\<close> blocking operations, every sleep guarded.\<close>

definition stretch :: "nat \<Rightarrow> 'v \<Rightarrow> 'v world \<Rightarrow> 'v world \<Rightarrow> bool" where
  "stretch n e w w' \<longleftrightarrow> follows w w' \<and> blocks w w' \<le> n \<and> sleeps_guarded e w w'"

lemma stretch_trans:
  assumes "stretch m e u v" and "stretch n e v w" and "m + n \<le> k"
  shows "stretch k e u w"
proof -
  from assms have f: "follows u v" "follows v w"
    by (simp_all add: stretch_def)
  with assms show ?thesis
    using blocks_compose [OF f] follows_trans [OF f] sleeps_guarded_compose [OF f]
    by (simp add: stretch_def)
qed

lemma follows_handoff: "follows w (handoff_store w)"
  by (simp add: handoff_store_def follows_def)

lemma new_accesses_handoff: "new_accesses w (handoff_store w) = [AHandoff]"
  by (rule new_accesses_cons) (simp add: handoff_store_def)

lemma stretch_accesses:
  "stretch 0 e w (snd (load_acquire w))"
  "stretch 0 e w (exec_monitor a w)"
  "stretch 0 e w (handoff_store w)"
  "stretch 0 e w (snd (exec_rdtscp w))"
  "guarded e w \<Longrightarrow> stretch 1 e w (exec_sleep x w)"
  by (simp_all add: stretch_def atomic.load_follows follows_accesses follows_handoff
      sleeps_guarded_sleep)
    (simp add: blocks_def sleeps_guarded_def new_accesses_handoff)

lemma guarded_load: "guarded e w \<Longrightarrow> guarded e (snd (load_acquire w))"
  by (drule guarded_tick) (simp add: guarded_def load_acquire_def Let_def)

lemma guarded_handoff: "guarded e w \<Longrightarrow> guarded e (handoff_store w)"
  by (drule guarded_tick) (simp add: guarded_def handoff_store_def)

text \<open>The common shape of the two backends: arm, recheck, hand off, recheck, sleep.\<close>

lemma preflight_path:
  assumes sl: "\<And>u. guarded 0 u \<Longrightarrow> stretch 1 0 u (sl u)"
    and r: "r = (let w1 = exec_monitor (addr w) w; (v, w2) = load_acquire w1
       in if v \<noteq> 0 then (v, w2)
          else let w3 = handoff_store w2; (v, w4) = load_acquire w3
               in if v \<noteq> 0 then (v, w4) else load_acquire (sl w4))"
  shows "stretch 1 0 w (snd r) \<and> observed (fst r) (snd r)"
proof -
  let ?a = "exec_monitor (addr w) w"
  let ?b = "snd (load_acquire ?a)"
  let ?c = "handoff_store ?b"
  let ?d = "snd (load_acquire ?c)"
  have s2: "stretch 0 0 w ?b"
    by (rule stretch_trans [OF stretch_accesses(2) stretch_accesses(1)]) simp
  have s4: "stretch 0 0 w ?d"
    by (rule stretch_trans [OF s2 stretch_trans [OF stretch_accesses(3) stretch_accesses(1)]]) simp_all
  have "stretch 1 0 w (snd (load_acquire (sl ?d)))" if "fst (load_acquire ?a) = 0"
  proof -
    have "guarded 0 ?d"
      by (intro guarded_load guarded_handoff guarded_recheck that)
    from stretch_trans [OF sl [OF this] stretch_accesses(1), of 1]
    have "stretch 1 0 ?d (snd (load_acquire (sl ?d)))"
      by simp
    from stretch_trans [OF s4 this, of 1] show ?thesis
      by simp
  qed
  moreover have "stretch 1 0 w ?b" "stretch 1 0 w ?d"
    using s2 s4 by (simp_all add: stretch_def)
  ultimately show ?thesis
    unfolding r by (simp add: Let_def split_def atomic.load_observes)
qed

lemma stretch_mwaitx: "guarded e w \<Longrightarrow> stretch 1 e w (mwaitx t h w)"
  unfolding mwaitx_def exec_mwaitx_def by (rule stretch_accesses)

lemma stretch_umwait: "guarded e w \<Longrightarrow> stretch 1 e w (umwait_c01 t (snd (umwait_deadline c w)))"
  unfolding snd_umwait_deadline umwait_c01_def exec_umwait_def Let_def split_def
  by (rule stretch_trans [OF stretch_accesses(4) stretch_accesses(5) [OF guarded_rdtscp]]) simp_all

lemma preflight_wait_once_ok:
  assumes "preflight_wait_once hw w = (v, w')"
  shows "stretch 1 0 w w' \<and> observed v w'"
proof (cases "fst (load_acquire w) = 0")
  case False
  then show ?thesis
    using assms stretch_accesses(1) [of 0 w] atomic.load_observes [of w]
    by (auto simp: preflight_wait_once_def Let_def split_def stretch_def)
next
  case True
  let ?u = "snd (load_acquire w)"
  have "stretch 1 0 ?u w' \<and> observed v w'"
  proof (cases hw)
    case (Amd c)
    have "stretch 1 0 ?u (snd (v, w')) \<and> observed (fst (v, w')) (snd (v, w'))"
      by (rule preflight_path [where sl = "mwaitx (amd_safety_timeout_cycles c) NO_C_STATE_HINT",
            OF stretch_mwaitx])
        (use True Amd in \<open>simp_all add: assms [symmetric] preflight_wait_once_def monitored_address_def
           monitorx_def Let_def split_def\<close>)
    then show ?thesis
      by simp
  next
    case (Intel c)
    have "stretch 1 0 ?u (snd (v, w')) \<and> observed (fst (v, w')) (snd (v, w'))"
      by (rule preflight_path [where sl = "\<lambda>u. umwait_c01
            (fst (umwait_deadline (intel_safety_timeout_cycles c) u))
            (snd (umwait_deadline (intel_safety_timeout_cycles c) u))", OF stretch_umwait])
        (use True Intel in \<open>simp_all add: assms [symmetric] preflight_wait_once_def monitored_address_def
           umonitor_def Let_def split_def\<close>)
    then show ?thesis
      by simp
  qed
  then show ?thesis
    using stretch_trans [OF stretch_accesses(1), where n = 1 and k = 1] by auto
qed

section \<open>The helper thread\<close>

text \<open>
  Along a clock that never goes back and passes every instant, the helper always sends an
  answer; when it publishes, it has seen the handoff and waited out its delay.
\<close>

lemma helper_await_result:
  assumes "helper_await handoff now deadline k = Some (got, j)"
  shows "k \<le> j \<and> (if got then handoff j else deadline \<le> now j)"
proof -
  have "k \<le> snd (got, j) \<and> (if fst (got, j) then handoff (snd (got, j)) else deadline \<le> now (snd (got, j)))"
    by (rule helper_await.raw_induct [where P = "\<lambda>handoff now deadline k r.
        k \<le> snd r \<and> (if fst r then handoff (snd r) else deadline \<le> now (snd r))", OF _ assms])
      (fastforce split: if_splits)
  then show ?thesis
    by (auto split: if_splits)
qed

lemma helper_await_returns:
  assumes "deadline \<le> now n"
  shows "k \<le> n \<Longrightarrow> \<exists>got j. helper_await handoff now deadline k = Some (got, j)"
proof (induction "n - k" arbitrary: k)
  case 0
  with assms show ?case
    by (subst helper_await.simps) auto
next
  case (Suc d)
  show ?case
  proof (cases "k = n")
    case True
    with assms show ?thesis
      by (subst helper_await.simps) auto
  next
    case False
    with Suc have "\<exists>got j. helper_await handoff now deadline (Suc k) = Some (got, j)"
      by (intro Suc.hyps(1)) auto
    then show ?thesis
      by (subst helper_await.simps) auto
  qed
qed

lemma helper_delay_result:
  assumes "helper_delay now t delay k = Some j"
  shows "k \<le> j \<and> delay \<le> now j - t"
  by (rule helper_delay.raw_induct [where P = "\<lambda>now t delay k j. k \<le> j \<and> delay \<le> now j - t", OF _ assms])
    (fastforce split: if_splits)

lemma helper_delay_returns:
  assumes "delay \<le> now n - t"
  shows "k \<le> n \<Longrightarrow> \<exists>j. helper_delay now t delay k = Some j"
proof (induction "n - k" arbitrary: k)
  case 0
  with assms show ?case
    by (subst helper_delay.simps) auto
next
  case (Suc d)
  show ?case
  proof (cases "k = n")
    case True
    with assms show ?thesis
      by (subst helper_delay.simps) auto
  next
    case False
    with Suc have "\<exists>j. helper_delay now t delay (Suc k) = Some j"
      by (intro Suc.hyps(1)) auto
    then show ?thesis
      by (subst helper_delay.simps) auto
  qed
qed

lemma clock_passes:
  fixes now :: "nat \<Rightarrow> instant"
  assumes "mono now" and "\<forall>T. \<exists>k. T \<le> now k"
  shows "\<exists>n\<ge>k. T \<le> now n"
proof -
  obtain m where "T \<le> now m"
    using assms(2) by blast
  moreover have "now m \<le> now (max k m)"
    using assms(1) by (simp add: monoD)
  ultimately show ?thesis
    by (intro exI [of _ "max k m"]) simp
qed

section \<open>The gate's invariant\<close>

text \<open>
  A configuration is supported by a processor when every feature its instructions need is
  reported by CPUID, and its budgets come from a calibrated frequency.
\<close>

fun config_supported :: "cpuid \<Rightarrow> HardwareConfig \<Rightarrow> bool" where
  "config_supported cpuid (Amd c) \<longleftrightarrow>
     (let d = detect_capabilities cpuid
      in amd_vendor d \<and> \<not> intel_vendor d \<and> monitorx_mwaitx d \<and> invariant_tsc d \<and> rdtscp d)
     \<and> c = AmdConfig_new (amd_timer_hz c)"
| "config_supported cpuid (Intel c) \<longleftrightarrow>
     (let d = detect_capabilities cpuid
      in intel_vendor d \<and> \<not> amd_vendor d \<and> waitpkg d \<and> invariant_tsc d \<and> rdtscp d)
     \<and> c = IntelConfig_new (intel_timer_hz c)"

definition prepared_ok :: "cpuid \<Rightarrow> (int \<Rightarrow> int \<Rightarrow> int \<times> int) \<Rightarrow> PreparedHardwareWait \<Rightarrow> bool" where
  "prepared_ok cpuid prctl p \<longleftrightarrow>
     config_supported cpuid (prepared_config p) \<and> userspace_tsc_is_enabled prctl \<and>
     report_backend (report p) = backend (prepared_config p) \<and>
     verified_store_wakes (report p) = PREFLIGHT_REQUIRED_STORE_OBSERVATIONS \<and>
     verified_store_wakes (report p) \<le> attempts (report p) \<and>
     attempts (report p) \<le> PREFLIGHT_STORE_ATTEMPTS \<and>
     PREFLIGHT_MIN_BLOCK \<le> baseline_wait (report p)"

definition gate_inv :: "process \<Rightarrow> bool" where
  "gate_inv p \<longleftrightarrow>
     (\<forall>c. CAPABILITIES p = Some c \<longrightarrow> c = detect_capabilities (proc_cpuid p)) \<and>
     (\<forall>prepared. HARDWARE_PREFLIGHT p = Some (Inr prepared) \<longrightarrow>
        prepared_ok (proc_cpuid p) (proc_prctl p) prepared)"

lemma counted_le: "counted P es \<le> length es"
  by (simp add: counted_def)

lemma functional_preflight_ok:
  assumes "functional_preflight e hw w = (Finished (Inr rep), w')"
  shows "report_backend rep = backend hw"
    and "verified_store_wakes rep = PREFLIGHT_REQUIRED_STORE_OBSERVATIONS"
    and "verified_store_wakes rep \<le> attempts rep"
    and "attempts rep \<le> PREFLIGHT_STORE_ATTEMPTS"
    and "PREFLIGHT_MIN_BLOCK \<le> baseline_wait rep"
    and "baseline_wait rep = probe_baseline e hw w"
    and "counted verified_store_wake (take (attempts rep) (probe_trials e hw w)) =
      verified_store_wakes rep"
proof -
  from functional_preflight_result [OF assms] obtain k
    where "PREFLIGHT_MIN_BLOCK \<le> probe_baseline e hw w" and k: "k \<le> PREFLIGHT_STORE_ATTEMPTS"
      and r: "Inr rep = conclude_preflight (backend hw) k
        (counted verified_store_wake (take k (probe_trials e hw w)))
        (counted helper_overlapped (take k (probe_trials e hw w))) (probe_baseline e hw w)"
      and "counted verified_store_wake (take k (probe_trials e hw w)) \<le>
        PREFLIGHT_REQUIRED_STORE_OBSERVATIONS"
    by (auto simp: Let_def)
  then show "report_backend rep = backend hw"
    "verified_store_wakes rep = PREFLIGHT_REQUIRED_STORE_OBSERVATIONS"
    "attempts rep \<le> PREFLIGHT_STORE_ATTEMPTS" "PREFLIGHT_MIN_BLOCK \<le> baseline_wait rep"
    "baseline_wait rep = probe_baseline e hw w"
    "counted verified_store_wake (take (attempts rep) (probe_trials e hw w)) =
      verified_store_wakes rep"
    by (auto simp: conclude_preflight_def split: if_splits)
  show "verified_store_wakes rep \<le> attempts rep"
    using r counted_le [of verified_store_wake "take k (probe_trials e hw w)"]
    by (auto simp: conclude_preflight_def split: if_splits)
qed

abbreviation gate_prepare :: "process \<Rightarrow> u32 world \<Rightarrow> ((HardwareConfig, HardwareWaitError) result \<times> u32 world) option" where
  "gate_prepare p \<equiv>
     prepare_hardware_config (detect_capabilities (proc_cpuid p))
       (userspace_tsc_is_enabled (proc_prctl p)) (amd_calibrate_timer_hz (proc_cpuid p))
       (intel_calibrate_timer_hz (proc_cpuid p))"

lemma run_hardware_preflight_eq:
  assumes "gate_inv p"
  shows "run_hardware_preflight p =
     map_option (\<lambda>(r, w). (r, p\<lparr>CAPABILITIES := Some (detect_capabilities (proc_cpuid p)),
         proc_thread := w\<rparr>))
       (prepare_and_probe_hardware_wait (gate_prepare p) (functional_preflight (proc_probe p))
          (proc_thread p))"
proof -
  have "process_capabilities p = Some (detect_capabilities (proc_cpuid p),
      p\<lparr>CAPABILITIES := Some (detect_capabilities (proc_cpuid p))\<rparr>)"
    using assms by (cases "CAPABILITIES p")
      (auto simp: process_capabilities_def capabilities_value gate_inv_def)
  then show ?thesis
    by (simp add: run_hardware_preflight_def)
qed

lemma gate_prepare_supported:
  assumes "gate_prepare p w = Some (Inr hw, w')"
  shows "config_supported (proc_cpuid p) hw \<and> userspace_tsc_is_enabled (proc_prctl p)"
proof -
  note ok = prepare_ok [OF assms]
  show ?thesis
  proof (cases hw)
    case (Amd c)
    with ok show ?thesis
      by (auto simp: select_backend_AmdMwaitx AmdConfig_new_def Let_def)
  next
    case (Intel c)
    with ok show ?thesis
      by (auto simp: select_backend_IntelUmwait IntelConfig_new_def Let_def)
  qed
qed

lemma prepare_and_probe_ok:
  assumes "prepare_and_probe_hardware_wait prepare probe s = Some (Finished (Inr prepared), s')"
  shows "\<exists>u. prepare s = Some (Inr (prepared_config prepared), u) \<and>
     probe (prepared_config prepared) u = (Finished (Inr (report prepared)), s')"
proof -
  obtain c u where c: "prepare s = Some (c, u)"
    using assms by (cases "prepare s") (auto simp: prepare_and_probe_hardware_wait_def)
  with assms obtain hw where hw: "c = Inr hw"
    by (cases c) (auto simp: prepare_and_probe_hardware_wait_def)
  obtain q v where q: "probe hw u = (q, v)"
    by (cases "probe hw u")
  with assms c hw obtain r where "q = Finished r"
    by (cases q) (auto simp: prepare_and_probe_hardware_wait_def)
  with assms c hw q show ?thesis
    by (cases r) (auto simp: prepare_and_probe_hardware_wait_def)
qed

lemma run_hardware_preflight_ok:
  assumes "gate_inv p" and "run_hardware_preflight p = Some (Finished (Inr prepared), q)"
  shows "prepared_ok (proc_cpuid p) (proc_prctl p) prepared"
proof -
  obtain w' where "prepare_and_probe_hardware_wait (gate_prepare p)
      (functional_preflight (proc_probe p)) (proc_thread p) = Some (Finished (Inr prepared), w')"
    using assms(2) unfolding run_hardware_preflight_eq [OF assms(1)] by auto
  from prepare_and_probe_ok [OF this] obtain w
    where "gate_prepare p (proc_thread p) = Some (Inr (prepared_config prepared), w)"
      and probe: "functional_preflight (proc_probe p) (prepared_config prepared) w =
        (Finished (Inr (report prepared)), w')"
    by blast
  with gate_prepare_supported functional_preflight_ok [OF probe] show ?thesis
    by (auto simp: prepared_ok_def)
qed

lemma preflight_cached:
  "HARDWARE_PREFLIGHT p = Some r \<Longrightarrow>
     HardwareWait_preflight p = Some (and_then r (\<lambda>prepared. Inr (report prepared)), p)"
  by (simp add: HardwareWait_preflight_def initialize_once_def)

lemma preflight_first:
  "HARDWARE_PREFLIGHT p = None \<Longrightarrow>
     HardwareWait_preflight p =
       map_option (\<lambda>(r, q). let r = unwrap_or (catch_unwind r) (Inl PreflightPanicked)
           in (and_then r (\<lambda>prepared. Inr (report prepared)), q\<lparr>HARDWARE_PREFLIGHT := Some r\<rparr>))
         (run_hardware_preflight p)"
  by (simp add: HardwareWait_preflight_def initialize_once_def get_or_init_empty option.map_comp
      comp_def split_def Let_def)

lemma preflight_keeps_inv:
  assumes "gate_inv p" and "HardwareWait_preflight p = Some (r, q)"
  shows "gate_inv q" "proc_cpuid q = proc_cpuid p"
proof -
  have "gate_inv q \<and> proc_cpuid q = proc_cpuid p"
  proof (cases "HARDWARE_PREFLIGHT p")
    case (Some v)
    with assms show ?thesis
      by (simp add: preflight_cached)
  next
    case None
    with assms(2) obtain o' q' where run: "run_hardware_preflight p = Some (o', q')"
      and q: "q = q'\<lparr>HARDWARE_PREFLIGHT := Some (unwrap_or (catch_unwind o') (Inl PreflightPanicked))\<rparr>"
      by (auto simp: preflight_first Let_def)
    have frame: "CAPABILITIES q' = Some (detect_capabilities (proc_cpuid p))"
      "proc_cpuid q' = proc_cpuid p" "proc_prctl q' = proc_prctl p"
      using run unfolding run_hardware_preflight_eq [OF assms(1)] by auto
    have "prepared_ok (proc_cpuid p) (proc_prctl p) prepared"
      if "unwrap_or (catch_unwind o') (Inl PreflightPanicked) = Inr prepared" for prepared
      using that run run_hardware_preflight_ok [OF assms(1)]
      by (cases o') (auto simp: unwrap_or_def)
    with q frame show ?thesis
      by (simp add: gate_inv_def)
  qed
  then show "gate_inv q" "proc_cpuid q = proc_cpuid p"
    by blast+
qed

lemma preflight_fills:
  assumes "HardwareWait_preflight p = Some (r, q)"
  shows "\<exists>v. HARDWARE_PREFLIGHT q = Some v \<and> r = and_then v (\<lambda>prepared. Inr (report prepared))"
proof (cases "HARDWARE_PREFLIGHT p")
  case None
  with assms show ?thesis
    by (auto simp: preflight_first Let_def)
next
  case (Some v)
  with assms show ?thesis
    by (auto simp: preflight_cached)
qed

lemma gate_prepare_returns:
  assumes "progresses w"
  shows "\<exists>r w'. gate_prepare p w = Some (r, w')"
  using amd_calibrate_returns [OF assms, of "proc_cpuid p"]
    intel_calibrate_returns [OF assms, of "proc_cpuid p"]
  by (auto simp: prepare_hardware_config_def split: sum.split HardwareBackend.split)

lemma preflight_returns_lemma:
  assumes "gate_inv p" and "progresses (proc_thread p)"
  shows "\<exists>r q. HardwareWait_preflight p = Some (r, q)"
proof (cases "HARDWARE_PREFLIGHT p")
  case None
  obtain r w where "gate_prepare p (proc_thread p) = Some (r, w)"
    using gate_prepare_returns [OF assms(2)] by blast
  then have "\<exists>o' w'. prepare_and_probe_hardware_wait (gate_prepare p)
      (functional_preflight (proc_probe p)) (proc_thread p) = Some (o', w')"
    by (auto simp: prepare_and_probe_hardware_wait_def split: sum.split prod.split unwound.split)
  then show ?thesis
    using None by (auto simp: preflight_first run_hardware_preflight_eq [OF assms(1)] Let_def)
qed (simp add: preflight_cached)

lemma preflight_success_slot:
  assumes "HardwareWait_preflight p = Some (Inr rep, q)"
  shows "\<exists>prepared. HARDWARE_PREFLIGHT q = Some (Inr prepared) \<and> rep = report prepared"
proof -
  obtain v where "HARDWARE_PREFLIGHT q = Some v" "Inr rep = and_then v (\<lambda>prepared. Inr (report prepared))"
    using preflight_fills [OF assms] by blast
  then show ?thesis
    by (cases v) simp_all
qed

section \<open>Properties of the gate\<close>

text \<open>
  The witnesses use a processor that identifies itself as AMD with every needed feature, once
  before any preflight with RDTSC disabled for the process, and once after a successful one.
\<close>

definition demo_cpuid :: cpuid where
  "demo_cpuid leaf sub =
     (if leaf = 0 then \<lparr>eax = 13, ebx = AMD_VENDOR_EBX, ecx = AMD_VENDOR_ECX, edx = AMD_VENDOR_EDX\<rparr>
      else if leaf = EXTENDED_CPUID_BASE then \<lparr>eax = EXTENDED_CPUID_BASE + 8, ebx = 0, ecx = 0, edx = 0\<rparr>
      else if leaf = EXTENDED_FEATURES_LEAF then \<lparr>eax = 0, ebx = 0, ecx = 0x20000000, edx = 0x08000000\<rparr>
      else if leaf = INVARIANT_TSC_LEAF then \<lparr>eax = 0, ebx = 0, ecx = 0, edx = 0x100\<rparr>
      else \<lparr>eax = 0, ebx = 0, ecx = 0, edx = 0\<rparr>)"

definition demo_process :: process where
  "demo_process =
     \<lparr>proc_cpuid = demo_cpuid, proc_prctl = (\<lambda>_ _. (0, 2)),
      proc_probe = \<lparr>alloc = (\<lambda>i. 0x1000), spawned = (\<lambda>_. True), received = (\<lambda>_ _. None)\<rparr>,
      CAPABILITIES = None, HARDWARE_PREFLIGHT = None,
      proc_thread = start_world (\<lambda>_. [EAdvance 2000000 8000000]) 0\<rparr>"

definition demo_prepared :: PreparedHardwareWait where
  "demo_prepared = \<lparr>prepared_config = Amd (AmdConfig_new 1600000000),
     report = \<lparr>report_backend = AmdMwaitx, attempts = 3, verified_store_wakes = 2,
       baseline_wait = 12000\<rparr>\<rparr>"

definition demo_passed :: process where
  "demo_passed = demo_process\<lparr>proc_prctl := (\<lambda>_ _. (0, 1)),
     HARDWARE_PREFLIGHT := Some (Inr demo_prepared)\<rparr>"

lemma demo_bits: "bit (0x20000000 :: u32) 29" "bit (0x08000000 :: u32) 27" "bit (0x100 :: u32) 8"
  by code_simp+

lemma demo_detect:
  "detect_capabilities demo_cpuid =
     \<lparr>supported_target = True, amd_vendor = True, intel_vendor = False, monitorx_mwaitx = True,
      waitpkg = False, invariant_tsc = True, rdtscp = True\<rparr>"
  by (rule Capabilities.Capabilities.equality)
    (simp_all add: detect_vendors detect_features demo_cpuid_def amd_constants AMD_VENDOR_EBX_def
      INTEL_VENDOR_EBX_def WAITPKG_LEAF_def demo_bits)

lemma demo_passed_inv: "gate_inv demo_passed"
  by (simp add: gate_inv_def demo_passed_def demo_process_def demo_prepared_def prepared_ok_def
      demo_detect AmdConfig_new_def userspace_tsc_is_enabled_def PR_TSC_ENABLE_def
      PREFLIGHT_REQUIRED_STORE_OBSERVATIONS_def PREFLIGHT_STORE_ATTEMPTS_def
      PREFLIGHT_MIN_BLOCK_def from_micros_def)

lemma demo_process_inv: "gate_inv demo_process"
  by (simp add: gate_inv_def demo_process_def)

text \<open>C15: the hardware gate fails closed. When preflight reports success, the constructor yields
  a strategy whose backend is the one reported and whose instructions the processor supports:
  the vendor, the wait instruction, the invariant counter and RDTSCP were all reported by
  CPUID, RDTSC is enabled, at least two and at most sixteen store trials were made, exactly
  two of them verified, and the median wait without a store was at least a microsecond.\<close>

theorem preflight_success_supported:
  assumes "gate_inv p" and "HardwareWait_preflight p = Some (Inr rep, q)"
  shows "\<exists>h. HardwareWait_new q = Inr h \<and> config_supported (proc_cpuid p) (config h)
     \<and> HardwareWait_backend h = report_backend rep \<and> verified_store_wakes rep = 2
     \<and> 2 \<le> attempts rep \<and> attempts rep \<le> 16 \<and> 1000 \<le> baseline_wait rep"
proof -
  obtain prepared where slot: "HARDWARE_PREFLIGHT q = Some (Inr prepared)" and rep: "rep = report prepared"
    using preflight_success_slot [OF assms(2)] by blast
  have "prepared_ok (proc_cpuid p) (proc_prctl q) prepared"
    using preflight_keeps_inv [OF assms] slot by (simp add: gate_inv_def)
  with slot rep show ?thesis
    by (auto simp: prepared_ok_def HardwareWait_new_def HardwareWait_backend_def from_micros_def
        PREFLIGHT_REQUIRED_STORE_OBSERVATIONS_def PREFLIGHT_STORE_ATTEMPTS_def PREFLIGHT_MIN_BLOCK_def)
qed

theorem preflight_success_supported_witness:
  "\<exists>h. HardwareWait_new demo_passed = Inr h \<and> config_supported demo_cpuid (config h)
     \<and> HardwareWait_backend h = AmdMwaitx"
proof -
  have "HardwareWait_preflight demo_passed = Some (Inr (report demo_prepared), demo_passed)"
    by (simp add: preflight_cached demo_passed_def)
  from preflight_success_supported [OF demo_passed_inv this] show ?thesis
    by (auto simp: demo_passed_def demo_process_def demo_prepared_def)
qed


lemma demo_refused:
  "\<exists>q. HardwareWait_preflight demo_process = Some (Inl (unsupported TscAccessDisabled), q)"
proof -
  have "gate_prepare demo_process (proc_thread demo_process) =
      Some (Inl (unsupported TscAccessDisabled), proc_thread demo_process)"
    by (simp add: prepare_hardware_config_def demo_process_def demo_detect select_backend_def
        require_shared_timer_capabilities_def userspace_tsc_is_enabled_def PR_TSC_ENABLE_def)
  moreover have "HARDWARE_PREFLIGHT demo_process = None"
    by (simp add: demo_process_def)
  ultimately show ?thesis
    by (simp add: preflight_first run_hardware_preflight_eq [OF demo_process_inv]
        prepare_and_probe_hardware_wait_def unwrap_or_def Let_def)
qed




text \<open>C23: the functional probe classifies honestly. \<open>WaitDidNotBlock\<close> means the median wait
  without a store was below a microsecond; \<open>Inconclusive\<close> that all sixteen trials ran and no
  helper overlapped any of them; \<open>StoreWakeNotObserved\<close> that all sixteen ran, some
  overlapped and fewer than two were verified; success that exactly two of the reported
  number of trials were verified. No other error comes out of the probe.\<close>

theorem functional_preflight_classifies:
  assumes "functional_preflight e hw w = (Finished r, w')"
  shows "case r of
       Inl err \<Rightarrow> \<exists>reason. err = PreflightFailed (backend hw) reason \<and>
         (case reason of
            WaitDidNotBlock \<Rightarrow> probe_baseline e hw w < PREFLIGHT_MIN_BLOCK
          | Inconclusive \<Rightarrow> counted helper_overlapped (probe_trials e hw w) = 0
          | StoreWakeNotObserved \<Rightarrow> 0 < counted helper_overlapped (probe_trials e hw w)
              \<and> counted verified_store_wake (probe_trials e hw w) < 2)
     | Inr rep \<Rightarrow> PREFLIGHT_MIN_BLOCK \<le> baseline_wait rep \<and> baseline_wait rep = probe_baseline e hw w
         \<and> attempts rep \<le> 16 \<and> verified_store_wakes rep = 2
         \<and> counted verified_store_wake (take (attempts rep) (probe_trials e hw w)) = 2"
proof (cases r)
  case (Inr rep)
  then show ?thesis
    using functional_preflight_ok [of e hw w rep w'] assms
    by (simp add: PREFLIGHT_STORE_ATTEMPTS_def PREFLIGHT_REQUIRED_STORE_OBSERVATIONS_def)
next
  case (Inl err)
  have all: "take PREFLIGHT_STORE_ATTEMPTS (probe_trials e hw w) = probe_trials e hw w"
    by (simp add: probe_trials_def)
  have ov: "counted verified_store_wake es \<le> counted helper_overlapped es"
    if "\<forall>x\<in>set es. verified_store_wake x \<longrightarrow> helper_overlapped x" for es
    using that by (induction es) auto
  have log: "\<forall>x\<in>set (trial_log e hw th d n a u). verified_store_wake x \<longrightarrow> helper_overlapped x"
    for th d n a u
    by (induction n arbitrary: a u) (auto simp: split_def Let_def verified_overlaps)
  from functional_preflight_result [OF assms] show ?thesis
  proof (elim disjE conjE exE)
    fix k
    let ?es = "take k (probe_trials e hw w)"
    assume concl: "let es = ?es; v = counted verified_store_wake es
        in r = conclude_preflight (backend hw) k v (counted helper_overlapped es) (probe_baseline e hw w)
           \<and> v \<le> PREFLIGHT_REQUIRED_STORE_OBSERVATIONS
           \<and> (v < PREFLIGHT_REQUIRED_STORE_OBSERVATIONS \<longrightarrow> k = PREFLIGHT_STORE_ATTEMPTS)"
    have "\<forall>x\<in>set ?es. verified_store_wake x \<longrightarrow> helper_overlapped x"
      using log by (auto simp: probe_trials_def dest: in_set_takeD)
    from ov [OF this] Inl concl have "k = PREFLIGHT_STORE_ATTEMPTS"
      by (auto simp: conclude_preflight_def Let_def PREFLIGHT_REQUIRED_STORE_OBSERVATIONS_def
          split: if_splits)
    with all Inl concl show ?thesis
      by (auto simp: conclude_preflight_def Let_def PREFLIGHT_REQUIRED_STORE_OBSERVATIONS_def
          split: if_splits)
  qed (use Inl in simp)
qed

definition demo_config :: HardwareConfig where
  "demo_config = Amd \<lparr>amd_timer_hz = 8, amd_safety_timeout_cycles = 1\<rparr>"

text \<open>Where nothing happens, no time passes and every baseline wait measures zero.\<close>

lemma still_world:
  assumes "env w = (\<lambda>_. [])" and "follows w w'"
  shows "env w' = (\<lambda>_. []) \<and> clock (sh w') = clock (sh w)"
proof -
  have "fold (\<lambda>k. run_batch []) xs s = s" for xs :: "nat list" and s :: "'a shared"
    by (induction xs) simp_all
  then have "advance (\<lambda>_. []) i j s = s" for i j and s :: "'a shared"
    by (simp add: advance_def)
  with assms show ?thesis
    by (simp add: follows_def)
qed

lemma still_baselines:
  "env w = (\<lambda>_. []) \<Longrightarrow> fst (measure_baselines n hw w) = replicate n 0"
proof (induction n arbitrary: w)
  case (Suc n)
  let ?a = "snd (instant_now w)"
  let ?b = "snd (hardware_wait_untimed hw 0 ?a)"
  let ?c = "snd (instant_now ?b)"
  have "follows ?a ?b"
    unfolding hardware_wait_untimed_def
    using attempt_hardware_wait [of 0 None ?a hw] soundD(1) by (auto simp: attempt_def)
  with follows_now [of w] have ab: "follows w ?b"
    by (rule follows_trans)
  then have wc: "follows w ?c"
    using follows_now by (rule follows_trans)
  have "fst (instant_now w) = clock (sh w)" "fst (instant_now ?b) = clock (sh w)"
    unfolding fst_instant_now
    using still_world [OF Suc.prems follows_now] still_world [OF Suc.prems wc] by blast+
  moreover have "fst (measure_baselines n hw ?c) = replicate n 0"
    using still_world [OF Suc.prems wc] by (intro Suc.IH) blast
  ultimately show ?case
    unfolding measure_baselines.simps Let_def split_def fst_conv by simp
qed simp

lemma still_median: "sort (replicate 5 0) ! 2 = (0 :: duration)"
  by code_simp

theorem functional_preflight_classifies_witness:
  "\<exists>w'. functional_preflight (proc_probe demo_process) demo_config (start_world (\<lambda>_. []) 0)
      = (Finished (Inl (PreflightFailed AmdMwaitx WaitDidNotBlock)), w')
    \<and> probe_baseline (proc_probe demo_process) demo_config (start_world (\<lambda>_. []) 0)
        < PREFLIGHT_MIN_BLOCK"
proof -
  let ?w = "new_target (alloc (proc_probe demo_process) 0) (start_world (\<lambda>_. []) 0)"
  let ?run = "functional_preflight (proc_probe demo_process) demo_config (start_world (\<lambda>_. []) 0)"
  have "fst (measure_baselines 5 demo_config ?w) = replicate 5 0"
    by (rule still_baselines) (simp add: new_target_def start_world_def)
  then have "fst ?run = Finished (Inl (PreflightFailed AmdMwaitx WaitDidNotBlock))"
    by (simp add: functional_preflight_def Let_def split_def PREFLIGHT_BASELINE_ATTEMPTS_def
        PREFLIGHT_MIN_BLOCK_def from_micros_def demo_config_def still_median)
  then have run: "?run = (Finished (Inl (PreflightFailed AmdMwaitx WaitDidNotBlock)), snd ?run)"
    by (metis prod.collapse)
  show ?thesis
    using run functional_preflight_classifies [OF run] by (intro exI [of _ "snd ?run"]) simp
qed

text \<open>C24: one probing wait writes nothing, blocks at most once, and sleeps only with the monitor
  armed on the target and the target still zero, or already triggered; its answer is what its
  last Acquire load observed.\<close>

theorem preflight_wait_once_guarded:
  assumes "preflight_wait_once hw w = (v, w')"
  shows "follows w w' \<and> blocks w w' \<le> 1 \<and> sleeps_guarded 0 w w' \<and> observed v w'"
  using preflight_wait_once_ok [OF assms] by (simp add: stretch_def)

theorem preflight_wait_once_guarded_witness:
  "\<exists>v w'. preflight_wait_once demo_config (start_world (\<lambda>n. if n = 5 then [EStore 1 {}] else []) 0) = (v, w')
     \<and> observed v w'"
  using preflight_wait_once_guarded
    [OF surjective_pairing [of "preflight_wait_once demo_config (start_world (\<lambda>n. if n = 5 then [EStore 1 {}] else []) 0)"]]
  by (metis prod.collapse)

text \<open>C31: the helper thread always answers while the clock advances. When it publishes it has
  seen the handoff, and at least its delay has passed between the handoff and the instant it
  reports, which it reads after its store.\<close>

theorem preflight_helper_answers:
  assumes "mono now" and "\<forall>T. \<exists>k. T \<le> now k"
  shows "\<exists>answer. preflight_helper handoff now delay = Some answer \<and>
     (\<forall>j published. answer = Some (j, published) \<longrightarrow>
        (\<exists>k<j. handoff k \<and> now k + delay \<le> published) \<and> published = now (Suc j))"
proof -
  note passes = clock_passes [OF assms]
  obtain n where "1 \<le> n" "now 0 + PREFLIGHT_HELPER_DEADLINE \<le> now n"
    using passes by blast
  then obtain got k where await:
    "helper_await handoff now (now 0 + PREFLIGHT_HELPER_DEADLINE) 1 = Some (got, k)"
    using helper_await_returns [of "now 0 + PREFLIGHT_HELPER_DEADLINE" now n 1 handoff] by blast
  show ?thesis
  proof (cases got)
    case False
    with await show ?thesis
      by (simp add: preflight_helper_def)
  next
    case True
    obtain m where "Suc (Suc k) \<le> m" "now (Suc k) + delay \<le> now m"
      using passes by blast
    then obtain j where j: "helper_delay now (now (Suc k)) delay (Suc (Suc k)) = Some j"
      using helper_delay_returns [of delay now m "now (Suc k)" "Suc (Suc k)"] by fastforce
    have jk: "Suc (Suc k) \<le> j" "delay \<le> now j - now (Suc k)"
      using helper_delay_result [OF j] by auto
    have "now k \<le> now (Suc k)" "now (Suc k) \<le> now j" "now j \<le> now (Suc j)"
      using jk(1) assms(1) by (auto intro: monoD)
    with jk have "now k + delay \<le> now (Suc j)"
      by linarith
    moreover have "handoff k"
      using helper_await_result [OF await] True by simp
    ultimately show ?thesis
      using await True j jk(1) by (auto simp: preflight_helper_def Let_def intro!: exI [of _ k])
  qed
qed

theorem preflight_helper_answers_witness:
  "\<exists>answer. preflight_helper (\<lambda>k. 3 \<le> k) (\<lambda>k. k * 10) 25 = Some answer"
proof -
  have "mono (\<lambda>k::nat. k * 10)" "\<forall>T. \<exists>k. T \<le> (k::nat) * 10"
    by (auto simp: mono_def) presburger
  then show ?thesis
    using preflight_helper_answers [of "\<lambda>k. k * 10" "\<lambda>k. 3 \<le> k" 25] by blast
qed

text \<open>C30: while time passes, preflight itself always returns.\<close>

theorem preflight_returns:
  assumes "gate_inv p" and "progresses (proc_thread p)"
  shows "\<exists>r q. HardwareWait_preflight p = Some (r, q)"
  using preflight_returns_lemma [OF assms] .

theorem preflight_returns_witness: "\<exists>r q. HardwareWait_preflight demo_process = Some (r, q)"
proof -
  have "progresses (proc_thread demo_process)"
    by (rule steady_progress [of _ 2000000 8000000]) (simp_all add: demo_process_def start_world_def)
  with demo_process_inv show ?thesis
    by (rule preflight_returns)
qed

text \<open>On a target without hardware support the gate always answers \<open>UnsupportedTarget\<close>.\<close>

theorem preflight_unsupported_target:
  "run_hardware_preflight_unsupported None =
     Some (Inl (unsupported UnsupportedTarget), Some detect_capabilities_unsupported)"
  by (simp add: run_hardware_preflight_unsupported_def capabilities_value select_backend_def
      detect_capabilities_unsupported_def default_Capabilities_def)

end
