(* ===== verification/Text.thy ===== *)
theory Text
  imports Prelude "HOL-Library.Sublist"
begin

text \<open>
  What the control tool uses of the Rust standard library's strings and paths. A string is the
  list of its UTF-8 bytes. A path is the list of its components, the first of which is
  \<open>''/''\<close> when the path is absolute, so that equality is the component-wise equality of
  \<open>Path\<close>.
\<close>

section \<open>Numbers\<close>

definition digit :: "nat \<Rightarrow> char" where
  "digit n = char_of (48 + n)"

fun show_nat :: "nat \<Rightarrow> string" where
  "show_nat n = (if n < 10 then [digit n] else show_nat (n div 10) @ [digit (n mod 10)])"

declare show_nat.simps [simp del]

definition show_int :: "int \<Rightarrow> string" where
  "show_int i = (if i < 0 then ''-'' @ show_nat (nat (- i)) else show_nat (nat i))"

definition digit_value :: "char \<Rightarrow> nat option" where
  "digit_value c =
     (let n = of_char c in if 48 \<le> n \<and> n \<le> (57::nat) then Some (n - 48) else None)"

fun parse_digits :: "nat \<Rightarrow> string \<Rightarrow> nat option" where
  "parse_digits n [] = Some n"
| "parse_digits n (c # cs) =
     (case digit_value c of None \<Rightarrow> None | Some d \<Rightarrow> parse_digits (10 * n + d) cs)"

text \<open>\<open>str::parse\<close> at an unsigned type of \<open>w\<close> bits: one leading plus is accepted.\<close>

definition parse_unsigned :: "nat \<Rightarrow> string \<Rightarrow> nat option" where
  "parse_unsigned w s =
     (let t = (if s \<noteq> [] \<and> hd s = CHR ''+'' then tl s else s) in
      if t = [] then None
      else case parse_digits 0 t of None \<Rightarrow> None | Some n \<Rightarrow> if n < 2 ^ w then Some n else None)"

lemma digit_value_digit: "n < 10 \<Longrightarrow> digit_value (digit n) = Some n"
  by (simp add: digit_value_def digit_def Let_def)

lemma digit_not_plus: "n < 10 \<Longrightarrow> digit n \<noteq> CHR ''+''"
proof
  assume "n < 10" and plus: "digit n = CHR ''+''"
  have "digit_value CHR ''+'' = None"
    by (simp add: digit_value_def Let_def)
  with digit_value_digit [OF \<open>n < 10\<close>] plus show False by simp
qed

lemma digits_show_nat: "c \<in> set (show_nat n) \<Longrightarrow> \<exists>d<10. c = digit d"
proof (induction n rule: show_nat.induct)
  case (1 n)
  then show ?case
    using show_nat.simps [of n] by (cases "n < 10") (auto intro: exI [of _ "n mod 10"])
qed

lemma show_nat_plain: "CHR ''/'' \<notin> set (show_nat n)"
proof
  assume "CHR ''/'' \<in> set (show_nat n)"
  then obtain d where "d < 10" "CHR ''/'' = digit d" using digits_show_nat by blast
  then have "digit_value CHR ''/'' = Some d" using digit_value_digit by simp
  then show False by (simp add: digit_value_def Let_def)
qed

lemma parse_digits_append:
  "parse_digits n (s @ t) = Option.bind (parse_digits n s) (\<lambda>m. parse_digits m t)"
  by (induction n s rule: parse_digits.induct) (auto split: option.split)

lemma parse_digits_show: "parse_digits 0 (show_nat n) = Some n"
proof (induction n rule: show_nat.induct)
  case (1 n)
  then show ?case
    by (cases "n < 10")
      (subst show_nat.simps, simp add: digit_value_digit parse_digits_append)+
qed

lemma show_nat_head: "\<exists>d t. d < 10 \<and> show_nat n = digit d # t"
proof (induction n rule: show_nat.induct)
  case (1 n)
  then show ?case
    by (cases "n < 10") (subst show_nat.simps, fastforce)+
qed

lemma parse_show_nat: "n < 2 ^ w \<Longrightarrow> parse_unsigned w (show_nat n) = Some n"
  using show_nat_head [of n] parse_digits_show [of n] digit_not_plus
  by (auto simp: parse_unsigned_def Let_def)

section \<open>UTF-8 and white space\<close>

definition byte_in :: "nat \<Rightarrow> nat \<Rightarrow> char \<Rightarrow> bool" where
  "byte_in a b c = (let n = of_char c in a \<le> n \<and> n \<le> b)"

text \<open>The second byte a leading byte admits, and the number of bytes that follow it.\<close>

definition continuation :: "char \<Rightarrow> (nat \<times> nat \<times> nat) option" where
  "continuation c =
     (if byte_in 194 223 c then Some (128, 191, 0)
      else if byte_in 224 224 c then Some (160, 191, 1)
      else if byte_in 225 236 c \<or> byte_in 238 239 c then Some (128, 191, 1)
      else if byte_in 237 237 c then Some (128, 159, 1)
      else if byte_in 240 240 c then Some (144, 191, 2)
      else if byte_in 241 243 c then Some (128, 191, 2)
      else if byte_in 244 244 c then Some (128, 143, 2)
      else None)"

function valid_utf8 :: "string \<Rightarrow> bool" where
  "valid_utf8 [] = True"
| "valid_utf8 (c # cs) =
     (if byte_in 0 127 c then valid_utf8 cs
      else case (continuation c, cs) of
             (Some (a, b, n), d # ds) \<Rightarrow>
               byte_in a b d \<and> n \<le> length ds \<and> list_all (byte_in 128 191) (take n ds)
                 \<and> valid_utf8 (drop n ds)
           | _ \<Rightarrow> False)"
  by pat_completeness auto
termination
  by (relation "measure length") auto

text \<open>The encodings of the characters with the Unicode property \<open>White_Space\<close>.\<close>

definition white_space :: "string list" where
  "white_space =
     map (map char_of) ([[9], [10], [11], [12], [13], [32], [194, 133], [194, 160],
       [225, 154, 128], [226, 128, 168], [226, 128, 169], [226, 128, 175], [226, 129, 159],
       [227, 128, 128]] @ map (\<lambda>n. [226, 128, n]) [128..<139] :: nat list list)"

lemma white_space_code [code]:
  "white_space =
     [[CHR 0x09], [CHR 0x0A], [CHR 0x0B], [CHR 0x0C],
      [CHR 0x0D], [CHR 0x20], [CHR 0xC2, CHR 0x85], [CHR 0xC2, CHR 0xA0],
      [CHR 0xE1, CHR 0x9A, CHR 0x80], [CHR 0xE2, CHR 0x80, CHR 0xA8], [CHR 0xE2, CHR 0x80, CHR 0xA9], [CHR 0xE2, CHR 0x80, CHR 0xAF],
      [CHR 0xE2, CHR 0x81, CHR 0x9F], [CHR 0xE3, CHR 0x80, CHR 0x80], [CHR 0xE2, CHR 0x80, CHR 0x80], [CHR 0xE2, CHR 0x80, CHR 0x81],
      [CHR 0xE2, CHR 0x80, CHR 0x82], [CHR 0xE2, CHR 0x80, CHR 0x83], [CHR 0xE2, CHR 0x80, CHR 0x84], [CHR 0xE2, CHR 0x80, CHR 0x85],
      [CHR 0xE2, CHR 0x80, CHR 0x86], [CHR 0xE2, CHR 0x80, CHR 0x87], [CHR 0xE2, CHR 0x80, CHR 0x88], [CHR 0xE2, CHR 0x80, CHR 0x89],
      [CHR 0xE2, CHR 0x80, CHR 0x8A]]"
  by (simp add: white_space_def upt_conv_Cons char_of_def bit_iff_odd flip: One_nat_def)

lemma byte_in_ascii: "byte_in 0 127 c \<longleftrightarrow> \<not> digit7 c"
  by (cases c) (simp add: byte_in_def Let_def of_char_def)

lemmas valid_utf8_code [code] = valid_utf8.simps [unfolded byte_in_ascii]

function strip_left :: "string list \<Rightarrow> string \<Rightarrow> string" where
  "strip_left ws s =
     (case find (\<lambda>w. w \<noteq> [] \<and> prefix w s) ws of
        None \<Rightarrow> s
      | Some w \<Rightarrow> strip_left ws (drop (length w) s))"
  by pat_completeness auto
termination
  by (relation "measure (length \<circ> snd)")
    (auto simp: find_Some_iff prefix_def)

declare strip_left.simps [simp del]

definition trim :: "string \<Rightarrow> string" where
  "trim s = rev (strip_left (map rev white_space) (rev (strip_left white_space s)))"

function split_fields :: "string \<Rightarrow> string \<Rightarrow> string list" where
  "split_fields acc [] = (if acc = [] then [] else [rev acc])"
| "split_fields acc (c # cs) =
     (case find (\<lambda>w. w \<noteq> [] \<and> prefix w (c # cs)) white_space of
        None \<Rightarrow> split_fields (c # acc) cs
      | Some w \<Rightarrow>
          (if acc = [] then [] else [rev acc]) @ split_fields [] (drop (length w) (c # cs)))"
  by pat_completeness auto
termination
  by (relation "measure (length \<circ> snd)") (auto simp: find_Some_iff neq_Nil_conv)

definition split_whitespace :: "string \<Rightarrow> string list" where
  "split_whitespace s = split_fields [] s"

fun split_lines :: "string \<Rightarrow> string \<Rightarrow> string list" where
  "split_lines acc [] = (if acc = [] then [] else [rev acc])"
| "split_lines acc (c # cs) =
     (if c = CHR 0x0A then rev acc # split_lines [] cs else split_lines (c # acc) cs)"

definition str_lines :: "string \<Rightarrow> string list" where
  "str_lines s =
     map (\<lambda>l. if l \<noteq> [] \<and> last l = CHR 0x0D then butlast l else l) (split_lines [] s)"

definition split_once :: "char \<Rightarrow> string \<Rightarrow> (string \<times> string) option" where
  "split_once d s =
     (case dropWhile (\<lambda>c. c \<noteq> d) s of
        [] \<Rightarrow> None
      | _ # rest \<Rightarrow> Some (takeWhile (\<lambda>c. c \<noteq> d) s, rest))"

definition trim_matches :: "char \<Rightarrow> string \<Rightarrow> string" where
  "trim_matches d s = rev (dropWhile (\<lambda>c. c = d) (rev (dropWhile (\<lambda>c. c = d) s)))"

definition strip_prefix :: "'a list \<Rightarrow> 'a list \<Rightarrow> 'a list option" where
  "strip_prefix p s = (if prefix p s then Some (drop (length p) s) else None)"

text \<open>
  The conversion that puts a replacement character for every maximal invalid part of a sequence
  of bytes.
\<close>

definition replacement :: string where
  "replacement = [CHR 0xEF, CHR 0xBF, CHR 0xBD]"

function to_string_lossy :: "string \<Rightarrow> string" where
  "to_string_lossy [] = []"
| "to_string_lossy (c # cs) =
     (if byte_in 0 127 c then c # to_string_lossy cs
      else case (continuation c, cs) of
             (Some (a, b, n), d # ds) \<Rightarrow>
               (let k = length (takeWhile (byte_in 128 191) (take n ds)) in
                if \<not> byte_in a b d then replacement @ to_string_lossy cs
                else if k = n then c # d # take n ds @ to_string_lossy (drop n ds)
                else replacement @ to_string_lossy (drop k ds))
           | _ \<Rightarrow> replacement @ to_string_lossy cs)"
  by pat_completeness auto
termination
  by (relation "measure length") auto

lemmas to_string_lossy_code [code] = to_string_lossy.simps [unfolded byte_in_ascii]

lemma takeWhile_take_all:
  "list_all P (take n xs) \<Longrightarrow> n \<le> length xs \<Longrightarrow> length (takeWhile P (take n xs)) = n"
  by (simp add: takeWhile_eq_all_conv [THEN iffD2] list_all_iff)

lemma to_string_lossy_valid: "valid_utf8 s \<Longrightarrow> to_string_lossy s = s"
proof (induction s rule: valid_utf8.induct)
  case (2 c cs)
  show ?case
  proof (cases "byte_in 0 127 c")
    case False
    with "2.prems" obtain a b n d ds where c: "continuation c = Some (a, b, n)" "cs = d # ds"
      and ok: "byte_in a b d" "n \<le> length ds" "list_all (byte_in 128 191) (take n ds)" "valid_utf8 (drop n ds)"
      by (cases cs; cases "continuation c") auto
    have "to_string_lossy (drop n ds) = drop n ds"
      using "2.IH"(2) [OF False refl c(1) refl refl c(2)] ok by simp
    with False c ok show ?thesis by (simp add: takeWhile_take_all)
  qed (use 2 in simp)
qed simp

section \<open>Paths\<close>

type_synonym path = "string list"

definition root_dir :: string where
  "root_dir = ''/''"

fun split_slash :: "string \<Rightarrow> string \<Rightarrow> string list" where
  "split_slash acc [] = [rev acc]"
| "split_slash acc (c # cs) =
     (if c = CHR ''/'' then rev acc # split_slash [] cs else split_slash (c # acc) cs)"

definition normal_components :: "string \<Rightarrow> string list" where
  "normal_components s = filter (\<lambda>c. c \<noteq> [] \<and> c \<noteq> ''.'') (split_slash [] s)"

definition Path_new :: "string \<Rightarrow> path" where
  "Path_new s =
     (if prefix ''/'' s then root_dir # normal_components s
      else if s = ''.'' \<or> prefix ''./'' s then ''.'' # normal_components s
      else normal_components s)"

definition is_absolute :: "path \<Rightarrow> bool" where
  "is_absolute p = (p \<noteq> [] \<and> hd p = root_dir)"

definition join_path :: "path \<Rightarrow> path \<Rightarrow> path" where
  "join_path p q = (if is_absolute q then q else p @ filter (\<lambda>c. c \<noteq> ''.'') q)"

definition join :: "path \<Rightarrow> string \<Rightarrow> path" where
  "join p s = join_path p (Path_new s)"

definition parent_dir :: "path \<Rightarrow> path option" where
  "parent_dir p = (if p = [] \<or> last p = root_dir then None else Some (butlast p))"

definition file_name :: "path \<Rightarrow> string option" where
  "file_name p = (if p = [] \<or> last p \<in> {root_dir, ''..'', ''.''} then None else Some (last p))"

fun join_slash :: "string list \<Rightarrow> string" where
  "join_slash [] = []"
| "join_slash [c] = c"
| "join_slash (c # cs) = c @ ''/'' @ join_slash cs"

definition display_path :: "path \<Rightarrow> string" where
  "display_path p = (if is_absolute p then ''/'' @ join_slash (tl p) else join_slash p)"

text \<open>
  \<open>Path::extension\<close>: what follows the last dot of the file name, unless that dot is its
  first character.
\<close>

definition extension :: "path \<Rightarrow> string option" where
  "extension p =
     (case file_name p of
        None \<Rightarrow> None
      | Some f \<Rightarrow>
          (let e = takeWhile (\<lambda>c. c \<noteq> CHR ''.'') (rev f) in
           if length e + 1 < length f then Some (rev e) else None))"

lemma split_slash_plain:
  "CHR ''/'' \<notin> set s \<Longrightarrow> split_slash acc s = [rev acc @ s]"
  by (induction s arbitrary: acc) auto

lemma Path_new_component:
  assumes "CHR ''/'' \<notin> set s" "s \<noteq> []" "s \<noteq> ''.''"
  shows "Path_new s = [s]"
  using assms by (auto simp: Path_new_def normal_components_def split_slash_plain prefix_def)

lemma join_component [simp]:
  assumes "CHR ''/'' \<notin> set s" "s \<noteq> []" "s \<noteq> ''.''"
  shows "join p s = p @ [s]"
  using assms by (auto simp: join_def join_path_def Path_new_component is_absolute_def root_dir_def)

end
