(* ===== verification/Bench_Errors.thy ===== *)
theory Bench_Errors
  imports Text
begin

text \<open>
  The errors of the benchmark control tool (\<^verbatim>\<open>src/tools/benchctl/src/error.rs\<close>), the advice and
  the exit code each gives, and the tool's outermost function
  (\<^verbatim>\<open>src/tools/benchctl/src/lib.rs\<close>). What the
  operating system reports is its kind, where the code looks at it, and otherwise a text; what
  the JSON library reports is a text. A result also says whether the process sleeps forever,
  which some of the tool's processes do on purpose.
\<close>

datatype io_error = NotFound | InvalidData | OsError string

fun display_io_error :: "io_error \<Rightarrow> string" where
  "display_io_error NotFound = ''entity not found''"
| "display_io_error InvalidData = ''stream did not contain valid UTF-8''"
| "display_io_error (OsError m) = m"

datatype BenchError =
    Usage string
  | Preflight string
  | RequestConflict string
  | RecoveryRequired string
  | RestoreConflict path string string
  | State string
  | Workload string
  | Io string io_error
  | Json string string

fun display_BenchError :: "BenchError \<Rightarrow> string" where
  "display_BenchError (Usage m) = ''invalid request: '' @ m"
| "display_BenchError (Preflight m) = ''preflight rejected the operation: '' @ m"
| "display_BenchError (RequestConflict operation_id) =
     ''operation '' @ operation_id @ '' conflicts with its recorded request''"
| "display_BenchError (RecoveryRequired operation_id) =
     ''operation '' @ operation_id @ '' needs explicit recovery''"
| "display_BenchError (RestoreConflict path expected actual) =
     ''cpuidle restore conflict at '' @ display_path path @ '': expected current '' @ expected
       @ '', found '' @ actual"
| "display_BenchError (State m) = ''operation state is unavailable: '' @ m"
| "display_BenchError (Workload m) = ''workload failed: '' @ m"
| "display_BenchError (Io operation source) = ''I/O during '' @ operation @ '': '' @ display_io_error source"
| "display_BenchError (Json operation source) = ''JSON during '' @ operation @ '': '' @ source"

fun retry_advice :: "BenchError \<Rightarrow> string" where
  "retry_advice (RequestConflict _) = ''do not retry unchanged''"
| "retry_advice (Usage _) = ''do not retry unchanged''"
| "retry_advice (Preflight _) = ''do not retry unchanged''"
| "retry_advice (RecoveryRequired _) = ''run `benchctl recover <id>`''"
| "retry_advice (RestoreConflict _ _ _) = ''run `benchctl recover <id>`''"
| "retry_advice (Workload _) =
     ''inspect workload output; a new operation is safe only after successful cleanup''"
| "retry_advice (State _) = ''inspect state and retry only when the cause is resolved''"
| "retry_advice (Io _ _) = ''inspect state and retry only when the cause is resolved''"
| "retry_advice (Json _ _) = ''inspect state and retry only when the cause is resolved''"

fun exit_code :: "BenchError \<Rightarrow> nat" where
  "exit_code (Workload _) = 1"
| "exit_code _ = 2"

datatype 'a answer = Ok 'a | Err BenchError | Asleep

text \<open>What the process prints on standard error and exits with.\<close>

definition run_from :: "unit answer \<Rightarrow> (string list \<times> nat) option" where
  "run_from r =
     (case r of
        Ok _ \<Rightarrow> Some ([], 0)
      | Err error \<Rightarrow>
          Some ([''benchctl: '' @ display_BenchError error, ''retry: '' @ retry_advice error],
            exit_code error)
      | Asleep \<Rightarrow> None)"

lemma exit_code_cases: "exit_code e = (case e of Workload _ \<Rightarrow> 1 | _ \<Rightarrow> 2)"
  by (cases e) simp_all

lemma run_from_status:
  "map_option snd (run_from r) =
     (case r of Ok _ \<Rightarrow> Some 0 | Err e \<Rightarrow> Some (exit_code e) | Asleep \<Rightarrow> None)"
  by (cases r) (simp_all only: run_from_def answer.case option.map snd_conv)

lemma run_from_exit:
  "map_option snd (run_from r) = Some 0 \<longleftrightarrow> r = Ok ()"
  "map_option snd (run_from r) = Some 1 \<longleftrightarrow> (\<exists>m. r = Err (Workload m))"
proof -
  show "map_option snd (run_from r) = Some 0 \<longleftrightarrow> r = Ok ()"
    unfolding run_from_status by (cases r) (simp_all add: exit_code_cases split: BenchError.split)
  show "map_option snd (run_from r) = Some 1 \<longleftrightarrow> (\<exists>m. r = Err (Workload m))"
    unfolding run_from_status by (cases r) (simp_all add: exit_code_cases split: BenchError.split)
qed

end
