(* ===== verification/Files.thy ===== *)
theory Files
  imports Bench_Errors "HOL-Library.AList"
begin

text \<open>
  The operating system the control tool runs on, as far as the tool uses it. The file system is
  an association list from absolute paths to inodes. Every call may fail, before every call
  other processes may change files, and every state the file system has been in is kept in
  \<open>history\<close>, so that a theorem about it is a theorem about what a crash at any moment
  leaves behind. What the tool learns from the system (locks, children, process groups, the
  output of commands) is a function of the number of calls made so far. An operation that can
  fail is a function from the system to a result and a system; \<open>bind\<close> is the \<open>?\<close>
  operator. The crash-safe write of \<^verbatim>\<open>src/tools/benchctl/src/runtime.rs\<close> is modelled here.
\<close>

section \<open>The system\<close>

datatype kind = File string | Directory | Symlink path

record inode =
  inode_kind :: kind
  inode_owner :: u32
  inode_mode :: u32

type_synonym nodes = "(path \<times> inode) list"

datatype lock_outcome = Locked | WouldBlock | LockError

record exit_status =
  exit_success :: bool
  exit_status_code :: "int option"
  exit_signal :: "int option"
  exit_text :: string

datatype kill_outcome = Delivered | NoSuchGroup | KillError string

text \<open>
  \<open>fault n\<close> is what the \<open>n\<close>-th call fails with, \<open>landed n\<close> whether a write that fails
  took effect, \<open>outside n\<close> what other processes write before it (\<open>None\<close> removes a node) and
  \<open>delay n\<close> how many milliseconds it takes.
\<close>

record command =
  argv :: "string list"
  directory :: "path option"
  credentials :: "(u32 \<times> u32) option"
  settings :: "(string \<times> string option) list"
  own_group :: bool

datatype signal = SIGTERM | SIGKILL

record host =
  fault :: "nat \<Rightarrow> io_error option"
  landed :: "nat \<Rightarrow> bool"
  outside :: "nat \<Rightarrow> (path \<times> inode option) list"
  delay :: "nat \<Rightarrow> nat"
  wall :: "nat \<Rightarrow> nat"
  locks :: "nat \<Rightarrow> lock_outcome"
  reaped :: "nat \<Rightarrow> exit_status option"
  completed :: "nat \<Rightarrow> exit_status"
  killed :: "nat \<Rightarrow> kill_outcome"
  printed :: "nat \<Rightarrow> string"
  spawned :: "nat \<Rightarrow> u32"
  descriptor :: "nat \<Rightarrow> nat"
  accepted :: "nat \<Rightarrow> nat"
  client_gone :: "nat \<Rightarrow> bool"
  parent :: "nat \<Rightarrow> int option"
  cancelled :: "nat \<Rightarrow> bool"
  euid :: u32
  egid :: u32
  pid :: u32
  current_exe :: path
  working_directory :: path
  temporary :: "nat \<Rightarrow> path"
  environment :: "(string \<times> string) list"

record system =
  nodes :: nodes
  history :: "nodes list"
  calls :: nat
  clock :: nat
  stdout :: "string list"
  commands :: "command list"
  signals :: "(int \<times> signal) list"
  host :: host

definition variables :: "host \<Rightarrow> string \<Rightarrow> string option" where
  "variables h = map_of (environment h)"

type_synonym 'a io = "system \<Rightarrow> 'a answer \<times> system"

definition return_io :: "'a \<Rightarrow> 'a io" where
  "return_io x s = (Ok x, s)"

definition fail_io :: "BenchError \<Rightarrow> 'a io" where
  "fail_io e s = (Err e, s)"

definition sleep_forever :: "'a io" where
  "sleep_forever s = (Asleep, s)"

definition bind :: "'a io \<Rightarrow> ('a \<Rightarrow> 'b io) \<Rightarrow> 'b io" where
  "bind m k s =
     (case m s of
        (Ok x, s') \<Rightarrow> k x s'
      | (Err e, s') \<Rightarrow> (Err e, s')
      | (Asleep, s') \<Rightarrow> (Asleep, s'))"

definition attempt :: "'a io \<Rightarrow> (BenchError + 'a) io" where
  "attempt m s =
     (case m s of
        (Ok x, s') \<Rightarrow> (Ok (Inr x), s')
      | (Err e, s') \<Rightarrow> (Ok (Inl e), s')
      | (Asleep, s') \<Rightarrow> (Asleep, s'))"

definition ask :: "(system \<Rightarrow> 'a) \<Rightarrow> 'a io" where
  "ask f s = (Ok (f s), s)"

definition guard_io :: "bool \<Rightarrow> BenchError \<Rightarrow> unit io" where
  "guard_io b e = (if b then return_io () else fail_io e)"

definition unless_none :: "'a option \<Rightarrow> BenchError \<Rightarrow> 'a io" where
  "unless_none x e = (case x of Some v \<Rightarrow> return_io v | None \<Rightarrow> fail_io e)"

fun for_each :: "'a list \<Rightarrow> ('a \<Rightarrow> unit io) \<Rightarrow> unit io" where
  "for_each [] f = return_io ()"
| "for_each (x # xs) f = bind (f x) (\<lambda>_. for_each xs f)"

fun collect :: "'a list \<Rightarrow> ('a \<Rightarrow> 'b io) \<Rightarrow> 'b list io" where
  "collect [] f = return_io []"
| "collect (x # xs) f = bind (f x) (\<lambda>y. bind (collect xs f) (\<lambda>ys. return_io (y # ys)))"

section \<open>Name resolution\<close>

text \<open>
  Resolution follows symbolic links in every component, up to the forty links Linux allows. A
  component that does not exist is kept, so that the result also names the file a call creates.
\<close>

definition link_target :: "nodes \<Rightarrow> path \<Rightarrow> path option" where
  "link_target ns p =
     (case map_of ns p of
        Some i \<Rightarrow> (case inode_kind i of Symlink t \<Rightarrow> Some t | _ \<Rightarrow> None)
      | None \<Rightarrow> None)"

function walk :: "nat \<Rightarrow> nodes \<Rightarrow> path \<Rightarrow> path \<Rightarrow> path option" where
  "walk links ns visited [] = Some visited"
| "walk links ns visited (c # cs) =
     (if c = ''..'' then walk links ns (if length visited \<le> 1 then visited else butlast visited) cs
      else if c = ''.'' then walk links ns visited cs
      else case link_target ns (visited @ [c]) of
             None \<Rightarrow> walk links ns (visited @ [c]) cs
           | Some t \<Rightarrow>
               (if links = 0 then None
                else if is_absolute t then walk (links - 1) ns [root_dir] (tl t @ cs)
                else walk (links - 1) ns visited (t @ cs)))"
  by pat_completeness auto
termination
  by (relation "measures [\<lambda>(links, _). links, \<lambda>(_, _, _, cs). length cs]") auto

declare walk.simps [simp del]

definition resolve :: "nodes \<Rightarrow> path \<Rightarrow> path option" where
  "resolve ns p = (if is_absolute p then walk 40 ns [root_dir] (tl p) else None)"

text \<open>As \<open>resolve\<close>, for calls that do not follow a link in the last component.\<close>

definition resolve_parent :: "nodes \<Rightarrow> path \<Rightarrow> path option" where
  "resolve_parent ns p =
     (case file_name p of
        None \<Rightarrow> resolve ns p
      | Some f \<Rightarrow> (case resolve ns (butlast p) of None \<Rightarrow> None | Some d \<Rightarrow> Some (d @ [f])))"

text \<open>
  The file a call means by a path: a relative path starts at the working directory, and the empty
  path names nothing.
\<close>

definition locate :: "system \<Rightarrow> path \<Rightarrow> path option" where
  "locate s p =
     (if p = [] then None else resolve (nodes s) (join_path (working_directory (host s)) p))"

definition locate_parent :: "system \<Rightarrow> path \<Rightarrow> path option" where
  "locate_parent s p =
     (if p = [] then None else resolve_parent (nodes s) (join_path (working_directory (host s)) p))"

definition lookup :: "nodes \<Rightarrow> path option \<Rightarrow> inode option" where
  "lookup ns r = (case r of None \<Rightarrow> None | Some p \<Rightarrow> map_of ns p)"

definition file_content :: "inode option \<Rightarrow> string option" where
  "file_content i = (case i of Some j \<Rightarrow> (case inode_kind j of File c \<Rightarrow> Some c | _ \<Rightarrow> None) | None \<Rightarrow> None)"

definition is_directory :: "inode option \<Rightarrow> bool" where
  "is_directory i = (case i of Some j \<Rightarrow> inode_kind j = Directory | None \<Rightarrow> False)"

definition content :: "nodes \<Rightarrow> path \<Rightarrow> string option" where
  "content ns p = file_content (lookup ns (resolve ns p))"

section \<open>System calls\<close>

definition put_nodes :: "nodes \<Rightarrow> system \<Rightarrow> system" where
  "put_nodes ns s = s\<lparr>nodes := ns, history := ns # history s\<rparr>"

fun interfere :: "(path \<times> inode option) list \<Rightarrow> nodes \<Rightarrow> nodes" where
  "interfere [] ns = ns"
| "interfere ((p, i) # xs) ns =
     interfere xs (case i of Some j \<Rightarrow> AList.update p j ns | None \<Rightarrow> AList.delete p ns)"

definition enter :: "system \<Rightarrow> system" where
  "enter s =
     (let changes = outside (host s) (calls s) in
      (if changes = [] then s else put_nodes (interfere changes (nodes s)) s)
        \<lparr>calls := Suc (calls s), clock := clock s + delay (host s) (calls s)\<rparr>)"

text \<open>
  The \<open>n\<close>-th call: other processes run, then the call fails or its body runs, which is
  given \<open>n\<close>.
\<close>

definition call_as :: "(io_error \<Rightarrow> BenchError) \<Rightarrow> (nat \<Rightarrow> 'a io) \<Rightarrow> 'a io" where
  "call_as as_error body s =
     (case fault (host s) (calls s) of
        Some e \<Rightarrow> (Err (as_error e), enter s)
      | None \<Rightarrow> body (calls s) (enter s))"

definition call :: "string \<Rightarrow> (nat \<Rightarrow> 'a io) \<Rightarrow> 'a io" where
  "call operation = call_as (Io operation)"

definition nop :: "string \<Rightarrow> unit io" where
  "nop operation = call operation (\<lambda>_. return_io ())"

text \<open>A call whose outcome the caller does not turn into an error.\<close>

definition observe :: "(nat \<Rightarrow> system \<Rightarrow> 'a) \<Rightarrow> 'a io" where
  "observe f s = (Ok (f (calls s) (enter s)), enter s)"

definition fs_read :: "string \<Rightarrow> path \<Rightarrow> string io" where
  "fs_read operation p = call operation (\<lambda>_ s.
     let i = lookup (nodes s) (locate s p) in
     case file_content i of
       Some c \<Rightarrow> (Ok c, s)
     | None \<Rightarrow> (Err (Io operation (if i = None then NotFound else OsError ''is a directory'')), s))"

definition read_to_string :: "string \<Rightarrow> path \<Rightarrow> string io" where
  "read_to_string operation p = bind (fs_read operation p) (\<lambda>c.
     bind (guard_io (valid_utf8 c) (Io operation InvalidData)) (\<lambda>_. return_io c))"

definition new_file :: "system \<Rightarrow> string \<Rightarrow> u32 \<Rightarrow> inode" where
  "new_file s c m = \<lparr>inode_kind = File c, inode_owner = euid (host s), inode_mode = m\<rparr>"

definition write_node :: "path \<Rightarrow> string \<Rightarrow> system \<Rightarrow> system" where
  "write_node t c s =
     put_nodes (AList.update t
       (case map_of (nodes s) t of
          Some i \<Rightarrow> i\<lparr>inode_kind := File c\<rparr>
        | None \<Rightarrow> new_file s c 420) (nodes s)) s"

definition fs_write :: "string \<Rightarrow> path \<Rightarrow> string \<Rightarrow> unit io" where
  "fs_write operation p c s =
     (let s' = enter s; r = locate s' p; i = lookup (nodes s') r in
      case r of
        None \<Rightarrow> (Err (Io operation (OsError ''too many links'')), s')
      | Some t \<Rightarrow>
          if is_directory i
          then (Err (Io operation (OsError ''is a directory'')), s')
          else case fault (host s) (calls s) of
                 Some e \<Rightarrow>
                   (Err (Io operation e), if landed (host s) (calls s) then write_node t c s' else s')
               | None \<Rightarrow> (Ok (), write_node t c s'))"

definition symlink_metadata :: "string \<Rightarrow> path \<Rightarrow> inode io" where
  "symlink_metadata operation p = call operation (\<lambda>_ s.
     case lookup (nodes s) (locate_parent s p) of
       Some i \<Rightarrow> (Ok i, s)
     | None \<Rightarrow> (Err (Io operation NotFound), s))"

text \<open>\<open>Path::exists\<close> answers false when it cannot look.\<close>

definition path_exists :: "path \<Rightarrow> bool io" where
  "path_exists p s =
     (Ok (fault (host s) (calls s) = None \<and> lookup (nodes (enter s)) (locate (enter s) p) \<noteq> None),
      enter s)"

definition children :: "nodes \<Rightarrow> path \<Rightarrow> string list" where
  "children ns p = map (\<lambda>(q, _). last q) (filter (\<lambda>(q, _). q \<noteq> [] \<and> butlast q = p) ns)"

definition read_dir :: "string \<Rightarrow> path \<Rightarrow> string list io" where
  "read_dir operation p = call operation (\<lambda>_ s.
     case locate s p of
       None \<Rightarrow> (Err (Io operation (OsError ''too many links'')), s)
     | Some t \<Rightarrow>
         (case map_of (nodes s) t of
            Some i \<Rightarrow>
              (if inode_kind i = Directory then (Ok (children (nodes s) t), s)
               else (Err (Io operation (OsError ''not a directory'')), s))
          | None \<Rightarrow> (Err (Io operation NotFound), s)))"

definition add_directories :: "path \<Rightarrow> system \<Rightarrow> system" where
  "add_directories p s =
     put_nodes (fold (\<lambda>q ns. if map_of ns q = None
                then AList.update q \<lparr>inode_kind = Directory, inode_owner = euid (host s), inode_mode = 493\<rparr> ns
                else ns)
       (map (\<lambda>n. take n p) [1..<Suc (length p)]) (nodes s)) s"

definition create_dir_all :: "string \<Rightarrow> path \<Rightarrow> unit io" where
  "create_dir_all operation p = call operation (\<lambda>_ s.
     case locate s p of
       None \<Rightarrow> (Err (Io operation (OsError ''too many links'')), s)
     | Some t \<Rightarrow>
         if list_all (\<lambda>n. file_content (map_of (nodes s) (take n t)) = None) [1..<Suc (length t)]
         then (Ok (), add_directories t s)
         else (Err (Io operation (OsError ''file exists'')), s))"

definition set_mode :: "string \<Rightarrow> path \<Rightarrow> u32 \<Rightarrow> unit io" where
  "set_mode operation p m = call operation (\<lambda>_ s.
     case locate s p of
       None \<Rightarrow> (Err (Io operation (OsError ''too many links'')), s)
     | Some t \<Rightarrow>
         (case map_of (nodes s) t of
            Some i \<Rightarrow> (Ok (), put_nodes (AList.update t (i\<lparr>inode_mode := m\<rparr>) (nodes s)) s)
          | None \<Rightarrow> (Err (Io operation NotFound), s)))"

definition mkdir :: "string \<Rightarrow> path \<Rightarrow> unit io" where
  "mkdir operation p = call operation (\<lambda>_ s.
     case locate_parent s p of
       None \<Rightarrow> (Err (Io operation (OsError ''too many links'')), s)
     | Some t \<Rightarrow>
         (case map_of (nodes s) t of
            Some _ \<Rightarrow> (Err (Io operation (OsError ''file exists'')), s)
          | None \<Rightarrow>
              (Ok (), put_nodes (AList.update t
                 \<lparr>inode_kind = Directory, inode_owner = euid (host s), inode_mode = 493\<rparr> (nodes s)) s)))"

text \<open>
  Removing a tree removes its nodes; a failing removal may already have removed what it holds. A
  symbolic link given as the tree is removed itself.
\<close>

definition remove_dir_all :: "string \<Rightarrow> path \<Rightarrow> unit io" where
  "remove_dir_all operation p s =
     (let s' = enter s; ns = nodes s' in
      case locate_parent s' p of
        None \<Rightarrow> (Err (Io operation (OsError ''too many links'')), s')
      | Some t \<Rightarrow>
          (case fault (host s) (calls s) of
             Some e \<Rightarrow>
               (Err (Io operation e),
                if landed (host s) (calls s)
                then put_nodes (filter (\<lambda>(q, _). \<not> strict_prefix t q) ns) s' else s')
           | None \<Rightarrow> (Ok (), put_nodes (filter (\<lambda>(q, _). \<not> prefix t q) ns) s')))"

text \<open>
  Opening a file for reading and writing, creating it when it is missing. The handle is the path
  of the file that was opened.
\<close>

definition open_create :: "string \<Rightarrow> bool \<Rightarrow> path \<Rightarrow> path io" where
  "open_create operation nofollow p = call operation (\<lambda>_ s.
     case (if nofollow then locate_parent s p else locate s p) of
       None \<Rightarrow> (Err (Io operation (OsError ''too many links'')), s)
     | Some t \<Rightarrow>
         (case map_of (nodes s) t of
            Some i \<Rightarrow>
              (case inode_kind i of
                 File _ \<Rightarrow> (Ok t, s)
               | Directory \<Rightarrow> (Err (Io operation (OsError ''is a directory'')), s)
               | Symlink _ \<Rightarrow> (Err (Io operation (OsError ''too many links'')), s))
          | None \<Rightarrow> (Ok t, put_nodes (AList.update t (new_file s [] 420) (nodes s)) s)))"

definition canonicalize :: "string \<Rightarrow> path \<Rightarrow> path io" where
  "canonicalize operation p = call operation (\<lambda>_ s.
     case locate s p of
       None \<Rightarrow> (Err (Io operation (OsError ''too many links'')), s)
     | Some t \<Rightarrow>
         (if map_of (nodes s) t = None then (Err (Io operation NotFound), s) else (Ok t, s)))"

text \<open>Opening an existing file for writing empties it.\<close>

definition open_truncate :: "string \<Rightarrow> path \<Rightarrow> unit io" where
  "open_truncate operation p = call operation (\<lambda>_ s.
     case lookup (nodes s) (locate s p) of
       None \<Rightarrow> (Err (Io operation NotFound), s)
     | Some i \<Rightarrow>
         if is_directory (Some i) then (Err (Io operation (OsError ''is a directory'')), s)
         else (Ok (), write_node (the (locate s p)) [] s))"

text \<open>
  A temporary file or directory has a name the host chooses. It is removed at the end of the scope
  that holds it, and a failing removal is ignored.
\<close>

definition create_temporary :: "string \<Rightarrow> kind \<Rightarrow> path io" where
  "create_temporary operation k = call operation (\<lambda>n s.
     (Ok (temporary (host s) n),
      put_nodes (AList.update (temporary (host s) n)
        \<lparr>inode_kind = k, inode_owner = euid (host s), inode_mode = (if k = Directory then 448 else 384)\<rparr>
        (nodes s)) s))"

definition with_temporary :: "string \<Rightarrow> kind \<Rightarrow> (path \<Rightarrow> 'a io) \<Rightarrow> 'a io" where
  "with_temporary operation k body =
     bind (create_temporary operation k) (\<lambda>p s.
     case body p s of
       (Asleep, s') \<Rightarrow> (Asleep, s')
     | (r, s') \<Rightarrow> (r, snd (remove_dir_all ''removing a temporary'' p s')))"

definition try_lock :: "lock_outcome io" where
  "try_lock = observe (\<lambda>n s. locks (host s) n)"

fun display_lock :: "lock_outcome \<Rightarrow> string" where
  "display_lock Locked = []"
| "display_lock WouldBlock = ''lock acquisition failed because the operation would block''"
| "display_lock LockError = ''lock acquisition failed due to I/O error''"

definition print_line :: "string \<Rightarrow> unit io" where
  "print_line l s = (Ok (), s\<lparr>stdout := stdout s @ [l]\<rparr>)"

definition sleep_millis :: "nat \<Rightarrow> unit io" where
  "sleep_millis d s = (Ok (), (enter s)\<lparr>clock := clock (enter s) + d\<rparr>)"

text \<open>The wall clock before the epoch counts as zero.\<close>

definition now_millis :: "nat io" where
  "now_millis = ask (\<lambda>s. wall (host s) (calls s))"

section \<open>Processes\<close>

definition issue :: "command \<Rightarrow> system \<Rightarrow> system" where
  "issue c s = s\<lparr>commands := commands s @ [c]\<rparr>"

text \<open>Starting a child and not waiting for it gives its process number.\<close>

definition spawn :: "string \<Rightarrow> command \<Rightarrow> u32 io" where
  "spawn operation c = call operation (\<lambda>n s. (Ok (spawned (host s) n), issue c s))"

definition run_command :: "string \<Rightarrow> command \<Rightarrow> (exit_status \<times> string) io" where
  "run_command operation c = call operation (\<lambda>n s.
     (Ok (completed (host s) n, printed (host s) n), issue c s))"

definition try_wait :: "string \<Rightarrow> exit_status option io" where
  "try_wait operation = call operation (\<lambda>n. ask (\<lambda>s. reaped (host s) n))"

definition wait_child :: "string \<Rightarrow> exit_status io" where
  "wait_child operation = call operation (\<lambda>n. ask (\<lambda>s. completed (host s) n))"

definition killpg :: "int \<Rightarrow> signal option \<Rightarrow> kill_outcome io" where
  "killpg pg sig s =
     (Ok (killed (host s) (calls s)),
      (enter s)\<lparr>signals := signals (enter s) @ (case sig of Some x \<Rightarrow> [(pg, x)] | None \<Rightarrow> [])\<rparr>)"

definition resolve_current_exe :: "string \<Rightarrow> path io" where
  "resolve_current_exe operation = call operation (\<lambda>_. ask (\<lambda>s. current_exe (host s)))"

section \<open>Polling loops\<close>

text \<open>
  The tool waits in loops that look, give up after a time limit and sleep ten milliseconds
  between rounds. \<open>body\<close> answers \<open>Some\<close> to leave the loop. Every round takes at least the ten
  milliseconds of its sleep, so \<open>rounds limit\<close> rounds are enough for a loop that gives up when
  \<open>limit\<close> milliseconds have passed (\<open>poll_returns\<close>).
\<close>

fun poll :: "nat \<Rightarrow> 'a option io \<Rightarrow> 'a io" where
  "poll 0 body = sleep_forever"
| "poll (Suc n) body = bind body (\<lambda>r.
     case r of
       Some x \<Rightarrow> return_io x
     | None \<Rightarrow> bind (sleep_millis 10) (\<lambda>_. poll n body))"

definition rounds :: "nat \<Rightarrow> nat" where
  "rounds limit = limit div 10 + 2"

definition elapsed :: "nat \<Rightarrow> nat io" where
  "elapsed started = ask (\<lambda>s. clock s - started)"

section \<open>The crash-safe write\<close>

text \<open>
  The parent of a bare file name is the empty path: creating it does nothing, opening it fails.
  Publishing a temporary file renames it over its final name in one step; a directory of that
  name refuses it. The temporary file has a random name no other code looks for and is not
  modelled as a node.
\<close>

definition persist :: "string \<Rightarrow> path \<Rightarrow> string \<Rightarrow> unit io" where
  "persist operation p c = call operation (\<lambda>_ s.
     case locate_parent s p of
       None \<Rightarrow> (Err (Io operation (OsError ''too many links'')), s)
     | Some t \<Rightarrow>
         if is_directory (map_of (nodes s) t)
         then (Err (Io operation (OsError ''is a directory'')), s)
         else (Ok (), put_nodes (AList.update t (new_file s c 384) (nodes s)) s))"

definition atomic_write :: "path \<Rightarrow> string \<Rightarrow> unit io" where
  "atomic_write p bytes =
     bind (unless_none (parent_dir p) (Usage ''state path has no parent'')) (\<lambda>d.
     bind (if d = [] then return_io () else create_dir_all ''creating state directory'' d) (\<lambda>_.
     bind (guard_io (file_name p \<noteq> None) (Usage ''state path has no file name'')) (\<lambda>_.
     bind (nop ''creating partial state'') (\<lambda>_.
     bind (nop ''writing partial state'') (\<lambda>_.
     bind (nop ''syncing partial state'') (\<lambda>_.
     bind (persist ''publishing state'' p bytes) (\<lambda>_.
     if d = [] then fail_io (Io ''syncing state directory'' NotFound)
     else nop ''syncing state directory'')))))))"

end
