(* ===== verification/Files_Logic.thy ===== *)
theory Files_Logic
  imports Files
begin

text \<open>
  Reasoning about programs over the system of theory \<open>Files\<close>: triples with one postcondition
  for success and one for every other end, and a frame. A frame says of a set of
  paths that they meet no symbolic link and of some of them, the controlled paths, what they
  contain, as long as no other process touches them, and it bounds every state the file system
  passes through. Every call that leaves the controlled paths alone keeps the frame; the
  collection \<open>keeps\<close> holds these facts.
\<close>

named_theorems keeps
named_theorems keeps_time

section \<open>Triples\<close>

definition triple ::
    "(system \<Rightarrow> bool) \<Rightarrow> 'a io \<Rightarrow> ('a \<Rightarrow> system \<Rightarrow> bool) \<Rightarrow> (BenchError option \<Rightarrow> system \<Rightarrow> bool) \<Rightarrow> bool"
  where
  "triple P m Q E =
     (\<forall>s. P s \<longrightarrow>
       (case m s of
          (Ok x, s') \<Rightarrow> Q x s'
        | (Err e, s') \<Rightarrow> E (Some e) s'
        | (Asleep, s') \<Rightarrow> E None s'))"

lemma tripleD:
  assumes "triple P m Q E" "P s"
  shows "m s = (Ok x, s') \<Longrightarrow> Q x s'"
    and "m s = (Err e, s') \<Longrightarrow> E (Some e) s'"
    and "m s = (Asleep, s') \<Longrightarrow> E None s'"
  using assms by (auto simp: triple_def dest!: spec [of _ s])

lemma triple_conseq:
  assumes "triple P' m Q' E'"
    and "\<And>s. P s \<Longrightarrow> P' s"
    and "\<And>x s. Q' x s \<Longrightarrow> Q x s"
    and "\<And>e s. E' e s \<Longrightarrow> E e s"
  shows "triple P m Q E"
  using assms by (fastforce simp: triple_def split: prod.splits answer.splits)

lemma triple_pre: "triple P' m Q E \<Longrightarrow> (\<And>s. P s \<Longrightarrow> P' s) \<Longrightarrow> triple P m Q E"
  by (auto simp: triple_def)

lemma triple_assume: "(\<And>s0. P s0 \<Longrightarrow> triple (\<lambda>s. s = s0) m Q E) \<Longrightarrow> triple P m Q E"
  by (auto simp: triple_def)

lemma triple_pure: "(b \<Longrightarrow> triple P m Q E) \<Longrightarrow> triple (\<lambda>s. b \<and> P s) m Q E"
  by (auto simp: triple_def)

lemma triple_return: "(\<And>s. P s \<Longrightarrow> Q x s) \<Longrightarrow> triple P (return_io x) Q E"
  by (simp add: triple_def return_io_def)

lemma triple_fail: "(\<And>s. P s \<Longrightarrow> E (Some e) s) \<Longrightarrow> triple P (fail_io e) Q E"
  by (simp add: triple_def fail_io_def)

lemma triple_asleep: "(\<And>s. P s \<Longrightarrow> E None s) \<Longrightarrow> triple P sleep_forever Q E"
  by (simp add: triple_def sleep_forever_def)

lemma triple_ask: "(\<And>s. P s \<Longrightarrow> Q (f s) s) \<Longrightarrow> triple P (ask f) Q E"
  by (simp add: triple_def ask_def)

lemma triple_bind:
  assumes "triple P m R E" "\<And>x. triple (R x) (k x) Q E"
  shows "triple P (bind m k) Q E"
  using assms by (fastforce simp: triple_def bind_def split: prod.splits answer.splits)

lemma triple_attempt:
  assumes "triple P m (\<lambda>x. Q (Inr x)) (\<lambda>e s. case e of Some x \<Rightarrow> Q (Inl x) s | None \<Rightarrow> E None s)"
  shows "triple P (attempt m) Q E"
  using assms by (fastforce simp: triple_def attempt_def split: prod.splits answer.splits)

lemma triple_guard:
  assumes "\<And>s. P s \<Longrightarrow> b \<Longrightarrow> Q () s" "\<And>s. P s \<Longrightarrow> \<not> b \<Longrightarrow> E (Some e) s"
  shows "triple P (guard_io b e) Q E"
  using assms by (auto simp: guard_io_def intro: triple_return triple_fail)

lemma triple_unless_none:
  assumes "\<And>s v. P s \<Longrightarrow> x = Some v \<Longrightarrow> Q v s" "\<And>s. P s \<Longrightarrow> x = None \<Longrightarrow> E (Some e) s"
  shows "triple P (unless_none x e) Q E"
  using assms by (auto simp: unless_none_def split: option.split intro: triple_return triple_fail)

lemma triple_for_each:
  assumes "\<And>ys x zs. xs = ys @ x # zs \<Longrightarrow> triple (I ys) (f x) (\<lambda>_. I (ys @ [x])) E"
  shows "triple (I []) (for_each xs f) (\<lambda>_. I xs) E"
proof -
  have "triple (I ys) (for_each zs f) (\<lambda>_. I xs) E" if "xs = ys @ zs" for ys zs
    using that
  proof (induction zs arbitrary: ys)
    case Nil
    then show ?case by (auto intro: triple_return)
  next
    case (Cons z zs)
    show ?case
      unfolding for_each.simps
    proof (rule triple_bind)
      show "triple (I ys) (f z) (\<lambda>_. I (ys @ [z])) E" by (rule assms [OF Cons.prems])
      show "triple (I (ys @ [z])) (for_each zs f) (\<lambda>_. I xs) E" for x
        using Cons.prems by (intro Cons.IH) simp
    qed
  qed
  from this [of "[]" xs] show ?thesis by simp
qed

lemma bind_Ok: "bind m k s = (Ok x, u) \<Longrightarrow> \<exists>y t. m s = (Ok y, t) \<and> k y t = (Ok x, u)"
  by (auto simp: bind_def split: prod.splits answer.splits)

section \<open>Plain paths\<close>

text \<open>A plain path meets no symbolic link, so that it names itself.\<close>

definition plain :: "nodes \<Rightarrow> path \<Rightarrow> bool" where
  "plain ns p =
     (is_absolute p \<and> ''.'' \<notin> set p \<and> ''..'' \<notin> set p
       \<and> list_all (\<lambda>q. link_target ns q = None) (prefixes p))"

lemma plain_iff:
  "plain ns p \<longleftrightarrow>
     is_absolute p \<and> ''.'' \<notin> set p \<and> ''..'' \<notin> set p \<and> (\<forall>q. prefix q p \<longrightarrow> link_target ns q = None)"
  by (auto simp: plain_def list_all_iff)

lemma plain_prefix: "plain ns (p @ q) \<Longrightarrow> p \<noteq> [] \<Longrightarrow> plain ns p"
  by (auto simp: plain_iff is_absolute_def intro: prefix_prefix)

lemma walk_plain:
  assumes "''.'' \<notin> set cs" "''..'' \<notin> set cs"
    and "\<And>n. n \<le> length cs \<Longrightarrow> link_target ns (visited @ take n cs) = None"
  shows "walk k ns visited cs = Some (visited @ cs)"
  using assms
proof (induction cs arbitrary: visited)
  case (Cons c cs)
  have "link_target ns (visited @ [c]) = None"
    using Cons.prems(3) [of 1] by simp
  moreover have "walk k ns (visited @ [c]) cs = Some ((visited @ [c]) @ cs)"
  proof (rule Cons.IH)
    show "link_target ns ((visited @ [c]) @ take n cs) = None" if "n \<le> length cs" for n
      using Cons.prems(3) [of "Suc n"] that by simp
  qed (use Cons.prems in auto)
  ultimately show ?case
    using Cons.prems by (auto simp: walk.simps)
qed (simp add: walk.simps)

lemma resolve_plain: "plain ns p \<Longrightarrow> resolve ns p = Some p"
proof -
  assume *: "plain ns p"
  then obtain cs where p: "p = root_dir # cs"
    by (cases p) (auto simp: plain_def is_absolute_def)
  have "walk 40 ns [root_dir] cs = Some ([root_dir] @ cs)"
  proof (rule walk_plain)
    show "link_target ns ([root_dir] @ take n cs) = None" if "n \<le> length cs" for n
      using * p by (simp add: plain_iff take_is_prefix)
  qed (use * p in \<open>auto simp: plain_def\<close>)
  with p show ?thesis by (simp add: resolve_def is_absolute_def)
qed

text \<open>
  A tree without links: every path into it is plain, which also gives a quick way to compute
  resolution.
\<close>

definition no_links :: "nodes \<Rightarrow> bool" where
  "no_links ns = list_all (\<lambda>(p, i). case inode_kind i of Symlink _ \<Rightarrow> False | _ \<Rightarrow> True) ns"

lemma no_links_plain:
  assumes "no_links ns" "is_absolute p" "''.'' \<notin> set p" "''..'' \<notin> set p"
  shows "plain ns p"
proof -
  have "link_target ns q = None" for q
    using assms(1) map_of_SomeD [of ns q]
    by (fastforce simp: no_links_def link_target_def list_all_iff split: option.split kind.splits)
  with assms show ?thesis by (simp add: plain_iff)
qed

lemma resolve_code [code]:
  "resolve ns p =
     (if is_absolute p
      then if no_links ns \<and> list_all (\<lambda>c. c \<noteq> ''.'' \<and> c \<noteq> ''..'') p then Some p
           else walk 40 ns [root_dir] (tl p)
      else None)"
  using resolve_plain [OF no_links_plain [of ns p]]
  by (auto simp: resolve_def list_all_iff)

lemma join_path_absolute [simp]: "is_absolute p \<Longrightarrow> join_path d p = p"
  by (simp add: join_path_def)

lemma plain_absolute: "plain ns p \<Longrightarrow> is_absolute p \<and> p \<noteq> []"
  by (auto simp: plain_def is_absolute_def)

lemma locate_plain: "plain (nodes s) p \<Longrightarrow> locate s p = Some p"
  using plain_absolute [of "nodes s" p] by (simp add: locate_def resolve_plain)

lemma locate_absolute:
  "is_absolute p \<Longrightarrow> locate s p = resolve (nodes s) p"
  "is_absolute p \<Longrightarrow> locate_parent s p = resolve_parent (nodes s) p"
  by (auto simp: locate_def locate_parent_def is_absolute_def)

lemma content_plain: "plain ns p \<Longrightarrow> content ns p = file_content (map_of ns p)"
  by (simp add: content_def resolve_plain lookup_def)

lemma plain_update:
  assumes "plain ns p" "\<And>t. inode_kind i \<noteq> Symlink t"
  shows "plain (AList.update q i ns) p"
  using assms
  by (auto simp: plain_iff link_target_def update_conv' split: kind.splits)

lemma content_update:
  assumes "plain ns p" "q \<noteq> p" "\<And>t. inode_kind i \<noteq> Symlink t"
  shows "content (AList.update q i ns) p = content ns p"
  using assms by (simp add: content_plain plain_update update_conv')

lemma content_update_same:
  assumes "plain ns p"
  shows "content (AList.update p (i\<lparr>inode_kind := File c\<rparr>) ns) p = Some c"
  using assms plain_update [OF assms, of "i\<lparr>inode_kind := File c\<rparr>" p]
  by (simp add: content_plain update_conv' file_content_def)

section \<open>Frames\<close>

definition views :: "path set \<Rightarrow> path set \<Rightarrow> (path \<Rightarrow> string option) \<Rightarrow> nodes \<Rightarrow> bool" where
  "views A C v ns = ((\<forall>p\<in>A \<union> C. plain ns p) \<and> (\<forall>p\<in>C. content ns p = v p))"

definition quiet :: "path set \<Rightarrow> path set \<Rightarrow> host \<Rightarrow> bool" where
  "quiet A C h = (\<forall>n. \<forall>(q, i)\<in>set (outside h n). \<forall>p\<in>A \<union> C. \<not> prefix q p)"

definition admits :: "path set \<Rightarrow> path set \<Rightarrow> (path \<Rightarrow> string option) \<Rightarrow> (nodes \<Rightarrow> bool) \<Rightarrow> bool" where
  "admits A C v Q = (\<forall>ns. views A C v ns \<longrightarrow> Q ns)"

definition frame ::
    "path set \<Rightarrow> path set \<Rightarrow> (path \<Rightarrow> string option) \<Rightarrow> (nodes \<Rightarrow> bool) \<Rightarrow> host \<Rightarrow> system \<Rightarrow> bool" where
  "frame A C v Q h s =
     (host s = h \<and> quiet A C h \<and> views A C v (nodes s) \<and> (\<forall>ns\<in>set (history s). Q ns))"

text \<open>A program that leaves the controlled paths alone, however it ends.\<close>

definition leaves :: "path set \<Rightarrow> path set \<Rightarrow> 'a io \<Rightarrow> bool" where
  "leaves A C m =
     (\<forall>v Q h. admits A C v Q \<longrightarrow> triple (frame A C v Q h) m (\<lambda>_. frame A C v Q h) (\<lambda>_. frame A C v Q h))"

lemma leavesD:
  "leaves A C m \<Longrightarrow> admits A C v Q \<Longrightarrow>
     triple (frame A C v Q h) m (\<lambda>_. frame A C v Q h) (\<lambda>_. frame A C v Q h)"
  by (simp add: leaves_def)

lemma leavesI:
  assumes "\<And>v Q h. admits A C v Q \<Longrightarrow>
    triple (frame A C v Q h) m (\<lambda>_. frame A C v Q h) (\<lambda>_. frame A C v Q h)"
  shows "leaves A C m"
  using assms by (simp add: leaves_def)

lemma leaves_trivial [keeps]:
  "leaves A C (return_io x)" "leaves A C (fail_io e)" "leaves A C sleep_forever" "leaves A C (ask f)"
  "leaves A C (guard_io b e)" "leaves A C (unless_none y e)"
  by (auto intro!: leavesI triple_return triple_fail triple_asleep triple_ask triple_guard
      triple_unless_none)

lemma leaves_bind [keeps]:
  assumes "leaves A C m" "\<And>x. leaves A C (k x)"
  shows "leaves A C (bind m k)"
proof (rule leavesI)
  fix v Q h
  assume "admits A C v Q"
  with assms show "triple (frame A C v Q h) (bind m k) (\<lambda>_. frame A C v Q h) (\<lambda>_. frame A C v Q h)"
    by (blast intro: triple_bind [OF leavesD leavesD])
qed

lemma leaves_attempt [keeps]: "leaves A C m \<Longrightarrow> leaves A C (attempt m)"
  by (rule leavesI, rule triple_attempt, drule leavesD, assumption, erule triple_conseq)
    (auto split: option.split)

lemma leaves_for_each [keeps]: "(\<And>x. x \<in> set xs \<Longrightarrow> leaves A C (f x)) \<Longrightarrow> leaves A C (for_each xs f)"
  by (induction xs) (auto intro: keeps)

lemma leaves_collect [keeps]: "(\<And>x. x \<in> set xs \<Longrightarrow> leaves A C (f x)) \<Longrightarrow> leaves A C (collect xs f)"
  by (induction xs) (auto intro!: keeps)

lemma leaves_if [keeps]: "(b \<Longrightarrow> leaves A C m) \<Longrightarrow> (\<not> b \<Longrightarrow> leaves A C m') \<Longrightarrow> leaves A C (if b then m else m')"
  by simp

lemma leaves_option [keeps]:
  "(x = None \<Longrightarrow> leaves A C m) \<Longrightarrow> (\<And>y. x = Some y \<Longrightarrow> leaves A C (f y))
     \<Longrightarrow> leaves A C (case x of None \<Rightarrow> m | Some y \<Rightarrow> f y)"
  by (cases x) auto

lemma leaves_sum [keeps]:
  "(\<And>e. x = Inl e \<Longrightarrow> leaves A C (f e)) \<Longrightarrow> (\<And>y. x = Inr y \<Longrightarrow> leaves A C (g y))
     \<Longrightarrow> leaves A C (case x of Inl e \<Rightarrow> f e | Inr y \<Rightarrow> g y)"
  by (cases x) auto

section \<open>What the system calls keep\<close>

lemma views_update:
  assumes "views A C v ns" "q \<notin> C" "\<And>t. inode_kind i \<noteq> Symlink t"
  shows "views A C v (AList.update q i ns)"
proof -
  have "plain (AList.update q i ns) p" if "p \<in> A \<union> C" for p
    using assms that by (blast intro: plain_update dest: views_def [THEN iffD1])
  moreover have "content (AList.update q i ns) p = v p" if "p \<in> C" for p
    using assms that content_update [of ns p q i] by (auto simp: views_def)
  ultimately show ?thesis by (simp add: views_def)
qed

lemma views_outside:
  assumes "views A C v ns" "\<forall>p\<in>A \<union> C. \<not> prefix q p"
  shows "views A C v (AList.update q i ns)" "views A C v (AList.delete q ns)"
proof -
  have "plain (AList.update q i ns) p \<and> plain (AList.delete q ns) p" if "p \<in> A \<union> C" for p
    using assms that by (auto simp: views_def plain_iff link_target_def update_conv' delete_conv')
  moreover have "q \<noteq> p" if "p \<in> C" for p
    using assms(2) that by blast
  ultimately show "views A C v (AList.update q i ns)" "views A C v (AList.delete q ns)"
    using assms(1) by (auto simp: views_def content_plain update_conv' delete_conv')
qed

lemma views_interfere:
  assumes "\<forall>(q, i)\<in>set xs. \<forall>p\<in>A \<union> C. \<not> prefix q p" "views A C v ns"
  shows "views A C v (interfere xs ns)"
  using assms by (induction xs ns rule: interfere.induct) (auto simp: views_outside split: option.split)

lemma frame_put_nodes:
  "frame A C v Q h s \<Longrightarrow> admits A C w Q \<Longrightarrow> views A C w ns \<Longrightarrow> frame A C w Q h (put_nodes ns s)"
  by (auto simp: frame_def put_nodes_def admits_def)

lemma frame_enter: "frame A C v Q h s \<Longrightarrow> admits A C v Q \<Longrightarrow> frame A C v Q h (enter s)"
  unfolding enter_def Let_def
  using views_interfere [of "outside h (calls s)" A C v "nodes s"] frame_put_nodes [of A C v Q h s v]
  by (auto simp: frame_def quiet_def)

lemma frame_clock [simp]:
  "frame A C v Q h (s\<lparr>clock := c\<rparr>) = frame A C v Q h s"
  "frame A C v Q h (s\<lparr>stdout := l\<rparr>) = frame A C v Q h s"
  "frame A C v Q h (s\<lparr>commands := k\<rparr>) = frame A C v Q h s"
  "frame A C v Q h (s\<lparr>signals := g\<rparr>) = frame A C v Q h s"
  by (simp_all add: frame_def)

lemma triple_call:
  assumes "admits A C v Q"
    and "\<And>n. triple (frame A C v Q h) (body n) R (\<lambda>_. frame A C v Q h)"
  shows "triple (frame A C v Q h) (call_as as_error body) R (\<lambda>_. frame A C v Q h)"
  using assms frame_enter by (fastforce simp: triple_def call_as_def split: option.split)

lemma leaves_call_as [keeps]: "(\<And>n. leaves A C (body n)) \<Longrightarrow> leaves A C (call_as as_error body)"
  by (auto intro!: leavesI triple_call intro: leavesD)

lemma leaves_call [keeps]: "(\<And>n. leaves A C (body n)) \<Longrightarrow> leaves A C (call operation body)"
  unfolding call_def by (rule leaves_call_as)

lemma leaves_pure:
  assumes "\<And>s. snd (m s) = s"
  shows "leaves A C m"
proof (rule leavesI)
  fix v Q h
  have "s' = s" if "m s = (r, s')" for s r s'
    using assms [of s] that by simp
  then show "triple (frame A C v Q h) m (\<lambda>_. frame A C v Q h) (\<lambda>_. frame A C v Q h)"
    unfolding triple_def by (fastforce split: prod.split answer.split)
qed

lemma leaves_observe [keeps]: "leaves A C (observe f)"
  by (auto intro!: leavesI simp: triple_def observe_def frame_enter)

lemma leaves_path_exists [keeps]: "leaves A C (path_exists p)"
  by (auto intro!: leavesI simp: triple_def path_exists_def frame_enter)

lemma leaves_sleep [keeps]: "leaves A C (sleep_millis d)"
  by (auto intro!: leavesI simp: triple_def sleep_millis_def frame_enter)

lemma leaves_print [keeps]: "leaves A C (print_line l)"
  by (auto intro!: leavesI simp: triple_def print_line_def)

lemma leaves_reads [keeps]:
  "leaves A C (nop operation)" "leaves A C (fs_read operation p)"
  "leaves A C (symlink_metadata operation p)" "leaves A C (read_dir operation p)"
  "leaves A C (canonicalize operation p)" "leaves A C try_lock" "leaves A C now_millis"
  "leaves A C (elapsed t)"
  unfolding nop_def fs_read_def symlink_metadata_def read_dir_def canonicalize_def try_lock_def
    now_millis_def elapsed_def
  by (rule keeps leaves_pure; simp add: Let_def split: option.split)+

lemma leaves_processes [keeps]:
  "leaves A C (spawn operation c)" "leaves A C (run_command operation c)"
  "leaves A C (try_wait operation)" "leaves A C (wait_child operation)"
  "leaves A C (resolve_current_exe operation)"
  unfolding spawn_def run_command_def try_wait_def wait_child_def resolve_current_exe_def
  by (rule leaves_call, auto intro!: leavesI keeps simp: triple_def issue_def ask_def)+

lemma leaves_killpg [keeps]: "leaves A C (killpg g sig)"
  by (auto intro!: leavesI simp: triple_def killpg_def frame_enter)

lemma leaves_read_to_string [keeps]: "leaves A C (read_to_string operation p)"
  unfolding read_to_string_def by (auto intro!: keeps)

lemma leaves_poll [keeps]: "leaves A C body \<Longrightarrow> leaves A C (poll n body)"
  by (induction n) (auto intro!: keeps)

section \<open>Calls that change files\<close>

lemma views_new_directory:
  assumes "views A C v ns" "map_of ns q = None" "inode_kind i = Directory"
  shows "views A C v (AList.update q i ns)"
proof -
  have "plain (AList.update q i ns) p" if "p \<in> A \<union> C" for p
    using assms that by (auto simp: views_def intro: plain_update)
  with assms show ?thesis
    by (auto simp: views_def content_plain update_conv' file_content_def)
qed

lemma views_same_kind:
  assumes "views A C v ns" "map_of ns q = Some i" "inode_kind j = inode_kind i"
  shows "views A C v (AList.update q j ns)"
proof -
  have "link_target (AList.update q j ns) p = link_target ns p" for p
    using assms by (auto simp: link_target_def update_conv' split: option.split)
  then have "plain (AList.update q j ns) p = plain ns p" for p
    by (simp add: plain_iff)
  with assms show ?thesis
    by (auto simp: views_def content_plain update_conv' file_content_def)
qed

lemma views_write:
  assumes "views A C v ns" "q \<in> C" "inode_kind i = File c"
  shows "views A C (v(q := Some c)) (AList.update q i ns)"
proof -
  have "plain (AList.update q i ns) p" if "p \<in> A \<union> C" for p
    using assms that by (auto simp: views_def intro: plain_update)
  with assms show ?thesis
    by (auto simp: views_def content_plain update_conv' file_content_def)
qed

lemma views_plain: "views A C v ns \<Longrightarrow> p \<in> A \<union> C \<Longrightarrow> plain ns p"
  by (simp add: views_def)

lemma frame_views: "frame A C v Q h s \<Longrightarrow> views A C v (nodes s)"
  by (simp add: frame_def)

lemma frame_locate: "frame A C v Q h s \<Longrightarrow> p \<in> A \<union> C \<Longrightarrow> locate s p = Some p"
  by (rule locate_plain, rule views_plain, erule frame_views)

inductive settles :: "path set \<Rightarrow> path set \<Rightarrow> (path \<Rightarrow> string option) \<Rightarrow> system \<Rightarrow> system \<Rightarrow> bool"
  for A C v s where
  settles_same: "settles A C v s s"
| settles_put: "views A C v ns \<Longrightarrow> settles A C v s (put_nodes ns s)"

lemma leaves_step:
  assumes "\<And>s v. views A C v (nodes s) \<Longrightarrow> settles A C v s (snd (m s))"
  shows "leaves A C m"
proof (rule leavesI)
  fix v Q h
  assume "admits A C v Q"
  have "frame A C v Q h (snd (m s))" if "frame A C v Q h s" for s
    using assms [OF frame_views [OF that]] frame_put_nodes [OF that \<open>admits A C v Q\<close>] that
    by (auto elim: settles.cases)
  then have "frame A C v Q h s'" if "frame A C v Q h s" "m s = (r, s')" for s r s'
    using that by (metis snd_conv)
  then show "triple (frame A C v Q h) m (\<lambda>_. frame A C v Q h) (\<lambda>_. frame A C v Q h)"
    unfolding triple_def by (fastforce split: prod.split answer.split)
qed

lemma views_add_directories:
  "views A C v ns \<Longrightarrow> inode_kind i = Directory \<Longrightarrow>
     views A C v (fold (\<lambda>q ns. if map_of ns q = None then AList.update q i ns else ns) qs ns)"
  by (induction qs arbitrary: ns) (auto simp: views_new_directory)

lemma leaves_create_dir_all [keeps]: "leaves A C (create_dir_all operation p)"
  unfolding create_dir_all_def add_directories_def
  by (rule leaves_call, rule leaves_step)
    (simp add: settles_same settles_put views_add_directories del: upt_Suc split: option.split)

lemma leaves_set_mode [keeps]: "leaves A C (set_mode operation p m)"
  unfolding set_mode_def
  by (rule leaves_call, rule leaves_step)
    (auto split: option.split intro!: settles_same settles_put intro: views_same_kind)

lemma leaves_mkdir [keeps]: "leaves A C (mkdir operation p)"
  unfolding mkdir_def
  by (rule leaves_call, rule leaves_step)
    (auto split: option.split intro!: settles_same settles_put intro: views_new_directory)

text \<open>
  A file whose name no controlled path ends in is not a controlled path, wherever its directory
  resolves to.
\<close>

definition foreign :: "path set \<Rightarrow> path \<Rightarrow> bool" where
  "foreign C p = (\<exists>f. file_name p = Some f \<and> (\<forall>q\<in>C. last q \<noteq> f))"

lemma foreign_joined: "foreign C p \<Longrightarrow> foreign C (join_path d p)"
proof -
  assume "foreign C p"
  then obtain f q where p: "p = q @ [f]" and f: "f \<notin> {root_dir, ''..'', ''.''}" "\<forall>q\<in>C. last q \<noteq> f"
    by (cases p rule: rev_cases) (auto simp: foreign_def file_name_def split: if_splits)
  then obtain r where "join_path d p = r @ [f]"
    by (cases "is_absolute p") (auto simp: join_path_def)
  with f show ?thesis by (simp add: foreign_def file_name_def)
qed

lemma foreign_resolved:
  "foreign C p \<Longrightarrow> resolve_parent ns p = Some t \<Longrightarrow> t \<notin> C"
  by (auto simp: foreign_def resolve_parent_def split: option.split_asm)

lemma foreign_parent:
  "foreign C p \<Longrightarrow> locate_parent s p = Some t \<Longrightarrow> t \<notin> C"
  using foreign_resolved [OF foreign_joined] by (auto simp: locate_parent_def split: if_splits)

lemma resolve_parent_plain:
  assumes "p = d @ [f]" "plain ns d" "f \<notin> {root_dir, ''..'', ''.''}"
  shows "resolve_parent ns p = Some p"
  using assms by (simp add: resolve_parent_def file_name_def resolve_plain)

lemma plain_parent: "plain ns p \<Longrightarrow> file_name p \<noteq> None \<Longrightarrow> resolve_parent ns p = Some p"
proof -
  assume p: "plain ns p" and f: "file_name p \<noteq> None"
  then have "p = butlast p @ [last p]" "last p \<notin> {root_dir, ''..'', ''.''}"
    by (auto simp: file_name_def split: if_splits)
  moreover have "butlast p \<noteq> []"
    using p f by (cases p) (auto simp: plain_iff is_absolute_def file_name_def)
  moreover have "plain ns (butlast p)"
    using plain_prefix [of ns "butlast p" "[last p]"] p \<open>p = butlast p @ [last p]\<close> \<open>butlast p \<noteq> []\<close>
    by metis
  ultimately show ?thesis using resolve_parent_plain by blast
qed

lemma locate_parent_plain: "plain (nodes s) p \<Longrightarrow> file_name p \<noteq> None \<Longrightarrow> locate_parent s p = Some p"
  using plain_absolute [of "nodes s" p] by (simp add: locate_absolute plain_parent)

lemma leaves_persist:
  assumes "\<And>s v t. views A C v (nodes s) \<Longrightarrow> locate_parent s p = Some t \<Longrightarrow> t \<notin> C"
  shows "leaves A C (persist operation p c)"
  unfolding persist_def
  by (rule leaves_call, rule leaves_step)
    (auto split: option.split intro!: settles_same settles_put views_update dest: assms
      simp: new_file_def)

lemma leaves_atomic_write:
  assumes "\<And>s v t. views A C v (nodes s) \<Longrightarrow> locate_parent s p = Some t \<Longrightarrow> t \<notin> C"
  shows "leaves A C (atomic_write p c)"
  unfolding atomic_write_def by (intro keeps leaves_persist assms)

lemma leaves_atomic_write_foreign [keeps]: "foreign C p \<Longrightarrow> leaves A C (atomic_write p c)"
  by (rule leaves_atomic_write) (rule foreign_parent)

lemma leaves_open_create:
  assumes "\<And>s v t. views A C v (nodes s) \<Longrightarrow>
      (if nofollow then locate_parent s p else locate s p) = Some t \<Longrightarrow> t \<notin> C"
  shows "leaves A C (open_create operation nofollow p)"
  unfolding open_create_def
  by (rule leaves_call, rule leaves_step)
    (auto split: option.split kind.split intro!: settles_same settles_put views_update
      dest: assms simp: new_file_def)

lemma leaves_open_nofollow [keeps]: "foreign C p \<Longrightarrow> leaves A C (open_create operation True p)"
  by (rule leaves_open_create) (simp add: foreign_parent)

lemma leaves_open_plain [keeps]:
  "p \<in> A \<Longrightarrow> p \<notin> C \<Longrightarrow> leaves A C (open_create operation False p)"
  by (rule leaves_open_create) (auto simp: locate_plain views_def)

lemma map_of_filter_key:
  "map_of (filter (\<lambda>(q, _). P q) ns) k = (if P k then map_of ns k else None)"
  by (induction ns) auto

lemma views_filter:
  assumes "views A C v ns" "\<And>q. q \<in> C \<Longrightarrow> P q"
  shows "views A C v (filter (\<lambda>(q, _). P q) ns)"
proof -
  have "plain (filter (\<lambda>(q, _). P q) ns) p" if "plain ns p" for p
    using that by (auto simp: plain_iff link_target_def map_of_filter_key)
  with assms show ?thesis
    by (auto simp: views_def content_plain map_of_filter_key)
qed

lemma leaves_remove_dir_all [keeps]:
  assumes "p \<in> A" "file_name p \<noteq> None" "\<And>q. q \<in> C \<Longrightarrow> \<not> prefix p q"
  shows "leaves A C (remove_dir_all operation p)"
proof (rule leavesI)
  fix v Q h
  assume adm: "admits A C v Q"
  have "frame A C v Q h (put_nodes (filter (\<lambda>(q, _). P q) (nodes (enter s))) (enter s))"
    if "frame A C v Q h s" "\<And>q. q \<in> C \<Longrightarrow> P q" for s P
    by (intro frame_put_nodes [OF frame_enter [OF that(1) adm] adm] views_filter
        frame_views [OF frame_enter [OF that(1) adm]] that(2))
  moreover have "\<not> strict_prefix p q" if "q \<in> C" for q
    using assms(3) [OF that] by auto
  moreover have "locate_parent (enter s) p = Some p" if "frame A C v Q h s" for s
    using frame_views [OF frame_enter [OF that adm]] assms(1,2) by (intro locate_parent_plain views_plain) auto
  ultimately show "triple (frame A C v Q h) (remove_dir_all operation p)
      (\<lambda>_. frame A C v Q h) (\<lambda>_. frame A C v Q h)"
    using assms(3) frame_enter [OF _ adm]
    by (auto simp: triple_def remove_dir_all_def Let_def split: option.split)
qed

section \<open>Writing a controlled path\<close>

abbreviation either :: "path set \<Rightarrow> path set \<Rightarrow> (path \<Rightarrow> string option) \<Rightarrow> (path \<Rightarrow> string option)
    \<Rightarrow> (nodes \<Rightarrow> bool) \<Rightarrow> host \<Rightarrow> system \<Rightarrow> bool" where
  "either A C v w Q h s \<equiv> frame A C v Q h s \<or> frame A C w Q h s"

lemma triple_fs_write:
  assumes "p \<in> C" "admits A C v Q" "admits A C (v(p := Some c)) Q"
  shows "triple (frame A C v Q h) (fs_write operation p c)
    (\<lambda>_. frame A C (v(p := Some c)) Q h) (\<lambda>_. either A C v (v(p := Some c)) Q h)"
proof -
  have "frame A C (v(p := Some c)) Q h (write_node p c s)" if "frame A C v Q h s" for s
    unfolding write_node_def using that assms
    by (intro frame_put_nodes [OF that assms(3)] views_write frame_views [OF that])
      (auto simp: new_file_def split: option.split)
  moreover have "frame A C v Q h (enter s)" "locate (enter s) p = Some p"
    if "frame A C v Q h s" for s
    using frame_enter [OF that assms(2)] frame_locate assms(1) by auto
  ultimately show ?thesis
    by (auto simp: triple_def fs_write_def Let_def split: option.split)
qed

lemma triple_persist:
  assumes "p \<in> C" "file_name p \<noteq> None" "admits A C v Q" "admits A C (v(p := Some c)) Q"
  shows "triple (frame A C v Q h) (persist operation p c)
    (\<lambda>_. frame A C (v(p := Some c)) Q h) (\<lambda>_. frame A C v Q h)"
  unfolding persist_def call_def
proof (rule triple_call [OF assms(3)])
  have "locate_parent s p = Some p" if "frame A C v Q h s" for s
    using that assms(1,2) by (auto simp: frame_def intro: locate_parent_plain views_plain)
  moreover have "frame A C (v(p := Some c)) Q h (put_nodes (AList.update p (new_file s c 384) (nodes s)) s)"
    if "frame A C v Q h s" for s
    using that assms by (intro frame_put_nodes [OF that] views_write frame_views [OF that])
      (auto simp: new_file_def)
  ultimately show "triple (frame A C v Q h)
     (\<lambda>s. case locate_parent s p of
       None \<Rightarrow> (Err (Io operation (OsError ''too many links'')), s)
     | Some t \<Rightarrow>
         if is_directory (map_of (nodes s) t)
         then (Err (Io operation (OsError ''is a directory'')), s)
         else (Ok (), put_nodes (AList.update t (new_file s c 384) (nodes s)) s))
     (\<lambda>_. frame A C (v(p := Some c)) Q h) (\<lambda>_. frame A C v Q h)" for n :: nat
    by (auto simp: triple_def)
qed

lemma triple_leaves:
  assumes "leaves A C m" "admits A C v Q" "\<And>e s. frame A C v Q h s \<Longrightarrow> E e s"
  shows "triple (frame A C v Q h) m (\<lambda>_. frame A C v Q h) E"
  using leavesD [OF assms(1,2)] by (rule triple_conseq) (auto intro: assms(3))

lemma triple_atomic_write:
  assumes "p \<in> C" "admits A C v Q" "admits A C (v(p := Some c)) Q"
  shows "triple (frame A C v Q h) (atomic_write p c)
    (\<lambda>_. frame A C (v(p := Some c)) Q h) (\<lambda>_. either A C v (v(p := Some c)) Q h)"
proof (cases "file_name p = None")
  case True
  have "triple (frame A C v Q h) (atomic_write p c) (\<lambda>_ _. False) (\<lambda>_. frame A C v Q h)"
    unfolding atomic_write_def True
    by (rule triple_bind, rule triple_leaves [OF _ assms(2)], intro keeps, assumption,
        rule triple_bind, rule triple_leaves [OF _ assms(2)], intro keeps, assumption,
        rule triple_bind [where R = "\<lambda>_ _. False"], rule triple_guard)
      (auto simp: triple_def)
  then show ?thesis by (rule triple_conseq) auto
next
  case False
  have last: "triple (frame A C (v(p := Some c)) Q h)
    (if d = [] then fail_io (Io ''syncing state directory'' NotFound) else nop ''syncing state directory'')
    (\<lambda>_. frame A C (v(p := Some c)) Q h) (\<lambda>_. either A C v (v(p := Some c)) Q h)" for d :: path
    by (rule triple_leaves [OF _ assms(3)]) (auto intro: keeps)
  have mid: "triple (frame A C v Q h) (persist ''publishing state'' p c)
    (\<lambda>_. frame A C (v(p := Some c)) Q h) (\<lambda>_. either A C v (v(p := Some c)) Q h)"
    by (rule triple_conseq [OF triple_persist [OF assms(1) False assms(2,3)]]) auto
  show ?thesis
    unfolding atomic_write_def
    by (rule triple_bind, rule triple_leaves [OF _ assms(2)], intro keeps, simp)+
      (rule triple_bind [OF mid last])
qed

text \<open>Reading a controlled path gives what the frame says.\<close>

lemma triple_fs_read:
  assumes "p \<in> C" "admits A C v Q"
  shows "triple (frame A C v Q h) (fs_read operation p)
    (\<lambda>c s. v p = Some c \<and> frame A C v Q h s) (\<lambda>_. frame A C v Q h)"
proof -
  have "file_content (lookup (nodes s) (locate s p)) = v p" if "frame A C v Q h s" for s
    using that assms(1) frame_locate [OF that] by (auto simp: frame_def views_def content_plain lookup_def)
  then show ?thesis
    unfolding fs_read_def call_def
    by (intro triple_call assms) (auto simp: triple_def Let_def split: option.split)
qed

section \<open>Invariants over the controlled contents\<close>

text \<open>
  The assertions of the larger proofs. \<open>safe\<close> is what every state of the file system has to
  satisfy, \<open>now\<close> what the current one does, both as predicates on the controlled contents. Every
  end other than success keeps \<open>safe\<close>.
\<close>

definition secured :: "path set \<Rightarrow> path set \<Rightarrow> ((path \<Rightarrow> string option) \<Rightarrow> bool) \<Rightarrow> nodes \<Rightarrow> bool" where
  "secured A C safe ns = (\<exists>w. safe w \<and> views A C w ns)"

definition within ::
    "path set \<Rightarrow> path set \<Rightarrow> ((path \<Rightarrow> string option) \<Rightarrow> bool) \<Rightarrow> host
      \<Rightarrow> ((path \<Rightarrow> string option) \<Rightarrow> bool) \<Rightarrow> system \<Rightarrow> bool" where
  "within A C safe h now s = (\<exists>w. now w \<and> safe w \<and> frame A C w (secured A C safe) h s)"

definition step_ok ::
    "path set \<Rightarrow> path set \<Rightarrow> ((path \<Rightarrow> string option) \<Rightarrow> bool) \<Rightarrow> host
      \<Rightarrow> ((path \<Rightarrow> string option) \<Rightarrow> bool) \<Rightarrow> 'a io \<Rightarrow> ('a \<Rightarrow> (path \<Rightarrow> string option) \<Rightarrow> bool) \<Rightarrow> bool" where
  "step_ok A C safe h now m post =
     triple (within A C safe h now) m (\<lambda>x. within A C safe h (post x)) (\<lambda>_. within A C safe h (\<lambda>_. True))"

lemma admits_secured: "safe w \<Longrightarrow> admits A C w (secured A C safe)"
  by (auto simp: admits_def secured_def)

lemma within_mono: "within A C safe h now s \<Longrightarrow> (\<And>w. safe w \<Longrightarrow> now w \<Longrightarrow> now' w) \<Longrightarrow> within A C safe h now' s"
  by (auto simp: within_def)

lemma step_triple:
  assumes "\<And>w. now w \<Longrightarrow> safe w \<Longrightarrow> triple (frame A C w (secured A C safe) h) m
      (\<lambda>x. within A C safe h (post x)) (\<lambda>_. within A C safe h (\<lambda>_. True))"
  shows "step_ok A C safe h now m post"
  unfolding step_ok_def triple_def
proof (intro allI impI)
  fix s
  assume "within A C safe h now s"
  then obtain w where "now w" "safe w" "frame A C w (secured A C safe) h s" by (auto simp: within_def)
  with assms [of w] show "case m s of (Ok x, s') \<Rightarrow> within A C safe h (post x) s'
      | (Err e, s') \<Rightarrow> within A C safe h (\<lambda>_. True) s'
      | (Asleep, s') \<Rightarrow> within A C safe h (\<lambda>_. True) s'"
    by (simp add: triple_def)
qed

lemma step_conseq:
  assumes "step_ok A C safe h now m post"
    and "\<And>w. safe w \<Longrightarrow> now' w \<Longrightarrow> now w" "\<And>x w. safe w \<Longrightarrow> post x w \<Longrightarrow> post' x w"
  shows "step_ok A C safe h now' m post'"
  using assms(1) unfolding step_ok_def
  by (rule triple_conseq) (auto elim!: within_mono intro: assms(2,3))

lemma step_bind:
  assumes "step_ok A C safe h now m mid" "\<And>x. step_ok A C safe h (mid x) (k x) post"
  shows "step_ok A C safe h now (bind m k) post"
  using assms unfolding step_ok_def by (rule triple_bind)

lemma step_leaves:
  assumes "leaves A C m"
  shows "step_ok A C safe h now m (\<lambda>_. now)"
proof (rule step_triple)
  fix w
  assume "now w" "safe w"
  then show "triple (frame A C w (secured A C safe) h) m (\<lambda>_. within A C safe h now)
      (\<lambda>_. within A C safe h (\<lambda>_. True))"
    by (intro triple_conseq [OF leavesD [OF assms admits_secured [of safe, OF \<open>safe w\<close>]]])
      (auto simp: within_def)
qed

lemma step_then:
  assumes "leaves A C m" "\<And>x. step_ok A C safe h now (k x) post"
  shows "step_ok A C safe h now (bind m k) post"
  by (rule step_bind [OF step_leaves [OF assms(1)] assms(2)])

lemma step_last:
  assumes "leaves A C m" "\<And>x w. safe w \<Longrightarrow> now w \<Longrightarrow> post x w"
  shows "step_ok A C safe h now m post"
  by (rule step_conseq [OF step_leaves [OF assms(1), of safe h now]]) (auto intro: assms(2))

lemma step_pure:
  assumes "\<And>w. now w \<Longrightarrow> safe w \<Longrightarrow> b" "b \<Longrightarrow> step_ok A C safe h now m post"
  shows "step_ok A C safe h now m post"
proof (cases b)
  case False
  with assms(1) have "\<not> within A C safe h now s" for s by (auto simp: within_def)
  then show ?thesis by (simp add: step_ok_def triple_def)
qed (rule assms(2))

lemma step_return: "(\<And>w. safe w \<Longrightarrow> now w \<Longrightarrow> post x w) \<Longrightarrow> step_ok A C safe h now (return_io x) post"
  unfolding step_ok_def by (rule triple_return) (auto elim: within_mono)

lemma step_fail: "step_ok A C safe h now (fail_io e) post"
  unfolding step_ok_def by (rule triple_fail) (auto elim: within_mono)

lemma step_asleep: "step_ok A C safe h now sleep_forever post"
  unfolding step_ok_def by (rule triple_asleep) (auto elim: within_mono)

lemma step_guard:
  assumes "\<And>w. safe w \<Longrightarrow> now w \<Longrightarrow> b \<Longrightarrow> post () w"
  shows "step_ok A C safe h now (guard_io b e) post"
  using assms by (auto simp: guard_io_def intro: step_return step_fail)

lemma step_attempt:
  assumes "triple (within A C safe h now) m (\<lambda>x. within A C safe h (post (Inr x)))
      (\<lambda>e. within A C safe h (\<lambda>w. case e of Some x \<Rightarrow> post (Inl x) w | None \<Rightarrow> True))"
  shows "step_ok A C safe h now (attempt m) post"
  unfolding step_ok_def
  by (rule triple_attempt, rule triple_conseq [OF assms]) (auto split: option.split elim: within_mono)

lemma step_for_each:
  assumes "\<And>ys x zs. xs = ys @ x # zs \<Longrightarrow> step_ok A C safe h (I ys) (f x) (\<lambda>_. I (ys @ [x]))"
  shows "step_ok A C safe h (I []) (for_each xs f) (\<lambda>_. I xs)"
  unfolding step_ok_def
  by (rule triple_for_each [where I = "\<lambda>ys. within A C safe h (I ys)"])
    (rule assms [unfolded step_ok_def])

lemma step_ex:
  assumes "\<And>v. now v \<Longrightarrow> safe v \<Longrightarrow> step_ok A C safe h (\<lambda>w. w = v) m post"
  shows "step_ok A C safe h now m post"
proof (rule step_triple)
  fix v
  assume "now v" "safe v"
  from assms [OF this] show "triple (frame A C v (secured A C safe) h) m
      (\<lambda>x. within A C safe h (post x)) (\<lambda>_. within A C safe h (\<lambda>_. True))"
    unfolding step_ok_def by (rule triple_pre) (use \<open>safe v\<close> in \<open>auto simp: within_def\<close>)
qed

lemma step_if:
  "(b \<Longrightarrow> step_ok A C safe h now m post) \<Longrightarrow> (\<not> b \<Longrightarrow> step_ok A C safe h now m' post)
     \<Longrightarrow> step_ok A C safe h now (if b then m else m') post"
  by simp

lemma step_host: "step_ok A C safe h now (ask (\<lambda>s. f (host s))) (\<lambda>x w. now w \<and> x = f h)"
  unfolding step_ok_def by (rule triple_ask) (auto simp: within_def frame_def)

lemma step_collect:
  assumes "\<And>x. x \<in> set xs \<Longrightarrow> step_ok A C safe h now (f x) (\<lambda>y w. now w \<and> P y)"
  shows "step_ok A C safe h now (collect xs f) (\<lambda>ys w. now w \<and> list_all P ys)"
  using assms
proof (induction xs)
  case Nil
  then show ?case by (auto intro: step_return)
next
  case (Cons x xs)
  have "step_ok A C safe h (\<lambda>w. now w \<and> P y) (collect xs f) (\<lambda>ys w. now w \<and> P y \<and> list_all P ys)" for y
    by (cases "P y", rule step_conseq [OF Cons.IH [OF Cons.prems]], auto, rule step_pure [where b = False], auto)
  then show ?case
    using Cons.prems by (auto intro!: step_bind [where m = "f x"] step_bind [where m = "collect xs f"] step_return)
qed

text \<open>Programs that keep an assertion however they end.\<close>

definition stays ::
    "path set \<Rightarrow> path set \<Rightarrow> ((path \<Rightarrow> string option) \<Rightarrow> bool) \<Rightarrow> host
      \<Rightarrow> ((path \<Rightarrow> string option) \<Rightarrow> bool) \<Rightarrow> 'a io \<Rightarrow> bool" where
  "stays A C safe h now m =
     triple (within A C safe h now) m (\<lambda>_. within A C safe h now) (\<lambda>_. within A C safe h now)"

lemma stays_leaves:
  assumes "leaves A C m"
  shows "stays A C safe h now m"
  unfolding stays_def triple_def
proof (intro allI impI)
  fix s
  assume "within A C safe h now s"
  then obtain w where w: "now w" "safe w" "frame A C w (secured A C safe) h s" by (auto simp: within_def)
  from leavesD [OF assms admits_secured [of safe, OF w(2)]] w
  show "case m s of (Ok x, s') \<Rightarrow> within A C safe h now s'
      | (Err e, s') \<Rightarrow> within A C safe h now s' | (Asleep, s') \<Rightarrow> within A C safe h now s'"
    by (fastforce simp: triple_def within_def split: prod.splits answer.splits)
qed

lemma stays_bind: "stays A C safe h now m \<Longrightarrow> (\<And>x. stays A C safe h now (k x)) \<Longrightarrow> stays A C safe h now (bind m k)"
  unfolding stays_def by (rule triple_bind)

lemma stays_for_each:
  "(\<And>x. x \<in> set xs \<Longrightarrow> stays A C safe h now (f x)) \<Longrightarrow> stays A C safe h now (for_each xs f)"
  by (induction xs) (auto intro: stays_bind stays_leaves keeps)

lemma stays_write:
  assumes "p \<in> C" "\<And>w. safe w \<Longrightarrow> now w \<Longrightarrow> safe (w(p := Some c)) \<and> now (w(p := Some c))"
  shows "stays A C safe h now (fs_write operation p c)"
  unfolding stays_def triple_def
proof (intro allI impI)
  fix s
  assume "within A C safe h now s"
  then obtain w where w: "now w" "safe w" "frame A C w (secured A C safe) h s" by (auto simp: within_def)
  have new: "safe (w(p := Some c))" "now (w(p := Some c))" using assms(2) w by auto
  from triple_fs_write [OF assms(1) admits_secured [of safe, OF w(2)] admits_secured [of safe, OF new(1)]] w new
  show "case fs_write operation p c s of (Ok x, s') \<Rightarrow> within A C safe h now s'
      | (Err e, s') \<Rightarrow> within A C safe h now s' | (Asleep, s') \<Rightarrow> within A C safe h now s'"
    by (fastforce simp: triple_def within_def split: prod.splits answer.splits)
qed

lemma stays_host:
  "stays A C safe h now (k (f h)) \<Longrightarrow> stays A C safe h now (bind (ask (\<lambda>s. f (host s))) k)"
  unfolding stays_def triple_def by (auto simp: bind_def ask_def within_def frame_def)

lemma step_bind_host:
  "step_ok A C safe h now (k (f h)) post \<Longrightarrow> step_ok A C safe h now (bind (ask (\<lambda>s. f (host s))) k) post"
  unfolding step_ok_def triple_def by (auto simp: bind_def ask_def within_def frame_def)

lemma step_attempt_stays: "stays A C safe h now m \<Longrightarrow> step_ok A C safe h now (attempt m) (\<lambda>_. now)"
  unfolding stays_def
  by (rule step_attempt, erule triple_conseq) (auto split: option.split elim: within_mono)

lemma step_attempt_any:
  "step_ok A C safe h now m (\<lambda>x. post (Inr x)) \<Longrightarrow> (\<And>e w. safe w \<Longrightarrow> post (Inl e) w)
     \<Longrightarrow> step_ok A C safe h now (attempt m) post"
  unfolding step_ok_def
  by (rule step_attempt [unfolded step_ok_def], erule triple_conseq) (auto split: option.split elim: within_mono)

lemma step_read:
  assumes "p \<in> C"
  shows "step_ok A C safe h now (fs_read operation p) (\<lambda>c w. now w \<and> w p = Some c)"
proof (rule step_triple)
  fix w
  assume "now w" "safe w"
  then show "triple (frame A C w (secured A C safe) h) (fs_read operation p)
      (\<lambda>c. within A C safe h (\<lambda>w. now w \<and> w p = Some c)) (\<lambda>_. within A C safe h (\<lambda>_. True))"
    by (intro triple_conseq [OF triple_fs_read [OF assms admits_secured [of safe, OF \<open>safe w\<close>]]])
      (auto simp: within_def)
qed

lemma step_write:
  assumes "p \<in> C" "\<And>w. safe w \<Longrightarrow> now w \<Longrightarrow> safe (w(p := Some c)) \<and> post (w(p := Some c))"
  shows "step_ok A C safe h now (fs_write operation p c) (\<lambda>_. post)"
proof (rule step_triple)
  fix w
  assume "now w" "safe w"
  with assms(2) have new: "safe (w(p := Some c))" "post (w(p := Some c))" by auto
  show "triple (frame A C w (secured A C safe) h) (fs_write operation p c)
      (\<lambda>_. within A C safe h post) (\<lambda>_. within A C safe h (\<lambda>_. True))"
    by (rule triple_conseq [OF triple_fs_write [OF assms(1) admits_secured [of safe, OF \<open>safe w\<close>]
          admits_secured [of safe, OF new(1)]]])
      (use new \<open>safe w\<close> in \<open>auto simp: within_def\<close>)
qed

lemma within_start:
  assumes "quiet A C (host s)" "\<And>p. p \<in> A \<union> C \<Longrightarrow> plain (nodes s) p" "history s = []"
    and "\<And>p. p \<in> C \<Longrightarrow> content (nodes s) p = v p" "safe v" "now v"
  shows "within A C safe (host s) now s"
  unfolding within_def frame_def views_def using assms by auto

lemma within_end:
  assumes "within A C safe h now s"
  obtains w where "now w" "safe w" "\<And>p. p \<in> C \<Longrightarrow> content (nodes s) p = w p"
    "\<And>ns. ns \<in> set (history s) \<Longrightarrow> \<exists>w. safe w \<and> (\<forall>p\<in>C. content ns p = w p)"
  using assms unfolding within_def frame_def views_def secured_def by blast

text \<open>
  Other processes leave the controlled paths alone and none of them is reached through a symbolic
  link; the record of states starts empty.
\<close>

definition undisturbed :: "path set \<Rightarrow> path set \<Rightarrow> system \<Rightarrow> bool" where
  "undisturbed A C s =
     (quiet A C (host s) \<and> (\<forall>p\<in>A \<union> C. plain (nodes s) p) \<and> history s = [])"

section \<open>Time\<close>

text \<open>A steady program never turns the clock back; an awake one does not sleep forever.\<close>

definition steady :: "'a io \<Rightarrow> bool" where
  "steady m = (\<forall>s. host (snd (m s)) = host s \<and> clock s \<le> clock (snd (m s)))"

definition awake :: "'a io \<Rightarrow> bool" where
  "awake m = (\<forall>s. fst (m s) \<noteq> Asleep)"

lemma steady_enter [simp]: "host (enter s) = host s" "clock s \<le> clock (enter s)"
  by (simp_all add: enter_def put_nodes_def Let_def)

lemma steady_put [simp]: "host (put_nodes ns s) = host s" "clock (put_nodes ns s) = clock s"
  by (simp_all add: put_nodes_def)

lemma steady_trivial [keeps_time]:
  "steady (return_io x)" "steady (fail_io e)" "steady sleep_forever" "steady (ask f)"
  "steady (guard_io b e)" "steady (unless_none y e)" "steady (observe g)" "steady (path_exists p)"
  "steady (sleep_millis d)" "steady (print_line l)"
  by (auto simp: steady_def return_io_def fail_io_def sleep_forever_def ask_def guard_io_def
      unless_none_def observe_def path_exists_def sleep_millis_def print_line_def
      intro: trans_le_add1 split: option.split)

lemma steady_bind [keeps_time]:
  assumes "steady m" "\<And>x. steady (k x)"
  shows "steady (bind m k)"
proof -
  have "host s' = host s \<and> clock s \<le> clock s'" if "m s = (r, s')" for s r s'
    using assms(1) that unfolding steady_def by (metis snd_conv)
  moreover have "host (snd (k x s)) = host s \<and> clock s \<le> clock (snd (k x s))" for x s
    using assms(2) by (simp add: steady_def)
  ultimately show ?thesis
    unfolding steady_def bind_def by (fastforce split: prod.split answer.split dest: order_trans)
qed

lemma awake_trivial [keeps_time]:
  "awake (return_io x)" "awake (fail_io e)" "awake (ask f)" "awake (guard_io b e)"
  "awake (unless_none y e)" "awake (observe g)" "awake (path_exists p)" "awake (sleep_millis d)"
  "awake (print_line l)"
  by (auto simp: awake_def return_io_def fail_io_def ask_def guard_io_def unless_none_def
      observe_def path_exists_def sleep_millis_def print_line_def split: option.split)

lemma awake_bind [keeps_time]: "awake m \<Longrightarrow> (\<And>x. awake (k x)) \<Longrightarrow> awake (bind m k)"
  unfolding awake_def bind_def by (auto split: prod.split answer.split) (metis fst_conv)

lemma time_if [keeps_time]:
  "steady m \<Longrightarrow> steady m' \<Longrightarrow> steady (if b then m else m')"
  "awake m \<Longrightarrow> awake m' \<Longrightarrow> awake (if b then m else m')"
  by simp_all

lemma time_call [keeps_time]:
  "(\<And>n. steady (body n)) \<Longrightarrow> steady (call operation body)"
  "(\<And>n. awake (body n)) \<Longrightarrow> awake (call operation body)"
  by (auto simp: steady_def awake_def call_def call_as_def split: option.split intro: order_trans [OF steady_enter(2)])

lemma time_try_lock [keeps_time]: "steady try_lock" "awake try_lock"
  by (auto simp: try_lock_def intro: keeps_time)

lemma time_elapsed [keeps_time]: "steady (elapsed t)" "awake (elapsed t)"
  by (auto simp: elapsed_def intro: keeps_time)

lemma time_processes [keeps_time]:
  "steady (try_wait operation)" "awake (try_wait operation)" "steady (killpg g sig)"
  "awake (killpg g sig)" "steady (nop operation)" "awake (nop operation)"
  unfolding try_wait_def nop_def
  by (intro keeps_time | simp add: steady_def awake_def killpg_def)+

lemma time_option [keeps_time]:
  "steady m \<Longrightarrow> (\<And>y. steady (f y)) \<Longrightarrow> steady (case x of None \<Rightarrow> m | Some y \<Rightarrow> f y)"
  "awake m \<Longrightarrow> (\<And>y. awake (f y)) \<Longrightarrow> awake (case x of None \<Rightarrow> m | Some y \<Rightarrow> f y)"
  by (auto split: option.split)

text \<open>
  A polling loop whose body gives up once \<open>limit\<close> milliseconds have passed ends within its rounds.
\<close>

definition gives_up :: "nat \<Rightarrow> 'a option io \<Rightarrow> bool" where
  "gives_up late body = (\<forall>s. late \<le> clock s \<longrightarrow> fst (body s) \<noteq> Ok None)"

lemma poll_returns_after:
  assumes "steady body" "awake body" "gives_up late body"
  shows "0 < n \<Longrightarrow> late \<le> clock s + 10 * (n - 1) \<Longrightarrow> fst (poll n body s) \<noteq> Asleep"
proof (induction n arbitrary: s)
  case (Suc n)
  obtain r s' where b: "body s = (r, s')" by fastforce
  have r: "r \<noteq> Asleep" "clock s \<le> clock s'" "late \<le> clock s \<Longrightarrow> r \<noteq> Ok None"
    using assms b by (auto simp: awake_def steady_def gives_up_def dest: spec [of _ s])
  show ?case
  proof (cases "r = Ok None")
    case True
    with r(3) Suc.prems have n: "0 < n" by (cases n) auto
    obtain t where t: "sleep_millis 10 s' = (Ok (), t)" "clock s' + 10 \<le> clock t"
      by (auto simp: sleep_millis_def)
    have "fst (poll n body t) \<noteq> Asleep"
      using Suc.prems n t(2) r(2) by (intro Suc.IH) (auto simp: algebra_simps)
    with b True t show ?thesis by (simp add: bind_def)
  next
    case False
    with b r(1) show ?thesis
      by (cases r) (auto simp: bind_def return_io_def split: option.split)
  qed
qed simp

lemma poll_returns:
  assumes "steady body" "awake body" "gives_up (started + limit) body" "started \<le> clock s"
  shows "fst (poll (rounds limit) body s) \<noteq> Asleep"
  using assms(4) by (intro poll_returns_after [OF assms(1-3)]) (auto simp: rounds_def)

lemma steady_poll [keeps_time]: "steady body \<Longrightarrow> steady (poll n body)"
  by (induction n) (auto intro!: keeps_time split: option.split)

end
