(* ===== verification/Journal.thy ===== *)
theory Journal
  imports Files_Logic
begin

text \<open>
  The operation journal (\<^verbatim>\<open>src/tools/benchctl/src/journal.rs\<close>). What the JSON and SHA-256 crates compute
  is a parameter of the operations, the record \<open>library\<close>; the theorems that need it assume that a
  serialised journal parses back to itself. CPU and state numbers, seconds and milliseconds are
  natural numbers.
\<close>

section \<open>Data\<close>

definition JOURNAL_VERSION :: string where
  "JOURNAL_VERSION = ''benchctl-journal-v1''"

record Actor =
  uid :: u32
  gid :: u32

record Request =
  request_receipt :: path
  accepted_receipt :: path
  request_receipt_digest :: string
  accepted_executable :: path
  executable_digest :: string
  cpus :: "nat list"
  timeout_seconds :: nat
  request_workload :: "string list"
  workload_actor :: Actor

record IdleEntry =
  cpu :: nat
  state :: nat
  name :: string
  disable_path :: path
  original :: string
  desired :: string

datatype Stage =
    Prepared
  | Applied
  | WorkloadStarted
  | WorkloadFinished
  | Draining
  | Restoring
  | Restored
  | Recoverable
  | StageRestoreConflict

datatype TerminalOutcome =
    OutcomeSuccess
  | OutcomeFailed string
  | OutcomeTimedOut
  | OutcomeCancelled

record Transition =
  transition_stage :: Stage
  transition_coordinator :: Actor
  unix_millis :: nat

record Journal =
  version :: string
  operation_id :: string
  request :: Request
  request_hash :: string
  coordinator :: Actor
  journal_boot_id :: string
  entries :: "IdleEntry list"
  outcome :: "TerminalOutcome option"
  transitions :: "Transition list"

text \<open>Serialisation may fail with a message; so may parsing.\<close>

record library =
  sha256 :: "string \<Rightarrow> string"
  request_to_vec :: "Request \<Rightarrow> string + string"
  journal_to_vec_pretty :: "Journal \<Rightarrow> string + string"
  journal_from_slice :: "string \<Rightarrow> string + Journal"

definition json :: "string \<Rightarrow> string + 'a \<Rightarrow> 'a io" where
  "json operation r = (case r of Inr x \<Rightarrow> return_io x | Inl e \<Rightarrow> fail_io (Json operation e))"

section \<open>Operations\<close>

definition hex_digest :: "'m library_scheme \<Rightarrow> string \<Rightarrow> string" where
  "hex_digest lib bytes = sha256 lib bytes"

definition Request_digest :: "'m library_scheme \<Rightarrow> Request \<Rightarrow> string io" where
  "Request_digest lib r =
     bind (json ''hashing request'' (request_to_vec lib r)) (\<lambda>encoded.
     return_io (hex_digest lib encoded))"

definition Journal_new ::
    "'m library_scheme \<Rightarrow> string \<Rightarrow> Request \<Rightarrow> Actor \<Rightarrow> string \<Rightarrow> Journal io" where
  "Journal_new lib oid r c boot =
     bind (Request_digest lib r) (\<lambda>hash.
     bind now_millis (\<lambda>now.
     return_io \<lparr>version = JOURNAL_VERSION, operation_id = oid, request = r, request_hash = hash,
       coordinator = c, journal_boot_id = boot, entries = [], outcome = None,
       transitions = [\<lparr>transition_stage = Prepared, transition_coordinator = c,
         unix_millis = now\<rparr>]\<rparr>))"

definition stage :: "Journal \<Rightarrow> Stage" where
  "stage j = (if transitions j = [] then Prepared else transition_stage (last (transitions j)))"

definition transition :: "Stage \<Rightarrow> Actor \<Rightarrow> Journal \<Rightarrow> Journal io" where
  "transition st a j =
     bind now_millis (\<lambda>now.
     return_io (j\<lparr>transitions := transitions j @
       [\<lparr>transition_stage = st, transition_coordinator = a, unix_millis = now\<rparr>]\<rparr>))"

definition validate :: "'m library_scheme \<Rightarrow> Journal \<Rightarrow> unit io" where
  "validate lib j =
     bind (guard_io (version j = JOURNAL_VERSION)
       (State (''unsupported journal version: '' @ version j))) (\<lambda>_.
     bind (Request_digest lib (request j)) (\<lambda>digest.
     bind (guard_io (request_hash j = digest)
       (State ''journal request hash does not match its request'')) (\<lambda>_.
     guard_io (transitions j \<noteq> []) (State ''journal has no transition''))))"

definition is_ascii_alphanumeric :: "char \<Rightarrow> bool" where
  "is_ascii_alphanumeric c = (byte_in 48 57 c \<or> byte_in 65 90 c \<or> byte_in 97 122 c)"

definition valid_operation_id :: "string \<Rightarrow> bool" where
  "valid_operation_id oid =
     (oid \<noteq> [] \<and> list_all (\<lambda>c. is_ascii_alphanumeric c \<or> c = CHR ''-'' \<or> c = CHR ''_'') oid)"

definition journal_path :: "path \<Rightarrow> string \<Rightarrow> path io" where
  "journal_path state_root oid =
     bind (guard_io (valid_operation_id oid)
       (Usage (''operation id must contain only ASCII letters, digits, '-' or '_'' @ [CHR 0x27]))) (\<lambda>_.
     return_io (join state_root (oid @ ''.json'')))"

definition load :: "'m library_scheme \<Rightarrow> path \<Rightarrow> Journal io" where
  "load lib p =
     bind (fs_read ''reading journal'' p) (\<lambda>bytes.
     bind (json ''reading journal'' (journal_from_slice lib bytes)) (\<lambda>j.
     bind (validate lib j) (\<lambda>_.
     return_io j)))"

definition store :: "'m library_scheme \<Rightarrow> path \<Rightarrow> Journal \<Rightarrow> unit io" where
  "store lib p j =
     bind (validate lib j) (\<lambda>_.
     bind (json ''serializing journal'' (journal_to_vec_pretty lib j)) (\<lambda>bytes.
     atomic_write p bytes))"

definition actor :: "Actor io" where
  "actor = ask (\<lambda>s. \<lparr>uid = euid (host s), gid = egid (host s)\<rparr>)"

definition boot_id :: "string io" where
  "boot_id =
     bind (read_to_string ''reading boot identity'' (Path_new ''/proc/sys/kernel/random/boot_id''))
       (\<lambda>value. return_io (trim value))"

section \<open>Contracts\<close>

text \<open>What the JSON crate promises of the types with derived instances: parsing inverts writing.\<close>

definition faithful :: "'m library_scheme \<Rightarrow> bool" where
  "faithful lib =
     (\<forall>j bytes. journal_to_vec_pretty lib j = Inr bytes \<longrightarrow> journal_from_slice lib bytes = Inr j)"

definition valid_journal :: "'m library_scheme \<Rightarrow> Journal \<Rightarrow> bool" where
  "valid_journal lib j =
     (version j = JOURNAL_VERSION \<and> transitions j \<noteq> []
       \<and> (case request_to_vec lib (request j) of
            Inr encoded \<Rightarrow> request_hash j = hex_digest lib encoded
          | Inl _ \<Rightarrow> False))"

text \<open>The journal a view of the file system holds at a path.\<close>

definition recorded :: "'m library_scheme \<Rightarrow> string option \<Rightarrow> Journal option" where
  "recorded lib c =
     (case c of
        Some bytes \<Rightarrow> (case journal_from_slice lib bytes of Inr j \<Rightarrow> Some j | Inl _ \<Rightarrow> None)
      | None \<Rightarrow> None)"

lemmas pure_io = return_io_def fail_io_def guard_io_def bind_def json_def ask_def

lemma Request_digest_cases:
  "Request_digest lib r s =
     (case request_to_vec lib r of
        Inr encoded \<Rightarrow> (Ok (hex_digest lib encoded), s)
      | Inl e \<Rightarrow> (Err (Json ''hashing request'' e), s))"
  by (simp add: Request_digest_def pure_io split: sum.split)

lemma validate_same: "snd (validate lib j s) = s"
  by (auto simp: validate_def pure_io Request_digest_cases split: sum.split)

lemma validate_Ok: "fst (validate lib j s) = Ok () \<longleftrightarrow> valid_journal lib j"
  by (auto simp: validate_def valid_journal_def pure_io Request_digest_cases split: sum.split)

lemma validate_not_asleep: "fst (validate lib j s) \<noteq> Asleep"
  by (auto simp: validate_def pure_io Request_digest_cases split: sum.split)

lemma validate_valid: "valid_journal lib j \<Longrightarrow> validate lib j s = (Ok (), s)"
  by (metis validate_Ok validate_same prod.collapse)

lemma triple_validate: "triple P (validate lib j) (\<lambda>_ s. valid_journal lib j \<and> P s) (\<lambda>_. P)"
proof -
  have "s' = s \<and> (r = Ok () \<longrightarrow> valid_journal lib j)" if "validate lib j s = (r, s')" for s r s'
    using validate_same [of lib j s] validate_Ok [of lib j s] that by auto
  then show ?thesis
    unfolding triple_def by (fastforce split: prod.split answer.split)
qed

lemma triple_json: "triple P (json operation r) (\<lambda>x s. r = Inr x \<and> P s) (\<lambda>_. P)"
  by (auto simp: json_def triple_def pure_io split: sum.split)

lemma leaves_json [keeps]: "leaves A C (json operation r)"
  by (auto simp: json_def intro: keeps split: sum.split)

lemma leaves_Journal [keeps]:
  "leaves A C (Request_digest lib r)" "leaves A C (Journal_new lib oid r c boot)"
  "leaves A C (transition st a j)" "leaves A C (validate lib j)"
  "leaves A C (journal_path root oid)" "leaves A C (load lib p)" "leaves A C actor"
  "leaves A C boot_id"
  unfolding Request_digest_def Journal_new_def transition_def validate_def journal_path_def load_def
    actor_def boot_id_def
  by (intro keeps)+

lemma leaves_store [keeps]: "foreign C p \<Longrightarrow> leaves A C (store lib p j)"
  unfolding store_def by (intro keeps)

text \<open>The frame after the journal has been written.\<close>

definition journalled :: "'m library_scheme \<Rightarrow> path \<Rightarrow> Journal \<Rightarrow> path set \<Rightarrow> path set
    \<Rightarrow> (path \<Rightarrow> string option) \<Rightarrow> (nodes \<Rightarrow> bool) \<Rightarrow> host \<Rightarrow> system \<Rightarrow> bool" where
  "journalled lib p j A C v Q h s =
     (\<exists>bytes. journal_to_vec_pretty lib j = Inr bytes \<and> valid_journal lib j
        \<and> frame A C (v(p := Some bytes)) Q h s)"

lemma triple_store:
  assumes "p \<in> C" "admits A C v Q"
    and "\<And>bytes. journal_to_vec_pretty lib j = Inr bytes \<Longrightarrow> admits A C (v(p := Some bytes)) Q"
  shows "triple (frame A C v Q h) (store lib p j)
    (\<lambda>_. journalled lib p j A C v Q h) (\<lambda>_ s. frame A C v Q h s \<or> journalled lib p j A C v Q h s)"
  unfolding store_def
proof (rule triple_bind)
  show "triple (frame A C v Q h) (validate lib j)
      (\<lambda>_ s. valid_journal lib j \<and> frame A C v Q h s) (\<lambda>_ s. frame A C v Q h s \<or> journalled lib p j A C v Q h s)"
    by (rule triple_conseq [OF triple_validate [of "frame A C v Q h"]]) auto
next
  show "triple (\<lambda>s. valid_journal lib j \<and> frame A C v Q h s)
      (bind (json ''serializing journal'' (journal_to_vec_pretty lib j)) (atomic_write p))
      (\<lambda>_. journalled lib p j A C v Q h) (\<lambda>_ s. frame A C v Q h s \<or> journalled lib p j A C v Q h s)"
  proof (intro triple_pure triple_bind)
    show "triple (frame A C v Q h) (json ''serializing journal'' (journal_to_vec_pretty lib j))
        (\<lambda>bytes s. journal_to_vec_pretty lib j = Inr bytes \<and> frame A C v Q h s)
        (\<lambda>_ s. frame A C v Q h s \<or> journalled lib p j A C v Q h s)"
      by (rule triple_conseq [OF triple_json [of "frame A C v Q h"]]) auto
  next
    fix bytes
    assume valid: "valid_journal lib j"
    show "triple (\<lambda>s. journal_to_vec_pretty lib j = Inr bytes \<and> frame A C v Q h s)
        (atomic_write p bytes) (\<lambda>_. journalled lib p j A C v Q h)
        (\<lambda>_ s. frame A C v Q h s \<or> journalled lib p j A C v Q h s)"
    proof (rule triple_pure)
      assume bytes: "journal_to_vec_pretty lib j = Inr bytes"
      show "triple (frame A C v Q h) (atomic_write p bytes) (\<lambda>_. journalled lib p j A C v Q h)
          (\<lambda>_ s. frame A C v Q h s \<or> journalled lib p j A C v Q h s)"
        by (rule triple_conseq [OF triple_atomic_write [OF assms(1,2) assms(3) [OF bytes]]])
          (use valid bytes in \<open>auto simp: journalled_def\<close>)
    qed
  qed
qed

lemma recorded_written:
  "faithful lib \<Longrightarrow> journal_to_vec_pretty lib j = Inr bytes \<Longrightarrow> recorded lib (Some bytes) = Some j"
  by (simp add: faithful_def recorded_def)

text \<open>Loading a controlled path gives the journal recorded there, and only a valid one.\<close>

lemma triple_load:
  assumes "p \<in> C" "admits A C v Q"
  shows "triple (frame A C v Q h) (load lib p)
    (\<lambda>j s. recorded lib (v p) = Some j \<and> valid_journal lib j \<and> frame A C v Q h s)
    (\<lambda>_. frame A C v Q h)"
  unfolding load_def
proof (rule triple_bind [OF triple_fs_read [OF assms]], rule triple_pure, rule triple_bind [OF triple_json],
    rule triple_pure, rule triple_bind [OF triple_validate])
  fix bytes j and x :: unit
  assume "v p = Some bytes" "journal_from_slice lib bytes = Inr j"
  then show "triple (\<lambda>s. valid_journal lib j \<and> frame A C v Q h s) (return_io j)
      (\<lambda>j s. recorded lib (v p) = Some j \<and> valid_journal lib j \<and> frame A C v Q h s)
      (\<lambda>_. frame A C v Q h)"
    by (intro triple_return) (simp add: recorded_def)
qed

lemma step_store:
  assumes "p \<in> C"
    and "\<And>w bytes. safe w \<Longrightarrow> now w \<Longrightarrow> journal_to_vec_pretty lib j = Inr bytes \<Longrightarrow> valid_journal lib j
      \<Longrightarrow> safe (w(p := Some bytes)) \<and> post (w(p := Some bytes))"
  shows "step_ok A C safe h now (store lib p j) (\<lambda>_. post)"
proof (cases "valid_journal lib j")
  case True
  show ?thesis
  proof (rule step_triple)
    fix w
    assume "now w" "safe w"
    have "admits A C (w(p := Some bytes)) (secured A C safe)"
      if "journal_to_vec_pretty lib j = Inr bytes" for bytes
      using assms(2) [OF \<open>safe w\<close> \<open>now w\<close> that True] by (auto intro: admits_secured)
    then show "triple (frame A C w (secured A C safe) h) (store lib p j)
        (\<lambda>_. within A C safe h post) (\<lambda>_. within A C safe h (\<lambda>_. True))"
      by (intro triple_conseq [OF triple_store [OF assms(1) admits_secured [of safe, OF \<open>safe w\<close>]]])
        (use assms(2) [OF \<open>safe w\<close> \<open>now w\<close>] \<open>safe w\<close> in \<open>auto simp: within_def journalled_def\<close>)
  qed
next
  case False
  then have "step_ok A C safe h now (validate lib j) (\<lambda>_ _. False)"
    unfolding step_ok_def
    by (intro triple_conseq [OF triple_validate [of "within A C safe h now"]]) (auto elim: within_mono)
  then show ?thesis
    unfolding store_def by (rule step_bind) (rule step_pure [where b = False], simp_all)
qed

lemma step_load:
  assumes "p \<in> C"
  shows "step_ok A C safe h now (load lib p)
    (\<lambda>j w. now w \<and> recorded lib (w p) = Some j \<and> valid_journal lib j)"
proof (rule step_triple)
  fix w
  assume "now w" "safe w"
  then show "triple (frame A C w (secured A C safe) h) (load lib p)
      (\<lambda>j. within A C safe h (\<lambda>w. now w \<and> recorded lib (w p) = Some j \<and> valid_journal lib j))
      (\<lambda>_. within A C safe h (\<lambda>_. True))"
    by (intro triple_conseq [OF triple_load [OF assms admits_secured [of safe, OF \<open>safe w\<close>]]])
      (auto simp: within_def)
qed

section \<open>Operation identities\<close>

lemma valid_operation_id_component:
  assumes "valid_operation_id oid"
  shows "CHR ''/'' \<notin> set oid" "oid \<noteq> []"
  using assms
  by (auto simp: valid_operation_id_def list_all_iff is_ascii_alphanumeric_def byte_in_def Let_def)

lemma join_operation:
  assumes "valid_operation_id oid" "CHR ''/'' \<notin> set ext" "length ext > 1"
  shows "join root (oid @ ext) = root @ [oid @ ext]"
proof -
  have "oid @ ext \<noteq> ''.''" using assms(3) by (cases oid) auto
  with valid_operation_id_component [OF assms(1)] assms(2) show ?thesis by simp
qed

end
