(* ===== verification/Receipt.thy ===== *)
theory Receipt
  imports Journal "HOL-Library.Char_ord" "HOL-Library.List_Lexorder"
begin

text \<open>
  Build receipts (\<^verbatim>\<open>src/tools/benchctl/src/receipt.rs\<close>): the record of what was built, its
  verification and the checks of the checkout it belongs to. The JSON crate's functions at the
  receipt's types extend the record \<open>library\<close>. A command's exit status and output are the
  host's answer to the call that runs it.
\<close>

section \<open>Data\<close>

definition RECEIPT_VERSION :: string where
  "RECEIPT_VERSION = ''benchctl-build-receipt-v1''"

definition CARGO_PKG_VERSION :: string where
  "CARGO_PKG_VERSION = ''0.1.0''"

record BuildProvenance =
  provenance_manifest_path :: path
  provenance_repository :: path
  provenance_source_commit :: string
  provenance_lockfile_path :: path
  provenance_lockfile_sha256 :: string
  provenance_package_id :: string
  provenance_rustc :: string
  provenance_rustup_toolchain :: string
  provenance_target_triple :: string

record BuildReceipt =
  receipt_version :: string
  build_id :: string
  manifest_path :: path
  repository :: path
  source_commit :: string
  source_clean :: bool
  lockfile_path :: path
  lockfile_sha256 :: string
  package_id :: string
  bench :: string
  features :: "string list"
  profile :: string
  rustc :: string
  rustup_toolchain :: string
  target_triple :: string
  benchctl_version :: string
  benchctl_executable_sha256 :: string
  executable :: path
  executable_sha256 :: string
  built_unix_millis :: nat

type_synonym identity =
  "(string \<times> path \<times> path \<times> string \<times> bool \<times> path \<times> string \<times> string \<times> string \<times> string list)
   \<times> (string \<times> string \<times> string \<times> string \<times> string \<times> string \<times> path \<times> string \<times> nat)"

record receipt_library = library +
  identity_to_vec :: "identity \<Rightarrow> string + string"
  receipt_to_vec_pretty :: "BuildReceipt \<Rightarrow> string + string"
  receipt_to_string :: "BuildReceipt \<Rightarrow> string + string"
  receipt_from_slice :: "string \<Rightarrow> string + BuildReceipt"

section \<open>Operations\<close>

definition file_digest :: "'m library_scheme \<Rightarrow> path \<Rightarrow> string \<Rightarrow> string io" where
  "file_digest lib p operation =
     bind (fs_read operation p) (\<lambda>value. return_io (hex_digest lib value))"

definition receipt_digest :: "'m library_scheme \<Rightarrow> path \<Rightarrow> string io" where
  "receipt_digest lib p = file_digest lib p ''digesting build receipt''"

text \<open>The fields the build identity covers, in the order the code lists them.\<close>

definition identity :: "BuildReceipt \<Rightarrow> identity" where
  "identity r =
     ((receipt_version r, manifest_path r, repository r, source_commit r, source_clean r,
       lockfile_path r, lockfile_sha256 r, package_id r, bench r, features r),
      (profile r, rustc r, rustup_toolchain r, target_triple r, benchctl_version r,
       benchctl_executable_sha256 r, executable r, executable_sha256 r, built_unix_millis r))"

definition identity_digest :: "'m receipt_library_scheme \<Rightarrow> BuildReceipt \<Rightarrow> string io" where
  "identity_digest lib r =
     bind (json ''creating build identity'' (identity_to_vec lib (identity r))) (\<lambda>bytes.
     return_io (hex_digest lib bytes))"

definition BuildReceipt_new ::
    "'m receipt_library_scheme \<Rightarrow> BuildProvenance \<Rightarrow> string \<Rightarrow> string list \<Rightarrow> path \<Rightarrow> BuildReceipt io"
  where
  "BuildReceipt_new lib provenance b fs exe =
     bind (file_digest lib exe ''digesting receipt executable'') (\<lambda>exe_digest.
     bind (resolve_current_exe ''resolving Benchctl executable'') (\<lambda>benchctl.
     bind (file_digest lib benchctl ''digesting Benchctl executable'') (\<lambda>benchctl_digest.
     bind now_millis (\<lambda>now.
     let receipt =
       \<lparr>receipt_version = RECEIPT_VERSION, build_id = [],
        manifest_path = provenance_manifest_path provenance,
        repository = provenance_repository provenance,
        source_commit = provenance_source_commit provenance, source_clean = True,
        lockfile_path = provenance_lockfile_path provenance,
        lockfile_sha256 = provenance_lockfile_sha256 provenance,
        package_id = provenance_package_id provenance, bench = b,
        features = remdups_adj (sort fs), profile = ''bench'',
        rustc = provenance_rustc provenance,
        rustup_toolchain = provenance_rustup_toolchain provenance,
        target_triple = provenance_target_triple provenance,
        benchctl_version = CARGO_PKG_VERSION, benchctl_executable_sha256 = benchctl_digest,
        executable = exe, executable_sha256 = exe_digest, built_unix_millis = now\<rparr>
     in bind (identity_digest lib receipt) (\<lambda>digest. return_io (receipt\<lparr>build_id := digest\<rparr>))))))"

definition invalid_identity_fields :: "BuildReceipt \<Rightarrow> bool" where
  "invalid_identity_fields r =
     (profile r \<noteq> ''bench'' \<or> benchctl_version r \<noteq> CARGO_PKG_VERSION \<or> bench r = []
       \<or> package_id r = [] \<or> source_commit r = [] \<or> lockfile_sha256 r = [] \<or> rustc r = []
       \<or> rustup_toolchain r = [] \<or> target_triple r = [] \<or> \<not> is_absolute (manifest_path r)
       \<or> \<not> is_absolute (repository r) \<or> \<not> is_absolute (lockfile_path r)
       \<or> \<not> prefix (repository r) (lockfile_path r) \<or> \<not> is_absolute (executable r)
       \<or> list_ex (\<lambda>f. f = []) (features r)
       \<or> list_ex (\<lambda>(a, b). b \<le> a) (zip (features r) (tl (features r))))"

definition verify_identity :: "'m receipt_library_scheme \<Rightarrow> BuildReceipt \<Rightarrow> unit io" where
  "verify_identity lib r =
     bind (guard_io (receipt_version r = RECEIPT_VERSION)
       (Preflight (''unsupported build receipt version: '' @ receipt_version r))) (\<lambda>_.
     bind (guard_io (source_clean r) (Preflight ''official build receipt is not clean'')) (\<lambda>_.
     bind (guard_io (\<not> invalid_identity_fields r)
       (Preflight ''build receipt has incomplete or invalid identity fields'')) (\<lambda>_.
     bind (resolve_current_exe ''resolving Benchctl executable'') (\<lambda>benchctl.
     bind (file_digest lib benchctl ''digesting Benchctl executable'') (\<lambda>actual_benchctl.
     bind (guard_io (actual_benchctl = benchctl_executable_sha256 r)
       (Preflight ''build receipt belongs to a different Benchctl executable'')) (\<lambda>_.
     bind (identity_digest lib r) (\<lambda>digest.
     guard_io (digest = build_id r)
       (Preflight ''build receipt identity digest does not match its fields''))))))))"

definition verify :: "'m receipt_library_scheme \<Rightarrow> BuildReceipt \<Rightarrow> unit io" where
  "verify lib r =
     bind (verify_identity lib r) (\<lambda>_.
     bind (file_digest lib (executable r) ''digesting receipt executable'') (\<lambda>actual.
     guard_io (actual = executable_sha256 r)
       (Preflight ''receipt executable digest no longer matches'')))"

definition git_stdout :: "path \<Rightarrow> string list \<Rightarrow> u32 \<Rightarrow> u32 \<Rightarrow> string io" where
  "git_stdout repo arguments u g =
     bind (ask (\<lambda>s. euid (host s) = 0)) (\<lambda>is_root.
     bind (run_command ''running Git receipt verification''
       \<lparr>argv = [''git'', ''-C'', display_path repo] @ arguments,
        directory = None, credentials = (if is_root then Some (u, g) else None), settings = [], own_group = False\<rparr>)
       (\<lambda>(status, out).
     bind (guard_io (exit_success status)
       (Preflight (''Git receipt verification exited with '' @ exit_text status))) (\<lambda>_.
     bind (guard_io (valid_utf8 out) (Preflight ''Git emitted non-UTF-8 output'')) (\<lambda>_.
     return_io out))))"

definition verify_checkout_as ::
    "'m receipt_library_scheme \<Rightarrow> BuildReceipt \<Rightarrow> u32 \<Rightarrow> u32 \<Rightarrow> unit io" where
  "verify_checkout_as lib r u g =
     bind (git_stdout (repository r) [''rev-parse'', ''--verify'', ''HEAD''] u g) (\<lambda>commit.
     bind (guard_io (trim commit = source_commit r)
       (Preflight ''checked-out commit differs from the build receipt'')) (\<lambda>_.
     bind (git_stdout (repository r) [''status'', ''--porcelain'', ''--untracked-files=all''] u g) (\<lambda>status.
     bind (guard_io (status = [])
       (Preflight ''official run requires the clean checkout recorded by the build receipt'')) (\<lambda>_.
     bind (file_digest lib (lockfile_path r) ''digesting current Cargo.lock'') (\<lambda>actual_lock.
     guard_io (actual_lock = lockfile_sha256 r)
       (Preflight ''Cargo.lock differs from the build receipt''))))))"

definition load_receipt :: "'m receipt_library_scheme \<Rightarrow> path \<Rightarrow> BuildReceipt io" where
  "load_receipt lib p =
     bind (fs_read ''reading build receipt'' p) (\<lambda>bytes.
     bind (json ''reading build receipt'' (receipt_from_slice lib bytes)) (\<lambda>receipt.
     bind (verify lib receipt) (\<lambda>_.
     return_io receipt)))"

definition load_accepted :: "'m receipt_library_scheme \<Rightarrow> path \<Rightarrow> BuildReceipt io" where
  "load_accepted lib p =
     bind (fs_read ''reading accepted build receipt'' p) (\<lambda>bytes.
     bind (json ''reading accepted build receipt'' (receipt_from_slice lib bytes)) (\<lambda>receipt.
     bind (verify_identity lib receipt) (\<lambda>_.
     return_io receipt)))"

definition store_receipt :: "'m receipt_library_scheme \<Rightarrow> path \<Rightarrow> BuildReceipt \<Rightarrow> unit io" where
  "store_receipt lib p r =
     bind (json ''serializing build receipt'' (receipt_to_vec_pretty lib r)) (\<lambda>bytes.
     atomic_write p bytes)"

section \<open>What the operations keep\<close>

lemma leaves_git [keeps]: "leaves A C (git_stdout repo arguments u g)"
  unfolding git_stdout_def by (auto intro!: keeps split: prod.split)

lemma leaves_Receipt [keeps]:
  "leaves A C (file_digest llib p operation)" "leaves A C (receipt_digest llib p)"
  "leaves A C (identity_digest lib r)"
  "leaves A C (BuildReceipt_new lib provenance b fs exe)" "leaves A C (verify_identity lib r)"
  "leaves A C (verify lib r)" "leaves A C (verify_checkout_as lib r u g)"
  "leaves A C (load_receipt lib p)" "leaves A C (load_accepted lib p)"
  unfolding file_digest_def receipt_digest_def identity_digest_def
    BuildReceipt_new_def verify_identity_def verify_def verify_checkout_as_def load_receipt_def
    load_accepted_def Let_def
  by (intro keeps)+

end
