(* ===== verification/Supervision.thy ===== *)
theory Supervision
  imports Receipt
begin

text \<open>
  Supervision of the workload (\<^verbatim>\<open>src/tools/benchctl/src/supervision.rs\<close>): the coordinator that starts
  the workload supervisor and the crash guardian, the two hidden processes themselves, and the
  proofs each demands of the others. The processes share files below the operation's runtime
  directory; to each of them the others are part of the host, which writes files between its calls
  and answers when it waits for a child, signals the process group or asks for its parent. Times
  are milliseconds.
\<close>

section \<open>Data\<close>

definition STARTUP_LIMIT :: nat where "STARTUP_LIMIT = 5000"
definition STOP_GRACE :: nat where "STOP_GRACE = 5000"
definition DRAIN_LIMIT :: nat where "DRAIN_LIMIT = 5000"
definition ACTIVE_WAIT :: nat where "ACTIVE_WAIT = 12000"

text \<open>Holding a client watch is holding a descriptor of the client's process.\<close>

type_synonym ClientWatch = nat

record CoordinateRequest =
  coordinate_state_root :: path
  coordinate_operation_id :: string
  coordinate_receipt :: path
  coordinate_executable :: path
  coordinate_workload :: "string list"
  coordinate_uid :: u32
  coordinate_gid :: u32
  coordinate_timeout :: nat
  coordinate_client_watch :: "ClientWatch option"
  coordinate_production_control :: bool

record SupervisorRequest =
  supervisor_go :: path
  supervisor_status :: path
  supervisor_receipt :: path
  supervisor_executable :: path
  supervisor_operation_id :: string
  supervisor_coordinator_pid :: u32
  supervisor_uid :: u32
  supervisor_gid :: u32
  supervisor_workload :: "string list"
  supervisor_production_control :: bool

record GuardianRequest =
  guardian_coordinator_pid :: u32
  guardian_pgid :: int
  guardian_active_lock :: path
  guardian_ready :: path
  guardian_drain :: path
  guardian_drained :: path

datatype Outcome = Success | Failed string | TimedOut | Cancelled

record WorkloadStatus =
  status_success :: bool
  status_code :: "int option"
  status_signal :: "int option"

record ProductionControlProof =
  proof_version :: string
  proof_operation_id :: string
  proof_build_id :: string

record supervision_library = receipt_library +
  status_to_vec :: "WorkloadStatus \<Rightarrow> string + string"
  status_from_slice :: "string \<Rightarrow> string + WorkloadStatus"
  outcome_to_vec :: "Outcome \<Rightarrow> string + string"
  outcome_from_slice :: "string \<Rightarrow> string + Outcome"
  proof_to_vec :: "ProductionControlProof \<Rightarrow> string + string"

definition to_i32 :: "u32 \<Rightarrow> int option" where
  "to_i32 n = (if unat n < 2 ^ 31 then Some (int (unat n)) else None)"

definition show_u32 :: "u32 \<Rightarrow> string" where
  "show_u32 n = show_nat (unat n)"

section \<open>Process groups\<close>

definition signal_group :: "int \<Rightarrow> signal \<Rightarrow> unit io" where
  "signal_group pgid sig = bind (killpg pgid (Some sig)) (\<lambda>r.
     case r of
       KillError e \<Rightarrow> fail_io (State (''cannot signal workload process group: '' @ e))
     | _ \<Rightarrow> return_io ())"

definition group_is_empty :: "int \<Rightarrow> bool io" where
  "group_is_empty pgid = bind (killpg pgid None) (\<lambda>r.
     case r of
       NoSuchGroup \<Rightarrow> return_io True
     | Delivered \<Rightarrow> return_io False
     | KillError e \<Rightarrow> fail_io (State (''cannot inspect workload process group: '' @ e)))"

text \<open>One of the loops \<open>while started.elapsed() < limit\<close> that look for an empty group.\<close>

definition drain_body :: "nat \<Rightarrow> nat \<Rightarrow> bool io \<Rightarrow> bool option io" where
  "drain_body started limit check = bind (elapsed started) (\<lambda>e.
     if limit \<le> e then return_io (Some False)
     else bind check (\<lambda>b. return_io (if b then Some True else None)))"

definition drain_within :: "nat \<Rightarrow> bool io \<Rightarrow> bool io" where
  "drain_within limit check = bind (ask clock) (\<lambda>started.
     poll (rounds limit) (drain_body started limit check))"

definition drain_group :: "int \<Rightarrow> bool io \<Rightarrow> unit io" where
  "drain_group pgid check =
     bind (signal_group pgid SIGTERM) (\<lambda>_.
     bind (drain_within STOP_GRACE check) (\<lambda>gone.
     if gone then return_io ()
     else bind (signal_group pgid SIGKILL) (\<lambda>_.
          bind (drain_within DRAIN_LIMIT check) (\<lambda>gone.
          guard_io gone (State ''workload process group could not be proved empty'')))))"

definition terminate_and_drain :: "int \<Rightarrow> unit io" where
  "terminate_and_drain pgid = drain_group pgid (group_is_empty pgid)"

definition terminate_and_reap_group :: "int \<Rightarrow> unit io" where
  "terminate_and_reap_group pgid = drain_group pgid
     (bind (try_wait ''reaping workload supervisor'') (\<lambda>_. group_is_empty pgid))"

section \<open>Status files\<close>

definition read_status :: "'m supervision_library_scheme \<Rightarrow> path \<Rightarrow> WorkloadStatus option io" where
  "read_status lib p = bind (path_exists p) (\<lambda>there.
     if \<not> there then return_io None
     else bind (fs_read ''reading workload status'' p) (\<lambda>bytes.
          bind (json ''reading workload status'' (status_from_slice lib bytes)) (\<lambda>status.
          return_io (Some status))))"

definition store_outcome :: "'m supervision_library_scheme \<Rightarrow> path \<Rightarrow> Outcome \<Rightarrow> unit io" where
  "store_outcome lib p ended =
     bind (json ''serializing durable workload outcome'' (outcome_to_vec lib ended)) (\<lambda>bytes.
     atomic_write p bytes)"

definition render_status :: "WorkloadStatus \<Rightarrow> string" where
  "render_status st =
     (case status_code st of
        Some code \<Rightarrow> ''exit code '' @ show_int code
      | None \<Rightarrow>
          (case status_signal st of
             Some sig \<Rightarrow> ''signal '' @ show_int sig
           | None \<Rightarrow> ''unknown exit status''))"

definition status_outcome :: "WorkloadStatus \<Rightarrow> Outcome" where
  "status_outcome st = (if status_success st then Success else Failed (render_status st))"

definition runtime_directory :: "path \<Rightarrow> string \<Rightarrow> path" where
  "runtime_directory state_root oid = join state_root (oid @ ''.runtime'')"

definition recover_outcome ::
    "'m supervision_library_scheme \<Rightarrow> path \<Rightarrow> string \<Rightarrow> Outcome option io" where
  "recover_outcome lib state_root oid =
     (let runtime = runtime_directory state_root oid; p = join runtime ''outcome.json'' in
      bind (path_exists p) (\<lambda>there.
      if there
      then bind (fs_read ''reading durable workload outcome'' p) (\<lambda>bytes.
           bind (json ''reading durable workload outcome'' (outcome_from_slice lib bytes)) (\<lambda>r.
           return_io (Some r)))
      else bind (read_status lib (join runtime ''status.json'')) (\<lambda>st.
           return_io (map_option status_outcome st))))"

definition cleanup_runtime :: "path \<Rightarrow> string \<Rightarrow> unit io" where
  "cleanup_runtime state_root oid =
     (let runtime = runtime_directory state_root oid in
      bind (path_exists runtime) (\<lambda>there.
      if there then remove_dir_all ''removing operation runtime directory'' runtime
      else return_io ()))"

definition require_inactive_body :: "nat \<Rightarrow> unit option io" where
  "require_inactive_body started = bind try_lock (\<lambda>r.
     case r of
       Locked \<Rightarrow> return_io (Some ())
     | _ \<Rightarrow> bind (elapsed started) (\<lambda>e.
         if r = WouldBlock \<and> e < ACTIVE_WAIT then return_io None
         else fail_io (State
           (''active workload cleanup has not released its lock: '' @ display_lock r))))"

definition require_inactive :: "path \<Rightarrow> unit io" where
  "require_inactive state_root =
     bind (open_create ''opening active-operation lock'' False (join state_root ''active.lock'')) (\<lambda>_.
     bind (ask clock) (\<lambda>started.
     poll (rounds ACTIVE_WAIT) (require_inactive_body started)))"

section \<open>The client\<close>

definition client_watch :: "u32 option \<Rightarrow> ClientWatch option io" where
  "client_watch client_pid =
     (case client_pid of
        None \<Rightarrow> return_io None
      | Some p \<Rightarrow>
          bind (unless_none (to_i32 p) (Usage ''client PID is outside the PID range'')) (\<lambda>raw.
          bind (guard_io (raw \<noteq> 0) (Usage ''client PID must be positive'')) (\<lambda>_.
          bind (call_as (\<lambda>e. State (''cannot watch client PID '' @ show_u32 p @ '': '' @ display_io_error e))
            (\<lambda>n. ask (\<lambda>s. descriptor (host s) n))) (\<lambda>fd.
          bind (call_as (\<lambda>e. State (''cannot inspect client PID: '' @ display_io_error e))
            (\<lambda>n. ask (\<lambda>s. client_gone (host s) n))) (\<lambda>ready.
          bind (guard_io (\<not> ready) (Workload ''unprivileged client exited before host mutation'')) (\<lambda>_.
          return_io (Some fd)))))))"

text \<open>
  Installing the handlers of the three signals; the flag they and the watching thread set is read
  as the host's answer.
\<close>

definition cancellation_flag :: "ClientWatch option \<Rightarrow> unit io" where
  "cancellation_flag watch =
     for_each [''SIGHUP'', ''SIGINT'', ''SIGTERM''] (\<lambda>_. nop ''installing cancellation handler'')"

definition has_parent :: "int \<Rightarrow> bool io" where
  "has_parent expected = observe (\<lambda>n s. parent (host s) n = Some expected)"

section \<open>The coordinator\<close>

definition wait_for_ready_body :: "nat \<Rightarrow> path \<Rightarrow> int \<Rightarrow> unit option io" where
  "wait_for_ready_body started ready pgid = bind (path_exists ready) (\<lambda>there.
     if there then return_io (Some ())
     else bind (try_wait ''checking guardian startup'') (\<lambda>g.
       case g of
         Some status \<Rightarrow>
           bind (terminate_and_reap_group pgid) (\<lambda>_.
           fail_io (State (''crash guardian failed during startup: '' @ exit_text status)))
       | None \<Rightarrow>
           bind (try_wait ''checking supervisor startup'') (\<lambda>w.
           case w of
             Some status \<Rightarrow>
               fail_io (State (''workload supervisor failed during startup: '' @ exit_text status))
           | None \<Rightarrow>
               bind (elapsed started) (\<lambda>e.
               if STARTUP_LIMIT \<le> e
               then bind (terminate_and_reap_group pgid) (\<lambda>_.
                    fail_io (State ''crash guardian startup timed out''))
               else return_io None))))"

definition wait_for_ready :: "path \<Rightarrow> int \<Rightarrow> unit io" where
  "wait_for_ready ready pgid = bind (ask clock) (\<lambda>started.
     poll (rounds STARTUP_LIMIT) (wait_for_ready_body started ready pgid))"

definition wait_for_drained_limit :: nat where
  "wait_for_drained_limit = STOP_GRACE + DRAIN_LIMIT + 1000"

definition wait_for_drained_body :: "nat \<Rightarrow> path \<Rightarrow> unit option io" where
  "wait_for_drained_body started drained = bind (path_exists drained) (\<lambda>there.
     if there then return_io (Some ())
     else bind (try_wait ''reaping workload supervisor'') (\<lambda>_.
          bind (try_wait ''checking guardian drain'') (\<lambda>g.
          case g of
            Some status \<Rightarrow>
              fail_io (State (''crash guardian exited without drain proof: '' @ exit_text status))
          | None \<Rightarrow>
              bind (elapsed started) (\<lambda>e.
              if wait_for_drained_limit \<le> e
              then fail_io (State ''timed out waiting for crash guardian drain proof'')
              else return_io None))))"

definition wait_for_drained :: "path \<Rightarrow> unit io" where
  "wait_for_drained drained = bind (ask clock) (\<lambda>started.
     poll (rounds wait_for_drained_limit) (wait_for_drained_body started drained))"

definition supervisor_command :: "CoordinateRequest \<Rightarrow> path \<Rightarrow> path \<Rightarrow> path \<Rightarrow> u32 \<Rightarrow> command" where
  "supervisor_command r exe go status coordinator_pid =
     \<lparr>argv =
        [display_path exe, ''__workload'', ''--go'', display_path go, ''--status'', display_path status,
         ''--receipt'', display_path (coordinate_receipt r), ''--executable'',
         display_path (coordinate_executable r), ''--operation-id'', coordinate_operation_id r,
         ''--coordinator-pid'', show_u32 coordinator_pid, ''--uid'', show_u32 (coordinate_uid r),
         ''--gid'', show_u32 (coordinate_gid r)]
        @ (if coordinate_production_control r then [''--production-control''] else [])
        @ [''--''] @ coordinate_workload r,
      directory = None, credentials = None, settings = [], own_group = True\<rparr>"

definition guardian_command :: "path \<Rightarrow> u32 \<Rightarrow> int \<Rightarrow> path \<Rightarrow> path \<Rightarrow> path \<Rightarrow> path \<Rightarrow> command" where
  "guardian_command exe coordinator_pid pgid active_lock ready drain drained =
     \<lparr>argv =
        [display_path exe, ''__guardian'', ''--coordinator-pid'', show_u32 coordinator_pid,
         ''--pgid'', show_int pgid, ''--active-lock'', display_path active_lock,
         ''--ready'', display_path ready, ''--drain'', display_path drain,
         ''--drained'', display_path drained],
      directory = None, credentials = None, settings = [], own_group = True\<rparr>"

definition coordinate_body ::
    "'m supervision_library_scheme \<Rightarrow> nat \<Rightarrow> nat \<Rightarrow> path \<Rightarrow> int \<Rightarrow> Outcome option io" where
  "coordinate_body lib started limit status pgid = bind (read_status lib status) (\<lambda>r.
     case r of
       Some result \<Rightarrow> return_io (Some (status_outcome result))
     | None \<Rightarrow>
         bind (observe (\<lambda>n s. cancelled (host s) n)) (\<lambda>c.
         if c then return_io (Some Cancelled)
         else bind (elapsed started) (\<lambda>e.
              if limit \<le> e then return_io (Some TimedOut)
              else bind (try_wait ''checking crash guardian'') (\<lambda>g.
                case g of
                  Some st \<Rightarrow>
                    bind (terminate_and_reap_group pgid) (\<lambda>_.
                    fail_io (State (''crash guardian exited before drain request: '' @ exit_text st)))
                | None \<Rightarrow>
                    bind (try_wait ''checking workload supervisor'') (\<lambda>w.
                    case w of
                      Some st \<Rightarrow>
                        bind (terminate_and_drain pgid) (\<lambda>_.
                        fail_io (State
                          (''workload supervisor exited without a status record: '' @ exit_text st)))
                    | None \<Rightarrow> return_io None)))))"

definition coordinate_loop ::
    "'m supervision_library_scheme \<Rightarrow> nat \<Rightarrow> path \<Rightarrow> int \<Rightarrow> Outcome io" where
  "coordinate_loop lib limit status pgid = bind (ask clock) (\<lambda>started.
     poll (rounds limit) (coordinate_body lib started limit status pgid))"

text \<open>After the workload's end: the outcome is made durable, then the group is drained.\<close>

definition coordinate_finish ::
    "'m supervision_library_scheme \<Rightarrow> bool \<Rightarrow> path \<Rightarrow> Outcome \<Rightarrow> Outcome io" where
  "coordinate_finish lib production runtime ended =
     bind (store_outcome lib (join runtime ''outcome.json'') ended) (\<lambda>_.
     bind (ask (\<lambda>s. variables (host s) ''BENCHCTL_TEST_OUTCOME_READY'')) (\<lambda>seam.
     bind (case seam of
             Some p \<Rightarrow>
               if \<not> production
               then bind (atomic_write (Path_new p) (''ready'' @ [CHR 0x0A])) (\<lambda>_. sleep_forever)
               else return_io ()
           | None \<Rightarrow> return_io ()) (\<lambda>_.
     bind (atomic_write (join runtime ''drain'') (''drain'' @ [CHR 0x0A])) (\<lambda>_.
     bind (wait_for_drained (join runtime ''drained'')) (\<lambda>_.
     bind (wait_child ''reaping crash guardian'') (\<lambda>guardian_status.
     bind (guard_io (exit_success guardian_status)
       (State (''crash guardian failed during drain: '' @ exit_text guardian_status))) (\<lambda>_.
     bind (wait_child ''reaping workload supervisor'') (\<lambda>supervisor_status.
     bind (guard_io (\<not> exit_success supervisor_status)
       (State ''workload supervisor escaped guardian drain'')) (\<lambda>_.
     return_io ended)))))))))"

definition coordinate :: "'m supervision_library_scheme \<Rightarrow> CoordinateRequest \<Rightarrow> Outcome io" where
  "coordinate lib r =
     (let runtime = runtime_directory (coordinate_state_root r) (coordinate_operation_id r);
          go = join runtime ''go''; status = join runtime ''status.json'';
          ready = join runtime ''guardian.ready''; drain = join runtime ''drain'';
          drained = join runtime ''drained'';
          active_lock = join (coordinate_state_root r) ''active.lock'' in
      bind (mkdir ''creating operation runtime directory'' runtime) (\<lambda>_.
      bind (ask (\<lambda>s. pid (host s))) (\<lambda>coordinator_pid.
      bind (resolve_current_exe ''resolving benchctl executable'') (\<lambda>exe.
      bind (spawn ''starting workload supervisor''
        (supervisor_command r exe go status coordinator_pid)) (\<lambda>child.
      bind (unless_none (to_i32 child) (State ''workload PID is outside the PID range'')) (\<lambda>pgid.
      bind (attempt (spawn ''starting crash guardian''
        (guardian_command exe coordinator_pid pgid active_lock ready drain drained))) (\<lambda>guardian.
      case guardian of
        Inl error \<Rightarrow> bind (terminate_and_reap_group pgid) (\<lambda>_. fail_io error)
      | Inr _ \<Rightarrow>
          bind (wait_for_ready ready pgid) (\<lambda>_.
          bind (atomic_write go (''go'' @ [CHR 0x0A])) (\<lambda>_.
          bind (cancellation_flag (coordinate_client_watch r)) (\<lambda>_.
          bind (coordinate_loop lib (coordinate_timeout r) status pgid) (\<lambda>ended.
          coordinate_finish lib (coordinate_production_control r) runtime ended)))))))))))"

section \<open>The hidden processes\<close>

text \<open>An open file: its descriptor and the bytes it gives.\<close>

datatype handle = Handle nat string

definition open_verified_executable ::
    "'m library_scheme \<Rightarrow> path \<Rightarrow> string \<Rightarrow> handle io" where
  "open_verified_executable lib p expected_digest =
     bind (call ''opening accepted executable snapshot'' (\<lambda>n s.
       case lookup (nodes s) (locate_parent s p) of
         None \<Rightarrow> (Err (Io ''opening accepted executable snapshot'' NotFound), s)
       | Some i \<Rightarrow>
           (case inode_kind i of
              Symlink _ \<Rightarrow>
                (Err (Io ''opening accepted executable snapshot'' (OsError ''too many links'')), s)
            | k \<Rightarrow> (Ok (descriptor (host s) n, k), s)))) (\<lambda>(fd, k).
     bind (nop ''inspecting accepted executable snapshot'') (\<lambda>_.
     bind (case k of
             File bytes \<Rightarrow> return_io bytes
           | _ \<Rightarrow> fail_io (Preflight ''accepted executable snapshot is not a regular file'')) (\<lambda>bytes.
     bind (nop ''digesting accepted executable snapshot'') (\<lambda>_.
     bind (guard_io (sha256 lib bytes = expected_digest)
       (Preflight ''accepted executable snapshot digest no longer matches'')) (\<lambda>_.
     bind (nop ''rewinding accepted executable snapshot'') (\<lambda>_.
     bind (nop ''making accepted executable snapshot inheritable'') (\<lambda>_.
     return_io (Handle fd bytes))))))))"

definition uid_map_line_ok :: "string \<Rightarrow> bool" where
  "uid_map_line_ok line =
     (case split_whitespace line of
        [a, b, len] \<Rightarrow> a = ''0'' \<and> b = ''0'' \<and> is_some_and (parse_unsigned 64 len) (\<lambda>n. 0 < n)
      | _ \<Rightarrow> False)"

definition require_host_root_mapping :: "unit io" where
  "require_host_root_mapping =
     bind (read_to_string ''reading coordinator user-namespace mapping''
       (Path_new ''/proc/self/uid_map'')) (\<lambda>mappings.
     guard_io (list_ex uid_map_line_ok (str_lines mappings))
       (State ''production control proof requires root mapped to host UID 0, not user-namespace root''))"

text \<open>The pipe takes what it accepts of the rest; the result is what the reader will read.\<close>

function write_pipe :: "string \<Rightarrow> string \<Rightarrow> string io" where
  "write_pipe sent remaining s =
     (if remaining = [] then (Ok sent, s)
      else case call ''writing production control proof''
                  (\<lambda>n. ask (\<lambda>s. min (accepted (host s) n) (length remaining))) s of
             (Ok n, s') \<Rightarrow>
               if n = 0 then (Err (State ''production control proof pipe accepted no bytes''), s')
               else write_pipe (sent @ take n remaining) (drop n remaining) s'
           | (Err e, s') \<Rightarrow> (Err e, s')
           | (Asleep, s') \<Rightarrow> (Asleep, s'))"
  by pat_completeness auto
termination
  by (relation "measure (\<lambda>(_, remaining, _). length remaining)") auto

declare write_pipe.simps [simp del]

definition create_production_proof ::
    "'m supervision_library_scheme \<Rightarrow> string \<Rightarrow> string \<Rightarrow> handle io" where
  "create_production_proof lib oid build =
     bind (ask (\<lambda>s. euid (host s) = 0)) (\<lambda>is_root.
     bind (guard_io is_root (State ''production control proof requires a root coordinator'')) (\<lambda>_.
     bind require_host_root_mapping (\<lambda>_.
     bind (json ''serializing production control proof''
       (proof_to_vec lib \<lparr>proof_version = ''benchctl-production-control-v1'',
          proof_operation_id = oid, proof_build_id = build\<rparr>)) (\<lambda>bytes.
     bind (call ''creating production control proof pipe'' (\<lambda>n. ask (\<lambda>s. descriptor (host s) n))) (\<lambda>fd.
     bind (nop ''making production control proof inheritable'') (\<lambda>_.
     bind (write_pipe [] bytes) (\<lambda>sent.
     return_io (Handle fd sent))))))))"

definition await_go_body :: "nat \<Rightarrow> path \<Rightarrow> int \<Rightarrow> unit option io" where
  "await_go_body started go coordinator_pid = bind (path_exists go) (\<lambda>there.
     if there then return_io (Some ())
     else bind (elapsed started) (\<lambda>e.
          bind (if STARTUP_LIMIT \<le> e then return_io False else has_parent coordinator_pid) (\<lambda>alive.
          if alive then return_io None
          else fail_io (State ''coordinator disappeared before workload authorization''))))"

fun handle_fd :: "handle \<Rightarrow> nat" where
  "handle_fd (Handle fd _) = fd"

definition workload_command ::
    "SupervisorRequest \<Rightarrow> handle \<Rightarrow> string \<Rightarrow> handle option \<Rightarrow> command" where
  "workload_command r exe receipt_json production_proof =
     \<lparr>argv = (''/proc/self/fd/'' @ show_nat (handle_fd exe)) # supervisor_workload r,
      directory = None, credentials = Some (supervisor_uid r, supervisor_gid r),
      settings =
        [(''BENCHCTL_BUILD_RECEIPT'', None), (''BENCHCTL_PRODUCTION_CONTROL'', None),
         (''BENCHCTL_PRODUCTION_CONTROL_FD'', None),
         (''BENCHCTL_BUILD_RECEIPT_JSON'', Some receipt_json),
         (''BENCHCTL_OPERATION_ID'', Some (supervisor_operation_id r))]
        @ (case production_proof of
             Some reader \<Rightarrow> [(''BENCHCTL_PRODUCTION_CONTROL_FD'', Some (show_nat (handle_fd reader)))]
           | None \<Rightarrow> []),
      own_group = False\<rparr>"

definition workload_supervisor :: "'m supervision_library_scheme \<Rightarrow> SupervisorRequest \<Rightarrow> unit io" where
  "workload_supervisor lib r =
     bind (unless_none (to_i32 (supervisor_coordinator_pid r))
       (Usage ''coordinator PID is outside the PID range'')) (\<lambda>coordinator_pid.
     bind (ask clock) (\<lambda>started.
     bind (poll (rounds STARTUP_LIMIT) (await_go_body started (supervisor_go r) coordinator_pid)) (\<lambda>_.
     bind (load_accepted lib (supervisor_receipt r)) (\<lambda>receipt.
     bind (json ''serializing accepted build receipt'' (receipt_to_string lib receipt)) (\<lambda>receipt_json.
     bind (if supervisor_production_control r
           then bind (create_production_proof lib (supervisor_operation_id r) (build_id receipt))
                  (\<lambda>reader. return_io (Some reader))
           else return_io None) (\<lambda>production_proof.
     bind (open_verified_executable lib (supervisor_executable r) (executable_sha256 receipt)) (\<lambda>exe.
     bind (run_command ''starting unprivileged workload''
       (workload_command r exe receipt_json production_proof)) (\<lambda>(status, _).
     bind (json ''serializing workload status'' (status_to_vec lib
       \<lparr>status_success = exit_success status, status_code = exit_status_code status,
        status_signal = exit_signal status\<rparr>)) (\<lambda>bytes.
     bind (atomic_write (supervisor_status r) bytes) (\<lambda>_.
     sleep_forever))))))))))"

definition guardian_body :: "GuardianRequest \<Rightarrow> int \<Rightarrow> unit option io" where
  "guardian_body r coordinator_pid =
     bind (path_exists (guardian_drain r)) (\<lambda>requested.
     bind (has_parent coordinator_pid) (\<lambda>alive.
     if requested \<or> \<not> alive
     then bind (terminate_and_drain (guardian_pgid r)) (\<lambda>_.
          bind (if requested then atomic_write (guardian_drained r) (''drained'' @ [CHR 0x0A])
                else return_io ()) (\<lambda>_.
          return_io (Some ())))
     else return_io None))"

text \<open>
  The guardian's loop has no time limit; the argument is the number of rounds it is followed for.
\<close>

definition guardian :: "nat \<Rightarrow> GuardianRequest \<Rightarrow> unit io" where
  "guardian watched r =
     bind (open_create ''opening active-operation lock'' False (guardian_active_lock r)) (\<lambda>_.
     bind (nop ''locking active operation'') (\<lambda>_.
     bind (atomic_write (guardian_ready r) (''ready'' @ [CHR 0x0A])) (\<lambda>_.
     bind (unless_none (to_i32 (guardian_coordinator_pid r))
       (Usage ''coordinator PID is outside the PID range'')) (\<lambda>coordinator_pid.
     poll watched (guardian_body r coordinator_pid)))))"

end
