(* ===== verification/Cpuidle.thy ===== *)
theory Cpuidle
  imports Supervision
begin

text \<open>
  Control of the cpuidle states (\<^verbatim>\<open>src/tools/benchctl/src/cpuidle.rs\<close>): the inventory of the states
  a run touches, the journalled changes and their undoing, and the three public operations run,
  status and recover. The supervision of the workload and the build receipts are the definitions
  of theories \<open>Supervision\<close> and \<open>Receipt\<close>.
\<close>

section \<open>Constants and requests\<close>

definition REAL_SYSFS_ROOT :: path where
  "REAL_SYSFS_ROOT = [root_dir, ''sys'', ''devices'', ''system'', ''cpu'']"

definition REAL_STATE_ROOT :: path where
  "REAL_STATE_ROOT = [root_dir, ''run'', ''benchctl'', ''operations'']"

definition CPUIDLE_LOCK :: path where
  "CPUIDLE_LOCK = [root_dir, ''run'', ''lock'', ''benchctl-cpuidle.lock'']"

definition RECOVERY_LOCK_WAIT :: nat where "RECOVERY_LOCK_WAIT = 10000"

record RunRequest =
  run_operation_id :: "string option"
  receipt_path :: path
  run_cpus :: "nat list"
  run_timeout :: nat
  workload :: "string list"
  sysfs_root :: path
  state_root :: path
  is_coordinator :: bool
  client_pid :: "u32 option"

record ControlRequest =
  control_operation_id :: "string option"
  control_sysfs_root :: path
  control_state_root :: path
  control_coordinator :: bool

definition is_real_root :: "path \<Rightarrow> bool" where
  "is_real_root p = (p = REAL_SYSFS_ROOT)"

section \<open>The idle states\<close>

definition read_trimmed :: "path \<Rightarrow> string \<Rightarrow> string io" where
  "read_trimmed p operation =
     bind (read_to_string operation p) (\<lambda>value. return_io (trim value))"

definition read_bit :: "path \<Rightarrow> string io" where
  "read_bit p =
     bind (read_trimmed p ''reading cpuidle value'') (\<lambda>value.
     bind (guard_io (value = ''0'' \<or> value = ''1'')
       (State (''cpuidle value is not 0 or 1: '' @ display_path p))) (\<lambda>_.
     return_io value))"

definition write_bit :: "path \<Rightarrow> string \<Rightarrow> unit io" where
  "write_bit p value =
     bind (fs_write ''writing cpuidle value'' p (value @ [CHR 0x0A])) (\<lambda>_.
     bind (read_bit p) (\<lambda>actual.
     guard_io (actual = value)
       (State (''cpuidle readback failed for '' @ display_path p @ '': expected '' @ value
          @ '', found '' @ actual))))"

definition reject_symlink :: "path \<Rightarrow> unit io" where
  "reject_symlink p =
     bind (symlink_metadata ''inspecting controlled path'' p) (\<lambda>metadata.
     case inode_kind metadata of
       Symlink _ \<Rightarrow> fail_io (Preflight (''symbolic links are rejected: '' @ display_path p))
     | _ \<Rightarrow> return_io ())"

definition inventory_item :: "nat \<Rightarrow> path \<Rightarrow> string \<Rightarrow> IdleEntry option io" where
  "inventory_item c root file =
     bind (nop ''reading cpuidle entry'') (\<lambda>_.
     if \<not> (valid_utf8 file \<and> prefix ''state'' file) then return_io None
     else
       let index = drop 5 file; dir = root @ [file]; name_path = join dir ''name'';
           disable = join dir ''disable'' in
       bind (unless_none (parse_unsigned 64 index)
         (Preflight (''invalid cpuidle state directory: '' @ index))) (\<lambda>number.
       bind (reject_symlink dir) (\<lambda>_.
       bind (reject_symlink name_path) (\<lambda>_.
       bind (reject_symlink disable) (\<lambda>_.
       bind (read_trimmed name_path ''reading cpuidle state name'') (\<lambda>nm.
       bind (read_bit disable) (\<lambda>value.
       return_io (Some \<lparr>cpu = c, state = number, name = nm, disable_path = disable,
         original = value,
         desired = (if nm = ''POLL'' \<or> nm = ''C1'' then ''0'' else ''1'')\<rparr>))))))))"

definition count_named :: "string \<Rightarrow> IdleEntry list \<Rightarrow> nat" where
  "count_named n es = length (filter (\<lambda>e. name e = n) es)"

definition cpu_inventory :: "path \<Rightarrow> nat \<Rightarrow> IdleEntry list io" where
  "cpu_inventory sysfs c =
     (let cpu_root = join sysfs (''cpu'' @ show_nat c); root = join cpu_root ''cpuidle'' in
      bind (reject_symlink cpu_root) (\<lambda>_.
      bind (reject_symlink root) (\<lambda>_.
      bind (read_dir ''reading cpuidle inventory'' root) (\<lambda>items.
      bind (collect items (inventory_item c root)) (\<lambda>found.
      let cpu_entries = List.map_filter (\<lambda>x. x) found in
      bind (guard_io (cpu_entries \<noteq> [] \<and> count_named ''POLL'' cpu_entries = 1
              \<and> count_named ''C1'' cpu_entries = 1)
        (Preflight (''CPU '' @ show_nat c @ '' must expose exact POLL and C1 cpuidle states''))) (\<lambda>_.
      return_io (sort_key state cpu_entries)))))))"

definition inventory :: "path \<Rightarrow> nat list \<Rightarrow> IdleEntry list io" where
  "inventory sysfs cs =
     bind (collect cs (cpu_inventory sysfs)) (\<lambda>found. return_io (concat found))"

definition same_state :: "IdleEntry \<times> IdleEntry \<Rightarrow> bool" where
  "same_state = (\<lambda>(left, right).
     cpu left = cpu right \<and> state left = state right \<and> name left = name right
       \<and> disable_path left = disable_path right)"

definition validate_inventory :: "path \<Rightarrow> IdleEntry list \<Rightarrow> unit io" where
  "validate_inventory sysfs es =
     bind (inventory sysfs (remdups_adj (sort (map cpu es)))) (\<lambda>current.
     guard_io (length current = length es \<and> list_all same_state (zip current es))
       (State ''current cpuidle inventory differs from the journal''))"

definition apply_entry :: "IdleEntry \<Rightarrow> unit io" where
  "apply_entry e =
     bind (read_bit (disable_path e)) (\<lambda>current.
     bind (guard_io (current = original e)
       (State (''cpuidle value changed before apply: '' @ display_path (disable_path e)))) (\<lambda>_.
     write_bit (disable_path e) (desired e)))"

definition apply_entries :: "path \<Rightarrow> IdleEntry list \<Rightarrow> unit io" where
  "apply_entries sysfs es =
     bind (validate_inventory sysfs es) (\<lambda>_. for_each es apply_entry)"

section \<open>Undoing\<close>

definition restore_conflict ::
    "'m library_scheme \<Rightarrow> path \<Rightarrow> Journal \<Rightarrow> IdleEntry \<Rightarrow> string \<Rightarrow> string \<Rightarrow> unit io" where
  "restore_conflict lib p j e expected current =
     bind actor (\<lambda>a.
     bind (transition StageRestoreConflict a j) (\<lambda>j.
     bind (store lib p j) (\<lambda>_.
     fail_io (RestoreConflict (disable_path e) expected current))))"

definition original_or_desired :: "IdleEntry \<Rightarrow> string" where
  "original_or_desired e = original e @ '' or '' @ desired e"

definition check_entry :: "'m library_scheme \<Rightarrow> path \<Rightarrow> Journal \<Rightarrow> IdleEntry \<Rightarrow> unit io" where
  "check_entry lib p j e =
     bind (read_bit (disable_path e)) (\<lambda>current.
     if current \<noteq> original e \<and> current \<noteq> desired e
     then restore_conflict lib p j e (original_or_desired e) current
     else return_io ())"

definition restore_entry :: "'m library_scheme \<Rightarrow> path \<Rightarrow> Journal \<Rightarrow> IdleEntry \<Rightarrow> unit io" where
  "restore_entry lib p j e =
     bind (read_bit (disable_path e)) (\<lambda>current.
     if current \<noteq> original e \<and> current \<noteq> desired e
     then restore_conflict lib p j e (original_or_desired e) current
     else if current = desired e \<and> current \<noteq> original e
     then write_bit (disable_path e) (original e)
     else return_io ())"

definition confirm_entry :: "'m library_scheme \<Rightarrow> path \<Rightarrow> Journal \<Rightarrow> IdleEntry \<Rightarrow> unit io" where
  "confirm_entry lib p j e =
     bind (read_bit (disable_path e)) (\<lambda>actual.
     if actual \<noteq> original e then restore_conflict lib p j e (original e) actual
     else return_io ())"

definition restore :: "'m library_scheme \<Rightarrow> path \<Rightarrow> path \<Rightarrow> Journal \<Rightarrow> unit io" where
  "restore lib sysfs p j =
     bind (validate_inventory sysfs (entries j)) (\<lambda>_.
     bind (for_each (entries j) (check_entry lib p j)) (\<lambda>_.
     bind actor (\<lambda>a.
     bind (transition Restoring a j) (\<lambda>j.
     bind (store lib p j) (\<lambda>_.
     bind (for_each (entries j) (restore_entry lib p j)) (\<lambda>_.
     bind (validate_inventory sysfs (entries j)) (\<lambda>_.
     bind (for_each (entries j) (confirm_entry lib p j)) (\<lambda>_.
     bind actor (\<lambda>a.
     bind (transition Restored a j) (\<lambda>j.
     store lib p j))))))))))"

section \<open>State directory and lock\<close>

definition secure_state_directory :: "path \<Rightarrow> unit io" where
  "secure_state_directory p =
     bind (set_mode ''securing operation state directory'' p 448) (\<lambda>_.
     bind (symlink_metadata ''inspecting operation state directory'' p) (\<lambda>metadata.
     bind (guard_io (inode_kind metadata = Directory)
       (Preflight ''operation state root must be a real directory'')) (\<lambda>_.
     bind (ask (\<lambda>s. euid (host s))) (\<lambda>me.
     guard_io (inode_owner metadata = me \<and> inode_mode metadata AND 511 = 448)
       (Preflight ''operation state root must be owned by the coordinator with mode 0700'')))))"

definition acquire_lock_body :: "nat \<Rightarrow> bool \<Rightarrow> string \<Rightarrow> unit option io" where
  "acquire_lock_body started wait label = bind try_lock (\<lambda>r.
     case r of
       Locked \<Rightarrow> return_io (Some ())
     | _ \<Rightarrow> bind (elapsed started) (\<lambda>e.
         if r = WouldBlock \<and> wait \<and> e < RECOVERY_LOCK_WAIT then return_io None
         else fail_io (State (label @ '': '' @ display_lock r))))"

definition acquire_lock :: "bool \<Rightarrow> string \<Rightarrow> unit io" where
  "acquire_lock wait label = bind (ask clock) (\<lambda>started.
     poll (rounds RECOVERY_LOCK_WAIT) (acquire_lock_body started wait label))"

definition lock_exists :: "path \<Rightarrow> bool io" where
  "lock_exists p =
     bind (attempt (symlink_metadata ''inspecting cpuidle lock'' p)) (\<lambda>r.
     case r of
       Inr metadata \<Rightarrow>
         (case inode_kind metadata of
            Symlink _ \<Rightarrow> fail_io (Preflight (''symbolic links are rejected: '' @ display_path p))
          | _ \<Rightarrow> return_io True)
     | Inl e \<Rightarrow> if e = Io ''inspecting cpuidle lock'' NotFound then return_io False else fail_io e)"

definition handle_metadata :: "string \<Rightarrow> path \<Rightarrow> inode io" where
  "handle_metadata operation t = call operation (\<lambda>_ s.
     case map_of (nodes s) t of Some i \<Rightarrow> (Ok i, s) | None \<Rightarrow> (Err (Io operation NotFound), s))"

definition lock_for :: "path \<Rightarrow> bool \<Rightarrow> path io" where
  "lock_for sysfs wait =
     bind (ask (\<lambda>s. euid (host s))) (\<lambda>me.
     let (p, expected_uid, expected_mode) =
       (if is_real_root sysfs then (CPUIDLE_LOCK, 0, 438)
        else (join sysfs ''.benchctl-cpuidle.lock'', me, 384)) in
     bind (case parent_dir p of
             Some d \<Rightarrow> create_dir_all ''creating lock directory'' d
           | None \<Rightarrow> return_io ()) (\<lambda>_.
     bind (lock_exists p) (\<lambda>existed.
     bind (open_create ''opening cpuidle lock'' True p) (\<lambda>file.
     bind (if existed then return_io () else set_mode ''securing cpuidle lock'' file expected_mode) (\<lambda>_.
     bind (handle_metadata ''inspecting cpuidle lock'' file) (\<lambda>metadata.
     bind (guard_io (file_content (Some metadata) \<noteq> None \<and> inode_owner metadata = expected_uid
             \<and> inode_mode metadata AND 511 = expected_mode)
       (Preflight ''global cpuidle lock has unsafe ownership or mode'')) (\<lambda>_.
     bind (acquire_lock wait ''another cpuidle operation owns the lock'') (\<lambda>_.
     return_io file))))))))"

section \<open>Journals on disk\<close>

definition select_entry ::
    "'m library_scheme \<Rightarrow> path \<Rightarrow> bool \<Rightarrow> string \<Rightarrow> path option io" where
  "select_entry lib root recoverable_only file =
     bind (nop ''listing operation entry'') (\<lambda>_.
     let p = root @ [file] in
     if extension p \<noteq> Some ''json'' then return_io None
     else if recoverable_only
     then bind (load lib p) (\<lambda>j. return_io (if stage j = Restored then None else Some p))
     else return_io (Some p))"

definition select_journals ::
    "'m library_scheme \<Rightarrow> path \<Rightarrow> string option \<Rightarrow> bool \<Rightarrow> path list io" where
  "select_journals lib root oid recoverable_only =
     (case oid of
        Some x \<Rightarrow>
          bind (journal_path root x) (\<lambda>p.
          bind (path_exists p) (\<lambda>there. return_io (if there then [p] else [])))
      | None \<Rightarrow>
          bind (path_exists root) (\<lambda>there.
          if \<not> there then return_io []
          else bind (read_dir ''listing operation state'' root) (\<lambda>files.
               bind (collect files (select_entry lib root recoverable_only)) (\<lambda>found.
               return_io (sort (List.map_filter (\<lambda>x. x) found))))))"

definition require_no_unfinished_journal :: "'m library_scheme \<Rightarrow> path \<Rightarrow> unit io" where
  "require_no_unfinished_journal lib root =
     bind (select_journals lib root None False) (\<lambda>paths.
     for_each paths (\<lambda>p.
       bind (load lib p) (\<lambda>j.
       guard_io (stage j = Restored) (RecoveryRequired (operation_id j)))))"

section \<open>Who is running\<close>

definition parse_sudo_id :: "string \<Rightarrow> u32 io" where
  "parse_sudo_id nm =
     bind (ask (\<lambda>s. variables (host s) nm)) (\<lambda>value.
     bind (case value of
             Some x \<Rightarrow> guard_io (valid_utf8 x) (Preflight (nm @ '' is required from sudo''))
           | None \<Rightarrow> fail_io (Preflight (nm @ '' is required from sudo''))) (\<lambda>_.
     bind (unless_none (parse_unsigned 32 (the value)) (Preflight (nm @ '' is malformed''))) (\<lambda>n.
     return_io (of_nat n))))"

definition invoking_actor :: "path \<Rightarrow> Actor io" where
  "invoking_actor sysfs =
     bind (ask (\<lambda>s. euid (host s) = 0)) (\<lambda>is_root.
     if \<not> is_real_root sysfs \<or> \<not> is_root then actor
     else bind (parse_sudo_id ''SUDO_UID'') (\<lambda>u.
          bind (parse_sudo_id ''SUDO_GID'') (\<lambda>g.
          return_io \<lparr>uid = u, gid = g\<rparr>)))"

definition require_coordinator_privilege :: "path \<Rightarrow> bool \<Rightarrow> unit io" where
  "require_coordinator_privilege sysfs privileged =
     bind (ask (\<lambda>s. euid (host s) = 0)) (\<lambda>is_root.
     guard_io (\<not> (is_real_root sysfs \<and> (\<not> privileged \<or> \<not> is_root)))
       (Preflight ''real sysfs operations require the hidden privileged coordinator''))"

definition validate_production_state_root :: "path \<Rightarrow> path \<Rightarrow> unit io" where
  "validate_production_state_root sysfs root =
     guard_io (\<not> (is_real_root sysfs \<and> root \<noteq> REAL_STATE_ROOT))
       (Preflight ''real sysfs operations require the fixed root-owned Benchctl state directory'')"

definition forward_status :: "command \<Rightarrow> string \<Rightarrow> unit io" where
  "forward_status c label =
     bind (run_command ''starting privileged coordinator'' c) (\<lambda>(status, _).
     guard_io (exit_success status) (Workload (label @ '' exited with '' @ exit_text status)))"

definition sudo :: "string list \<Rightarrow> command" where
  "sudo arguments = \<lparr>argv = ''sudo'' # arguments, directory = None, credentials = None, settings = [], own_group = False\<rparr>"

definition sudo_run :: "RunRequest \<Rightarrow> unit io" where
  "sudo_run r =
     bind (resolve_current_exe ''resolving benchctl executable'') (\<lambda>exe.
     bind (ask (\<lambda>s. pid (host s))) (\<lambda>me.
     forward_status (sudo
       ([''--'', display_path exe, ''run'', ''--coordinator'', ''--client-pid'', show_u32 me,
         ''--receipt'', display_path (receipt_path r), ''--cpuidle'', ''poll-c1'', ''--timeout'',
         show_nat (run_timeout r div 1000), ''--sysfs-root'', display_path (sysfs_root r),
         ''--state-root'', display_path (state_root r)]
        @ (case run_operation_id r of Some x \<Rightarrow> [''--operation-id'', x] | None \<Rightarrow> [])
        @ concat (map (\<lambda>c. [''--cpu'', show_nat c]) (run_cpus r))
        @ [''--''] @ workload r)) ''privileged coordinator''))"

definition sudo_control :: "string \<Rightarrow> string option \<Rightarrow> path \<Rightarrow> path \<Rightarrow> unit io" where
  "sudo_control action oid sysfs root =
     bind (resolve_current_exe ''resolving benchctl executable'') (\<lambda>exe.
     forward_status (sudo
       ([''--'', display_path exe, action, ''--coordinator'', ''--sysfs-root'', display_path sysfs,
         ''--state-root'', display_path root]
        @ (case oid of Some x \<Rightarrow> [x] | None \<Rightarrow> []))) ''privileged coordinator'')"

definition absolute :: "path \<Rightarrow> path io" where
  "absolute p =
     (if is_absolute p then return_io p
      else bind (call ''resolving current directory'' (\<lambda>_. ask (\<lambda>s. working_directory (host s)))) (\<lambda>d.
           return_io (join_path d p)))"

definition absolute_existing :: "path \<Rightarrow> string \<Rightarrow> path io" where
  "absolute_existing p operation = bind (absolute p) (canonicalize operation)"

definition absolute_without_existing :: "path \<Rightarrow> path io" where
  "absolute_without_existing p =
     bind (absolute p) (\<lambda>a.
     bind (guard_io (a \<noteq> [root_dir] \<and> ''..'' \<notin> set a)
       (Preflight ''state root must be an absolute non-root path without traversal'')) (\<lambda>_.
     return_io a))"

definition new_operation_id :: "string io" where
  "new_operation_id =
     bind now_millis (\<lambda>millis.
     bind (ask (\<lambda>s. pid (host s))) (\<lambda>me.
     return_io (show_nat millis @ ''-'' @ show_u32 me)))"

end
