(* ===== verification/Restoration.thy ===== *)
theory Restoration
  imports Cpuidle
begin

text \<open>
  That undoing works: what \<open>restore\<close> leaves behind when it succeeds, in which states a crash may
  leave the idle states and the journal, and that a value it does not know is never overwritten.
\<close>

section \<open>What the operations on idle states keep\<close>

lemma leaves_reject_symlink [keeps]: "leaves A C (reject_symlink p)"
  unfolding reject_symlink_def by (auto intro!: keeps split: kind.split)

lemma leaves_read_bit [keeps]: "leaves A C (read_trimmed p operation)" "leaves A C (read_bit p)"
  unfolding read_trimmed_def read_bit_def by (intro keeps)+

lemma leaves_inventory [keeps]:
  "leaves A C (inventory_item c root file)" "leaves A C (cpu_inventory sysfs c)"
  "leaves A C (inventory sysfs cs)" "leaves A C (validate_inventory sysfs es)"
  unfolding inventory_item_def cpu_inventory_def inventory_def validate_inventory_def Let_def
  by (intro keeps)+

section \<open>Bits\<close>

definition bit_value :: "string option \<Rightarrow> string option" where
  "bit_value c = map_option trim c"

definition bit_file :: "string \<Rightarrow> string" where
  "bit_file value = value @ [CHR 0x0A]"

lemma trim_bit: "value \<in> {''0'', ''1''} \<Longrightarrow> trim (bit_file value) = value"
proof -
  have "trim (bit_file ''0'') = ''0''" "trim (bit_file ''1'') = ''1''" by code_simp+
  then show "value \<in> {''0'', ''1''} \<Longrightarrow> ?thesis" by auto
qed

lemma step_read_bit:
  assumes "p \<in> C"
  shows "step_ok A C safe h now (read_bit p)
    (\<lambda>b w. now w \<and> bit_value (w p) = Some b \<and> b \<in> {''0'', ''1''})"
  unfolding read_bit_def read_trimmed_def read_to_string_def
  by (intro step_bind [OF step_bind [OF step_bind [OF step_read [OF assms]]]] step_bind
      step_guard step_return) (auto simp: bit_value_def)

lemma step_write_bit:
  assumes "p \<in> C"
    and "\<And>w. safe w \<Longrightarrow> now w \<Longrightarrow>
      safe (w(p := Some (bit_file value))) \<and> post (w(p := Some (bit_file value)))"
  shows "step_ok A C safe h now (write_bit p value) (\<lambda>_. post)"
  unfolding write_bit_def
proof (rule step_bind)
  show "step_ok A C safe h now (fs_write ''writing cpuidle value'' p (value @ [CHR 0x0A])) (\<lambda>_. post)"
    by (rule step_write [OF assms(1)]) (simp add: assms(2) [unfolded bit_file_def])
  show "step_ok A C safe h post (bind (read_bit p) (\<lambda>actual. guard_io (actual = value)
       (State (''cpuidle readback failed for '' @ display_path p @ '': expected '' @ value
          @ '', found '' @ actual)))) (\<lambda>_. post)"
    by (rule step_then [OF leaves_read_bit(2)], rule step_guard)
qed

section \<open>Restoring\<close>

text \<open>A later state of the same journal.\<close>

definition continues :: "Journal \<Rightarrow> Journal \<Rightarrow> bool" where
  "continues j j' = (\<exists>ts. j' = j\<lparr>transitions := transitions j @ ts\<rparr>)"

lemma continues_refl: "continues j j"
  unfolding continues_def by (rule exI [of _ "[]"]) simp

lemma continues_trans: "continues j j' \<Longrightarrow> continues j' j'' \<Longrightarrow> continues j j''"
  by (auto simp: continues_def)

lemma continues_entries: "continues j j' \<Longrightarrow> entries j' = entries j"
  by (auto simp: continues_def)

lemma step_transition:
  "step_ok A C safe h now (transition st a j)
     (\<lambda>j' w. now w \<and> continues j j' \<and> stage j' = st)"
  unfolding transition_def
  by (rule step_then, intro keeps, rule step_return) (auto simp: continues_def stage_def)

definition originals :: "IdleEntry list \<Rightarrow> (path \<Rightarrow> string option) \<Rightarrow> bool" where
  "originals es w = (\<forall>e\<in>set es. bit_value (w (disable_path e)) = Some (original e))"

text \<open>The contents differ from earlier ones only in the journal and in bits put back.\<close>

definition undoes ::
    "IdleEntry list \<Rightarrow> path \<Rightarrow> (path \<Rightarrow> string option) \<Rightarrow> (path \<Rightarrow> string option) \<Rightarrow> bool" where
  "undoes es p v w =
     (\<forall>q. q \<noteq> p \<longrightarrow>
       w q = v q \<or> (\<exists>e\<in>set es. q = disable_path e \<and> w q = Some (bit_file (original e))))"

text \<open>What the journal on disk says while an operation is being undone.\<close>

definition undoing ::
    "'m library_scheme \<Rightarrow> path \<Rightarrow> Journal \<Rightarrow> (path \<Rightarrow> string option) \<Rightarrow> (path \<Rightarrow> string option) \<Rightarrow> bool" where
  "undoing lib p j v w =
     (undoes (entries j) p v w
       \<and> (\<exists>j'. recorded lib (w p) = Some j' \<and> continues j j'
            \<and> (stage j' = Restored \<longrightarrow> originals (entries j) w)))"

lemma undoes_same: "undoes es p v v" "undoes es p v (v(p := c))"
  by (auto simp: undoes_def)

lemma undoes_journal: "undoes es p v w \<Longrightarrow> undoes es p v (w(p := c))"
  by (auto simp: undoes_def)

lemma undoes_bit: "undoes es p v w \<Longrightarrow> e \<in> set es \<Longrightarrow>
    undoes es p v (w(disable_path e := Some (bit_file (original e))))"
  by (auto simp: undoes_def)

lemma originals_journal: "p \<notin> disable_path ` set es \<Longrightarrow> originals es (w(p := c)) = originals es w"
  by (auto simp: originals_def image_iff)

lemma undoing_stored:
  assumes "faithful lib" "journal_to_vec_pretty lib j' = Inr bytes" "continues j j'"
    and "undoes (entries j) p v w" "p \<notin> disable_path ` set (entries j)"
    and "stage j' = Restored \<Longrightarrow> originals (entries j) w"
  shows "undoing lib p j v (w(p := Some bytes))"
  using assms
  by (auto simp: undoing_def recorded_written undoes_journal originals_journal)

text \<open>
  What the proofs below need of the controlled paths and of the states that count as safe when
  the journal \<open>j\<close> stored at \<open>p\<close> is undone from the contents \<open>v\<close>.
\<close>

definition restoration ::
    "'m library_scheme \<Rightarrow> path \<Rightarrow> Journal \<Rightarrow> path set \<Rightarrow> ((path \<Rightarrow> string option) \<Rightarrow> bool)
      \<Rightarrow> (path \<Rightarrow> string option) \<Rightarrow> bool" where
  "restoration lib p j C safe v =
     (faithful lib \<and> p \<in> C \<and> disable_path ` set (entries j) \<subseteq> C
       \<and> p \<notin> disable_path ` set (entries j) \<and> (\<forall>w. undoing lib p j v w \<longrightarrow> safe w))"

lemma restorationD:
  assumes "restoration lib p j C safe v"
  shows "faithful lib" "p \<in> C" "p \<notin> disable_path ` set (entries j)"
    and "undoing lib p j v w \<Longrightarrow> safe w" "e \<in> set (entries j) \<Longrightarrow> disable_path e \<in> C"
  using assms by (auto simp: restoration_def)

definition progress ::
    "'m library_scheme \<Rightarrow> path \<Rightarrow> Journal \<Rightarrow> (path \<Rightarrow> string option) \<Rightarrow> (path \<Rightarrow> string option) \<Rightarrow> bool" where
  "progress lib p j v w =
     (undoes (entries j) p v w
       \<and> (\<exists>j'. recorded lib (w p) = Some j' \<and> continues j j' \<and> stage j' \<noteq> Restored))"

text \<open>
  The first pass can store one thing only: the journal with a conflict added. What this needs is
  less than a whole restoration does.
\<close>

definition conflict_safe ::
    "'m library_scheme \<Rightarrow> path \<Rightarrow> Journal \<Rightarrow> path set \<Rightarrow> ((path \<Rightarrow> string option) \<Rightarrow> bool)
      \<Rightarrow> (path \<Rightarrow> string option) \<Rightarrow> bool" where
  "conflict_safe lib p j C safe v =
     (p \<in> C \<and> disable_path ` set (entries j) \<subseteq> C
       \<and> (\<forall>j' bytes. continues j j' \<longrightarrow> stage j' = StageRestoreConflict
            \<longrightarrow> journal_to_vec_pretty lib j' = Inr bytes \<longrightarrow> safe (v(p := Some bytes))))"

lemma restoration_conflict:
  assumes R: "restoration lib p j C safe v" and "undoes (entries j) p v w" "continues j j'"
  shows "conflict_safe lib p j' C safe w"
  unfolding conflict_safe_def
proof (intro conjI allI impI)
  show "p \<in> C" "disable_path ` set (entries j') \<subseteq> C"
    using R continues_entries [OF assms(3)] by (auto simp: restoration_def)
  fix j'' bytes
  assume "continues j' j''" "stage j'' = StageRestoreConflict" "journal_to_vec_pretty lib j'' = Inr bytes"
  with assms show "safe (w(p := Some bytes))"
    by (auto intro!: restorationD(4) [OF R] undoing_stored [OF restorationD(1) [OF R] _ _ _ restorationD(3) [OF R]]
        dest: continues_trans)
qed

lemma step_conflict:
  assumes "\<And>w. now w \<Longrightarrow> conflict_safe lib p j C safe w"
  shows "step_ok A C safe h now (restore_conflict lib p j e expected current) post"
  unfolding restore_conflict_def
proof (rule step_then [OF leaves_Journal(7)], rule step_bind [OF step_transition])
  fix a j'
  let ?now = "\<lambda>w. now w \<and> continues j j' \<and> stage j' = StageRestoreConflict"
  show "step_ok A C safe h ?now
      (bind (store lib p j') (\<lambda>_. fail_io (RestoreConflict (disable_path e) expected current))) post"
  proof (rule step_bind [OF _ step_fail], rule step_pure [where b = "p \<in> C"])
    show "p \<in> C" if "?now w" "safe w" for w
      using assms that by (auto simp: conflict_safe_def)
    show "step_ok A C safe h ?now (store lib p j') (\<lambda>_ _. True)" if "p \<in> C"
      by (rule step_store [OF that]) (use assms in \<open>auto simp: conflict_safe_def\<close>)
  qed
qed

lemma step_check:
  assumes "disable_path e \<in> C" "\<And>w. now w \<Longrightarrow> conflict_safe lib p j C safe w"
  shows "step_ok A C safe h now (check_entry lib p j e)
    (\<lambda>_ w. now w \<and> bit_value (w (disable_path e)) \<in> {Some (original e), Some (desired e)})"
  unfolding check_entry_def
proof (rule step_bind [OF step_read_bit [OF assms(1)]])
  fix b
  let ?now = "\<lambda>w. now w \<and> bit_value (w (disable_path e)) = Some b \<and> b \<in> {''0'', ''1''}"
  have "step_ok A C safe h ?now (restore_conflict lib p j e (original_or_desired e) b)
    (\<lambda>_ w. now w \<and> bit_value (w (disable_path e)) \<in> {Some (original e), Some (desired e)})"
    by (rule step_conflict) (auto intro: assms(2))
  then show "step_ok A C safe h ?now
      (if b \<noteq> original e \<and> b \<noteq> desired e
       then restore_conflict lib p j e (original_or_desired e) b else return_io ())
      (\<lambda>_ w. now w \<and> bit_value (w (disable_path e)) \<in> {Some (original e), Some (desired e)})"
    by (auto intro!: step_return)
qed

lemma step_restore_entry:
  assumes R: "restoration lib p j C safe v" and "e \<in> set (entries j)" "continues j j'"
  shows "step_ok A C safe h (progress lib p j v) (restore_entry lib p j' e) (\<lambda>_. progress lib p j v)"
  unfolding restore_entry_def
proof (rule step_bind [OF step_read_bit [OF restorationD(5) [OF R assms(2)]]])
  fix b
  let ?now = "\<lambda>w. progress lib p j v w \<and> bit_value (w (disable_path e)) = Some b \<and> b \<in> {''0'', ''1''}"
  have "step_ok A C safe h ?now (restore_conflict lib p j' e (original_or_desired e) b) (\<lambda>_. progress lib p j v)"
    by (rule step_conflict [OF restoration_conflict [OF R _ assms(3)]]) (auto simp: progress_def)
  moreover have "step_ok A C safe h ?now (write_bit (disable_path e) (original e)) (\<lambda>_. progress lib p j v)"
  proof (rule step_write_bit [OF restorationD(5) [OF R assms(2)]])
    fix w
    assume "?now w"
    moreover have "disable_path e \<noteq> p" using restorationD(3) [OF R] assms(2) by auto
    ultimately have "progress lib p j v (w(disable_path e := Some (bit_file (original e))))"
      using assms(2) by (auto simp: progress_def undoes_bit)
    then show "safe (w(disable_path e := Some (bit_file (original e)))) \<and>
        progress lib p j v (w(disable_path e := Some (bit_file (original e))))"
      by (auto intro!: restorationD(4) [OF R] simp: progress_def undoing_def)
  qed
  moreover have "step_ok A C safe h ?now (return_io ()) (\<lambda>_. progress lib p j v)"
    by (rule step_return) auto
  ultimately show "step_ok A C safe h ?now
      (if b \<noteq> original e \<and> b \<noteq> desired e
       then restore_conflict lib p j' e (original_or_desired e) b
       else if b = desired e \<and> b \<noteq> original e then write_bit (disable_path e) (original e)
       else return_io ()) (\<lambda>_. progress lib p j v)"
    by (simp only: split: if_split) blast
qed

lemma step_confirm:
  assumes R: "restoration lib p j C safe v" and "e \<in> set (entries j)" "continues j j'" "\<And>w. now w \<Longrightarrow> progress lib p j v w"
  shows "step_ok A C safe h now (confirm_entry lib p j' e)
    (\<lambda>_ w. now w \<and> bit_value (w (disable_path e)) = Some (original e))"
  unfolding confirm_entry_def
proof (rule step_bind [OF step_read_bit [OF restorationD(5) [OF R assms(2)]]])
  fix b
  let ?now = "\<lambda>w. now w \<and> bit_value (w (disable_path e)) = Some b \<and> b \<in> {''0'', ''1''}"
  have "step_ok A C safe h ?now (restore_conflict lib p j' e (original e) b)
      (\<lambda>_ w. now w \<and> bit_value (w (disable_path e)) = Some (original e))"
    by (rule step_conflict [OF restoration_conflict [OF R _ assms(3)]]) (auto simp: progress_def dest: assms(4))
  then show "step_ok A C safe h ?now
      (if b \<noteq> original e then restore_conflict lib p j' e (original e) b else return_io ())
      (\<lambda>_ w. now w \<and> bit_value (w (disable_path e)) = Some (original e))"
    by (auto intro!: step_return)
qed

text \<open>The three passes over the entries.\<close>

lemma step_check_all:
  assumes "conflict_safe lib p j C safe v"
  shows "step_ok A C safe h (\<lambda>w. w = v) (for_each (entries j) (check_entry lib p j))
    (\<lambda>_ w. w = v \<and> (\<forall>e\<in>set (entries j). bit_value (v (disable_path e)) \<in> {Some (original e), Some (desired e)}))"
proof (rule step_conseq)
  let ?I = "\<lambda>(ys :: IdleEntry list) w. w = v \<and> (\<forall>e\<in>set ys. bit_value (v (disable_path e)) \<in> {Some (original e), Some (desired e)})"
  show "step_ok A C safe h (?I []) (for_each (entries j) (check_entry lib p j)) (\<lambda>_. ?I (entries j))"
  proof (rule step_for_each [where I = ?I])
    fix ys e zs
    assume "entries j = ys @ e # zs"
    then show "step_ok A C safe h (?I ys) (check_entry lib p j e) (\<lambda>_. ?I (ys @ [e]))"
      by (intro step_conseq [OF step_check [where now = "?I ys"]]) (use assms in \<open>auto simp: conflict_safe_def\<close>)
  qed
qed auto

lemma step_restore_all:
  assumes R: "restoration lib p j C safe v" and "continues j j'"
  shows "step_ok A C safe h (progress lib p j v) (for_each (entries j') (restore_entry lib p j'))
    (\<lambda>_. progress lib p j v)"
  by (rule step_for_each [where I = "\<lambda>_. progress lib p j v"], rule step_restore_entry [OF R _ assms(2)])
    (use continues_entries [OF assms(2)] in simp)

lemma step_confirm_all:
  assumes R: "restoration lib p j C safe v" and "continues j j'"
  shows "step_ok A C safe h (progress lib p j v) (for_each (entries j') (confirm_entry lib p j'))
    (\<lambda>_ w. progress lib p j v w \<and> originals (entries j) w)"
proof (rule step_conseq)
  let ?I = "\<lambda>ys w. progress lib p j v w \<and> originals ys w"
  show "step_ok A C safe h (?I []) (for_each (entries j') (confirm_entry lib p j')) (\<lambda>_. ?I (entries j'))"
  proof (rule step_for_each [where I = ?I])
    fix ys e zs
    assume "entries j' = ys @ e # zs"
    with continues_entries [OF assms(2)] have "e \<in> set (entries j)"
      by (metis in_set_conv_decomp)
    then show "step_ok A C safe h (?I ys) (confirm_entry lib p j' e) (\<lambda>_. ?I (ys @ [e]))"
      by (intro step_conseq [OF step_confirm [OF R _ assms(2), of e "?I ys"]])
        (auto simp: originals_def)
  qed
qed (auto simp: originals_def continues_entries [OF assms(2)])

lemma step_store_progress:
  assumes R: "restoration lib p j C safe v" and "continues j j'" "stage j' \<noteq> Restored"
    and "\<And>w. now w \<Longrightarrow> undoes (entries j) p v w"
  shows "step_ok A C safe h now (store lib p j') (\<lambda>_. progress lib p j v)"
proof (rule step_store [OF restorationD(2) [OF R]])
  fix w bytes
  assume now: "now w" and bytes: "journal_to_vec_pretty lib j' = Inr bytes"
  have "undoing lib p j v (w(p := Some bytes))"
    using undoing_stored [OF restorationD(1) [OF R] bytes assms(2) assms(4) [OF now] restorationD(3) [OF R]]
      assms(3) by simp
  moreover have "progress lib p j v (w(p := Some bytes))"
    using assms(2,3) assms(4) [OF now] recorded_written [OF restorationD(1) [OF R] bytes]
    by (auto simp: progress_def undoes_journal)
  ultimately show "safe (w(p := Some bytes)) \<and> progress lib p j v (w(p := Some bytes))"
    using restorationD(4) [OF R] by blast
qed

definition restored ::
    "'m library_scheme \<Rightarrow> path \<Rightarrow> Journal \<Rightarrow> (path \<Rightarrow> string option) \<Rightarrow> (path \<Rightarrow> string option) \<Rightarrow> bool" where
  "restored lib p j v w =
     (undoes (entries j) p v w \<and> originals (entries j) w
       \<and> (\<exists>j'. recorded lib (w p) = Some j' \<and> continues j j' \<and> stage j' = Restored))"

lemma step_store_restored:
  assumes R: "restoration lib p j C safe v" and "continues j j'" "stage j' = Restored"
  shows "step_ok A C safe h (\<lambda>w. progress lib p j v w \<and> originals (entries j) w)
    (store lib p j') (\<lambda>_. restored lib p j v)"
proof (rule step_store [OF restorationD(2) [OF R]])
  fix w bytes
  assume now: "progress lib p j v w \<and> originals (entries j) w"
    and bytes: "journal_to_vec_pretty lib j' = Inr bytes"
  have "undoing lib p j v (w(p := Some bytes))"
    using undoing_stored [OF restorationD(1) [OF R] bytes assms(2) _ restorationD(3) [OF R]] now
    by (auto simp: progress_def)
  moreover have "restored lib p j v (w(p := Some bytes))"
    using assms(2,3) now recorded_written [OF restorationD(1) [OF R] bytes] restorationD(3) [OF R]
    by (auto simp: restored_def progress_def undoes_journal originals_journal)
  ultimately show "safe (w(p := Some bytes)) \<and> restored lib p j v (w(p := Some bytes))"
    using restorationD(4) [OF R] by blast
qed

lemma step_restore:
  assumes R: "restoration lib p j C safe v"
  shows "step_ok A C safe h (\<lambda>w. w = v) (restore lib sysfs p j) (\<lambda>_. restored lib p j v)"
  unfolding restore_def
proof (rule step_then [OF leaves_inventory(4)], rule step_bind [OF step_check_all [OF restoration_conflict [OF R undoes_same(1) continues_refl]]],
    rule step_then [OF leaves_Journal(7)], rule step_bind [OF step_transition])
  fix j1 :: Journal
  let ?now = "\<lambda>w. (w = v \<and> (\<forall>e\<in>set (entries j).
      bit_value (v (disable_path e)) \<in> {Some (original e), Some (desired e)})) \<and> continues j j1 \<and> stage j1 = Restoring"
  show "step_ok A C safe h ?now
     (bind (store lib p j1) (\<lambda>_. bind (for_each (entries j1) (restore_entry lib p j1)) (\<lambda>_.
      bind (validate_inventory sysfs (entries j1)) (\<lambda>_.
      bind (for_each (entries j1) (confirm_entry lib p j1)) (\<lambda>_.
      bind actor (\<lambda>a. bind (transition Restored a j1) (store lib p))))))) (\<lambda>_. restored lib p j v)"
  proof (rule step_pure [where b = "continues j j1 \<and> stage j1 = Restoring"])
    assume j1: "continues j j1 \<and> stage j1 = Restoring"
    then have c1: "continues j j1" by simp
    show "step_ok A C safe h ?now
     (bind (store lib p j1) (\<lambda>_. bind (for_each (entries j1) (restore_entry lib p j1)) (\<lambda>_.
      bind (validate_inventory sysfs (entries j1)) (\<lambda>_.
      bind (for_each (entries j1) (confirm_entry lib p j1)) (\<lambda>_.
      bind actor (\<lambda>a. bind (transition Restored a j1) (store lib p))))))) (\<lambda>_. restored lib p j v)"
    proof (rule step_bind [OF step_store_progress [OF R c1]], use j1 in simp, simp add: undoes_same,
        rule step_bind [OF step_restore_all [OF R c1]], rule step_then [OF leaves_inventory(4)],
        rule step_bind [OF step_confirm_all [OF R c1]], rule step_then [OF leaves_Journal(7)],
        rule step_bind [OF step_transition])
      fix j2
      let ?last = "\<lambda>w. (progress lib p j v w \<and> originals (entries j) w) \<and> continues j1 j2 \<and> stage j2 = Restored"
      show "step_ok A C safe h ?last (store lib p j2) (\<lambda>_. restored lib p j v)"
      proof (rule step_pure [where b = "continues j j2 \<and> stage j2 = Restored"])
        assume "continues j j2 \<and> stage j2 = Restored"
        then show "step_ok A C safe h ?last (store lib p j2) (\<lambda>_. restored lib p j v)"
          by (intro step_conseq [OF step_store_restored [OF R]]) auto
      qed (use c1 continues_trans in blast)
    qed
  qed auto
qed

section \<open>Values of third parties\<close>

text \<open>An idle state that is neither as the run found it nor as the run left it.\<close>

definition conflicting :: "IdleEntry list \<Rightarrow> (path \<Rightarrow> string option) \<Rightarrow> bool" where
  "conflicting es v = list_ex (\<lambda>e. bit_value (v (disable_path e)) \<notin> {Some (original e), Some (desired e)}) es"

text \<open>Every file but the journal is as it was, and the journal is too or records the conflict.\<close>

definition left_alone ::
    "'m library_scheme \<Rightarrow> path \<Rightarrow> Journal \<Rightarrow> (path \<Rightarrow> string option) \<Rightarrow> (path \<Rightarrow> string option) \<Rightarrow> bool" where
  "left_alone lib p j v w =
     ((\<forall>q. q \<noteq> p \<longrightarrow> w q = v q)
       \<and> (w p = v p \<or> (\<exists>j'. recorded lib (w p) = Some j' \<and> continues j j' \<and> stage j' = StageRestoreConflict)))"

lemma step_restore_conflicting:
  assumes "faithful lib" "p \<in> C" "disable_path ` set (entries j) \<subseteq> C" "conflicting (entries j) v"
  shows "step_ok A C (left_alone lib p j v) h (\<lambda>w. w = v) (restore lib sysfs p j) (\<lambda>_ _. False)"
  unfolding restore_def
proof (rule step_then [OF leaves_inventory(4)], rule step_bind [OF step_check_all])
  show "conflict_safe lib p j C (left_alone lib p j v) v"
    using assms(1-3) recorded_written [OF assms(1)] by (auto simp: conflict_safe_def left_alone_def)
qed (rule step_pure [where b = False], use assms(4) in \<open>auto simp: conflicting_def list_ex_iff\<close>)

end
