(* ===== verification/Control.thy ===== *)
theory Control
  imports Restoration
begin

text \<open>
  The operations of the control tool on idle states
  (\<^verbatim>\<open>src/tools/benchctl/src/cpuidle.rs\<close>, the upper half): a run with its journal, and the status and
  recovery of earlier ones.
\<close>

section \<open>Outcomes\<close>

fun terminal_outcome :: "Outcome \<Rightarrow> TerminalOutcome" where
  "terminal_outcome Success = OutcomeSuccess"
| "terminal_outcome (Failed status) = OutcomeFailed status"
| "terminal_outcome TimedOut = OutcomeTimedOut"
| "terminal_outcome Cancelled = OutcomeCancelled"

text \<open>The journal is the caller's, changed in place; here it is returned.\<close>

definition reconcile_runtime_outcome ::
    "'m supervision_library_scheme \<Rightarrow> path \<Rightarrow> path \<Rightarrow> Journal \<Rightarrow> Journal io" where
  "reconcile_runtime_outcome lib root p j =
     (if outcome j \<noteq> None then return_io j
      else bind (recover_outcome lib root (operation_id j)) (\<lambda>found.
        case found of
          None \<Rightarrow> return_io j
        | Some ended \<Rightarrow>
            let j' = j\<lparr>outcome := Some (terminal_outcome ended)\<rparr> in
            bind (store lib p j') (\<lambda>_. return_io j')))"

definition replay_outcome :: "Journal \<Rightarrow> unit io" where
  "replay_outcome j =
     (case outcome j of
        Some OutcomeSuccess \<Rightarrow> print_line (operation_id j @ '': completed'')
      | Some (OutcomeFailed status) \<Rightarrow> fail_io (Workload status)
      | Some OutcomeTimedOut \<Rightarrow> fail_io (Workload ''timeout elapsed'')
      | Some OutcomeCancelled \<Rightarrow> fail_io (Workload ''cancelled by signal'')
      | None \<Rightarrow>
          fail_io (State (''operation '' @ operation_id j
            @ '' was restored without a recorded workload outcome'')))"

fun report_outcome :: "Outcome \<Rightarrow> unit io" where
  "report_outcome Success = return_io ()"
| "report_outcome (Failed status) = fail_io (Workload status)"
| "report_outcome TimedOut = fail_io (Workload ''timeout elapsed'')"
| "report_outcome Cancelled = fail_io (Workload ''cancelled by signal'')"

section \<open>A run\<close>

definition SNAPSHOT_LIMIT :: nat where "SNAPSHOT_LIMIT = 15000"

definition pause_body :: "nat \<Rightarrow> path \<Rightarrow> unit option io" where
  "pause_body started release = bind (path_exists release) (\<lambda>there.
     if there then return_io (Some ())
     else bind (elapsed started) (\<lambda>e.
          if SNAPSHOT_LIMIT \<le> e
          then fail_io (State ''executable snapshot test seam timed out'') else return_io None))"

definition pause_after_executable_snapshot_for_test :: "path \<Rightarrow> unit io" where
  "pause_after_executable_snapshot_for_test sysfs =
     (if is_real_root sysfs then return_io ()
      else bind (ask (\<lambda>s. variables (host s) ''BENCHCTL_TEST_EXECUTABLE_SNAPSHOT_READY'')) (\<lambda>ready.
        case ready of
          None \<Rightarrow> return_io ()
        | Some r \<Rightarrow>
            bind (ask (\<lambda>s. variables (host s) ''BENCHCTL_TEST_EXECUTABLE_SNAPSHOT_RELEASE'')) (\<lambda>release.
            bind (unless_none release
              (Usage ''executable snapshot test seam requires a release path'')) (\<lambda>release.
            bind (atomic_write (Path_new r) (''ready'' @ [CHR 0x0A])) (\<lambda>_.
            bind (ask clock) (\<lambda>started.
            poll (rounds SNAPSHOT_LIMIT) (pause_body started (Path_new release))))))))"

text \<open>An operation with this identity is already on record.\<close>

definition existing_operation ::
    "'m library_scheme \<Rightarrow> path \<Rightarrow> string \<Rightarrow> Request \<Rightarrow> unit io" where
  "existing_operation lib p oid recorded_request =
     bind (load lib p) (\<lambda>existing.
     bind (Request_digest lib recorded_request) (\<lambda>digest.
     if request_hash existing \<noteq> digest then fail_io (RequestConflict oid)
     else if stage existing = Restored then replay_outcome existing
     else fail_io (RecoveryRequired oid)))"

text \<open>Snapshots of the receipt and of the executable are taken and compared.\<close>

definition accept_build ::
    "'m receipt_library_scheme \<Rightarrow> RunRequest \<Rightarrow> BuildReceipt \<Rightarrow> string \<Rightarrow> path \<Rightarrow> path \<Rightarrow> unit io" where
  "accept_build lib r receipt receipt_hash acc_receipt acc_exe =
     bind (fs_read ''snapshotting accepted build receipt'' (receipt_path r)) (\<lambda>receipt_bytes.
     bind (atomic_write acc_receipt receipt_bytes) (\<lambda>_.
     bind (receipt_digest lib acc_receipt) (\<lambda>digest.
     bind (if digest \<noteq> receipt_hash then return_io True
           else bind (load_receipt lib acc_receipt) (\<lambda>again. return_io (again \<noteq> receipt))) (\<lambda>changed.
     bind (guard_io (\<not> changed)
       (Preflight ''build receipt changed while it was being accepted'')) (\<lambda>_.
     bind (fs_read ''snapshotting accepted executable'' (executable receipt)) (\<lambda>executable_bytes.
     bind (atomic_write acc_exe executable_bytes) (\<lambda>_.
     bind (set_mode ''securing accepted executable snapshot'' acc_exe 365) (\<lambda>_.
     bind (file_digest lib acc_exe ''digesting accepted executable snapshot'') (\<lambda>digest.
     bind (guard_io (digest = executable_sha256 receipt)
       (Preflight ''benchmark executable changed while it was being accepted'')) (\<lambda>_.
     pause_after_executable_snapshot_for_test (sysfs_root r)))))))))))"

text \<open>The journalled part: prepare, apply, run the workload, restore.\<close>

definition finish_run ::
    "'m supervision_library_scheme \<Rightarrow> RunRequest \<Rightarrow> path \<Rightarrow> string \<Rightarrow> Actor \<Rightarrow> Journal \<Rightarrow> Outcome \<Rightarrow> Outcome io" where
  "finish_run lib r p oid c j ended =
     (let j = j\<lparr>outcome := Some (terminal_outcome ended)\<rparr> in
      bind (transition WorkloadFinished c j) (\<lambda>j.
      bind actor (\<lambda>a.
      bind (transition Draining a j) (\<lambda>j.
      bind (store lib p j) (\<lambda>_.
      bind (restore lib (sysfs_root r) p j) (\<lambda>_.
      bind (cleanup_runtime (state_root r) oid) (\<lambda>_.
      return_io ended)))))))"

definition abandon_run ::
    "'m supervision_library_scheme \<Rightarrow> path \<Rightarrow> path \<Rightarrow> Journal \<Rightarrow> BenchError \<Rightarrow> Outcome io" where
  "abandon_run lib root p j error =
     bind (reconcile_runtime_outcome lib root p j) (\<lambda>j.
     bind actor (\<lambda>a.
     bind (transition Recoverable a j) (\<lambda>j.
     bind (store lib p j) (\<lambda>_.
     fail_io error))))"

definition run_applied ::
    "'m supervision_library_scheme \<Rightarrow> RunRequest \<Rightarrow> path \<Rightarrow> string \<Rightarrow> Actor \<Rightarrow> Journal
      \<Rightarrow> CoordinateRequest \<Rightarrow> Outcome io" where
  "run_applied lib r p oid c j q =
     bind (transition Applied c j) (\<lambda>j.
     bind (store lib p j) (\<lambda>_.
     bind (transition WorkloadStarted c j) (\<lambda>j.
     bind (store lib p j) (\<lambda>_.
     bind (attempt (coordinate lib q)) (\<lambda>coordinated.
     case coordinated of
       Inl error \<Rightarrow> abandon_run lib (state_root r) p j error
     | Inr ended \<Rightarrow> finish_run lib r p oid c j ended)))))"

definition undo_apply ::
    "'m library_scheme \<Rightarrow> RunRequest \<Rightarrow> path \<Rightarrow> Journal \<Rightarrow> BenchError \<Rightarrow> Outcome io" where
  "undo_apply lib r p j error =
     bind (attempt (restore lib (sysfs_root r) p j)) (\<lambda>undone.
     case undone of
       Inl restore_error \<Rightarrow>
         fail_io (State (''apply failed ('' @ display_BenchError error
           @ ''); cleanup also failed ('' @ display_BenchError restore_error @ '')''))
     | Inr _ \<Rightarrow> fail_io error)"

definition coordinate_request ::
    "RunRequest \<Rightarrow> string \<Rightarrow> Request \<Rightarrow> ClientWatch option \<Rightarrow> CoordinateRequest" where
  "coordinate_request r oid recorded_request watch =
     \<lparr>coordinate_state_root = state_root r, coordinate_operation_id = oid,
      coordinate_receipt = accepted_receipt recorded_request,
      coordinate_executable = accepted_executable recorded_request,
      coordinate_workload = workload r, coordinate_uid = uid (workload_actor recorded_request),
      coordinate_gid = gid (workload_actor recorded_request),
      coordinate_timeout = run_timeout r, coordinate_client_watch = watch,
      coordinate_production_control = is_real_root (sysfs_root r)\<rparr>"

definition journalled_run ::
    "'m supervision_library_scheme \<Rightarrow> RunRequest \<Rightarrow> path \<Rightarrow> string \<Rightarrow> Request \<Rightarrow> ClientWatch option \<Rightarrow> Outcome io" where
  "journalled_run lib r p oid recorded_request watch =
     bind actor (\<lambda>c.
     bind boot_id (\<lambda>boot.
     bind (Journal_new lib oid recorded_request c boot) (\<lambda>j.
     bind (inventory (sysfs_root r) (run_cpus r)) (\<lambda>es.
     let j = j\<lparr>entries := es\<rparr> in
     bind (store lib p j) (\<lambda>_.
     bind (print_line (''operation: '' @ oid)) (\<lambda>_.
     bind (attempt (apply_entries (sysfs_root r) (entries j))) (\<lambda>applied.
     case applied of
       Inl error \<Rightarrow> undo_apply lib r p j error
     | Inr _ \<Rightarrow> run_applied lib r p oid c j (coordinate_request r oid recorded_request watch))))))))"

definition coordinate_run :: "'m supervision_library_scheme \<Rightarrow> RunRequest \<Rightarrow> unit io" where
  "coordinate_run lib r0 =
     bind (guard_io (run_cpus r0 \<noteq> []) (Usage ''at least one CPU is required'')) (\<lambda>_.
     let r = r0\<lparr>run_cpus := remdups_adj (sort (run_cpus r0))\<rparr> in
     bind (guard_io (length (run_cpus r0) = length (run_cpus r)) (Usage ''CPU IDs must be distinct'')) (\<lambda>_.
     bind (create_dir_all ''creating operation state directory'' (state_root r)) (\<lambda>_.
     bind (secure_state_directory (state_root r)) (\<lambda>_.
     bind (lock_for (sysfs_root r) False) (\<lambda>_.
     bind (require_inactive (state_root r)) (\<lambda>_.
     bind (invoking_actor (sysfs_root r)) (\<lambda>w.
     bind (load_receipt lib (receipt_path r)) (\<lambda>receipt.
     bind (verify_checkout_as lib receipt (uid w) (gid w)) (\<lambda>_.
     bind (receipt_digest lib (receipt_path r)) (\<lambda>receipt_hash.
     bind (case run_operation_id r of Some x \<Rightarrow> return_io x | None \<Rightarrow> new_operation_id) (\<lambda>oid.
     bind (journal_path (state_root r) oid) (\<lambda>p.
     let acc_receipt = join (state_root r) (oid @ ''.receipt'');
         acc_exe = join (state_root r) (oid @ ''.executable'');
         recorded_request =
           \<lparr>request_receipt = receipt_path r, accepted_receipt = acc_receipt,
            request_receipt_digest = receipt_hash, accepted_executable = acc_exe,
            executable_digest = executable_sha256 receipt, cpus = run_cpus r,
            timeout_seconds = run_timeout r div 1000, request_workload = workload r,
            workload_actor = w\<rparr> in
     bind (path_exists p) (\<lambda>there.
     if there then existing_operation lib p oid recorded_request
     else
       bind (require_no_unfinished_journal lib (state_root r)) (\<lambda>_.
       bind (client_watch (client_pid r)) (\<lambda>watch.
       bind (accept_build lib r receipt receipt_hash acc_receipt acc_exe) (\<lambda>_.
       bind (journalled_run lib r p oid recorded_request watch) report_outcome))))))))))))))))"

section \<open>The public operations\<close>

definition run :: "'m supervision_library_scheme \<Rightarrow> RunRequest \<Rightarrow> unit io" where
  "run lib r0 =
     bind (absolute (receipt_path r0)) (\<lambda>receipt.
     bind (absolute_existing (sysfs_root r0) ''canonicalizing sysfs root'') (\<lambda>sysfs.
     bind (absolute_without_existing (state_root r0)) (\<lambda>root.
     let r = r0\<lparr>receipt_path := receipt, sysfs_root := sysfs, state_root := root\<rparr> in
     bind (validate_production_state_root sysfs root) (\<lambda>_.
     if is_real_root sysfs \<and> \<not> is_coordinator r then sudo_run r
     else
       bind (require_coordinator_privilege sysfs (is_coordinator r)) (\<lambda>_.
       bind (guard_io (\<not> (is_real_root sysfs \<and> client_pid r = None))
         (Preflight ''privileged run coordinator requires its unprivileged client PID'')) (\<lambda>_.
       coordinate_run lib r))))))"

fun debug_Stage :: "Stage \<Rightarrow> string" where
  "debug_Stage Prepared = ''Prepared''"
| "debug_Stage Applied = ''Applied''"
| "debug_Stage WorkloadStarted = ''WorkloadStarted''"
| "debug_Stage WorkloadFinished = ''WorkloadFinished''"
| "debug_Stage Draining = ''Draining''"
| "debug_Stage Restoring = ''Restoring''"
| "debug_Stage Restored = ''Restored''"
| "debug_Stage Recoverable = ''Recoverable''"
| "debug_Stage StageRestoreConflict = ''RestoreConflict''"

definition status :: "'m library_scheme \<Rightarrow> ControlRequest \<Rightarrow> unit io" where
  "status lib r =
     bind (absolute_existing (control_sysfs_root r) ''canonicalizing sysfs root'') (\<lambda>sysfs.
     bind (absolute_without_existing (control_state_root r)) (\<lambda>root.
     bind (validate_production_state_root sysfs root) (\<lambda>_.
     if is_real_root sysfs \<and> \<not> control_coordinator r
     then sudo_control ''status'' (control_operation_id r) sysfs root
     else
       bind (require_coordinator_privilege sysfs (control_coordinator r)) (\<lambda>_.
       bind (select_journals lib root (control_operation_id r) False) (\<lambda>journals.
       if journals = [] then print_line ''no benchctl operations''
       else for_each journals (\<lambda>p.
         bind (load lib p) (\<lambda>j.
         print_line (operation_id j @ [CHR 0x09] @ debug_Stage (stage j)))))))))"

text \<open>Recovery of one journal, once it has been chosen.\<close>

definition recover_journal ::
    "'m supervision_library_scheme \<Rightarrow> path \<Rightarrow> path \<Rightarrow> path \<Rightarrow> unit io" where
  "recover_journal lib sysfs root p =
     bind (load lib p) (\<lambda>j.
     if stage j = Restored
     then bind (cleanup_runtime root (operation_id j)) (\<lambda>_.
          print_line (operation_id j @ '': AlreadyRestored''))
     else
       bind boot_id (\<lambda>boot.
       bind (guard_io (journal_boot_id j = boot)
         (State ''operation belongs to another Linux boot; automatic recovery is refused'')) (\<lambda>_.
       bind (reconcile_runtime_outcome lib root p j) (\<lambda>j.
       bind (restore lib sysfs p j) (\<lambda>_.
       bind (cleanup_runtime root (operation_id j)) (\<lambda>_.
       print_line (operation_id j @ '': restored'')))))))"

definition recover :: "'m supervision_library_scheme \<Rightarrow> ControlRequest \<Rightarrow> unit io" where
  "recover lib r =
     bind (absolute_existing (control_sysfs_root r) ''canonicalizing sysfs root'') (\<lambda>sysfs.
     bind (absolute_without_existing (control_state_root r)) (\<lambda>root.
     bind (validate_production_state_root sysfs root) (\<lambda>_.
     if is_real_root sysfs \<and> \<not> control_coordinator r
     then sudo_control ''recover'' (control_operation_id r) sysfs root
     else
       bind (require_coordinator_privilege sysfs (control_coordinator r)) (\<lambda>_.
       bind (create_dir_all ''creating operation state directory'' root) (\<lambda>_.
       bind (secure_state_directory root) (\<lambda>_.
       bind (lock_for sysfs True) (\<lambda>_.
       bind (require_inactive root) (\<lambda>_.
       bind (select_journals lib root (control_operation_id r) True) (\<lambda>paths.
       case paths of
         [p] \<Rightarrow> recover_journal lib sysfs root p
       | [] \<Rightarrow> fail_io (State ''there is no recoverable operation'')
       | _ \<Rightarrow> fail_io (State
           ''more than one operation is recoverable; provide an operation ID''))))))))))"

end
