(* ===== verification/Tame.thy ===== *)
theory Tame
  imports Control
begin

text \<open>
  Which parts of a run can report that the workload failed. The exit code 1 is reserved for that
  report, so that every other failure has to be told apart from it; the collection \<open>tamed\<close>
  carries the bookkeeping.
\<close>

named_theorems tamed

fun workload_error :: "BenchError \<Rightarrow> bool" where
  "workload_error (Workload _) = True"
| "workload_error _ = False"

definition tame :: "'a io \<Rightarrow> bool" where
  "tame m = (\<forall>s e. fst (m s) = Err e \<longrightarrow> \<not> workload_error e)"

lemma tame_trivial [tamed]:
  "tame (return_io x)" "tame sleep_forever" "tame (ask f)" "tame (observe g)" "tame (path_exists p)"
  "tame (sleep_millis d)" "tame (print_line l)" "tame (attempt m)" "tame (killpg pg sig)"
  by (auto simp: tame_def return_io_def sleep_forever_def ask_def observe_def path_exists_def
      sleep_millis_def print_line_def attempt_def killpg_def split: prod.split answer.split)

lemma tame_fail [tamed]: "\<not> workload_error e \<Longrightarrow> tame (fail_io e)"
  by (simp add: tame_def fail_io_def)

lemma tame_guard [tamed]: "\<not> workload_error e \<Longrightarrow> tame (guard_io b e)"
  by (auto simp: guard_io_def intro: tamed)

lemma tame_unless_none [tamed]: "\<not> workload_error e \<Longrightarrow> tame (unless_none x e)"
  by (auto simp: unless_none_def intro: tamed split: option.split)

lemma tame_bind [tamed]: "tame m \<Longrightarrow> (\<And>x. tame (k x)) \<Longrightarrow> tame (bind m k)"
  unfolding tame_def bind_def by (auto split: prod.splits answer.splits) (metis fst_conv)+

lemma tame_attempt:
  assumes "tame m" "\<And>e. \<not> workload_error e \<Longrightarrow> tame (k (Inl e))" "\<And>x. tame (k (Inr x))"
  shows "tame (bind (attempt m) k)"
  using assms unfolding tame_def bind_def attempt_def
  by (auto split: prod.splits answer.splits) (metis fst_conv)+

lemma tame_for_each [tamed]: "(\<And>x. x \<in> set xs \<Longrightarrow> tame (f x)) \<Longrightarrow> tame (for_each xs f)"
  by (induction xs) (auto intro: tamed)

lemma tame_collect [tamed]: "(\<And>x. x \<in> set xs \<Longrightarrow> tame (f x)) \<Longrightarrow> tame (collect xs f)"
  by (induction xs) (auto intro!: tamed)

lemma tame_if [tamed]: "(b \<Longrightarrow> tame m) \<Longrightarrow> (\<not> b \<Longrightarrow> tame m') \<Longrightarrow> tame (if b then m else m')"
  by simp

lemma tame_cases [tamed]:
  "tame m \<Longrightarrow> (\<And>y. tame (f y)) \<Longrightarrow> tame (case x of None \<Rightarrow> m | Some y \<Rightarrow> f y)"
  by (cases x) auto

lemma tame_kind [tamed]:
  "(\<And>c. tame (f c)) \<Longrightarrow> tame b \<Longrightarrow> (\<And>t. tame (g t))
     \<Longrightarrow> tame (case k of File c \<Rightarrow> f c | Directory \<Rightarrow> b | Symlink t \<Rightarrow> g t)"
  by (cases k) auto

lemma tame_kill [tamed]:
  "tame a \<Longrightarrow> tame b \<Longrightarrow> (\<And>e. tame (g e))
     \<Longrightarrow> tame (case r of Delivered \<Rightarrow> a | NoSuchGroup \<Rightarrow> b | KillError e \<Rightarrow> g e)"
  by (cases r) auto

lemma tame_call [tamed]: "(\<And>n. tame (body n)) \<Longrightarrow> tame (call operation body)"
  by (auto simp: tame_def call_def call_as_def split: option.split)

lemma tame_answer:
  assumes "\<And>s. case fst (m s) of Err e \<Rightarrow> \<not> workload_error e | _ \<Rightarrow> True"
  shows "tame m"
  unfolding tame_def
proof (intro allI impI)
  fix s e
  assume "fst (m s) = Err e"
  with assms [of s] show "\<not> workload_error e" by simp
qed

lemma tame_calls [tamed]:
  "tame (nop operation)" "tame (fs_read operation p)" "tame (symlink_metadata operation p)"
  "tame (read_dir operation p)" "tame (create_dir_all operation p)" "tame (mkdir operation p)"
  "tame (persist operation p c)" "tame (spawn operation cmd)" "tame (try_wait operation)"
  "tame (wait_child operation)" "tame (resolve_current_exe operation)"
  unfolding nop_def fs_read_def symlink_metadata_def read_dir_def create_dir_all_def mkdir_def
    persist_def spawn_def try_wait_def wait_child_def resolve_current_exe_def
  by (rule tame_call, rule tame_answer, simp add: return_io_def ask_def Let_def split: option.split)+

lemma tame_writes [tamed]: "tame (fs_write operation p c)" "tame (remove_dir_all operation p)"
  by (rule tame_answer, simp add: fs_write_def remove_dir_all_def Let_def split: option.split)+

lemma tame_poll [tamed]: "tame body \<Longrightarrow> tame (poll n body)"
  by (induction n) (auto intro!: tamed)

lemma tame_io [tamed]:
  "tame (read_to_string operation p)" "tame now_millis" "tame (elapsed t)" "tame (atomic_write p c)"
  unfolding read_to_string_def now_millis_def elapsed_def atomic_write_def
  by (intro tamed; simp)+

lemma tame_json [tamed]: "tame (json operation r)"
  by (auto simp: json_def intro: tamed split: sum.split)

lemma tame_journal [tamed]:
  "tame (Request_digest lib r)" "tame (Journal_new lib oid r c boot)" "tame (transition st a j)"
  "tame (validate lib j)" "tame (store lib p j)" "tame actor" "tame boot_id"
  unfolding Request_digest_def Journal_new_def transition_def validate_def store_def actor_def boot_id_def
  by (intro tamed; simp)+

lemma tame_idle [tamed]:
  "tame (read_trimmed p operation)" "tame (read_bit p)" "tame (write_bit p value)" "tame (reject_symlink p)"
  "tame (inventory_item c root file)" "tame (cpu_inventory sysfs c)" "tame (inventory sysfs cs)"
  "tame (validate_inventory sysfs es)" "tame (apply_entry e)" "tame (apply_entries sysfs es)"
  unfolding read_trimmed_def read_bit_def write_bit_def reject_symlink_def inventory_item_def
    cpu_inventory_def inventory_def validate_inventory_def apply_entry_def apply_entries_def Let_def
  by (intro tamed; simp)+

lemma tame_restore [tamed]:
  "tame (restore_conflict lib p j e expected current)" "tame (check_entry lib p j e)"
  "tame (restore_entry lib p j e)" "tame (confirm_entry lib p j e)" "tame (restore lib sysfs p j)"
  unfolding restore_conflict_def check_entry_def restore_entry_def confirm_entry_def restore_def
  by (intro tamed; simp)+

lemma tame_groups [tamed]:
  "tame (signal_group g sig)" "tame (group_is_empty g)" "tame (terminate_and_drain g)"
  "tame (terminate_and_reap_group g)"
  unfolding signal_group_def group_is_empty_def terminate_and_drain_def terminate_and_reap_group_def
    drain_group_def drain_within_def drain_body_def
  by (intro tamed; simp)+

lemma tame_waits [tamed]:
  "tame (read_status lib p)" "tame (recover_outcome lib root oid)" "tame (cleanup_runtime root oid)"
  "tame (store_outcome lib p ended)" "tame (cancellation_flag watch)" "tame (wait_for_ready ready g)"
  "tame (wait_for_drained drained)" "tame (coordinate_loop lib limit st g)"
  "tame (coordinate_finish lib production runtime ended)"
  unfolding read_status_def recover_outcome_def cleanup_runtime_def store_outcome_def
    cancellation_flag_def wait_for_ready_def wait_for_ready_body_def wait_for_drained_def
    wait_for_drained_body_def coordinate_loop_def coordinate_body_def coordinate_finish_def Let_def
  by (intro tamed; simp)+

lemma tame_coordinate [tamed]: "tame (coordinate lib q)"
proof -
  have spawned: "tame (bind (attempt (spawn operation cmd)) (\<lambda>x. case x of
      Inl error \<Rightarrow> bind (terminate_and_reap_group g) (\<lambda>_. fail_io error) | Inr _ \<Rightarrow> m))"
    if "tame m" for operation cmd g and m :: "Outcome io"
    by (rule tame_attempt) (simp_all add: tamed that)
  show ?thesis
    unfolding coordinate_def Let_def
    by (intro tame_bind tame_calls tame_trivial tame_unless_none workload_error.simps(2-9) spawned
        tame_waits tame_io) simp_all
qed

lemma tame_run [tamed]:
  "tame (reconcile_runtime_outcome lib root p j)" "tame (finish_run lib r p oid c j ended)"
  unfolding reconcile_runtime_outcome_def finish_run_def Let_def by (intro tamed; simp)+

lemma tame_abandon: "\<not> workload_error error \<Longrightarrow> tame (abandon_run lib root p j error)"
  unfolding abandon_run_def by (intro tamed)

lemma tame_undo: "\<not> workload_error error \<Longrightarrow> tame (undo_apply lib r p j error)"
  unfolding undo_apply_def by (rule tame_attempt) (simp_all add: tamed)

lemma tame_applied [tamed]: "tame (run_applied lib r p oid c j q)"
  unfolding run_applied_def
  by (intro tame_bind [OF tame_journal(3)] tame_bind [OF tame_journal(5)] tame_attempt)
    (simp_all add: tamed tame_abandon)

lemma tame_journalled_run: "tame (journalled_run lib r p oid q watch)"
  unfolding journalled_run_def Let_def
  by (intro tame_bind [OF tame_journal(6)] tame_bind [OF tame_journal(7)] tame_bind [OF tame_journal(2)]
      tame_bind [OF tame_idle(7)] tame_bind [OF tame_journal(5)] tame_bind [OF tame_trivial(7)] tame_attempt)
    (simp_all add: tamed tame_undo)

end
