(* ===== verification/Sample.thy ===== *)
theory Sample
  imports Cpuidle
begin

text \<open>
  A concrete library and a concrete host, on which the theorems about the control tool are
  instantiated: they show that the assumptions the theorems make of the JSON crate and of the
  system hold together. The serialisation is a length-prefixed text, not the crate's format.
\<close>

section \<open>Serialisation\<close>

text \<open>A codec writes a text from which it reads its argument back, whatever follows.\<close>

definition codec :: "('a \<Rightarrow> string) \<Rightarrow> (string \<Rightarrow> ('a \<times> string) option) \<Rightarrow> bool" where
  "codec enc dec = (\<forall>x rest. dec (enc x @ rest) = Some (x, rest))"

lemma codecI: "(\<And>x rest. dec (enc x @ rest) = Some (x, rest)) \<Longrightarrow> codec enc dec"
  by (simp add: codec_def)

lemma codecD: "codec enc dec \<Longrightarrow> dec (enc x @ rest) = Some (x, rest)"
  by (simp add: codec_def)

lemma codec_whole: "codec enc dec \<Longrightarrow> dec (enc x) = Some (x, [])"
  using codecD [of enc dec x "[]"] by simp

definition enc_nat :: "nat \<Rightarrow> string" where
  "enc_nat n = show_nat n @ '';''"

definition dec_nat :: "string \<Rightarrow> (nat \<times> string) option" where
  "dec_nat s =
     (case parse_digits 0 (takeWhile (\<lambda>c. c \<noteq> CHR '';'') s) of
        Some n \<Rightarrow> Some (n, drop 1 (dropWhile (\<lambda>c. c \<noteq> CHR '';'') s))
      | None \<Rightarrow> None)"

definition enc_string :: "string \<Rightarrow> string" where
  "enc_string s = enc_nat (length s) @ s"

definition dec_string :: "string \<Rightarrow> (string \<times> string) option" where
  "dec_string t =
     (case dec_nat t of Some (n, r) \<Rightarrow> Some (take n r, drop n r) | None \<Rightarrow> None)"

fun enc_items :: "('a \<Rightarrow> string) \<Rightarrow> 'a list \<Rightarrow> string" where
  "enc_items e [] = []"
| "enc_items e (x # xs) = e x @ enc_items e xs"

fun dec_items :: "(string \<Rightarrow> ('a \<times> string) option) \<Rightarrow> nat \<Rightarrow> string \<Rightarrow> ('a list \<times> string) option" where
  "dec_items d 0 s = Some ([], s)"
| "dec_items d (Suc n) s =
     (case d s of
        Some (x, r) \<Rightarrow> (case dec_items d n r of Some (xs, t) \<Rightarrow> Some (x # xs, t) | None \<Rightarrow> None)
      | None \<Rightarrow> None)"

definition enc_list :: "('a \<Rightarrow> string) \<Rightarrow> 'a list \<Rightarrow> string" where
  "enc_list e xs = enc_nat (length xs) @ enc_items e xs"

definition dec_list :: "(string \<Rightarrow> ('a \<times> string) option) \<Rightarrow> string \<Rightarrow> ('a list \<times> string) option" where
  "dec_list d s = (case dec_nat s of Some (n, r) \<Rightarrow> dec_items d n r | None \<Rightarrow> None)"

definition enc_pair :: "('a \<Rightarrow> string) \<Rightarrow> ('b \<Rightarrow> string) \<Rightarrow> 'a \<times> 'b \<Rightarrow> string" where
  "enc_pair e f = (\<lambda>(x, y). e x @ f y)"

definition dec_pair ::
    "(string \<Rightarrow> ('a \<times> string) option) \<Rightarrow> (string \<Rightarrow> ('b \<times> string) option)
      \<Rightarrow> string \<Rightarrow> (('a \<times> 'b) \<times> string) option" where
  "dec_pair d g s =
     (case d s of
        Some (x, r) \<Rightarrow> (case g r of Some (y, t) \<Rightarrow> Some ((x, y), t) | None \<Rightarrow> None)
      | None \<Rightarrow> None)"

text \<open>A type whose elements are given by another's, through a function and its inverse.\<close>

definition dec_map :: "('a \<Rightarrow> 'b) \<Rightarrow> (string \<Rightarrow> ('a \<times> string) option) \<Rightarrow> string \<Rightarrow> ('b \<times> string) option" where
  "dec_map g d s = map_option (\<lambda>(x, r). (g x, r)) (d s)"

lemma digit_not_semicolon: "c \<in> set (show_nat n) \<Longrightarrow> c \<noteq> CHR '';''"
proof
  assume "c \<in> set (show_nat n)" "c = CHR '';''"
  then obtain d where "d < 10" "CHR '';'' = digit d" using digits_show_nat by blast
  then have "digit_value CHR '';'' = Some d" using digit_value_digit by simp
  then show False by (simp add: digit_value_def Let_def)
qed

lemma codec_nat: "codec enc_nat dec_nat"
proof (rule codecI)
  fix n rest
  have "takeWhile (\<lambda>c. c \<noteq> CHR '';'') (show_nat n @ CHR '';'' # rest) = show_nat n"
    "dropWhile (\<lambda>c. c \<noteq> CHR '';'') (show_nat n @ CHR '';'' # rest) = CHR '';'' # rest"
    using digit_not_semicolon by (simp_all add: takeWhile_append dropWhile_append)
  then show "dec_nat (enc_nat n @ rest) = Some (n, rest)"
    by (simp add: enc_nat_def dec_nat_def parse_digits_show)
qed

lemma codec_string: "codec enc_string dec_string"
  by (rule codecI) (simp add: enc_string_def dec_string_def codecD [OF codec_nat])

lemma list_codec:
  assumes "codec e d"
  shows "codec (enc_list e) (dec_list d)"
proof (rule codecI)
  have "dec_items d (length xs) (enc_items e xs @ rest) = Some (xs, rest)" for xs rest
    by (induction xs) (simp_all add: codecD [OF assms])
  then show "dec_list d (enc_list e xs @ rest) = Some (xs, rest)" for xs rest
    by (simp add: enc_list_def dec_list_def codecD [OF codec_nat])
qed

lemma pair_codec:
  assumes "codec e d" "codec f g"
  shows "codec (enc_pair e f) (dec_pair d g)"
  by (rule codecI)
    (simp add: enc_pair_def dec_pair_def codecD [OF assms(1)] codecD [OF assms(2)]
      split: prod.split)

lemma map_codec:
  assumes "codec e d" "\<And>x. g (f x) = x"
  shows "codec (e \<circ> f) (dec_map g d)"
  by (rule codecI) (simp add: dec_map_def codecD [OF assms(1)] assms(2))

section \<open>The journal's types\<close>

definition actor_tuple :: "Actor \<Rightarrow> nat \<times> nat" where
  "actor_tuple a = (unat (uid a), unat (gid a))"

definition tuple_actor :: "nat \<times> nat \<Rightarrow> Actor" where
  "tuple_actor = (\<lambda>(u, g). \<lparr>uid = of_nat u, gid = of_nat g\<rparr>)"

abbreviation enc_actor :: "Actor \<Rightarrow> string" where
  "enc_actor \<equiv> enc_pair enc_nat enc_nat \<circ> actor_tuple"

abbreviation dec_actor :: "string \<Rightarrow> (Actor \<times> string) option" where
  "dec_actor \<equiv> dec_map tuple_actor (dec_pair dec_nat dec_nat)"

lemma codec_actor: "codec enc_actor dec_actor"
  by (intro map_codec pair_codec codec_nat) (simp add: actor_tuple_def tuple_actor_def)

abbreviation "enc_path \<equiv> enc_list enc_string"
abbreviation "dec_path \<equiv> dec_list dec_string"

lemmas basic_codecs =
  codec_nat codec_string codec_actor pair_codec list_codec

definition request_tuple :: "Request \<Rightarrow>
    path \<times> path \<times> string \<times> path \<times> string \<times> nat list \<times> nat \<times> string list \<times> Actor" where
  "request_tuple r = (request_receipt r, accepted_receipt r, request_receipt_digest r,
     accepted_executable r, executable_digest r, cpus r, timeout_seconds r, request_workload r,
     workload_actor r)"

definition tuple_request :: "path \<times> path \<times> string \<times> path \<times> string \<times> nat list \<times> nat \<times> string list \<times> Actor
    \<Rightarrow> Request" where
  "tuple_request = (\<lambda>(a, b, c, d, e, f, g, h, i).
     \<lparr>request_receipt = a, accepted_receipt = b, request_receipt_digest = c, accepted_executable = d,
      executable_digest = e, cpus = f, timeout_seconds = g, request_workload = h, workload_actor = i\<rparr>)"

abbreviation "enc_request \<equiv>
  enc_pair enc_path (enc_pair enc_path (enc_pair enc_string (enc_pair enc_path (enc_pair enc_string
    (enc_pair (enc_list enc_nat) (enc_pair enc_nat (enc_pair enc_path enc_actor))))))) \<circ> request_tuple"

abbreviation "dec_request \<equiv> dec_map tuple_request
  (dec_pair dec_path (dec_pair dec_path (dec_pair dec_string (dec_pair dec_path (dec_pair dec_string
    (dec_pair (dec_list dec_nat) (dec_pair dec_nat (dec_pair dec_path dec_actor))))))))"

lemma codec_request: "codec enc_request dec_request"
  by (intro map_codec basic_codecs) (simp add: request_tuple_def tuple_request_def)

definition entry_tuple :: "IdleEntry \<Rightarrow> nat \<times> nat \<times> string \<times> path \<times> string \<times> string" where
  "entry_tuple e = (cpu e, state e, name e, disable_path e, original e, desired e)"

definition tuple_entry :: "nat \<times> nat \<times> string \<times> path \<times> string \<times> string \<Rightarrow> IdleEntry" where
  "tuple_entry = (\<lambda>(a, b, c, d, e, f).
     \<lparr>cpu = a, state = b, name = c, disable_path = d, original = e, desired = f\<rparr>)"

abbreviation "enc_entry \<equiv>
  enc_pair enc_nat (enc_pair enc_nat (enc_pair enc_string (enc_pair enc_path
    (enc_pair enc_string enc_string)))) \<circ> entry_tuple"

abbreviation "dec_entry \<equiv> dec_map tuple_entry
  (dec_pair dec_nat (dec_pair dec_nat (dec_pair dec_string (dec_pair dec_path
    (dec_pair dec_string dec_string)))))"

lemma codec_entry: "codec enc_entry dec_entry"
  by (intro map_codec basic_codecs) (simp add: entry_tuple_def tuple_entry_def)

definition stages :: "Stage list" where
  "stages = [Prepared, Applied, WorkloadStarted, WorkloadFinished, Draining, Restoring, Restored,
     Recoverable, StageRestoreConflict]"

fun stage_number :: "Stage \<Rightarrow> nat" where
  "stage_number Prepared = 0"
| "stage_number Applied = 1"
| "stage_number WorkloadStarted = 2"
| "stage_number WorkloadFinished = 3"
| "stage_number Draining = 4"
| "stage_number Restoring = 5"
| "stage_number Restored = 6"
| "stage_number Recoverable = 7"
| "stage_number StageRestoreConflict = 8"

fun outcome_tuple :: "TerminalOutcome option \<Rightarrow> nat \<times> string" where
  "outcome_tuple None = (0, [])"
| "outcome_tuple (Some OutcomeSuccess) = (1, [])"
| "outcome_tuple (Some (OutcomeFailed st)) = (2, st)"
| "outcome_tuple (Some OutcomeTimedOut) = (3, [])"
| "outcome_tuple (Some OutcomeCancelled) = (4, [])"

definition tuple_outcome :: "nat \<times> string \<Rightarrow> TerminalOutcome option" where
  "tuple_outcome = (\<lambda>(n, st). if n = 0 then None else if n = 1 then Some OutcomeSuccess
     else if n = 2 then Some (OutcomeFailed st) else if n = 3 then Some OutcomeTimedOut
     else Some OutcomeCancelled)"

definition transition_tuple :: "Transition \<Rightarrow> nat \<times> Actor \<times> nat" where
  "transition_tuple t = (stage_number (transition_stage t), transition_coordinator t, unix_millis t)"

definition tuple_transition :: "nat \<times> Actor \<times> nat \<Rightarrow> Transition" where
  "tuple_transition = (\<lambda>(n, a, t).
     \<lparr>transition_stage = (if n < 9 then stages ! n else Prepared), transition_coordinator = a,
      unix_millis = t\<rparr>)"

abbreviation "enc_outcome \<equiv> enc_pair enc_nat enc_string \<circ> outcome_tuple"
abbreviation "dec_outcome \<equiv> dec_map tuple_outcome (dec_pair dec_nat dec_string)"
abbreviation "enc_transition \<equiv> enc_pair enc_nat (enc_pair enc_actor enc_nat) \<circ> transition_tuple"
abbreviation "dec_transition \<equiv> dec_map tuple_transition (dec_pair dec_nat (dec_pair dec_actor dec_nat))"

lemma stage_number_inverse: "stage_number st < 9" "stages ! stage_number st = st"
  by (cases st; simp add: stages_def)+

lemma codec_outcome: "codec enc_outcome dec_outcome"
proof (intro map_codec basic_codecs)
  show "tuple_outcome (outcome_tuple x) = x" for x
    by (cases x rule: outcome_tuple.cases) (simp_all add: tuple_outcome_def)
qed

lemma codec_transition: "codec enc_transition dec_transition"
  by (intro map_codec basic_codecs)
    (simp add: transition_tuple_def tuple_transition_def stage_number_inverse)

definition journal_tuple :: "Journal \<Rightarrow> string \<times> string \<times> Request \<times> string \<times> Actor \<times> string
    \<times> IdleEntry list \<times> TerminalOutcome option \<times> Transition list" where
  "journal_tuple j = (version j, operation_id j, request j, request_hash j, coordinator j,
     journal_boot_id j, entries j, outcome j, transitions j)"

definition tuple_journal :: "string \<times> string \<times> Request \<times> string \<times> Actor \<times> string
    \<times> IdleEntry list \<times> TerminalOutcome option \<times> Transition list \<Rightarrow> Journal" where
  "tuple_journal = (\<lambda>(a, b, c, d, e, f, g, h, i).
     \<lparr>version = a, operation_id = b, request = c, request_hash = d, coordinator = e,
      journal_boot_id = f, entries = g, outcome = h, transitions = i\<rparr>)"

abbreviation "enc_journal \<equiv>
  enc_pair enc_string (enc_pair enc_string (enc_pair enc_request (enc_pair enc_string (enc_pair enc_actor
    (enc_pair enc_string (enc_pair (enc_list enc_entry) (enc_pair enc_outcome (enc_list enc_transition))))))))
  \<circ> journal_tuple"

abbreviation "dec_journal \<equiv> dec_map tuple_journal
  (dec_pair dec_string (dec_pair dec_string (dec_pair dec_request (dec_pair dec_string (dec_pair dec_actor
    (dec_pair dec_string (dec_pair (dec_list dec_entry) (dec_pair dec_outcome (dec_list dec_transition)))))))))"

lemma codec_journal: "codec enc_journal dec_journal"
  by (intro map_codec basic_codecs codec_request codec_entry
      codec_outcome codec_transition)
    (simp add: journal_tuple_def tuple_journal_def)

definition parsed :: "(string \<Rightarrow> ('a \<times> string) option) \<Rightarrow> string \<Rightarrow> string + 'a" where
  "parsed d s =
     (case d s of Some (x, r) \<Rightarrow> if r = [] then Inr x else Inl ''trailing'' | None \<Rightarrow> Inl ''malformed'')"

lemma parsed_codec: "codec e d \<Longrightarrow> parsed d (e x) = Inr x"
  using codec_whole [of e d x] by (simp add: parsed_def)

section \<open>A library\<close>

definition sample_receipt :: BuildReceipt where
  "sample_receipt =
     \<lparr>receipt_version = RECEIPT_VERSION, build_id = ''2'', manifest_path = [root_dir, ''w''],
      repository = [root_dir], source_commit = ''c'', source_clean = True,
      lockfile_path = [root_dir, ''l''], lockfile_sha256 = ''2'', package_id = ''p'', bench = ''b'',
      features = [''f'', ''g''], profile = ''bench'', rustc = ''r'', rustup_toolchain = ''t'',
      target_triple = ''x'', benchctl_version = CARGO_PKG_VERSION, benchctl_executable_sha256 = ''3'',
      executable = [root_dir, ''e''], executable_sha256 = ''1'', built_unix_millis = 5\<rparr>"

definition sample_library :: supervision_library where
  "sample_library =
     \<lparr>sha256 = (\<lambda>s. show_nat (length s)),
      request_to_vec = (\<lambda>r. Inr ''request''),
      journal_to_vec_pretty = (\<lambda>j. Inr (enc_journal j)),
      journal_from_slice = parsed dec_journal,
      identity_to_vec = (\<lambda>i. Inr ''id''),
      receipt_to_vec_pretty = (\<lambda>r. Inr ''receipt''),
      receipt_to_string = (\<lambda>r. Inr ''receipt''),
      receipt_from_slice = (\<lambda>s. Inr sample_receipt),
      status_to_vec = (\<lambda>w. Inr (if status_success w then ''ok'' else ''no'')),
      status_from_slice = (\<lambda>s. Inr \<lparr>status_success = (s = ''ok''), status_code = Some 3, status_signal = None\<rparr>),
      outcome_to_vec = (\<lambda>ended. Inr (enc_outcome (Some (case ended of Success \<Rightarrow> OutcomeSuccess
         | Failed st \<Rightarrow> OutcomeFailed st | TimedOut \<Rightarrow> OutcomeTimedOut | Cancelled \<Rightarrow> OutcomeCancelled)))),
      outcome_from_slice = (\<lambda>s. case parsed dec_outcome s of
         Inr (Some OutcomeSuccess) \<Rightarrow> Inr Success | Inr (Some (OutcomeFailed st)) \<Rightarrow> Inr (Failed st)
       | Inr (Some OutcomeTimedOut) \<Rightarrow> Inr TimedOut | Inr (Some OutcomeCancelled) \<Rightarrow> Inr Cancelled
       | _ \<Rightarrow> Inl ''malformed''),
      proof_to_vec = (\<lambda>p. Inr ''proof'')\<rparr>"

lemma sample_faithful: "faithful sample_library"
  by (simp add: faithful_def sample_library_def parsed_codec [OF codec_journal, simplified])

section \<open>A host\<close>

definition sample_exit :: "bool \<Rightarrow> exit_status" where
  "sample_exit ok = \<lparr>exit_success = ok, exit_status_code = Some (if ok then 0 else 1), exit_signal = None,
     exit_text = ''exit''\<rparr>"

definition sample_host :: host where
  "sample_host =
     \<lparr>fault = (\<lambda>n. None), landed = (\<lambda>n. False), outside = (\<lambda>n. []), delay = (\<lambda>n. 0),
      wall = (\<lambda>n. n), locks = (\<lambda>n. Locked), reaped = (\<lambda>n. None), completed = (\<lambda>n. sample_exit True),
      killed = (\<lambda>n. NoSuchGroup), printed = (\<lambda>n. []), spawned = (\<lambda>n. 40), descriptor = (\<lambda>n. 3),
      accepted = (\<lambda>n. 2), client_gone = (\<lambda>n. False), parent = (\<lambda>n. Some 7), cancelled = (\<lambda>n. False),
      euid = 0, egid = 0, pid = 7, current_exe = [root_dir, ''x''], working_directory = [root_dir],
      temporary = (\<lambda>n. [root_dir, ''tmp'', show_nat n]), environment = []\<rparr>"

definition sample_dir :: "path \<Rightarrow> path \<times> inode" where
  "sample_dir p = (p, \<lparr>inode_kind = Directory, inode_owner = 0, inode_mode = 448\<rparr>)"

definition sample_file :: "path \<Rightarrow> string \<Rightarrow> path \<times> inode" where
  "sample_file p c = (p, \<lparr>inode_kind = File c, inode_owner = 0, inode_mode = 384\<rparr>)"

definition sample_sysfs :: path where "sample_sysfs = [root_dir, ''s'']"

definition sample_state :: "string \<Rightarrow> string \<Rightarrow> string \<Rightarrow> nodes" where
  "sample_state st nm b2 =
     (let d = sample_sysfs @ [''cpu0'', ''cpuidle'', st] in
      [sample_dir d, sample_file (d @ [''name'']) (nm @ [CHR 0x0A]),
       sample_file (d @ [''disable'']) (b2 @ [CHR 0x0A])])"

definition sample_nodes :: "string \<Rightarrow> nodes" where
  "sample_nodes b2 =
     [sample_dir [root_dir], sample_dir sample_sysfs, sample_dir (sample_sysfs @ [''cpu0'']),
      sample_dir (sample_sysfs @ [''cpu0'', ''cpuidle'']), sample_dir [root_dir, ''r''],
      sample_file [root_dir, ''x''] ''xyz'', sample_file [root_dir, ''e''] ''E'',
      sample_file [root_dir, ''l''] ''LL'', sample_file [root_dir, ''receipt''] ''R'',
      sample_file [root_dir, ''proc'', ''sys'', ''kernel'', ''random'', ''boot_id''] ''boot'']
     @ sample_state ''state0'' ''POLL'' ''0'' @ sample_state ''state1'' ''C1'' ''0''
     @ sample_state ''state2'' ''C6'' b2"

definition sample_system :: "host \<Rightarrow> nodes \<Rightarrow> system" where
  "sample_system h ns =
     \<lparr>nodes = ns, history = [], calls = 0, clock = 0, stdout = [], commands = [], signals = [], host = h\<rparr>"

definition sample_entry :: "nat \<Rightarrow> string \<Rightarrow> string \<Rightarrow> string \<Rightarrow> IdleEntry" where
  "sample_entry n nm a b =
     \<lparr>cpu = 0, state = n, name = nm,
      disable_path = sample_sysfs @ [''cpu0'', ''cpuidle'', ''state'' @ show_nat n, ''disable''],
      original = a, desired = b\<rparr>"

definition sample_actor :: Actor where "sample_actor = \<lparr>uid = 0, gid = 0\<rparr>"

definition sample_request :: Request where
  "sample_request =
     \<lparr>request_receipt = [root_dir, ''receipt''], accepted_receipt = [root_dir, ''r'', ''a.receipt''],
      request_receipt_digest = ''1'', accepted_executable = [root_dir, ''r'', ''a.executable''],
      executable_digest = ''1'', cpus = [0], timeout_seconds = 1, request_workload = [''w''],
      workload_actor = sample_actor\<rparr>"

definition sample_journal :: "Stage \<Rightarrow> Journal" where
  "sample_journal st =
     \<lparr>version = JOURNAL_VERSION, operation_id = ''a'', request = sample_request, request_hash = ''7'',
      coordinator = sample_actor, journal_boot_id = ''boot'',
      entries = [sample_entry 0 ''POLL'' ''0'' ''0'', sample_entry 1 ''C1'' ''0'' ''0'',
        sample_entry 2 ''C6'' ''0'' ''1''],
      outcome = None,
      transitions = [\<lparr>transition_stage = st, transition_coordinator = sample_actor, unix_millis = 0\<rparr>]\<rparr>"

definition sample_journal_path :: path where
  "sample_journal_path = [root_dir, ''r'', ''a.json'']"

definition sample_run :: RunRequest where
  "sample_run =
     \<lparr>run_operation_id = Some ''a'', receipt_path = [root_dir, ''receipt''], run_cpus = [0],
      run_timeout = 1000, workload = [''w''], sysfs_root = sample_sysfs, state_root = [root_dir, ''r''],
      is_coordinator = False, client_pid = None\<rparr>"

lemma sample_nodes_no_links: "no_links (sample_nodes b2)"
  by (simp add: no_links_def sample_nodes_def sample_state_def sample_dir_def sample_file_def Let_def)

end
