(* ===== verification/Crash_Safety.thy ===== *)
theory Crash_Safety
  imports Tame Sample
begin

text \<open>
  Crash safety of a run: whatever fails and wherever the coordinator stops, a changed idle state
  is listed with its original value in a journal that is on disk and not marked restored; and a
  run that reports the workload's end has put every value back.
\<close>

section \<open>The controlled paths of a run\<close>

definition idle_controls :: "path \<Rightarrow> path set" where
  "idle_controls sysfs =
     {sysfs @ [''cpu'' @ show_nat c, ''cpuidle'', ''state'' @ index, ''disable''] | c index. True}"

definition journals :: "path \<Rightarrow> string set \<Rightarrow> path set" where
  "journals root ids = {root @ [oid @ ''.json''] | oid. valid_operation_id oid \<and> oid \<in> ids}"

definition controlled :: "path \<Rightarrow> path \<Rightarrow> path set" where
  "controlled root sysfs = journals root UNIV \<union> idle_controls sysfs"

definition anchors :: "path \<Rightarrow> path set" where
  "anchors root =
     insert (root @ [''active.lock'']) {root @ [oid @ ''.runtime''] | oid. valid_operation_id oid}"

definition apart :: "path \<Rightarrow> path \<Rightarrow> bool" where
  "apart p q = (\<not> prefix p q \<and> \<not> prefix q p)"

lemma last_controlled:
  "q \<in> controlled root sysfs \<Longrightarrow> last q = ''disable'' \<or> (\<exists>oid. last q = oid @ ''.json'')"
  by (auto simp: controlled_def journals_def idle_controls_def)

lemma suffix_differs:
  "x @ ''.receipt'' \<noteq> y @ ''.json''" "x @ ''.executable'' \<noteq> y @ ''.json''" "x @ ''.runtime'' \<noteq> y @ ''.json''"
  "x @ ''.receipt'' \<noteq> ''disable''" "x @ ''.executable'' \<noteq> ''disable''" "x @ ''.runtime'' \<noteq> ''disable''"
  "y @ ''.json'' \<noteq> ''disable''" "''active.lock'' \<noteq> y @ ''.json''" "''.benchctl-cpuidle.lock'' \<noteq> y @ ''.json''"
  "''benchctl-cpuidle.lock'' \<noteq> y @ ''.json''"
  by (rule notI, drule arg_cong [where f = rev], simp)+

lemma foreign_controlled:
  assumes "p = d @ [f]" "f \<notin> {root_dir, ''..'', ''.''}" "f \<noteq> ''disable''" "\<And>y. f \<noteq> y @ ''.json''"
  shows "foreign (controlled root sysfs) p"
proof -
  have "last q \<noteq> f" if "q \<in> controlled root sysfs" for q
    using last_controlled [OF that] assms(3,4) by auto
  with assms(1,2) show ?thesis by (simp add: foreign_def file_name_def)
qed

lemma extension_not_special:
  "x @ ''.receipt'' \<notin> {root_dir, ''..'', ''.''}" "x @ ''.executable'' \<notin> {root_dir, ''..'', ''.''}"
  "x @ ''.json'' \<notin> {root_dir, ''..'', ''.''}" "x @ ''.runtime'' \<notin> {root_dir, ''..'', ''.''}"
  by (auto simp: root_dir_def append_eq_Cons_conv)

lemma foreign_snapshots:
  assumes "valid_operation_id oid"
  shows "foreign (controlled root sysfs) (join root (oid @ ''.receipt''))"
    and "foreign (controlled root sysfs) (join root (oid @ ''.executable''))"
  using assms suffix_differs
  by (simp_all add: join_operation foreign_controlled [OF refl extension_not_special(1)]
      foreign_controlled [OF refl extension_not_special(2)])

lemma foreign_locks:
  "foreign (controlled root sysfs) CPUIDLE_LOCK"
  "foreign (controlled root sysfs) (join sysfs ''.benchctl-cpuidle.lock'')"
  by (rule foreign_controlled [of _ "[root_dir, ''run'', ''lock'']" "''benchctl-cpuidle.lock''"],
      simp_all add: CPUIDLE_LOCK_def root_dir_def suffix_differs)
    (rule foreign_controlled [of _ sysfs "''.benchctl-cpuidle.lock''"], simp_all add: root_dir_def suffix_differs)

lemma active_lock:
  "join root ''active.lock'' \<in> anchors root" "join root ''active.lock'' \<notin> controlled root sysfs"
  using last_controlled [of "root @ [''active.lock'']" root sysfs]
  by (simp_all add: anchors_def suffix_differs) (blast intro: suffix_differs)

lemma runtime_anchor:
  assumes "valid_operation_id oid"
  shows "runtime_directory root oid = root @ [oid @ ''.runtime'']" "runtime_directory root oid \<in> anchors root"
  using assms by (auto simp: runtime_directory_def join_operation anchors_def)

lemma runtime_file_apart:
  assumes "valid_operation_id oid" "f \<noteq> ''disable''"
  shows "runtime_directory root oid @ [f] \<notin> controlled root sysfs"
  using assms by (auto simp: runtime_anchor controlled_def journals_def idle_controls_def)

lemma runtime_not_prefix:
  assumes "valid_operation_id oid" "apart root sysfs" "q \<in> controlled root sysfs"
  shows "\<not> prefix (runtime_directory root oid) q"
proof
  assume "prefix (runtime_directory root oid) q"
  then have *: "prefix (root @ [oid @ ''.runtime'']) q" by (simp add: runtime_anchor [OF assms(1)])
  from assms(3) consider y where "q = root @ [y @ ''.json'']" | t where "q = sysfs @ t"
    by (auto simp: controlled_def journals_def idle_controls_def)
  then show False
  proof cases
    case 1
    with * show False by (simp add: suffix_differs)
  next
    case 2
    from * have "prefix root q" by (rule append_prefixD)
    with 2 assms(2) show False by (auto simp: apart_def prefix_append dest: prefix_same_cases)
  qed
qed

section \<open>What the operations around the journal keep\<close>

lemma leaves_runtime_write:
  assumes "valid_operation_id oid" "f \<notin> {root_dir, ''..'', ''.''}" "f \<noteq> ''disable''"
  shows "leaves (anchors root) (controlled root sysfs) (atomic_write (runtime_directory root oid @ [f]) c)"
proof (rule leaves_atomic_write)
  fix s v t
  assume "views (anchors root) (controlled root sysfs) v (nodes s)"
    and t: "locate_parent s (runtime_directory root oid @ [f]) = Some t"
  then have plain: "plain (nodes s) (runtime_directory root oid)"
    using runtime_anchor(2) [OF assms(1)] by (auto simp: views_def)
  moreover have "is_absolute (runtime_directory root oid @ [f])"
    using plain_absolute [OF plain] by (auto simp: is_absolute_def)
  ultimately have "t = runtime_directory root oid @ [f]"
    using resolve_parent_plain [OF refl plain assms(2)] t by (simp add: locate_absolute)
  with runtime_file_apart [OF assms(1,3)] show "t \<notin> controlled root sysfs" by simp
qed

lemma leaves_lock_outcome [keeps]:
  "leaves A C a \<Longrightarrow> leaves A C b \<Longrightarrow> leaves A C c
     \<Longrightarrow> leaves A C (case r of Locked \<Rightarrow> a | WouldBlock \<Rightarrow> b | LockError \<Rightarrow> c)"
  by (cases r) auto

lemma leaves_kind [keeps]:
  "(\<And>c. leaves A C (f c)) \<Longrightarrow> leaves A C b \<Longrightarrow> (\<And>t. leaves A C (g t))
     \<Longrightarrow> leaves A C (case r of File c \<Rightarrow> f c | Directory \<Rightarrow> b | Symlink t \<Rightarrow> g t)"
  by (cases r) auto

lemma leaves_handle_metadata [keeps]: "leaves A C (handle_metadata operation p)"
  unfolding handle_metadata_def by (rule leaves_call, rule leaves_pure) (simp split: option.split)

lemma leaves_lock [keeps]:
  "leaves A C (lock_exists p)" "leaves A C (acquire_lock wait label)"
  "leaves A C (secure_state_directory p)"
  unfolding lock_exists_def acquire_lock_def acquire_lock_body_def secure_state_directory_def
  by (intro keeps)+

lemma leaves_lock_for: "leaves A (controlled root sysfs) (lock_for sysfs wait)"
proof (cases "is_real_root sysfs")
  case True
  then have eq: "is_real_root sysfs = True" by simp
  show ?thesis
    unfolding lock_for_def Let_def eq if_True prod.case by (intro keeps foreign_locks)
next
  case False
  then have eq: "is_real_root sysfs = False" by simp
  show ?thesis
    unfolding lock_for_def Let_def eq if_False prod.case by (intro keeps foreign_locks)
qed

lemma leaves_require_inactive:
  "leaves (anchors root) (controlled root sysfs) (require_inactive root)"
  unfolding require_inactive_def require_inactive_body_def
  by (intro keeps active_lock)

lemma leaves_actors [keeps]:
  "leaves A C (parse_sudo_id nm)" "leaves A C (invoking_actor sysfs)" "leaves A C new_operation_id"
  unfolding parse_sudo_id_def invoking_actor_def new_operation_id_def
  by (auto intro!: keeps split: option.split)

lemma leaves_client_watch [keeps]: "leaves A C (client_watch p)"
  unfolding client_watch_def by (intro keeps)

lemma leaves_selection [keeps]:
  "leaves A C (select_entry lib root b f)" "leaves A C (select_journals lib root x b)"
  "leaves A C (require_no_unfinished_journal lib root)"
  unfolding select_entry_def select_journals_def require_no_unfinished_journal_def Let_def
  by (auto intro!: keeps split: option.split)

lemma leaves_replay [keeps]: "leaves A C (replay_outcome j)" "leaves A C (report_outcome ended)"
  unfolding replay_outcome_def
  by (auto intro!: keeps split: option.split TerminalOutcome.split) (cases ended, auto intro!: keeps)

lemma leaves_existing [keeps]: "leaves A C (existing_operation lib p oid r)"
  unfolding existing_operation_def by (intro keeps)

lemma leaves_groups [keeps]:
  "leaves A C (signal_group g sig)" "leaves A C (group_is_empty g)"
  unfolding signal_group_def group_is_empty_def by (auto intro!: keeps split: kill_outcome.split)

lemma leaves_drain [keeps]:
  "leaves A C check \<Longrightarrow> leaves A C (drain_within limit check)"
  "leaves A C check \<Longrightarrow> leaves A C (drain_group g check)"
  "leaves A C (terminate_and_drain g)" "leaves A C (terminate_and_reap_group g)"
  unfolding drain_within_def drain_body_def drain_group_def terminate_and_drain_def
    terminate_and_reap_group_def
  by (intro keeps; assumption)+

lemma leaves_status_files [keeps]:
  "leaves A C (read_status lib p)" "leaves A C (recover_outcome lib root oid)"
  "leaves A C (cancellation_flag watch)"
  unfolding read_status_def recover_outcome_def cancellation_flag_def Let_def by (intro keeps)+

lemma leaves_waits [keeps]:
  "leaves A C (wait_for_ready ready g)" "leaves A C (wait_for_drained drained)"
  "leaves A C (coordinate_loop lib limit st g)"
  unfolding wait_for_ready_def wait_for_ready_body_def wait_for_drained_def wait_for_drained_body_def
    coordinate_loop_def coordinate_body_def
  by (intro keeps)+

text \<open>The test seams that write to a path of the environment are not set.\<close>

definition no_seams :: "host \<Rightarrow> bool" where
  "no_seams h =
     (variables h ''BENCHCTL_TEST_OUTCOME_READY'' = None
       \<and> variables h ''BENCHCTL_TEST_EXECUTABLE_SNAPSHOT_READY'' = None)"

lemma join_runtime_file:
  assumes "CHR ''/'' \<notin> set f" "f \<noteq> []" "f \<noteq> ''.''"
  shows "join (runtime_directory root oid) f = runtime_directory root oid @ [f]"
  using assms by simp

lemma stays_coordinate_finish:
  assumes "no_seams h" "valid_operation_id oid"
  shows "stays (anchors root) (controlled root sysfs) safe h now
    (coordinate_finish lib production (runtime_directory root oid) ended)"
proof -
  have atomic: "leaves (anchors root) (controlled root sysfs)
      (atomic_write (join (runtime_directory root oid) f) c)"
    if "f \<in> {''outcome.json'', ''drain''}" for f c
    using that by (auto intro!: leaves_runtime_write [OF assms(2)] simp: root_dir_def)
  have seam: "variables h ''BENCHCTL_TEST_OUTCOME_READY'' = None"
    using assms(1) by (simp add: no_seams_def)
  have "leaves (anchors root) (controlled root sysfs)
      (store_outcome lib (join (runtime_directory root oid) ''outcome.json'') ended)"
    unfolding store_outcome_def by (intro keeps atomic) simp
  then show ?thesis
    unfolding coordinate_finish_def
    by (intro stays_bind [OF stays_leaves] stays_host)
      (auto simp only: seam option.case intro!: stays_leaves keeps atomic)
qed

lemma stays_coordinate:
  assumes "no_seams h" "valid_operation_id oid"
    and "coordinate_state_root r = root" "coordinate_operation_id r = oid"
  shows "stays (anchors root) (controlled root sysfs) safe h now (coordinate lib r)"
proof -
  have go: "leaves (anchors root) (controlled root sysfs)
      (atomic_write (join (runtime_directory root oid) ''go'') c)" for c
    by (auto intro!: leaves_runtime_write [OF assms(2)] simp: root_dir_def)
  have "stays (anchors root) (controlled root sysfs) safe h now
     (case x of Inl e \<Rightarrow> bind (terminate_and_reap_group g) (\<lambda>_. fail_io e)
      | Inr y \<Rightarrow> bind (wait_for_ready ready g) (\<lambda>_.
          bind (atomic_write (join (runtime_directory root oid) ''go'') (''go'' @ [CHR 0x0A])) (\<lambda>_.
          bind (cancellation_flag (coordinate_client_watch r)) (\<lambda>_.
          bind (coordinate_loop lib (coordinate_timeout r) st g) (\<lambda>ended.
          coordinate_finish lib (coordinate_production_control r) (runtime_directory root oid) ended)))))"
    for x :: "BenchError + u32" and g ready st
  proof (cases x)
    case Inl
    then show ?thesis by (simp only: sum.case) (intro stays_leaves keeps)
  next
    case Inr
    then show ?thesis
      by (simp only: sum.case)
        (intro stays_bind [OF stays_leaves] keeps go stays_coordinate_finish [OF assms(1,2)])
  qed
  then show ?thesis
    unfolding coordinate_def Let_def assms(3,4)
    by (intro stays_bind [OF stays_leaves] keeps)
qed

section \<open>The inventory\<close>

definition inventoried :: "path \<Rightarrow> (path \<Rightarrow> string option) \<Rightarrow> IdleEntry \<Rightarrow> bool" where
  "inventoried sysfs v e =
     (disable_path e \<in> idle_controls sysfs \<and> bit_value (v (disable_path e)) = Some (original e))"

lemma step_inventory_item:
  assumes "idle_controls sysfs \<subseteq> C"
  shows "step_ok A C safe h (\<lambda>w. w = v) (inventory_item c (sysfs @ [''cpu'' @ show_nat c, ''cpuidle'']) file)
    (\<lambda>found w. w = v \<and> pred_option (inventoried sysfs v) found)"
proof -
  let ?p = "sysfs @ [''cpu'' @ show_nat c, ''cpuidle'', file, ''disable'']"
  have entry: "step_ok A C safe h (\<lambda>w. w = v)
      (bind (read_bit ?p) (\<lambda>value. return_io (Some \<lparr>cpu = c, state = number, name = nm,
         disable_path = ?p, original = value,
         desired = (if nm = ''POLL'' \<or> nm = ''C1'' then ''0'' else ''1'')\<rparr>)))
      (\<lambda>found w. w = v \<and> pred_option (inventoried sysfs v) found)" if "prefix ''state'' file" for number nm
  proof -
    from that obtain index where "file = ''state'' @ index" by (auto simp: prefix_def)
    then have p: "?p \<in> idle_controls sysfs" unfolding idle_controls_def by blast
    with assms have "?p \<in> C" by auto
    then show ?thesis
      by (rule step_bind [OF step_read_bit], intro step_return) (use p in \<open>auto simp: inventoried_def\<close>)
  qed
  have paths: "join ((sysfs @ [''cpu'' @ show_nat c, ''cpuidle'']) @ [file]) ''disable'' = ?p" by simp
  show ?thesis
    unfolding inventory_item_def Let_def paths
    by (rule step_then [OF leaves_reads(1)], rule step_if, rule step_return, simp,
        rule step_then [OF leaves_trivial(6)], (rule step_then [OF leaves_reject_symlink])+,
        rule step_then [OF leaves_read_bit(1)], rule entry, simp)
qed

lemma step_cpu_inventory:
  assumes "idle_controls sysfs \<subseteq> C"
  shows "step_ok A C safe h (\<lambda>w. w = v) (cpu_inventory sysfs c)
    (\<lambda>found w. w = v \<and> list_all (inventoried sysfs v) found)"
proof -
  have root: "join (join sysfs (''cpu'' @ show_nat c)) ''cpuidle'' = sysfs @ [''cpu'' @ show_nat c, ''cpuidle'']"
    by (simp add: show_nat_plain)
  have "step_ok A C safe h (\<lambda>w. w = v) (collect items (inventory_item c (sysfs @ [''cpu'' @ show_nat c, ''cpuidle''])))
      (\<lambda>found w. w = v \<and> list_all (pred_option (inventoried sysfs v)) found)" for items
    by (rule step_collect) (rule step_inventory_item [OF assms])
  moreover have "list_all (inventoried sysfs v) (sort_key state (List.map_filter (\<lambda>x. x) found))"
    if "list_all (pred_option (inventoried sysfs v)) found" for found
    using that by (induction found) (auto simp: list_all_iff List.map_filter_def split: option.splits)
  ultimately show ?thesis
    unfolding cpu_inventory_def Let_def root
    by (intro step_then [OF leaves_reject_symlink] step_then [OF leaves_reads(4)])
      (rule step_bind, assumption, rule step_then [OF leaves_trivial(5)], rule step_return, simp)
qed

lemma step_inventory:
  assumes "idle_controls sysfs \<subseteq> C"
  shows "step_ok A C safe h (\<lambda>w. w = v) (inventory sysfs cs)
    (\<lambda>found w. w = v \<and> list_all (inventoried sysfs v) found)"
  unfolding inventory_def
  by (rule step_bind [OF step_collect [OF step_cpu_inventory [OF assms]]], rule step_return)
    (auto simp: list_all_iff)

section \<open>Safe states\<close>

text \<open>Every idle state whose file changed since \<open>v\<close> is listed with its value in \<open>v\<close>.\<close>

definition accounts_for ::
    "path \<Rightarrow> (path \<Rightarrow> string option) \<Rightarrow> IdleEntry list \<Rightarrow> (path \<Rightarrow> string option) \<Rightarrow> bool" where
  "accounts_for sysfs v es w =
     (list_all (inventoried sysfs v) es
       \<and> (\<forall>q\<in>idle_controls sysfs. w q = v q \<or> q \<in> disable_path ` set es))"

text \<open>The journal of a file has these entries and carries the operation that the file is named after.\<close>

definition on_file :: "path \<Rightarrow> IdleEntry list \<Rightarrow> Journal \<Rightarrow> bool" where
  "on_file p es j = (entries j = es \<and> last p = operation_id j @ ''.json'')"

lemma on_file_entries: "on_file p es j \<Longrightarrow> entries j = es"
  by (simp add: on_file_def)

lemma on_file_continues: "on_file p es j \<Longrightarrow> continues j j' \<Longrightarrow> on_file p es j'"
  by (auto simp: on_file_def continues_def)

lemma on_file_outcome: "on_file p es j \<Longrightarrow> on_file p es (j\<lparr>outcome := x\<rparr>)"
  by (simp add: on_file_def)

lemma on_file_operation:
  assumes "p \<in> journals root ids" "on_file p es j"
  shows "valid_operation_id (operation_id j)" "operation_id j \<in> ids"
    "p = root @ [operation_id j @ ''.json'']"
  using assms by (auto simp: journals_def on_file_def)

text \<open>
  A state after a run started from \<open>v\<close> with one of the given operation identities: nothing
  changed, or a journal of the run accounts for what did.
\<close>

definition crash_safe ::
    "'m library_scheme \<Rightarrow> path \<Rightarrow> string set \<Rightarrow> path \<Rightarrow> (path \<Rightarrow> string option) \<Rightarrow> (path \<Rightarrow> string option) \<Rightarrow> bool" where
  "crash_safe lib root ids sysfs v w =
     ((\<forall>q\<in>idle_controls sysfs \<union> journals root ids. w q = v q)
       \<or> (\<exists>p\<in>journals root ids. \<exists>j. recorded lib (w p) = Some j \<and> on_file p (entries j) j
            \<and> accounts_for sysfs v (entries j) w
            \<and> (stage j = Restored \<longrightarrow> originals (entries j) w)))"

definition underway ::
    "'m library_scheme \<Rightarrow> path \<Rightarrow> path \<Rightarrow> (path \<Rightarrow> string option) \<Rightarrow> IdleEntry list
      \<Rightarrow> (path \<Rightarrow> string option) \<Rightarrow> bool" where
  "underway lib p sysfs v es w =
     (accounts_for sysfs v es w
       \<and> (\<exists>j. recorded lib (w p) = Some j \<and> on_file p es j \<and> stage j \<noteq> Restored))"

definition clean :: "path \<Rightarrow> (path \<Rightarrow> string option) \<Rightarrow> (path \<Rightarrow> string option) \<Rightarrow> bool" where
  "clean sysfs v w = (\<forall>q\<in>idle_controls sysfs. bit_value (w q) = bit_value (v q))"

lemma underway_safe: "p \<in> journals root ids \<Longrightarrow> underway lib p sysfs v es w \<Longrightarrow> crash_safe lib root ids sysfs v w"
  by (auto simp: underway_def crash_safe_def on_file_def)

lemma originals_clean:
  "accounts_for sysfs v es w \<Longrightarrow> originals es w \<Longrightarrow> clean sysfs v w"
  by (force simp: accounts_for_def clean_def originals_def inventoried_def list_all_iff)

lemma journal_not_idle: "p \<in> journals root ids \<Longrightarrow> p \<notin> idle_controls sysfs"
  using suffix_differs(7) by (auto simp: journals_def idle_controls_def)

lemma journals_controlled: "p \<in> journals root ids \<Longrightarrow> p \<in> controlled root sysfs"
  by (auto simp: controlled_def journals_def)

lemma accounts_journal:
  "p \<in> journals root ids \<Longrightarrow> accounts_for sysfs v es w \<Longrightarrow> accounts_for sysfs v es (w(p := c))"
  using journal_not_idle by (auto simp: accounts_for_def)

lemma accounts_bit:
  "accounts_for sysfs v es w \<Longrightarrow> e \<in> set es \<Longrightarrow> accounts_for sysfs v es (w(disable_path e := c))"
  by (auto simp: accounts_for_def)

lemma accounts_idle: "accounts_for sysfs v es w \<Longrightarrow> e \<in> set es \<Longrightarrow> disable_path e \<in> idle_controls sysfs"
  by (auto simp: accounts_for_def inventoried_def list_all_iff)

lemma step_store_underway:
  assumes "faithful lib" "p \<in> journals root ids" "on_file p es j" "stage j \<noteq> Restored"
    and "\<And>w. now w \<Longrightarrow> accounts_for sysfs v es w"
  shows "step_ok A (controlled root sysfs) (crash_safe lib root ids sysfs v) h now (store lib p j)
    (\<lambda>_. underway lib p sysfs v es)"
proof (rule step_store)
  show "p \<in> controlled root sysfs" using assms(2) by (rule journals_controlled)
  fix w bytes
  assume "now w" and bytes: "journal_to_vec_pretty lib j = Inr bytes"
  then have "underway lib p sysfs v es (w(p := Some bytes))"
    using assms(3,4) accounts_journal [OF assms(2) assms(5)] recorded_written [OF assms(1) bytes]
    by (auto simp: underway_def)
  then show "crash_safe lib root ids sysfs v (w(p := Some bytes)) \<and> underway lib p sysfs v es (w(p := Some bytes))"
    using underway_safe [OF assms(2)] by blast
qed

lemma stays_apply:
  assumes "p \<in> journals root ids"
  shows "stays A (controlled root sysfs) (crash_safe lib root ids sysfs v) h (underway lib p sysfs v es)
    (apply_entries sysfs es)"
proof -
  let ?stays = "stays A (controlled root sysfs) (crash_safe lib root ids sysfs v) h (underway lib p sysfs v es)"
  have "?stays (fs_write operation (disable_path e) c)" if "e \<in> set es" for e operation c
  proof (cases "disable_path e \<in> controlled root sysfs")
    case True
    have "underway lib p sysfs v es (w(disable_path e := Some c))"
      if "underway lib p sysfs v es w" for w
    proof -
      have "disable_path e \<noteq> p"
        using that accounts_idle [OF _ \<open>e \<in> set es\<close>] journal_not_idle [OF assms] by (auto simp: underway_def)
      with that \<open>e \<in> set es\<close> show ?thesis by (auto simp: underway_def accounts_bit)
    qed
    with True show ?thesis
      by (intro stays_write) (auto intro: underway_safe [OF assms])
  next
    case False
    then have "\<not> within A (controlled root sysfs) (crash_safe lib root ids sysfs v) h (underway lib p sysfs v es) s" for s
      using accounts_idle [OF _ \<open>e \<in> set es\<close>] by (auto simp: within_def underway_def controlled_def)
    then show ?thesis by (simp add: stays_def triple_def)
  qed
  then have "?stays (apply_entry e)" if "e \<in> set es" for e
    unfolding apply_entry_def write_bit_def
    using that by (intro stays_bind [OF stays_leaves] stays_bind) (auto intro: stays_leaves keeps)
  then show ?thesis
    unfolding apply_entries_def
    by (intro stays_bind [OF stays_leaves [OF leaves_inventory(4)]] stays_for_each)
qed

lemma step_restore_run:
  assumes "faithful lib" "p \<in> journals root ids" "on_file p es j"
  shows "step_ok A (controlled root sysfs) (crash_safe lib root ids sysfs v) h
    (\<lambda>w. accounts_for sysfs v es w) (restore lib sysfs p j) (\<lambda>_. clean sysfs v)"
proof (rule step_ex)
  fix w
  assume acc: "accounts_for sysfs v es w"
  have kept: "accounts_for sysfs v es w'" if "undoes es p w w'" for w'
    using acc that journal_not_idle [OF assms(2), of sysfs]
    by (fastforce simp: accounts_for_def undoes_def)
  have R: "restoration lib p j (controlled root sysfs) (crash_safe lib root ids sysfs v) w"
    unfolding restoration_def
  proof (intro conjI allI impI)
    show "p \<notin> disable_path ` set (entries j)"
      using journal_not_idle [OF assms(2)] accounts_idle [OF acc] on_file_entries [OF assms(3)] by auto
    show "disable_path ` set (entries j) \<subseteq> controlled root sysfs"
      using accounts_idle [OF acc] on_file_entries [OF assms(3)] by (auto simp: controlled_def)
    fix w'
    assume "undoing lib p j w w'"
    then obtain j' where j': "recorded lib (w' p) = Some j'" "continues j j'"
      "stage j' = Restored \<longrightarrow> originals es w'" "undoes es p w w'"
      using on_file_entries [OF assms(3)] by (auto simp: undoing_def)
    have "on_file p es j'" using on_file_continues [OF assms(3) j'(2)] .
    with j' kept have "recorded lib (w' p) = Some j' \<and> on_file p (entries j') j' \<and> accounts_for sysfs v (entries j') w'
        \<and> (stage j' = Restored \<longrightarrow> originals (entries j') w')"
      using on_file_entries by blast
    with assms(2) show "crash_safe lib root ids sysfs v w'" unfolding crash_safe_def by blast
  qed (use assms journals_controlled in auto)
  show "step_ok A (controlled root sysfs) (crash_safe lib root ids sysfs v) h (\<lambda>x. x = w)
      (restore lib sysfs p j) (\<lambda>_. clean sysfs v)"
    by (rule step_conseq [OF step_restore [OF R]])
      (use kept on_file_entries [OF assms(3)] in \<open>auto simp: restored_def intro: originals_clean\<close>)
qed

section \<open>A run\<close>

lemma step_transition_then:
  assumes "\<And>j'. continues j j' \<Longrightarrow> stage j' = st \<Longrightarrow> step_ok A C safe h now (k j') post"
  shows "step_ok A C safe h now (bind (transition st a j) k) post"
proof (rule step_bind [OF step_transition])
  fix j'
  show "step_ok A C safe h (\<lambda>w. now w \<and> continues j j' \<and> stage j' = st) (k j') post"
    by (rule step_pure [where b = "continues j j' \<and> stage j' = st"])
      (auto intro: step_conseq [OF assms])
qed

lemma underway_accounts: "underway lib p sysfs v es w \<Longrightarrow> accounts_for sysfs v es w"
  by (simp add: underway_def)

lemma cleanup_leaves:
  assumes "valid_operation_id oid" "apart root sysfs"
  shows "leaves (anchors root) (controlled root sysfs) (cleanup_runtime root oid)"
proof -
  have "file_name (runtime_directory root oid) \<noteq> None"
    using extension_not_special(4) [of oid] by (simp add: runtime_anchor [OF assms(1)] file_name_def)
  then show ?thesis
    unfolding cleanup_runtime_def Let_def
    by (intro keeps runtime_anchor [OF assms(1)] runtime_not_prefix [OF assms])
qed

lemma journals_path:
  "valid_operation_id oid \<Longrightarrow> join root (oid @ ''.json'') = root @ [oid @ ''.json'']"
  "valid_operation_id oid \<Longrightarrow> oid \<in> ids \<Longrightarrow> root @ [oid @ ''.json''] \<in> journals root ids"
  by (auto simp: join_operation journals_def)

lemma step_finish_run:
  assumes "faithful lib" "p \<in> journals root ids" "valid_operation_id oid" "apart root sysfs"
    and "sysfs_root r = sysfs" "state_root r = root" "on_file p es j"
  shows "step_ok (anchors root) (controlled root sysfs) (crash_safe lib root ids sysfs v) h
    (underway lib p sysfs v es) (finish_run lib r p oid c j ended) (\<lambda>_. clean sysfs v)"
  unfolding finish_run_def Let_def assms(5,6)
proof (rule step_transition_then, rule step_then [OF leaves_Journal(7)], rule step_transition_then)
  fix a j1 j2
  assume "continues (j\<lparr>outcome := Some (terminal_outcome ended)\<rparr>) j1" "continues j1 j2"
    and stage: "stage j2 = Draining"
  then have es: "on_file p es j2" using on_file_continues on_file_outcome [OF assms(7)] by blast
  show "step_ok (anchors root) (controlled root sysfs) (crash_safe lib root ids sysfs v) h
      (underway lib p sysfs v es) (bind (store lib p j2) (\<lambda>_. bind (restore lib sysfs p j2)
        (\<lambda>_. bind (cleanup_runtime root oid) (\<lambda>_. return_io ended)))) (\<lambda>_. clean sysfs v)"
  proof (rule step_bind)
    show "step_ok (anchors root) (controlled root sysfs) (crash_safe lib root ids sysfs v) h
        (underway lib p sysfs v es) (store lib p j2) (\<lambda>_. underway lib p sysfs v es)"
      by (rule step_store_underway [OF assms(1,2) es]) (auto simp: stage underway_accounts)
    show "step_ok (anchors root) (controlled root sysfs) (crash_safe lib root ids sysfs v) h
        (underway lib p sysfs v es) (bind (restore lib sysfs p j2)
          (\<lambda>_. bind (cleanup_runtime root oid) (\<lambda>_. return_io ended))) (\<lambda>_. clean sysfs v)"
    proof (rule step_bind)
      show "step_ok (anchors root) (controlled root sysfs) (crash_safe lib root ids sysfs v) h
          (underway lib p sysfs v es) (restore lib sysfs p j2) (\<lambda>_. clean sysfs v)"
        by (rule step_conseq [OF step_restore_run [OF assms(1,2) es]]) (auto simp: underway_accounts)
    qed (intro step_then [OF cleanup_leaves [OF assms(3,4)]] step_return)
  qed
qed

lemma step_reconcile:
  assumes "faithful lib" "p \<in> journals root ids" "on_file p es j" "stage j \<noteq> Restored"
  shows "step_ok A (controlled root sysfs) (crash_safe lib root ids sysfs v) h
    (underway lib p sysfs v es) (reconcile_runtime_outcome lib root p j)
    (\<lambda>j' w. underway lib p sysfs v es w \<and> on_file p es j' \<and> stage j' = stage j)"
proof -
  have "step_ok A (controlled root sysfs) (crash_safe lib root ids sysfs v) h (underway lib p sysfs v es)
     (bind (store lib p (j\<lparr>outcome := x\<rparr>)) (\<lambda>_. return_io (j\<lparr>outcome := x\<rparr>)))
     (\<lambda>j' w. underway lib p sysfs v es w \<and> on_file p es j' \<and> stage j' = stage j)" for x
  proof (rule step_bind)
    show "step_ok A (controlled root sysfs) (crash_safe lib root ids sysfs v) h (underway lib p sysfs v es)
        (store lib p (j\<lparr>outcome := x\<rparr>)) (\<lambda>_. underway lib p sysfs v es)"
      by (rule step_store_underway [OF assms(1,2) on_file_outcome [OF assms(3)]])
        (use assms(4) in \<open>auto simp: stage_def underway_accounts split: if_splits\<close>)
  qed (rule step_return, simp add: on_file_outcome [OF assms(3)] stage_def)
  moreover have "step_ok A (controlled root sysfs) (crash_safe lib root ids sysfs v) h
     (underway lib p sysfs v es) (return_io j)
     (\<lambda>j' w. underway lib p sysfs v es w \<and> on_file p es j' \<and> stage j' = stage j)"
    by (rule step_return) (simp add: assms(3))
  ultimately show ?thesis
    unfolding reconcile_runtime_outcome_def Let_def
    by (intro step_if step_then [OF leaves_status_files(2)]) (auto split: option.split)
qed

lemma stage_fields: "stage (j\<lparr>entries := es\<rparr>) = stage j" "stage (j\<lparr>outcome := x\<rparr>) = stage j"
  by (simp_all add: stage_def)

lemma entries_set: "entries (j\<lparr>entries := es\<rparr>) = es"
  by simp

lemma step_Journal_new:
  "step_ok A C safe h now (Journal_new lib oid r c boot) (\<lambda>j w. now w \<and> stage j = Prepared \<and> operation_id j = oid)"
  unfolding Journal_new_def
  by (intro step_then [OF leaves_Journal(1)] step_then [OF leaves_reads(7)] step_return)
    (simp add: stage_def)

lemma step_abandon_run:
  assumes "faithful lib" "p \<in> journals root ids" "on_file p es j" "stage j \<noteq> Restored"
  shows "step_ok A (controlled root sysfs) (crash_safe lib root ids sysfs v) h
    (underway lib p sysfs v es) (abandon_run lib root p j error) post"
    (is "step_ok A ?C ?safe h ?U _ post")
  unfolding abandon_run_def
proof (rule step_bind [OF step_reconcile [OF assms]])
  fix j3
  show "step_ok A ?C ?safe h (\<lambda>w. ?U w \<and> on_file p es j3 \<and> stage j3 = stage j) (bind actor (\<lambda>a.
      bind (transition Recoverable a j3) (\<lambda>j. bind (store lib p j) (\<lambda>_. fail_io error)))) post"
  proof (rule step_pure [where b = "on_file p es j3"], simp, rule step_then [OF leaves_Journal(7)],
      rule step_transition_then)
    fix j4
    assume "on_file p es j3" "continues j3 j4" "stage j4 = Recoverable"
    then have "on_file p es j4" "stage j4 \<noteq> Restored" by (auto intro: on_file_continues)
    then show "step_ok A ?C ?safe h (\<lambda>w. ?U w \<and> on_file p es j3 \<and> stage j3 = stage j)
        (bind (store lib p j4) (\<lambda>_. fail_io error)) post"
      by (intro step_bind [OF step_store_underway [OF assms(1,2)]] step_fail)
        (auto simp: underway_accounts)
  qed
qed

lemma step_run_applied:
  assumes "faithful lib" "p \<in> journals root ids" "valid_operation_id oid" "apart root sysfs" "no_seams h"
    and "sysfs_root r = sysfs" "state_root r = root" "on_file p es j"
    and "coordinate_state_root q = root" "coordinate_operation_id q = oid"
  shows "step_ok (anchors root) (controlled root sysfs) (crash_safe lib root ids sysfs v) h
    (underway lib p sysfs v es) (run_applied lib r p oid c j q) (\<lambda>_. clean sysfs v)"
    (is "step_ok ?A ?C ?safe h ?U _ ?post")
  unfolding run_applied_def assms(7)
proof (rule step_transition_then)
  fix j1
  assume j1: "continues j j1" "stage j1 = Applied"
  have stored: "step_ok ?A ?C ?safe h ?U (store lib p j') (\<lambda>_. ?U)"
    if "on_file p es j'" "stage j' \<noteq> Restored" for j'
    by (rule step_store_underway [OF assms(1,2) that]) (simp add: underway_accounts)
  have es1: "on_file p es j1" "stage j1 \<noteq> Restored" using j1 assms(8) by (simp_all add: on_file_continues)
  have tail: "step_ok ?A ?C ?safe h ?U (bind (store lib p j2) (\<lambda>_. bind (attempt (coordinate lib q)) (\<lambda>x.
      case x of Inl error \<Rightarrow> abandon_run lib root p j2 error
      | Inr ended \<Rightarrow> finish_run lib r p oid c j2 ended))) ?post"
    if "continues j1 j2" "stage j2 = WorkloadStarted" for j2
  proof -
    have es2: "on_file p es j2" "stage j2 \<noteq> Restored" using that es1 by (simp_all add: on_file_continues)
    have "step_ok ?A ?C ?safe h ?U (case x of Inl error \<Rightarrow> abandon_run lib root p j2 error
        | Inr ended \<Rightarrow> finish_run lib r p oid c j2 ended) ?post" for x
      by (cases x) (simp_all only: sum.case step_abandon_run [OF assms(1,2) es2]
          step_finish_run [OF assms(1-4,6,7) es2(1)])
    then show ?thesis
      by (intro step_bind [OF stored [OF es2]]
          step_bind [OF step_attempt_stays [OF stays_coordinate [OF assms(5,3,9,10)]]])
  qed
  show "step_ok ?A ?C ?safe h ?U (bind (store lib p j1) (\<lambda>_. bind (transition WorkloadStarted c j1) (\<lambda>j.
      bind (store lib p j) (\<lambda>_. bind (attempt (coordinate lib q)) (\<lambda>x.
      case x of Inl error \<Rightarrow> abandon_run lib root p j error
      | Inr ended \<Rightarrow> finish_run lib r p oid c j ended))))) ?post"
    by (rule step_bind [OF stored [OF es1]], rule step_transition_then, rule tail)
qed

lemma step_undo_apply:
  assumes "faithful lib" "p \<in> journals root ids" "sysfs_root r = sysfs" "on_file p es j"
  shows "step_ok A (controlled root sysfs) (crash_safe lib root ids sysfs v) h
    (underway lib p sysfs v es) (undo_apply lib r p j error) post"
  unfolding undo_apply_def assms(3)
proof (rule step_bind)
  show "step_ok A (controlled root sysfs) (crash_safe lib root ids sysfs v) h (underway lib p sysfs v es)
      (attempt (restore lib sysfs p j)) (\<lambda>_ _. True)"
    by (rule step_attempt_any, rule step_conseq [OF step_restore_run [OF assms(1,2,4)]])
      (auto simp: underway_accounts)
qed (auto split: sum.split intro: step_fail)

lemma step_prepared:
  assumes "faithful lib" "p \<in> journals root ids" "valid_operation_id oid" "apart root sysfs" "no_seams h"
    and "sysfs_root r = sysfs" "state_root r = root" "on_file p es j" "stage j = Prepared"
  shows "step_ok (anchors root) (controlled root sysfs) (crash_safe lib root ids sysfs v) h
    (\<lambda>w. w = v \<and> list_all (inventoried sysfs v) es)
    (bind (store lib p j) (\<lambda>_. bind (print_line l) (\<lambda>_.
     bind (attempt (apply_entries sysfs es)) (\<lambda>applied.
     case applied of Inl error \<Rightarrow> undo_apply lib r p j error
     | Inr _ \<Rightarrow> run_applied lib r p oid c j (coordinate_request r oid req watch))))) (\<lambda>_. clean sysfs v)"
    (is "step_ok ?A ?C ?safe h ?now _ ?post")
proof -
  let ?U = "underway lib p sysfs v es"
  have "step_ok ?A ?C ?safe h ?U (case x of Inl error \<Rightarrow> undo_apply lib r p j error
      | Inr _ \<Rightarrow> run_applied lib r p oid c j (coordinate_request r oid req watch)) ?post"
    for x :: "BenchError + unit"
    by (cases x) (simp_all only: sum.case step_undo_apply [OF assms(1,2,6,8)],
        rule step_run_applied [OF assms(1-8)], simp_all add: coordinate_request_def assms(7))
  moreover have "step_ok ?A ?C ?safe h ?now (store lib p j) (\<lambda>_. ?U)"
    by (rule step_store_underway [OF assms(1,2,8)]) (auto simp: assms(9) accounts_for_def)
  moreover have "step_ok ?A ?C ?safe h ?U (attempt (apply_entries sysfs es)) (\<lambda>_. ?U)"
    by (rule step_attempt_stays, rule stays_apply [OF assms(2)])
  ultimately show ?thesis
    by (blast intro: step_bind step_then [OF leaves_print])
qed

lemma step_journalled_run:
  assumes "faithful lib" "p \<in> journals root ids" "valid_operation_id oid" "apart root sysfs" "no_seams h"
    and "sysfs_root r = sysfs" "state_root r = root" "last p = oid @ ''.json''"
  shows "step_ok (anchors root) (controlled root sysfs) (crash_safe lib root ids sysfs v) h
    (\<lambda>w. w = v) (journalled_run lib r p oid req watch) (\<lambda>_. clean sysfs v)"
    (is "step_ok ?A ?C ?safe h _ _ ?post")
proof -
  have tail: "step_ok ?A ?C ?safe h (\<lambda>w. w = v \<and> stage j = Prepared \<and> operation_id j = oid)
     (bind (inventory sysfs (run_cpus r)) (\<lambda>es. bind (store lib p (j\<lparr>entries := es\<rparr>)) (\<lambda>_.
      bind (print_line (''operation: '' @ oid)) (\<lambda>_. bind (attempt (apply_entries sysfs es)) (\<lambda>applied.
      case applied of Inl error \<Rightarrow> undo_apply lib r p (j\<lparr>entries := es\<rparr>) error
      | Inr _ \<Rightarrow> run_applied lib r p oid c (j\<lparr>entries := es\<rparr>) (coordinate_request r oid req watch))))))
     ?post" for j c
  proof (rule step_pure [where b = "stage j = Prepared \<and> operation_id j = oid"], simp, rule step_bind)
    show "step_ok ?A ?C ?safe h (\<lambda>w. w = v \<and> stage j = Prepared \<and> operation_id j = oid) (inventory sysfs (run_cpus r))
        (\<lambda>es w. w = v \<and> list_all (inventoried sysfs v) es)"
      by (rule step_conseq [OF step_inventory [where v = v]]) (auto simp: controlled_def)
  qed (rule step_prepared [OF assms(1-7)], simp_all add: stage_fields on_file_def assms(8))
  show ?thesis
    unfolding journalled_run_def Let_def assms(6)
    by (rule step_then [OF leaves_Journal(7)], rule step_then [OF leaves_Journal(8)],
        rule step_bind [OF step_Journal_new], subst entries_set, rule tail)
qed

section \<open>Results that speak of the workload\<close>

text \<open>
  The assertion on every end of a run: all states passed through are safe, and an end that
  reports the workload's outcome left the idle states as they were.
\<close>

definition ends ::
    "'m library_scheme \<Rightarrow> path \<Rightarrow> string set \<Rightarrow> path \<Rightarrow> (path \<Rightarrow> string option) \<Rightarrow> host \<Rightarrow> BenchError option \<Rightarrow> system \<Rightarrow> bool"
  where
  "ends lib root ids sysfs v h e =
     within (anchors root) (controlled root sysfs) (crash_safe lib root ids sysfs v) h
       (\<lambda>w. is_some_and e workload_error \<longrightarrow> clean sysfs v w)"

abbreviation untouched ::
    "'m library_scheme \<Rightarrow> path \<Rightarrow> string set \<Rightarrow> path \<Rightarrow> (path \<Rightarrow> string option) \<Rightarrow> host \<Rightarrow> system \<Rightarrow> bool" where
  "untouched lib root ids sysfs v h \<equiv>
     within (anchors root) (controlled root sysfs) (crash_safe lib root ids sysfs v) h (\<lambda>w. w = v)"

lemma untouched_ends: "untouched lib root ids sysfs v h s \<Longrightarrow> ends lib root ids sysfs v h e s"
  unfolding ends_def by (erule within_mono) (simp add: clean_def)

lemma run_then_stays:
  assumes "stays (anchors root) (controlled root sysfs) (crash_safe lib root ids sysfs v) h (\<lambda>w. w = v) m"
    and "\<And>x. triple (untouched lib root ids sysfs v h) (k x) Q (ends lib root ids sysfs v h)"
  shows "triple (untouched lib root ids sysfs v h) (bind m k) Q (ends lib root ids sysfs v h)"
  using assms(1) unfolding stays_def
  by (intro triple_bind [OF triple_conseq [OF assms(1) [unfolded stays_def]] assms(2)])
    (auto intro: untouched_ends)

lemma run_then:
  assumes "leaves (anchors root) (controlled root sysfs) m"
    and "\<And>x. triple (untouched lib root ids sysfs v h) (k x) Q (ends lib root ids sysfs v h)"
  shows "triple (untouched lib root ids sysfs v h) (bind m k) Q (ends lib root ids sysfs v h)"
  by (rule run_then_stays [OF stays_leaves [OF assms(1)] assms(2)])

abbreviation cleaned ::
    "'m library_scheme \<Rightarrow> path \<Rightarrow> string set \<Rightarrow> path \<Rightarrow> (path \<Rightarrow> string option) \<Rightarrow> host \<Rightarrow> 'a \<Rightarrow> system \<Rightarrow> bool" where
  "cleaned lib root ids sysfs v h x \<equiv>
     within (anchors root) (controlled root sysfs) (crash_safe lib root ids sysfs v) h (clean sysfs v)"

lemma run_last:
  assumes "leaves (anchors root) (controlled root sysfs) m"
  shows "triple (untouched lib root ids sysfs v h) m (cleaned lib root ids sysfs v h) (ends lib root ids sysfs v h)"
  by (rule triple_conseq [OF stays_leaves [OF assms, of "crash_safe lib root ids sysfs v" h "\<lambda>w. w = v", unfolded stays_def]])
    (auto intro: untouched_ends elim: within_mono simp: clean_def)

lemma triple_if:
  "(b \<Longrightarrow> triple P m Q E) \<Longrightarrow> (\<not> b \<Longrightarrow> triple P m' Q E) \<Longrightarrow> triple P (if b then m else m') Q E"
  by simp

lemma triple_tame:
  assumes "tame m" "triple P m Q E" "\<And>e s. E e s \<Longrightarrow> \<not> is_some_and e workload_error \<Longrightarrow> E' e s"
  shows "triple P m Q E'"
proof -
  have "\<not> workload_error e" if "m s = (Err e, s')" for s e s'
    using assms(1) that by (auto simp: tame_def dest!: spec [of _ s])
  with assms(2,3) show ?thesis
    unfolding triple_def by (fastforce simp: is_some_and_def split: prod.splits answer.splits)
qed

lemma run_journalled:
  assumes "faithful lib" "p \<in> journals root ids" "valid_operation_id oid" "apart root sysfs" "no_seams h"
    and "sysfs_root r = sysfs" "state_root r = root" "last p = oid @ ''.json''"
  shows "triple (untouched lib root ids sysfs v h)
    (bind (journalled_run lib r p oid req watch) report_outcome)
    (cleaned lib root ids sysfs v h) (ends lib root ids sysfs v h)"
proof (rule triple_bind)
  show "triple (untouched lib root ids sysfs v h) (journalled_run lib r p oid req watch)
      (cleaned lib root ids sysfs v h) (ends lib root ids sysfs v h)"
    using step_journalled_run [OF assms, of v req watch] unfolding step_ok_def
    by (rule triple_tame [OF tame_journalled_run]) (auto simp: ends_def elim: within_mono)
  show "triple (cleaned lib root ids sysfs v h x) (report_outcome ended)
      (cleaned lib root ids sysfs v h) (ends lib root ids sysfs v h)" for x :: Outcome and ended
    by (rule triple_conseq [OF stays_leaves [OF leaves_replay(2), of _ _ "crash_safe lib root ids sysfs v" h
          "clean sysfs v", unfolded stays_def]]) (auto simp: ends_def elim: within_mono)
qed

lemma stays_accept_build:
  assumes "no_seams h" "valid_operation_id oid"
    and "p = join root (oid @ ''.receipt'')" "q = join root (oid @ ''.executable'')"
  shows "stays A (controlled root sysfs) safe h now (accept_build lib r receipt hash p q)"
proof -
  have seam: "variables h ''BENCHCTL_TEST_EXECUTABLE_SNAPSHOT_READY'' = None"
    using assms(1) by (simp add: no_seams_def)
  have "stays A (controlled root sysfs) safe h now (pause_after_executable_snapshot_for_test x)" for x
    unfolding pause_after_executable_snapshot_for_test_def
    by (cases "is_real_root x", simp add: stays_leaves keeps, simp only: if_False, rule stays_host,
        simp add: seam stays_leaves keeps)
  then show ?thesis
    unfolding accept_build_def assms(3,4)
    by (intro stays_bind [OF stays_leaves] keeps foreign_snapshots [OF assms(2)])
qed

lemma triple_journal_path:
  "triple P (journal_path root oid)
     (\<lambda>p s. valid_operation_id oid \<and> p = root @ [oid @ ''.json''] \<and> P s) (\<lambda>_. P)"
  unfolding journal_path_def
  by (rule triple_bind [where R = "\<lambda>_ s. valid_operation_id oid \<and> P s"])
    (auto intro!: triple_guard triple_return simp: journals_path)

lemma run_journal_path:
  assumes "\<And>p. valid_operation_id oid \<Longrightarrow> p = root @ [oid @ ''.json'']
      \<Longrightarrow> triple (untouched lib root ids sysfs v h) (k p) Q (ends lib root ids sysfs v h)"
  shows "triple (untouched lib root ids sysfs v h) (bind (journal_path root oid) k) Q (ends lib root ids sysfs v h)"
proof (rule triple_bind)
  show "triple (untouched lib root ids sysfs v h) (journal_path root oid)
      (\<lambda>p s. (valid_operation_id oid \<and> p = root @ [oid @ ''.json'']) \<and> untouched lib root ids sysfs v h s)
      (ends lib root ids sysfs v h)"
    by (rule triple_conseq [OF triple_journal_path [of "untouched lib root ids sysfs v h"]])
      (auto intro: untouched_ends)
qed (rule triple_pure, simp add: assms)

lemma run_fresh:
  assumes "faithful lib" "apart root sysfs" "no_seams h" "sysfs_root r = sysfs" "state_root r = root"
    and "valid_operation_id oid" "p = root @ [oid @ ''.json'']" "oid \<in> ids"
  shows "triple (untouched lib root ids sysfs v h)
    (bind (require_no_unfinished_journal lib root) (\<lambda>_. bind (client_watch x) (\<lambda>watch.
     bind (accept_build lib r receipt hash (join root (oid @ ''.receipt'')) (join root (oid @ ''.executable''))) (\<lambda>_.
     bind (journalled_run lib r p oid req watch) report_outcome))))
    (cleaned lib root ids sysfs v h) (ends lib root ids sysfs v h)"
proof (rule run_then [OF leaves_selection(3)], rule run_then [OF leaves_client_watch],
    rule run_then_stays [OF stays_accept_build [OF assms(3,6) refl refl]])
  have "p \<in> journals root ids" "last p = oid @ ''.json''"
    using journals_path(2) [OF assms(6)] assms(7,8) by simp_all
  then show "triple (untouched lib root ids sysfs v h)
      (bind (journalled_run lib r p oid req watch) report_outcome)
      (cleaned lib root ids sysfs v h) (ends lib root ids sysfs v h)" for watch
    by (rule run_journalled [OF assms(1) _ assms(6,2-5)])
qed

text \<open>The identities a run may have: the requested one, or any.\<close>

definition operation_ids :: "RunRequest \<Rightarrow> string set" where
  "operation_ids r = (case run_operation_id r of Some oid \<Rightarrow> {oid} | None \<Rightarrow> UNIV)"

lemma run_operation:
  assumes "\<And>oid. oid \<in> operation_ids r
      \<Longrightarrow> triple (untouched lib root ids sysfs v h) (k oid) Q (ends lib root ids sysfs v h)"
  shows "triple (untouched lib root ids sysfs v h)
    (bind (case run_operation_id r of Some x \<Rightarrow> return_io x | None \<Rightarrow> new_operation_id) k) Q
    (ends lib root ids sysfs v h)"
proof (cases "run_operation_id r")
  case None
  then show ?thesis
    by (simp only: option.case) (rule run_then [OF leaves_actors(3) assms], simp add: operation_ids_def)
next
  case (Some oid)
  have "bind (return_io oid) k = k oid" by (simp add: bind_def return_io_def fun_eq_iff)
  with Some assms [of oid] show ?thesis by (simp add: operation_ids_def)
qed

lemma run_coordinate:
  assumes "faithful lib" "apart root sysfs" "no_seams h" "sysfs_root r0 = sysfs" "state_root r0 = root"
    and "operation_ids r0 = ids"
  shows "triple (untouched lib root ids sysfs v h) (coordinate_run lib r0)
    (cleaned lib root ids sysfs v h) (ends lib root ids sysfs v h)"
proof -
  define r where "r = r0\<lparr>run_cpus := remdups_adj (sort (run_cpus r0))\<rparr>"
  have r: "sysfs_root r = sysfs" "state_root r = root" by (simp_all add: r_def assms)
  have ids: "operation_ids r = ids" using assms(6) by (simp add: r_def operation_ids_def)
  show ?thesis
    unfolding coordinate_run_def Let_def r_def [symmetric] r
    by (intro run_then [OF leaves_trivial(5)] run_then [OF leaves_create_dir_all] run_then [OF leaves_lock(3)]
        run_then [OF leaves_lock_for] run_then [OF leaves_require_inactive] run_then [OF leaves_actors(2)]
        run_then [OF leaves_Receipt(8)] run_then [OF leaves_Receipt(7)] run_then [OF leaves_Receipt(2)]
        run_operation run_journal_path
        run_then [OF leaves_path_exists] triple_if run_last [OF leaves_existing] run_fresh [OF assms(1-3) r])
      (simp_all add: ids)
qed

section \<open>Properties\<close>

lemma crash_safe_cong:
  assumes "crash_safe lib root ids sysfs v w" "\<And>p. p \<in> controlled root sysfs \<Longrightarrow> x p = w p"
    and "\<And>p. p \<in> controlled root sysfs \<Longrightarrow> u p = v p"
  shows "crash_safe lib root ids sysfs u x"
proof -
  have idle: "x q = w q" "u q = v q" if "q \<in> idle_controls sysfs" for q
    using assms(2,3) that by (simp_all add: controlled_def)
  have jour: "x p = w p" "u p = v p" if "p \<in> journals root ids" for p
    using assms(2,3) journals_controlled [OF that] by simp_all
  have acc: "accounts_for sysfs u es x" if "accounts_for sysfs v es w" for es
    using that idle by (auto simp: accounts_for_def inventoried_def list_all_iff)
  have "originals es x" if "accounts_for sysfs v es w" "originals es w" for es
    using that idle(1) accounts_idle [OF that(1)] by (auto simp: originals_def)
  with assms(1) idle jour acc show ?thesis
    unfolding crash_safe_def by (metis (no_types, lifting) Un_iff)
qed

lemma untouched_start:
  assumes "undisturbed (anchors root) (controlled root sysfs) s"
  shows "untouched lib root ids sysfs (content (nodes s)) (host s) s"
  using assms unfolding undisturbed_def
  by (intro within_start) (auto simp: crash_safe_def)

lemma within_history:
  assumes "within (anchors root) (controlled root sysfs) (crash_safe lib root ids sysfs v) h now s"
    and "ns \<in> set (history s)"
  shows "crash_safe lib root ids sysfs v (content ns)"
  using assms(1)
proof (rule within_end)
  assume "\<And>ns. ns \<in> set (history s) \<Longrightarrow>
      \<exists>w. crash_safe lib root ids sysfs v w \<and> (\<forall>p\<in>controlled root sysfs. content ns p = w p)"
  with assms(2) obtain w where "crash_safe lib root ids sysfs v w"
    "\<And>p. p \<in> controlled root sysfs \<Longrightarrow> content ns p = w p" by blast
  then show ?thesis by (rule crash_safe_cong) simp_all
qed

lemma run_coordinate_ends:
  assumes "faithful lib" "apart (state_root r) (sysfs_root r)" "no_seams (host s)"
    and "undisturbed (anchors (state_root r)) (controlled (state_root r) (sysfs_root r)) s"
    and "coordinate_run lib r s = (result, s')"
  obtains now where
    "within (anchors (state_root r)) (controlled (state_root r) (sysfs_root r))
       (crash_safe lib (state_root r) (operation_ids r) (sysfs_root r) (content (nodes s))) (host s) now s'"
    "\<And>w. now w \<Longrightarrow> result = Ok () \<or> (\<exists>m. result = Err (Workload m))
       \<Longrightarrow> clean (sysfs_root r) (content (nodes s)) w"
proof (cases result)
  case (Ok x)
  with assms(5) tripleD(1) [OF run_coordinate [OF assms(1-3) refl refl refl] untouched_start [OF assms(4)]]
  show ?thesis by (intro that [of "clean (sysfs_root r) (content (nodes s))"]) auto
next
  case (Err e)
  with assms(5) tripleD(2) [OF run_coordinate [OF assms(1-3) refl refl refl] untouched_start [OF assms(4)]]
  show ?thesis
    by (intro that [of "\<lambda>w. workload_error e \<longrightarrow> clean (sysfs_root r) (content (nodes s)) w"])
      (auto simp: ends_def is_some_and_def)
next
  case Asleep
  with assms(5) tripleD(3) [OF run_coordinate [OF assms(1-3) refl refl refl] untouched_start [OF assms(4)]]
  show ?thesis by (intro that [of "\<lambda>_. True"]) (auto simp: ends_def elim: within_mono)
qed

lemma sample_apart: "apart (state_root sample_run) (sysfs_root sample_run)"
  by (simp add: apart_def sample_run_def sample_sysfs_def)

lemma sample_no_seams: "no_seams (host (sample_system sample_host ns))"
  by (simp add: no_seams_def sample_system_def sample_host_def variables_def)

lemma operation_file_plain: "valid_operation_id oid \<Longrightarrow> oid @ x \<noteq> ''.''" "valid_operation_id oid \<Longrightarrow> oid @ x \<noteq> ''..''"
  by (auto simp: valid_operation_id_def is_ascii_alphanumeric_def byte_in_def append_eq_Cons_conv)

lemma sample_undisturbed:
  "undisturbed (anchors (state_root sample_run)) (controlled (state_root sample_run) (sysfs_root sample_run))
     (sample_system sample_host (sample_nodes b2))"
proof -
  have "plain (sample_nodes b2) p"
    if "p \<in> anchors (state_root sample_run) \<union> controlled (state_root sample_run) (sysfs_root sample_run)" for p
    using that operation_file_plain
    by (intro no_links_plain [OF sample_nodes_no_links])
      (auto simp: anchors_def controlled_def journals_def idle_controls_def sample_run_def
        sample_sysfs_def is_absolute_def root_dir_def)
  then show ?thesis
    by (simp add: undisturbed_def sample_system_def quiet_def sample_host_def)
qed

text \<open>C6: Write-ahead and crash safety. Whatever calls fail and however a run ends, in every state
  the file system passes through, either no idle state has been changed or a journal on disk lists
  every changed one with the value it had before the run, and that journal says restored only if
  the values are back.\<close>

theorem coordinate_run_crash_safe:
  assumes "faithful lib" "apart (state_root r) (sysfs_root r)" "no_seams (host s)"
    and "undisturbed (anchors (state_root r)) (controlled (state_root r) (sysfs_root r)) s"
  shows "list_all (\<lambda>ns. crash_safe lib (state_root r) (operation_ids r) (sysfs_root r) (content (nodes s)) (content ns))
    (history (snd (coordinate_run lib r s)))"
proof -
  obtain result s' where "coordinate_run lib r s = (result, s')" by fastforce
  with run_coordinate_ends [OF assms this] within_history show ?thesis
    unfolding list_all_iff by (metis snd_conv)
qed

theorem coordinate_run_crash_safe_witness:
  "list_all (\<lambda>ns. crash_safe sample_library [root_dir, ''r''] {''a''} sample_sysfs (content (sample_nodes ''1'')) (content ns))
    (history (snd (coordinate_run sample_library sample_run (sample_system sample_host (sample_nodes ''1'')))))"
  using coordinate_run_crash_safe [OF sample_faithful sample_apart sample_no_seams sample_undisturbed]
  by (simp add: sample_run_def sample_system_def operation_ids_def)

text \<open>C7: A run that exits with code 0 or 1, that is with success or with the workload's failure, has
  put every idle state it changed back to the value it had before; every other end is reported with
  code 2.\<close>

theorem coordinate_run_restores:
  assumes "faithful lib" "apart (state_root r) (sysfs_root r)" "no_seams (host s)"
    and "undisturbed (anchors (state_root r)) (controlled (state_root r) (sysfs_root r)) s"
    and "coordinate_run lib r s = (result, s')"
  shows "clean (sysfs_root r) (content (nodes s)) (content (nodes s'))
    \<or> map_option snd (run_from result) \<in> {Some 2, None}"
proof (cases "map_option snd (run_from result) \<in> {Some 2, None}")
  case False
  then have "result = Ok () \<or> (\<exists>m. result = Err (Workload m))"
    by (cases result) (auto simp: run_from_status exit_code_cases split: BenchError.splits)
  with run_coordinate_ends [OF assms] show ?thesis
    by (metis (no_types, lifting) within_end clean_def controlled_def UnCI)
qed blast

theorem coordinate_run_restores_witness:
  "\<exists>result s'. coordinate_run sample_library sample_run (sample_system sample_host (sample_nodes ''1'')) = (result, s')
     \<and> (clean sample_sysfs (content (sample_nodes ''1'')) (content (nodes s'))
         \<or> map_option snd (run_from result) \<in> {Some 2, None})"
proof -
  obtain result s' where
    run: "coordinate_run sample_library sample_run (sample_system sample_host (sample_nodes ''1'')) = (result, s')"
    by fastforce
  with coordinate_run_restores [OF sample_faithful sample_apart sample_no_seams sample_undisturbed run]
  show ?thesis by (simp add: sample_run_def sample_system_def)
qed

end
