(* ===== verification/Calm.thy ===== *)
theory Calm
  imports Files_Logic
begin

text \<open>
  A calm host: no call fails and no other process writes. On it the calls have the results the
  file system alone determines, which the collection \<open>calm_calls\<close> gives as rewrite rules. The
  state after a call differs from the one before only in the counters, unless the call writes.
\<close>

named_theorems calm_calls

definition calm :: "host \<Rightarrow> bool" where
  "calm h = (\<forall>n. fault h n = None \<and> outside h n = [])"

lemma calmD: "calm h \<Longrightarrow> fault h n = None" "calm h \<Longrightarrow> outside h n = []"
  by (simp_all add: calm_def)

lemma enter_calm [simp]:
  assumes "calm (host s)"
  shows "nodes (enter s) = nodes s" "history (enter s) = history s" "stdout (enter s) = stdout s"
    "commands (enter s) = commands s"
  using assms by (simp_all add: enter_def calmD Let_def)

lemma locate_enter [simp]:
  "calm (host s) \<Longrightarrow> locate (enter s) p = locate s p"
  "calm (host s) \<Longrightarrow> locate_parent (enter s) p = locate_parent s p"
  by (simp_all add: locate_def locate_parent_def)

lemma call_calm [calm_calls]:
  "calm (host s) \<Longrightarrow> call_as as_error body s = body (calls s) (enter s)"
  "calm (host s) \<Longrightarrow> call operation body s = body (calls s) (enter s)"
  by (simp_all add: call_def call_as_def calmD)

lemma bind_ok [calm_calls]: "m s = (Ok x, t) \<Longrightarrow> bind m k s = k x t"
  by (simp add: bind_def)

lemma bind_err [calm_calls]: "m s = (Err e, t) \<Longrightarrow> bind m k s = (Err e, t)"
  by (simp add: bind_def)

lemma nop_calm [calm_calls]: "calm (host s) \<Longrightarrow> nop operation s = (Ok (), enter s)"
  by (simp add: nop_def calm_calls return_io_def)

lemma fs_read_calm [calm_calls]:
  assumes "calm (host s)"
  shows "file_content (lookup (nodes s) (locate s p)) = Some c \<Longrightarrow> fs_read operation p s = (Ok c, enter s)"
  using assms by (simp add: fs_read_def calm_calls Let_def)

lemma path_exists_calm [calm_calls]:
  "calm (host s) \<Longrightarrow> path_exists p s = (Ok (lookup (nodes s) (locate s p) \<noteq> None), enter s)"
  by (simp add: path_exists_def calmD)

lemma persist_calm [calm_calls]:
  assumes "calm (host s)" "locate_parent s p = Some t" "\<not> is_directory (map_of (nodes s) t)"
  shows "persist operation p c s =
    (Ok (), put_nodes (AList.update t (new_file s c 384) (nodes s)) (enter s))"
  using assms by (simp add: persist_def calm_calls new_file_def)

lemma put_nodes_fields [simp]:
  "nodes (put_nodes ns s) = ns" "calls (put_nodes ns s) = calls s" "stdout (put_nodes ns s) = stdout s"
  "commands (put_nodes ns s) = commands s"
  by (simp_all add: put_nodes_def)

end
