(* ===== verification/Durability.thy ===== *)
theory Durability
  imports Calm Sample
begin

text \<open>
  What reaches the disk: the crash-safe write refines an atomic register, a journal comes back as
  it was stored, and only well-formed journals are stored and loaded.
\<close>

lemma sample_calm_path:
  "undisturbed {} {sample_journal_path} (sample_system sample_host (sample_nodes b2))"
  using no_links_plain [OF sample_nodes_no_links, of sample_journal_path b2]
  by (simp add: undisturbed_def sample_system_def quiet_def sample_host_def sample_journal_path_def
      is_absolute_def root_dir_def)

section \<open>The crash-safe write as an atomic register\<close>

text \<open>The contents of some paths, which is all the abstract register sees of the file system.\<close>

definition visible :: "path set \<Rightarrow> nodes \<Rightarrow> path \<Rightarrow> string option" where
  "visible C ns = (\<lambda>q. if q \<in> C then content ns q else None)"

text \<open>
  Writing an abstract register: the new contents are there if the write is reported as done, and
  otherwise the old or the new ones.
\<close>

definition register_write ::
    "path \<Rightarrow> string \<Rightarrow> (path \<Rightarrow> string option) \<Rightarrow> bool \<Rightarrow> (path \<Rightarrow> string option) \<Rightarrow> bool" where
  "register_write p c v done w = (w = v(p := Some c) \<or> \<not> done \<and> w = v)"

text \<open>What a program publishes at a path, and every state on the way shows.\<close>

definition published :: "path set \<Rightarrow> path \<Rightarrow> string \<Rightarrow> system \<Rightarrow> unit answer \<times> system \<Rightarrow> bool" where
  "published C p c s = (\<lambda>(r, t).
     register_write p c (visible C (nodes s)) (r = Ok ()) (visible C (nodes t))
     \<and> list_all (\<lambda>ns. visible C ns \<in> {visible C (nodes s), (visible C (nodes s))(p := Some c)}) (history t))"

text \<open>A record is published as the text it is serialised to, and nothing is done without one.\<close>

definition record_published ::
    "path set \<Rightarrow> path \<Rightarrow> string + string \<Rightarrow> system \<Rightarrow> unit answer \<times> system \<Rightarrow> bool" where
  "record_published C p encoded s out =
     (case encoded of Inr c \<Rightarrow> published C p c s out | Inl _ \<Rightarrow> fst out \<noteq> Ok () \<and> snd out = s)"

locale publisher =
  fixes publish :: "path \<Rightarrow> string \<Rightarrow> unit io"
  assumes publishes: "undisturbed {} C s \<Longrightarrow> p \<in> C \<Longrightarrow> published C p c s (publish p c s)"
begin

lemma publishes_checked:
  assumes "undisturbed {} C s" "p \<in> C" "check s = (x, s)"
  shows "record_published C p encoded s (bind check (\<lambda>_. bind (json operation encoded) (publish p)) s)"
proof (cases encoded)
  case Inl
  with assms(3) show ?thesis
    by (cases x) (simp_all add: record_published_def bind_def json_def fail_io_def)
next
  case (Inr c)
  have "history s = []" using assms(1) by (simp add: undisturbed_def)
  with publishes [OF assms(1,2), of c] assms(3) Inr show ?thesis
    by (cases x) (simp_all add: record_published_def bind_def json_def return_io_def published_def register_write_def)
qed

lemma publishes_record:
  assumes "undisturbed {} C s" "p \<in> C"
  shows "record_published C p encoded s (bind (json operation encoded) (publish p) s)"
  using publishes_checked [OF assms, of "return_io ()" "Ok ()"] by (simp add: bind_def return_io_def)

end

lemma visible_same: "views A C u ns \<Longrightarrow> \<forall>q. q \<notin> C \<longrightarrow> u q = None \<Longrightarrow> visible C ns = u"
  by (auto simp: visible_def views_def)

lemma admits_visible: "\<forall>q. q \<notin> C \<longrightarrow> u q = None \<Longrightarrow> u \<in> U \<Longrightarrow> admits A C u (\<lambda>ns. visible C ns \<in> U)"
  by (auto simp: admits_def dest: visible_same)

lemma atomic_write_published:
  assumes "undisturbed {} C s" "p \<in> C"
  shows "published C p c s (atomic_write p c s)"
proof -
  obtain r t where run: "atomic_write p c s = (r, t)" by fastforce
  let ?v = "visible C (nodes s)" and ?w = "(visible C (nodes s))(p := Some c)"
  let ?Q = "\<lambda>ns. visible C ns \<in> {?v, ?w}"
  have out: "\<forall>q. q \<notin> C \<longrightarrow> ?v q = None" "\<forall>q. q \<notin> C \<longrightarrow> ?w q = None"
    using assms(2) by (auto simp: visible_def)
  have start: "frame {} C ?v ?Q (host s) s"
    using assms(1) by (auto simp: undisturbed_def frame_def views_def visible_def)
  have adm: "admits {} C ?v ?Q" "admits {} C ?w ?Q"
    by (rule admits_visible, use out in blast, blast)+
  have ends: "frame {} C ?w ?Q (host s) t \<or> r \<noteq> Ok () \<and> frame {} C ?v ?Q (host s) t"
    using tripleD [OF triple_atomic_write [OF assms(2) adm, where h = "host s"] start] run
    by (cases r) auto
  then have "visible C (nodes t) = ?w \<or> r \<noteq> Ok () \<and> visible C (nodes t) = ?v"
    using visible_same [OF _ out(1)] visible_same [OF _ out(2)] unfolding frame_def by metis
  moreover have "list_all ?Q (history t)"
    using ends unfolding frame_def list_all_iff by metis
  ultimately show ?thesis unfolding run published_def register_write_def prod.case by metis
qed

interpretation state_file: publisher atomic_write
  by unfold_locales (rule atomic_write_published)



section \<open>The crash-safe write of a bare file name\<close>

text \<open>C40: A path that is only a file name is written, and the write is reported as failed: the parent of
  such a path is the empty path, which cannot be opened to make the directory durable.\<close>

theorem atomic_write_bare_name:
  assumes "calm (host s)" "f \<notin> {root_dir, ''..'', ''.''}"
    and "plain (nodes s) (working_directory (host s) @ [f])"
    and "\<not> is_directory (map_of (nodes s) (working_directory (host s) @ [f]))"
  shows "fst (atomic_write [f] c s) = Err (Io ''syncing state directory'' NotFound)
    \<and> content (nodes (snd (atomic_write [f] c s))) (working_directory (host s) @ [f]) = Some c"
proof -
  let ?p = "working_directory (host s) @ [f]"
  have f: "file_name [f] = Some f" "file_name ?p = Some f" "parent_dir [f] = Some []"
    "\<not> is_absolute [f]" "join_path (working_directory (host s)) [f] = ?p"
    using assms(2) by (simp_all add: file_name_def parent_dir_def is_absolute_def join_path_def)
  have loc: "locate_parent u [f] = Some ?p" if "host u = host s" "nodes u = nodes s" for u
    using that f plain_parent [OF assms(3)] by (simp add: locate_parent_def)
  define s3 where "s3 = enter (enter (enter s))"
  have s3: "calm (host s3)" "nodes s3 = nodes s" "host s3 = host s"
    using assms(1) by (simp_all add: s3_def)
  have "atomic_write [f] c s =
      bind (persist ''publishing state'' [f] c)
        (\<lambda>_. fail_io (Io ''syncing state directory'' NotFound)) s3"
    using assms(1) by (simp add: atomic_write_def f unless_none_def guard_io_def return_io_def bind_def
        nop_calm s3_def)
  also have "\<dots> = (Err (Io ''syncing state directory'' NotFound),
      put_nodes (AList.update ?p (new_file s3 c 384) (nodes s)) (enter s3))"
    using persist_calm [OF s3(1) loc [OF s3(3,2)]] assms(4) s3 by (simp add: bind_def fail_io_def)
  finally show ?thesis
    using content_update_same [OF assms(3), of c "new_file s3 c 384"]
    by (simp add: new_file_def)
qed

theorem atomic_write_bare_name_witness:
  "fst (atomic_write [''n''] ''c'' (sample_system sample_host (sample_nodes ''1'')))
     = Err (Io ''syncing state directory'' NotFound)"
proof -
  let ?s = "sample_system sample_host (sample_nodes ''1'')"
  have "calm (host ?s)" "working_directory (host ?s) = [root_dir]"
    by (simp_all add: sample_system_def sample_host_def calm_def)
  moreover have "plain (nodes ?s) [root_dir, ''n'']"
    unfolding sample_system_def system.simps
    by (rule no_links_plain [OF sample_nodes_no_links]) (simp_all add: is_absolute_def root_dir_def)
  moreover have "map_of (nodes ?s) [root_dir, ''n''] = None"
    by (simp add: sample_system_def sample_nodes_def sample_state_def sample_dir_def sample_file_def
        sample_sysfs_def root_dir_def Let_def)
  ultimately show ?thesis
    using atomic_write_bare_name [of ?s "''n''" "''c''"] by (simp add: is_directory_def root_dir_def)
qed

section \<open>Journals on disk\<close>

lemma load_recorded:
  assumes "frame A C v Q h s" "admits A C v Q" "p \<in> C" "v p = Some bytes"
    and "journal_from_slice lib bytes = Inr j" "valid_journal lib j"
  shows "case load lib p s of (Ok j', _) \<Rightarrow> j' = j | (Err e, _) \<Rightarrow> \<exists>x. e = Io ''reading journal'' x | (Asleep, _) \<Rightarrow> False"
proof -
  have fr: "frame A C v Q h (enter s)" using frame_enter [OF assms(1,2)] .
  have "file_content (lookup (nodes (enter s)) (locate (enter s) p)) = Some bytes"
    using fr frame_locate [OF fr] assms(3,4) by (auto simp: frame_def views_def content_plain lookup_def)
  then have "fs_read ''reading journal'' p s =
      (case fault (host s) (calls s) of
         Some x \<Rightarrow> (Err (Io ''reading journal'' x), enter s)
       | None \<Rightarrow> (Ok bytes, enter s))"
    by (cases "fault (host s) (calls s)") (simp_all add: fs_read_def call_def call_as_def Let_def)
  then show ?thesis
    using assms(5,6)
    by (simp add: load_def bind_def json_def return_io_def validate_valid split: option.split)
qed

text \<open>C38: What is stored is what is loaded. After a journal has been stored at a path that other
  processes leave alone, loading the path gives that journal, unless the reading itself fails; and
  only a well-formed journal is stored.\<close>

theorem store_load_roundtrip:
  assumes "faithful lib" "undisturbed {} {p} s"
  shows "case store lib p j s of
      (Ok _, t) \<Rightarrow> valid_journal lib j \<and>
        (case load lib p t of
           (Ok j', _) \<Rightarrow> j' = j
         | (Err e, _) \<Rightarrow> \<exists>x. e = Io ''reading journal'' x
         | (Asleep, _) \<Rightarrow> False)
    | _ \<Rightarrow> True"
proof -
  let ?Q = "\<lambda>_. True"
  have start: "frame {} {p} (content (nodes s)) ?Q (host s) s"
    using assms(2) by (auto simp: undisturbed_def frame_def views_def)
  have adm: "admits {} {p} u ?Q" for u by (simp add: admits_def)
  have stored: "journalled lib p j {} {p} (content (nodes s)) ?Q (host s) t"
    if "store lib p j s = (Ok x, t)" for x t
    using tripleD(1) [OF triple_store [OF _ adm adm] start that] by simp
  have "valid_journal lib j \<and> (case load lib p t of (Ok j', _) \<Rightarrow> j' = j
      | (Err e, _) \<Rightarrow> \<exists>x. e = Io ''reading journal'' x | (Asleep, _) \<Rightarrow> False)"
    if run: "store lib p j s = (Ok x, t)" for x t
  proof -
    from stored [OF run] obtain bytes where bytes: "journal_to_vec_pretty lib j = Inr bytes"
      "valid_journal lib j" "frame {} {p} ((content (nodes s))(p := Some bytes)) ?Q (host s) t"
      by (auto simp: journalled_def)
    with assms(1) have "journal_from_slice lib bytes = Inr j" by (simp add: faithful_def)
    with load_recorded [OF bytes(3) adm, of p bytes lib j] bytes(2) show ?thesis by simp
  qed
  then show ?thesis by (auto split: prod.split answer.split)
qed

theorem store_load_roundtrip_witness:
  "case store sample_library sample_journal_path (sample_journal Applied) (sample_system sample_host (sample_nodes ''1'')) of
      (Ok _, t) \<Rightarrow> valid_journal sample_library (sample_journal Applied) \<and>
        (case load sample_library sample_journal_path t of
           (Ok j', _) \<Rightarrow> j' = sample_journal Applied
         | (Err e, _) \<Rightarrow> \<exists>x. e = Io ''reading journal'' x
         | (Asleep, _) \<Rightarrow> False)
    | _ \<Rightarrow> True"
  by (rule store_load_roundtrip [OF sample_faithful sample_calm_path])

lemma transition_valid:
  "valid_journal lib j \<Longrightarrow> transition st a j s = (Ok j', t) \<Longrightarrow> valid_journal lib j' \<and> stage j' = st"
  by (auto simp: transition_def now_millis_def pure_io valid_journal_def stage_def split: sum.splits)

text \<open>C39: Journals are well formed wherever they come from: every journal that is created, loaded, moved
  to a further stage or accepted for storing has the supported version, at least one transition and
  the hash of its own request.\<close>

theorem journals_well_formed:
  "(case load lib p s of (Ok j, _) \<Rightarrow> valid_journal lib j | _ \<Rightarrow> True)
   \<and> (case store lib p k s of (Ok _, _) \<Rightarrow> valid_journal lib k | _ \<Rightarrow> True)
   \<and> (case Journal_new lib oid r c boot s of (Ok j, _) \<Rightarrow> valid_journal lib j \<and> stage j = Prepared | _ \<Rightarrow> True)
   \<and> (case bind (load lib p) (transition st a) s of (Ok j, _) \<Rightarrow> valid_journal lib j \<and> stage j = st | _ \<Rightarrow> True)"
proof -
  have loaded: "valid_journal lib j" if "load lib p s = (Ok j, t)" for j t
  proof -
    from that obtain u where "fst (validate lib j u) = Ok ()"
      unfolding load_def
      by (auto simp: return_io_def bind_def split: prod.splits answer.splits) (metis fst_conv)
    then show ?thesis by (simp add: validate_Ok)
  qed
  have "valid_journal lib k" if "store lib p k s = (Ok x, t)" for x t
  proof -
    from that have "fst (validate lib k s) = Ok ()"
      unfolding store_def by (auto simp: bind_def split: prod.splits answer.splits)
    then show ?thesis by (simp add: validate_Ok)
  qed
  moreover have "valid_journal lib j \<and> stage j = Prepared"
    if "Journal_new lib oid r c boot s = (Ok j, t)" for j t
    using that by (auto simp: Journal_new_def Request_digest_cases now_millis_def pure_io valid_journal_def
        stage_def split: sum.splits)
  moreover have "valid_journal lib j \<and> stage j = st"
    if "bind (load lib p) (transition st a) s = (Ok j, t)" for j t
    using that loaded transition_valid by (fastforce simp: bind_def split: prod.splits answer.splits)
  ultimately show ?thesis using loaded by (auto split: prod.split answer.split)
qed

end
