(* ===== verification/Recovery.thy ===== *)
theory Recovery
  imports Crash_Safety Durability
begin

text \<open>
  Recovery: the command that undoes an interrupted run starts from any state such a run, or an
  earlier interrupted recovery, can leave behind, keeps to safe states itself, and reports success
  only when every idle state is back.
\<close>

section \<open>One journal\<close>

text \<open>The journal of the interrupted run, read in a safe state.\<close>

lemma crash_safe_journal:
  assumes "crash_safe lib root {oid} sysfs v w" "p = root @ [oid @ ''.json'']" "valid_operation_id oid"
    and "v p = None" "recorded lib (w p) = Some j"
  shows "on_file p (entries j) j" "accounts_for sysfs v (entries j) w"
    "stage j = Restored \<longrightarrow> originals (entries j) w"
proof -
  have only: "q \<in> journals root {oid} \<longleftrightarrow> q = p" for q
    using assms(2,3) by (auto simp: journals_def)
  have "w p \<noteq> v p" using assms(4,5) by (auto simp: recorded_def split: option.splits)
  with assms(1,5) have "on_file p (entries j) j \<and> accounts_for sysfs v (entries j) w
      \<and> (stage j = Restored \<longrightarrow> originals (entries j) w)"
    unfolding crash_safe_def by (auto simp: only)
  then show "on_file p (entries j) j" "accounts_for sysfs v (entries j) w"
    "stage j = Restored \<longrightarrow> originals (entries j) w" by auto
qed

lemma step_undo_recorded:
  assumes "faithful lib" "p \<in> journals root ids" "apart root sysfs" "on_file p es j" "stage j \<noteq> Restored"
  shows "step_ok (anchors root) (controlled root sysfs) (crash_safe lib root ids sysfs v) h
    (underway lib p sysfs v es)
    (bind (reconcile_runtime_outcome lib root p j) (\<lambda>j. bind (restore lib sysfs p j) (\<lambda>_.
     bind (cleanup_runtime root (operation_id j)) (\<lambda>_. print_line (operation_id j @ l)))))
    (\<lambda>_. clean sysfs v)"
    (is "step_ok ?A ?C ?safe h ?U _ ?post")
proof (rule step_bind [OF step_reconcile [OF assms(1,2,4,5)]])
  fix j'
  show "step_ok ?A ?C ?safe h (\<lambda>w. ?U w \<and> on_file p es j' \<and> stage j' = stage j)
      (bind (restore lib sysfs p j') (\<lambda>_. bind (cleanup_runtime root (operation_id j'))
        (\<lambda>_. print_line (operation_id j' @ l)))) ?post"
  proof (rule step_pure [where b = "on_file p es j'"], simp)
    assume j': "on_file p es j'"
    show ?thesis
    proof (rule step_bind)
      show "step_ok ?A ?C ?safe h (\<lambda>w. ?U w \<and> on_file p es j' \<and> stage j' = stage j)
          (restore lib sysfs p j') ?post"
        by (rule step_conseq [OF step_restore_run [OF assms(1,2) j']]) (auto simp: underway_accounts)
      show "step_ok ?A ?C ?safe h (clean sysfs v) (bind (cleanup_runtime root (operation_id j'))
          (\<lambda>_. print_line (operation_id j' @ l))) ?post"
        by (rule step_then [OF cleanup_leaves [OF on_file_operation(1) [OF assms(2) j'] assms(3)]],
            rule step_leaves [OF leaves_print])
    qed
  qed
qed

lemma step_recover_journal:
  assumes "faithful lib" "apart root sysfs" "valid_operation_id oid" "p = root @ [oid @ ''.json'']" "v p = None"
  shows "step_ok (anchors root) (controlled root sysfs) (crash_safe lib root {oid} sysfs v) h
    (\<lambda>_. True) (recover_journal lib sysfs root p) (\<lambda>_. clean sysfs v)"
    (is "step_ok ?A ?C ?safe h _ _ ?post")
proof -
  have p: "p \<in> journals root {oid}" using assms(3,4) by (simp add: journals_path)
  have body: "step_ok ?A ?C ?safe h (\<lambda>w. True \<and> recorded lib (w p) = Some j \<and> valid_journal lib j)
     (if stage j = Restored
      then bind (cleanup_runtime root (operation_id j)) (\<lambda>_. print_line (operation_id j @ '': AlreadyRestored''))
      else bind boot_id (\<lambda>boot. bind (guard_io (journal_boot_id j = boot) e) (\<lambda>_.
        bind (reconcile_runtime_outcome lib root p j) (\<lambda>j. bind (restore lib sysfs p j) (\<lambda>_.
        bind (cleanup_runtime root (operation_id j)) (\<lambda>_. print_line (operation_id j @ '': restored'')))))))
     ?post" (is "step_ok ?A ?C ?safe h ?now _ ?post") for j e
  proof (rule step_pure [where b = "on_file p (entries j) j"])
    show "on_file p (entries j) j" if "?now w" "?safe w" for w
      using crash_safe_journal(1) [OF that(2) assms(4,3,5)] that(1) by simp
    assume named: "on_file p (entries j) j"
    have restd: "clean sysfs v w" if "?safe w" "?now w" "stage j = Restored" for w
      using crash_safe_journal(2,3) [OF that(1) assms(4,3,5)] that(2,3) by (auto intro: originals_clean)
    have under: "underway lib p sysfs v (entries j) w" if "?safe w" "?now w" "stage j \<noteq> Restored" for w
      using crash_safe_journal(2) [OF that(1) assms(4,3,5)] that(2,3) named by (auto simp: underway_def)
    show ?thesis
    proof (rule step_if)
      assume "stage j = Restored"
      then show "step_ok ?A ?C ?safe h ?now (bind (cleanup_runtime root (operation_id j))
          (\<lambda>_. print_line (operation_id j @ '': AlreadyRestored''))) ?post"
        by (intro step_then [OF cleanup_leaves [OF on_file_operation(1) [OF p named] assms(2)]]
            step_last [OF leaves_print] restd)
    next
      assume fresh: "stage j \<noteq> Restored"
      show "step_ok ?A ?C ?safe h ?now (bind boot_id (\<lambda>boot. bind (guard_io (journal_boot_id j = boot) e) (\<lambda>_.
          bind (reconcile_runtime_outcome lib root p j) (\<lambda>j. bind (restore lib sysfs p j) (\<lambda>_.
          bind (cleanup_runtime root (operation_id j)) (\<lambda>_. print_line (operation_id j @ '': restored''))))))) ?post"
        by (rule step_then [OF leaves_Journal(8)], rule step_then [OF leaves_trivial(5)],
            rule step_conseq [OF step_undo_recorded [OF assms(1) p assms(2) named fresh]])
          (use under fresh in auto)
    qed
  qed
  show ?thesis
    unfolding recover_journal_def
    by (rule step_bind [OF step_load [OF journals_controlled [OF p]] body])
qed

section \<open>The roots\<close>

lemma roots_plain:
  assumes "views (anchors root) (controlled root sysfs) v ns"
  shows "plain ns root" "plain ns sysfs"
proof -
  have "root @ [''active.lock''] \<in> anchors root" by (simp add: anchors_def)
  moreover have "sysfs @ [''cpu'' @ show_nat 0, ''cpuidle'', ''state'' @ [], ''disable''] \<in> controlled root sysfs"
    unfolding controlled_def idle_controls_def by blast
  ultimately have *: "plain ns (root @ [''active.lock''])"
    "plain ns (sysfs @ [''cpu'' @ show_nat 0, ''cpuidle'', ''state'' @ [], ''disable''])"
    using assms by (auto simp: views_def)
  then have "root \<noteq> []" "sysfs \<noteq> []"
    by (auto simp: plain_iff is_absolute_def root_dir_def)
  with * show "plain ns root" "plain ns sysfs" by (auto intro: plain_prefix)
qed

lemma leaves_roots [keeps]:
  "leaves A C (absolute p)" "leaves A C (absolute_existing p operation)"
  "leaves A C (absolute_without_existing p)" "leaves A C (validate_production_state_root sysfs root)"
  "leaves A C (require_coordinator_privilege sysfs b)" "leaves A C (forward_status c label)"
  "leaves A C (sudo_run r)" "leaves A C (sudo_control action oid sysfs root)"
proof -
  show *: "leaves A C (absolute p)" for p
    unfolding absolute_def by (intro keeps leaves_call)
  show "leaves A C (absolute_existing p operation)" "leaves A C (absolute_without_existing p)"
    unfolding absolute_existing_def absolute_without_existing_def by (intro keeps *)+
  show "leaves A C (validate_production_state_root sysfs root)"
    "leaves A C (require_coordinator_privilege sysfs b)"
    unfolding validate_production_state_root_def require_coordinator_privilege_def by (intro keeps)+
  show **: "leaves A C (forward_status c label)" for c label
    unfolding forward_status_def by (auto intro!: keeps split: prod.split)
  show "leaves A C (sudo_run r)" "leaves A C (sudo_control action oid sysfs root)"
    unfolding sudo_run_def sudo_control_def by (intro keeps **)+
qed

lemma roots_resolved:
  assumes "within (anchors root) (controlled root sysfs) safe h now s"
  shows "absolute_existing sysfs operation s = (Ok x, t) \<Longrightarrow> x = sysfs"
    and "absolute_without_existing root s = (Ok x, t) \<Longrightarrow> x = root"
proof -
  from assms obtain w where w: "safe w" "frame (anchors root) (controlled root sysfs) w
      (secured (anchors root) (controlled root sysfs) safe) h s" by (auto simp: within_def)
  have "views (anchors root) (controlled root sysfs) w (nodes s)"
    "views (anchors root) (controlled root sysfs) w (nodes (enter s))"
    using w(2) frame_enter [OF w(2) admits_secured [of safe, OF w(1)]] by (simp_all add: frame_def)
  then have "plain (nodes s) root" "plain (nodes s) sysfs" "plain (nodes (enter s)) sysfs"
    by (blast intro: roots_plain)+
  then have abs: "absolute sysfs = return_io sysfs" "absolute root = return_io root"
    and sysfs: "locate (enter s) sysfs = Some sysfs"
    by (simp_all add: absolute_def plain_absolute locate_plain)
  show "x = sysfs" if "absolute_existing sysfs operation s = (Ok x, t)"
  proof -
    from that have "canonicalize operation sysfs s = (Ok x, t)"
      unfolding absolute_existing_def abs by (simp add: bind_def return_io_def)
    with sysfs show ?thesis
      by (auto simp: canonicalize_def call_def call_as_def split: option.splits if_splits)
  qed
  show "x = root" if "absolute_without_existing root s = (Ok x, t)"
    using that unfolding absolute_without_existing_def abs
    by (auto simp: pure_io split: if_splits)
qed

lemma triple_resolved:
  assumes "leaves A C m" "\<And>s x t. within A C safe h now s \<Longrightarrow> m s = (Ok x, t) \<Longrightarrow> x = p"
    and "triple (within A C safe h now) (k p) Q E" "\<And>e s. within A C safe h now s \<Longrightarrow> E e s"
  shows "triple (within A C safe h now) (bind m k) Q E"
proof (rule triple_bind)
  show "triple (within A C safe h now) m (\<lambda>x s. x = p \<and> within A C safe h now s) E"
    unfolding triple_def
  proof (intro allI impI)
    fix s
    assume s: "within A C safe h now s"
    obtain r t where run: "m s = (r, t)" by fastforce
    have "within A C safe h now t"
      using tripleD [OF stays_leaves [OF assms(1), unfolded stays_def] s] run by (cases r) auto
    with assms(2) [OF s] assms(4) run
    show "case m s of (Ok x, t) \<Rightarrow> x = p \<and> within A C safe h now t
        | (Err e, t) \<Rightarrow> E (Some e) t | (Asleep, t) \<Rightarrow> E None t"
      by (cases r) simp_all
  qed
qed (rule triple_pure, simp add: assms(3))

lemma triple_roots:
  assumes "\<And>e s. within (anchors root) (controlled root sysfs) safe h now s \<Longrightarrow> E e s"
  shows "triple (within (anchors root) (controlled root sysfs) safe h now) (k sysfs) Q E
    \<Longrightarrow> triple (within (anchors root) (controlled root sysfs) safe h now)
      (bind (absolute_existing sysfs operation) k) Q E"
    and "triple (within (anchors root) (controlled root sysfs) safe h now) (k root) Q E
    \<Longrightarrow> triple (within (anchors root) (controlled root sysfs) safe h now)
      (bind (absolute_without_existing root) k) Q E"
  using triple_resolved [OF leaves_roots(2), where p = sysfs] triple_resolved [OF leaves_roots(3), where p = root]
    roots_resolved assms by metis+

section \<open>The two commands\<close>

lemma step_select_one:
  "step_ok A C safe h now (select_journals lib root (Some oid) b)
     (\<lambda>ps w. now w \<and> valid_operation_id oid \<and> ps \<in> {[], [root @ [oid @ ''.json'']]})"
  unfolding select_journals_def option.case journal_path_def
proof (rule step_bind [where mid = "\<lambda>p w. now w \<and> valid_operation_id oid \<and> p = root @ [oid @ ''.json'']"])
  show "step_ok A C safe h now (bind (guard_io (valid_operation_id oid) e) (\<lambda>_. return_io (join root (oid @ ''.json''))))
      (\<lambda>p w. now w \<and> valid_operation_id oid \<and> p = root @ [oid @ ''.json''])" for e
    by (rule step_bind [OF step_guard [where post = "\<lambda>_ w. now w \<and> valid_operation_id oid"]])
      (auto intro: step_return simp: journals_path)
qed (rule step_then [OF leaves_path_exists], auto intro: step_return)

text \<open>The request to recover the operation of a run, as its coordinator.\<close>

definition recovers :: "RunRequest \<Rightarrow> ControlRequest \<Rightarrow> bool" where
  "recovers r q =
     (control_sysfs_root q = sysfs_root r \<and> control_state_root q = state_root r
       \<and> control_operation_id q = run_operation_id r
       \<and> (control_coordinator q \<or> \<not> is_real_root (sysfs_root r)))"

lemma step_recover:
  assumes "faithful lib" "apart root sysfs" "v (root @ [oid @ ''.json'']) = None"
    and "recovers r q" "sysfs_root r = sysfs" "state_root r = root" "run_operation_id r = Some oid"
  shows "step_ok (anchors root) (controlled root sysfs) (crash_safe lib root {oid} sysfs v) h
    (\<lambda>_. True) (recover lib q) (\<lambda>_. clean sysfs v)"
    (is "step_ok ?A ?C ?safe h ?now _ ?post")
proof -
  have q: "control_sysfs_root q = sysfs" "control_state_root q = root" "control_operation_id q = Some oid"
    "(is_real_root sysfs \<and> \<not> control_coordinator q) = False"
    using assms(4-7) by (auto simp: recovers_def)
  have chosen: "step_ok ?A ?C ?safe h (\<lambda>w. ?now w \<and> valid_operation_id oid \<and> ps \<in> {[], [root @ [oid @ ''.json'']]})
      (case ps of [p] \<Rightarrow> recover_journal lib sysfs root p | [] \<Rightarrow> fail_io e | _ \<Rightarrow> fail_io f) ?post" for ps e f
  proof (rule step_pure [where b = "valid_operation_id oid \<and> ps \<in> {[], [root @ [oid @ ''.json'']]}"], simp)
    assume *: "valid_operation_id oid \<and> ps \<in> {[], [root @ [oid @ ''.json'']]}"
    then consider "ps = []" | "ps = [root @ [oid @ ''.json'']]" by auto
    then show ?thesis
    proof cases
      case 1
      then show ?thesis by (simp add: step_fail)
    next
      case 2
      have "step_ok ?A ?C ?safe h ?now (recover_journal lib sysfs root (root @ [oid @ ''.json''])) ?post"
        by (rule step_recover_journal [OF assms(1,2)]) (use * assms(3) in simp_all)
      then show ?thesis unfolding 2 list.case by (rule step_conseq) simp_all
    qed
  qed
  show ?thesis
    unfolding recover_def q(1-3) step_ok_def
    by (rule triple_roots, erule within_mono, simp, rule triple_roots, erule within_mono, simp, fold step_ok_def,
        intro step_then [OF leaves_roots(4)] step_if step_then [OF leaves_roots(5)] step_then [OF leaves_create_dir_all]
        step_then [OF leaves_lock(3)] step_then [OF leaves_lock_for] step_then [OF leaves_require_inactive]
        step_bind [OF step_select_one chosen])
      (use q(4) in simp)
qed

lemma run_run:
  assumes "faithful lib" "apart root sysfs" "no_seams h" "sysfs_root r = sysfs" "state_root r = root"
    and "operation_ids r = ids"
  shows "triple (untouched lib root ids sysfs v h) (run lib r)
    (cleaned lib root ids sysfs v h) (ends lib root ids sysfs v h)"
proof -
  let ?r = "\<lambda>receipt. r\<lparr>receipt_path := receipt, sysfs_root := sysfs, state_root := root\<rparr>"
  have coord: "triple (untouched lib root ids sysfs v h) (coordinate_run lib (?r receipt))
      (cleaned lib root ids sysfs v h) (ends lib root ids sysfs v h)" for receipt
    by (rule run_coordinate [OF assms(1-3)]) (use assms(6) in \<open>simp_all add: operation_ids_def\<close>)
  show ?thesis
    unfolding run_def Let_def assms(4,5)
    by (intro run_then [OF leaves_roots(1)] triple_roots [OF untouched_ends] run_then [OF leaves_roots(4)] triple_if
        run_last [OF leaves_roots(7)] run_then [OF leaves_roots(5)] run_then [OF leaves_trivial(5)]) (assumption | rule coord)+
qed

section \<open>Interrupted operations\<close>

text \<open>
  The states a run leaves behind when its process dies at any point, and those that recoveries of
  it leave behind when they die too: the run starts in \<open>ns0\<close>; a recovery starts from an earlier
  state, in which files outside the controlled ones may have changed since, with any behaviour of
  the host.
\<close>

inductive interrupted :: "'m supervision_library_scheme \<Rightarrow> RunRequest \<Rightarrow> nodes \<Rightarrow> nodes \<Rightarrow> bool"
  for lib r ns0 where
  interrupted_run:
    "undisturbed (anchors (state_root r)) (controlled (state_root r) (sysfs_root r)) s \<Longrightarrow> no_seams (host s)
      \<Longrightarrow> nodes s = ns0 \<Longrightarrow> run lib r s = (x, t) \<Longrightarrow> ns \<in> set (nodes t # history t)
      \<Longrightarrow> interrupted lib r ns0 ns"
| interrupted_recovery:
    "interrupted lib r ns0 ns
      \<Longrightarrow> undisturbed (anchors (state_root r)) (controlled (state_root r) (sysfs_root r)) s
      \<Longrightarrow> (\<And>p. p \<in> controlled (state_root r) (sysfs_root r) \<Longrightarrow> content (nodes s) p = content ns p)
      \<Longrightarrow> recovers r q \<Longrightarrow> recover lib q s = (x, t) \<Longrightarrow> ns' \<in> set (nodes t # history t)
      \<Longrightarrow> interrupted lib r ns0 ns'"

lemma within_states:
  assumes "within (anchors root) (controlled root sysfs) (crash_safe lib root ids sysfs v) h now s"
    and "ns \<in> set (nodes s # history s)"
  shows "crash_safe lib root ids sysfs v (content ns)"
proof (cases "ns \<in> set (history s)")
  case True
  with within_history [OF assms(1)] show ?thesis by blast
next
  case False
  with assms(2) have "ns = nodes s" by simp
  with assms(1) show ?thesis
    by (metis within_end crash_safe_cong)
qed

lemma within_result:
  assumes "triple P m (\<lambda>_. within A C safe h now) (\<lambda>_. within A C safe h (\<lambda>_. True))" "P s" "m s = (x, t)"
  shows "within A C safe h (\<lambda>_. True) t"
  using tripleD [OF assms(1,2)] assms(3) by (cases x) (auto elim: within_mono)

lemma interrupted_run_safe:
  assumes "faithful lib" "apart (state_root r) (sysfs_root r)"
    and "undisturbed (anchors (state_root r)) (controlled (state_root r) (sysfs_root r)) s"
    and "no_seams (host s)" "run lib r s = (x, t)" "ns \<in> set (nodes t # history t)"
  shows "crash_safe lib (state_root r) (operation_ids r) (sysfs_root r) (content (nodes s)) (content ns)"
proof -
  let ?within = "within (anchors (state_root r)) (controlled (state_root r) (sysfs_root r))
    (crash_safe lib (state_root r) (operation_ids r) (sysfs_root r) (content (nodes s))) (host s)"
  have "triple (?within (\<lambda>w. w = content (nodes s))) (run lib r)
      (\<lambda>_. ?within (clean (sysfs_root r) (content (nodes s)))) (\<lambda>_. ?within (\<lambda>_. True))"
    by (rule triple_conseq [OF run_run [OF assms(1,2,4) refl refl refl, where v = "content (nodes s)"]])
      (auto simp: ends_def elim: within_mono)
  from within_result [OF this untouched_start [OF assms(3)] assms(5)] assms(6)
  show ?thesis by (rule within_states)
qed

text \<open>A recovery from a safe state.\<close>

lemma recover_ends:
  assumes "faithful lib" "apart (state_root r) (sysfs_root r)" "run_operation_id r = Some oid"
    and "v (state_root r @ [oid @ ''.json'']) = None" "recovers r q"
    and "undisturbed (anchors (state_root r)) (controlled (state_root r) (sysfs_root r)) s"
    and "crash_safe lib (state_root r) {oid} (sysfs_root r) v (content (nodes s))"
    and "recover lib q s = (x, t)"
  shows "ns \<in> set (nodes t # history t) \<Longrightarrow> crash_safe lib (state_root r) {oid} (sysfs_root r) v (content ns)"
    and "x = Ok () \<Longrightarrow> clean (sysfs_root r) v (content (nodes t))"
proof -
  let ?within = "within (anchors (state_root r)) (controlled (state_root r) (sysfs_root r))
    (crash_safe lib (state_root r) {oid} (sysfs_root r) v) (host s)"
  have start: "?within (\<lambda>_. True) s"
    using assms(6,7) unfolding undisturbed_def by (intro within_start) auto
  have rec: "triple (?within (\<lambda>_. True)) (recover lib q) (\<lambda>_. ?within (clean (sysfs_root r) v)) (\<lambda>_. ?within (\<lambda>_. True))"
    using step_recover [where v = v, OF assms(1,2,4,5) refl refl assms(3)] by (simp add: step_ok_def)
  show "crash_safe lib (state_root r) {oid} (sysfs_root r) v (content ns)" if "ns \<in> set (nodes t # history t)"
    using within_result [OF rec start assms(8)] that by (rule within_states)
  show "clean (sysfs_root r) v (content (nodes t))" if "x = Ok ()"
  proof -
    from tripleD(1) [OF rec start] assms(8) that have "?within (clean (sysfs_root r) v) t" by simp
    then show ?thesis by (rule within_end) (simp add: clean_def controlled_def)
  qed
qed

lemma interrupted_safe:
  assumes "interrupted lib r ns0 ns" "faithful lib" "apart (state_root r) (sysfs_root r)"
    and "run_operation_id r = Some oid" "content ns0 (state_root r @ [oid @ ''.json'']) = None"
  shows "crash_safe lib (state_root r) {oid} (sysfs_root r) (content ns0) (content ns)"
  using assms(1)
proof induction
  case (interrupted_run s x t ns)
  with interrupted_run_safe [OF assms(2,3) interrupted_run(1,2,4,5)] assms(4) show ?case
    by (simp add: operation_ids_def)
next
  case (interrupted_recovery ns s q x t ns')
  have "crash_safe lib (state_root r) {oid} (sysfs_root r) (content ns0) (content (nodes s))"
    by (rule crash_safe_cong [OF interrupted_recovery.IH]) (simp_all add: interrupted_recovery)
  then show ?case
    by (rule recover_ends(1) [where v = "content ns0", OF assms(2-5) interrupted_recovery(4,2) _ interrupted_recovery(5,6)])
qed

section \<open>A sample\<close>

definition sample_recovery :: ControlRequest where
  "sample_recovery =
     \<lparr>control_operation_id = Some ''a'', control_sysfs_root = sample_sysfs,
      control_state_root = [root_dir, ''r''], control_coordinator = False\<rparr>"

lemma sample_recovers: "recovers sample_run sample_recovery"
  by (simp add: recovers_def sample_run_def sample_recovery_def is_real_root_def REAL_SYSFS_ROOT_def
      sample_sysfs_def)

lemma sample_no_journal:
  "content (sample_nodes b2) (state_root sample_run @ [''a'' @ ''.json'']) = None"
proof -
  have "plain (sample_nodes b2) [root_dir, ''r'', ''a.json'']"
    by (rule no_links_plain [OF sample_nodes_no_links]) (simp_all add: is_absolute_def root_dir_def)
  then show ?thesis
    by (simp add: sample_run_def content_plain sample_nodes_def sample_state_def sample_dir_def sample_file_def
        sample_sysfs_def root_dir_def Let_def file_content_def)
qed

text \<open>After a run, the controlled paths are still reached without links.\<close>

lemma run_undisturbed:
  assumes "faithful lib" "apart (state_root r) (sysfs_root r)" "no_seams (host s)"
    and "undisturbed (anchors (state_root r)) (controlled (state_root r) (sysfs_root r)) s"
    and "run lib r s = (x, t)"
  shows "undisturbed (anchors (state_root r)) (controlled (state_root r) (sysfs_root r)) (t\<lparr>history := []\<rparr>)"
proof -
  let ?w = "within (anchors (state_root r)) (controlled (state_root r) (sysfs_root r))
    (crash_safe lib (state_root r) (operation_ids r) (sysfs_root r) (content (nodes s))) (host s)"
  have "triple (?w (\<lambda>w. w = content (nodes s))) (run lib r) (\<lambda>_. ?w (\<lambda>_. True)) (\<lambda>_. ?w (\<lambda>_. True))"
    by (rule triple_conseq [OF run_run [OF assms(1-3) refl refl refl, where v = "content (nodes s)"]])
      (auto simp: ends_def elim: within_mono)
  from within_result [OF this untouched_start [OF assms(4)] assms(5)] show ?thesis
    by (auto simp: within_def frame_def views_def undisturbed_def)
qed

section \<open>Values of third parties\<close>

lemma left_alone_visible:
  assumes "left_alone lib p j v w" "p \<in> C" "\<And>q. q \<in> C \<Longrightarrow> content ns q = w q" "\<And>q. q \<in> C \<Longrightarrow> v q = u q"
    and "\<And>q. q \<notin> C \<Longrightarrow> u q = None"
  shows "left_alone lib p j u (visible C ns)"
  using assms by (auto simp: left_alone_def visible_def)

lemma sample_conflict:
  "conflicting (entries (sample_journal Applied)) (content (sample_nodes ''2''))"
proof -
  let ?p = "sample_sysfs @ [''cpu0'', ''cpuidle'', ''state2'', ''disable'']"
  have "plain (sample_nodes ''2'') ?p"
    by (rule no_links_plain [OF sample_nodes_no_links])
      (simp_all add: is_absolute_def root_dir_def sample_sysfs_def)
  then have "content (sample_nodes ''2'') ?p = Some (''2'' @ [CHR 0x0A])"
    by (simp add: content_plain sample_nodes_def sample_state_def sample_dir_def sample_file_def
        sample_sysfs_def root_dir_def Let_def file_content_def)
  moreover have "disable_path (sample_entry 2 ''C6'' ''0'' ''1'') = ?p"
    by code_simp
  moreover have "bit_value (Some (''2'' @ [CHR 0x0A])) \<notin> {Some ''0'', Some ''1''}" by code_simp
  ultimately show ?thesis
    by (simp add: conflicting_def sample_journal_def) (simp add: sample_entry_def)
qed

section \<open>Properties\<close>

text \<open>C4: Recovery after any number of crashes. Take a run with an operation identity that has no journal
  yet, interrupt it anywhere, and let any number of recoveries of that operation be interrupted
  anywhere as well. In the state that is left, every changed idle state is listed with its value
  before the run in the operation's journal; and a recovery that then reports success has put all
  of them back.\<close>

theorem recovery_after_crashes:
  assumes "faithful lib" "apart (state_root r) (sysfs_root r)" "run_operation_id r = Some oid"
    and "content ns0 (state_root r @ [oid @ ''.json'']) = None" "interrupted lib r ns0 ns"
    and "undisturbed (anchors (state_root r)) (controlled (state_root r) (sysfs_root r)) s"
    and "\<And>p. p \<in> controlled (state_root r) (sysfs_root r) \<Longrightarrow> content (nodes s) p = content ns p"
    and "recovers r q"
  shows "crash_safe lib (state_root r) {oid} (sysfs_root r) (content ns0) (content ns)
    \<and> (case recover lib q s of
         (Ok _, t) \<Rightarrow> clean (sysfs_root r) (content ns0) (content (nodes t))
       | (_, t) \<Rightarrow> crash_safe lib (state_root r) {oid} (sysfs_root r) (content ns0) (content (nodes t)))"
proof -
  note safe = interrupted_safe [OF assms(5,1-4)]
  have "crash_safe lib (state_root r) {oid} (sysfs_root r) (content ns0) (content (nodes s))"
    by (rule crash_safe_cong [OF safe]) (simp_all add: assms(7))
  note ends = recover_ends [where v = "content ns0", OF assms(1-4,8,6) this]
  obtain x t where run: "recover lib q s = (x, t)" by fastforce
  from ends [OF run] safe run show ?thesis by (cases x) auto
qed

theorem recovery_after_crashes_witness:
  "\<exists>x t. run sample_library sample_run (sample_system sample_host (sample_nodes ''0'')) = (x, t)
     \<and> crash_safe sample_library [root_dir, ''r''] {''a''} sample_sysfs
         (content (sample_nodes ''0'')) (content (nodes t))
     \<and> (case recover sample_library sample_recovery (t\<lparr>history := []\<rparr>) of
          (Ok _, u) \<Rightarrow> clean sample_sysfs (content (sample_nodes ''0'')) (content (nodes u))
        | (_, u) \<Rightarrow> crash_safe sample_library [root_dir, ''r''] {''a''} sample_sysfs
            (content (sample_nodes ''0'')) (content (nodes u)))"
proof -
  let ?s = "sample_system sample_host (sample_nodes ''0'')"
  obtain x t where run: "run sample_library sample_run ?s = (x, t)" by fastforce
  have ends: "interrupted sample_library sample_run (sample_nodes ''0'') (nodes t)"
    by (rule interrupted_run [OF sample_undisturbed sample_no_seams _ run]) (simp_all add: sample_system_def)
  have next_start: "undisturbed (anchors (state_root sample_run))
      (controlled (state_root sample_run) (sysfs_root sample_run)) (t\<lparr>history := []\<rparr>)"
    by (rule run_undisturbed [OF sample_faithful sample_apart sample_no_seams sample_undisturbed run])
  have oid: "run_operation_id sample_run = Some ''a''"
    and roots: "state_root sample_run = [root_dir, ''r'']" "sysfs_root sample_run = sample_sysfs"
    by (simp_all add: sample_run_def)
  have "content (nodes (t\<lparr>history := []\<rparr>)) p = content (nodes t) p" for p by simp
  from run recovery_after_crashes [OF sample_faithful sample_apart oid sample_no_journal ends next_start this
      sample_recovers, unfolded roots]
  show ?thesis by (intro exI [of _ x] exI [of _ t] conjI) simp_all
qed

text \<open>C5: Values of third parties survive. When some idle state has a value that is neither the one the
  run found nor the one the run set, restoring fails, and in every state on the way no idle state
  has been touched and the journal is as it was or records the conflict.\<close>

theorem restore_keeps_third_party_values:
  assumes "faithful lib" "undisturbed A C s" "p \<in> C" "disable_path ` set (entries j) \<subseteq> C"
    and "conflicting (entries j) (content (nodes s))" "restore lib sysfs p j s = (x, t)"
  shows "x \<noteq> Ok ()
    \<and> list_all (\<lambda>ns. left_alone lib p j (visible C (nodes s)) (visible C ns)) (nodes t # history t)"
proof -
  let ?v = "content (nodes s)"
  let ?within = "\<lambda>now. within A C (left_alone lib p j ?v) (host s) now"
  have start: "?within (\<lambda>w. w = ?v) s"
    using assms(2) unfolding undisturbed_def by (intro within_start) (auto simp: left_alone_def)
  have run: "triple (?within (\<lambda>w. w = ?v)) (restore lib sysfs p j) (\<lambda>_. ?within (\<lambda>_. False)) (\<lambda>_. ?within (\<lambda>_. True))"
    using step_restore_conflicting [OF assms(1,3-5), of A "host s" sysfs] by (simp add: step_ok_def)
  have shown: "left_alone lib p j (visible C (nodes s)) (visible C ns)"
    if "left_alone lib p j ?v w" "\<And>q. q \<in> C \<Longrightarrow> content ns q = w q" for w ns
    by (rule left_alone_visible [OF that(1) assms(3) that(2)]) (auto simp: visible_def)
  have "x \<noteq> Ok ()"
    using tripleD(1) [OF run start] assms(6) by (auto simp: within_def)
  moreover have "list_all (\<lambda>ns. left_alone lib p j (visible C (nodes s)) (visible C ns)) (nodes t # history t)"
    using within_result [OF run start assms(6)]
    by (rule within_end) (simp add: list_all_iff, metis shown)
  ultimately show ?thesis by blast
qed

theorem restore_keeps_third_party_values_witness:
  "\<exists>x t. restore sample_library sample_sysfs sample_journal_path (sample_journal Applied)
       (sample_system sample_host (sample_nodes ''2'')) = (x, t) \<and> x \<noteq> Ok ()"
proof -
  let ?s = "sample_system sample_host (sample_nodes ''2'')" and ?j = "sample_journal Applied"
  let ?C = "controlled (state_root sample_run) (sysfs_root sample_run)"
  obtain x t where run: "restore sample_library sample_sysfs sample_journal_path ?j ?s = (x, t)" by fastforce
  have "valid_operation_id ''a''" by code_simp
  then have p: "sample_journal_path \<in> ?C"
    using journals_controlled [OF journals_path(2) [of "''a''" UNIV "state_root sample_run"]]
    by (simp add: sample_journal_path_def sample_run_def)
  have "show_nat 0 = ''0''" by code_simp
  then have "disable_path e \<in> idle_controls sample_sysfs" if "e \<in> set (entries ?j)" for e
    using that unfolding idle_controls_def
    by (auto simp: sample_journal_def sample_entry_def intro!: exI [of _ 0])
  then have es: "disable_path ` set (entries ?j) \<subseteq> ?C"
    by (auto simp: controlled_def sample_run_def)
  have "conflicting (entries ?j) (content (nodes ?s))"
    using sample_conflict by (simp add: sample_system_def)
  from restore_keeps_third_party_values [OF sample_faithful sample_undisturbed p es this run] run
  show ?thesis by blast
qed

end
