(* ===== verification/Build.thy ===== *)
theory Build
  imports Supervision
begin

text \<open>
  Benchmark builds (\<^verbatim>\<open>src/tools/benchctl/src/build.rs\<close>): the checks of the environment, the
  configuration, the checkout and the package graph, the two Cargo processes under their crash
  guardian, and the receipt. Of the \<open>cargo_metadata\<close> crate's types the records below have the
  fields the code reads; its parsers, like the JSON crate's, are fields of \<open>build_library\<close>. The
  order in which a hash set is walked is a field too.
\<close>

section \<open>Data\<close>

definition BUILD_AFFECTING_ENVIRONMENT :: "string list" where
  "BUILD_AFFECTING_ENVIRONMENT =
     [''RUSTC'', ''RUSTFLAGS'', ''CARGO_ENCODED_RUSTFLAGS'', ''RUSTC_WRAPPER'',
      ''RUSTC_WORKSPACE_WRAPPER'', ''RUSTC_BOOTSTRAP'', ''CARGO_INCREMENTAL'', ''CARGO_BUILD_TARGET'',
      ''CARGO_BUILD_RUSTC'', ''CARGO_BUILD_RUSTFLAGS'', ''CARGO_BUILD_RUSTC_WRAPPER'',
      ''CARGO_BUILD_RUSTC_WORKSPACE_WRAPPER'']"

record BuildRequest =
  build_manifest_path :: path
  build_bench :: string
  build_features :: "string list"
  build_receipt_path :: path
  build_timeout :: nat

record BuildGuardianRequest =
  build_coordinator_pid :: u32
  build_ready :: path
  build_drain :: path
  build_status :: path
  build_stdout :: path
  build_repository :: path
  cargo_arguments :: "string list"

record BuildStatus =
  build_code :: "int option"
  build_signal :: "int option"

datatype TargetKind = BenchTarget | OtherTarget

record Target =
  target_name :: string
  target_kind :: "TargetKind list"
  src_path :: path

record Package =
  package_name :: string
  package_key :: string
  package_source :: "string option"
  package_manifest_path :: path
  package_targets :: "Target list"

record Node =
  node_id :: string
  node_deps :: "string list"

record Metadata =
  packages :: "Package list"
  workspace_root :: path
  resolved :: "Node list option"

record Artifact =
  artifact_target :: Target
  artifact_executable :: "path option"
  artifact_package_id :: string

datatype Message = CompilerArtifact Artifact | OtherMessage

record build_library = supervision_library +
  build_status_to_vec :: "BuildStatus \<Rightarrow> string + string"
  build_status_from_slice :: "string \<Rightarrow> string + BuildStatus"
  metadata_from_reader :: "string \<Rightarrow> string + Metadata"
  parse_stream :: "string \<Rightarrow> (string + Message) list"
  hash_order :: "string list \<Rightarrow> string list"

definition BuildStatus_success :: "BuildStatus \<Rightarrow> bool" where
  "BuildStatus_success b = (build_code b = Some 0)"

definition BuildStatus_display :: "BuildStatus \<Rightarrow> string" where
  "BuildStatus_display b =
     (case build_code b of
        Some code \<Rightarrow> ''exit code '' @ show_int code
      | None \<Rightarrow>
          (case build_signal b of
             Some sig \<Rightarrow> ''signal '' @ show_int sig
           | None \<Rightarrow> ''unknown exit status''))"

section \<open>Commands\<close>

definition plain_command :: "string list \<Rightarrow> command" where
  "plain_command words =
     \<lparr>argv = words, directory = None, credentials = None, settings = [], own_group = False\<rparr>"

definition command_stdout :: "command \<Rightarrow> string \<Rightarrow> string io" where
  "command_stdout c operation =
     bind (run_command operation c) (\<lambda>(status, out).
     bind (guard_io (exit_success status)
       (Preflight (operation @ '' exited with '' @ exit_text status))) (\<lambda>_.
     bind (guard_io (valid_utf8 out) (Preflight (operation @ '' emitted non-UTF-8 output''))) (\<lambda>_.
     return_io out)))"

definition build_git_stdout :: "path \<Rightarrow> string list \<Rightarrow> string \<Rightarrow> string io" where
  "build_git_stdout repo arguments operation =
     command_stdout (plain_command ([''git'', ''-C'', display_path repo] @ arguments)) operation"

section \<open>The environment and the configuration\<close>

definition affects_build :: "string \<Rightarrow> bool" where
  "affects_build nm =
     (nm \<in> set BUILD_AFFECTING_ENVIRONMENT
       \<or> prefix ''CARGO_TARGET_'' nm \<and> (suffix ''_RUSTFLAGS'' nm \<or> suffix ''_LINKER'' nm)
       \<or> prefix ''CARGO_PROFILE_BENCH_'' nm \<or> prefix ''CARGO_PROFILE_RELEASE_'' nm)"

definition reject_environment_overrides :: "unit io" where
  "reject_environment_overrides =
     bind (ask (\<lambda>s. map fst (environment (host s)))) (\<lambda>names.
     for_each names (\<lambda>raw.
       let nm = to_string_lossy raw in
       guard_io (\<not> affects_build nm)
         (Preflight (''build-affecting environment override is rejected: '' @ nm))))"

definition reject_config_files :: "path \<Rightarrow> unit io" where
  "reject_config_files dir =
     for_each [''config'', ''config.toml''] (\<lambda>nm.
       bind (path_exists (join dir nm)) (\<lambda>there.
       guard_io (\<not> there)
         (Preflight (''Cargo config outside the tracked repository is rejected: ''
            @ display_path (join dir nm)))))"

function ancestors :: "path \<Rightarrow> path list" where
  "ancestors p = (case parent_dir p of None \<Rightarrow> [] | Some d \<Rightarrow> d # ancestors d)"
  by pat_completeness auto
termination
  by (relation "measure length") (auto simp: parent_dir_def split: if_splits)

declare ancestors.simps [simp del]

definition require_tracked_config :: "path \<Rightarrow> string \<Rightarrow> unit io" where
  "require_tracked_config repo relative =
     bind (path_exists (join repo relative)) (\<lambda>there.
     if \<not> there then return_io ()
     else
       bind (run_command ''checking repository Cargo config''
         (plain_command [''git'', ''-C'', display_path repo, ''ls-files'', ''--error-unmatch'', relative]))
         (\<lambda>(status, _).
       guard_io (exit_success status)
         (Preflight (''repository Cargo config is not tracked: '' @ display_path (join repo relative)))))"

definition verify_cargo_configuration :: "path \<Rightarrow> unit io" where
  "verify_cargo_configuration repo =
     bind (for_each [''.cargo/config'', ''.cargo/config.toml''] (require_tracked_config repo)) (\<lambda>_.
     bind (ask (\<lambda>s. variables (host s) ''HOME'')) (\<lambda>home.
     bind (unless_none home (Preflight ''HOME is required'')) (\<lambda>home.
     let default_cargo_home = join (Path_new home) ''.cargo'' in
     bind (ask (\<lambda>s. variables (host s) ''CARGO_HOME'')) (\<lambda>configured.
     bind (guard_io (case configured of Some c \<Rightarrow> Path_new c = default_cargo_home | None \<Rightarrow> True)
       (Preflight ''non-default CARGO_HOME is rejected'')) (\<lambda>_.
     bind (reject_config_files default_cargo_home) (\<lambda>_.
     for_each (ancestors repo) (\<lambda>d. reject_config_files (join d ''.cargo''))))))))"

definition channel_of_line :: "string \<Rightarrow> string option" where
  "channel_of_line line =
     (case split_once (CHR ''='') line of
        None \<Rightarrow> None
      | Some (key, value) \<Rightarrow>
          if trim key = ''channel'' then Some (trim_matches (CHR 0x22) (trim value)) else None)"

definition pinned_toolchain :: "path \<Rightarrow> string io" where
  "pinned_toolchain repo =
     bind (read_to_string ''reading pinned toolchain'' (join repo ''rust-toolchain.toml'')) (\<lambda>contents.
     case List.map_filter channel_of_line (str_lines contents) of
       [channel] \<Rightarrow> return_io channel
     | _ \<Rightarrow> fail_io (Preflight ''rust-toolchain.toml must contain exactly one channel''))"

definition validate_toolchain_override :: "string \<Rightarrow> string io" where
  "validate_toolchain_override channel =
     bind (ask (\<lambda>s. variables (host s) ''RUSTUP_TOOLCHAIN'')) (\<lambda>raw.
     case raw of
       None \<Rightarrow> return_io ''repository-toolchain-file''
     | Some x \<Rightarrow>
         (let value = to_string_lossy x in
          bind (guard_io (value = channel \<or> prefix (channel @ ''-'') value)
            (Preflight (''RUSTUP_TOOLCHAIN does not match pinned '' @ channel))) (\<lambda>_.
          return_io value)))"

section \<open>The checkout\<close>

definition require_tracked :: "path \<Rightarrow> path \<Rightarrow> string \<Rightarrow> unit io" where
  "require_tracked repo p label =
     bind (unless_none (strip_prefix repo p)
       (Preflight (label @ '' is outside its Git repository''))) (\<lambda>relative.
     bind (run_command ''checking tracked build input''
       (plain_command [''git'', ''-C'', display_path repo, ''ls-files'', ''--error-unmatch'', ''--'',
          display_path relative])) (\<lambda>(status, _).
     guard_io (exit_success status)
       (Preflight (label @ '' is not tracked by Git: '' @ display_path p))))"

definition verify_checkout_unchanged ::
    "'m library_scheme \<Rightarrow> path \<Rightarrow> string \<Rightarrow> path \<Rightarrow> string \<Rightarrow> unit io" where
  "verify_checkout_unchanged lib repo expected_commit lockfile expected_digest =
     bind (build_git_stdout repo [''rev-parse'', ''--verify'', ''HEAD'']
       ''rechecking source commit after Cargo build'') (\<lambda>commit.
     bind (guard_io (trim commit = expected_commit)
       (Preflight ''source commit changed during Cargo build'')) (\<lambda>_.
     bind (build_git_stdout repo [''status'', ''--porcelain'', ''--untracked-files=all'']
       ''rechecking working tree after Cargo build'') (\<lambda>status.
     bind (guard_io (status = []) (Preflight ''working tree changed during Cargo build'')) (\<lambda>_.
     bind (file_digest lib lockfile ''rechecking Cargo.lock after build'') (\<lambda>digest.
     guard_io (digest = expected_digest) (Preflight ''Cargo.lock changed during Cargo build''))))))"

section \<open>The package graph\<close>

definition find_node :: "Node list \<Rightarrow> string \<Rightarrow> Node option" where
  "find_node ns x = find (\<lambda>n. node_id n = x) ns"

text \<open>The breadth-first search: an error is the package without a node.\<close>

function reachable_packages :: "Node list \<Rightarrow> string list \<Rightarrow> string list \<Rightarrow> string + string list" where
  "reachable_packages ns [] seen = Inr seen"
| "reachable_packages ns (x # pending) seen =
     (if x \<in> set seen then reachable_packages ns pending seen
      else case find_node ns x of
             None \<Rightarrow> Inl x
           | Some n \<Rightarrow> reachable_packages ns (pending @ node_deps n) (seen @ [x]))"
  by pat_completeness auto
termination
proof (relation "inv_image (finite_psubset <*lex*> less_than)
    (\<lambda>(ns, pending, seen). (node_id ` set ns - set seen, length pending))")
  fix ns x pending seen n
  assume "x \<notin> set seen" "find_node ns x = Some n"
  then have "x \<in> node_id ` set ns"
    by (auto simp: find_node_def find_Some_iff)
  with \<open>x \<notin> set seen\<close> show "((ns, pending @ node_deps n, seen @ [x]), ns, x # pending, seen)
      \<in> inv_image (finite_psubset <*lex*> less_than)
          (\<lambda>(ns, pending, seen). (node_id ` set ns - set seen, length pending))"
    by (auto simp: finite_psubset_def)
qed auto

definition check_local_target :: "path \<Rightarrow> string \<Rightarrow> Target \<Rightarrow> unit io" where
  "check_local_target repo owner t =
     bind (canonicalize ''canonicalizing local Cargo target'' (src_path t)) (\<lambda>source.
     bind (guard_io (prefix repo source)
       (Preflight (''Cargo target '' @ target_name t @ '' for local package '' @ owner
          @ '' is outside the Git repository: '' @ display_path source))) (\<lambda>_.
     require_tracked repo source ''reachable local Cargo target''))"

definition check_package :: "Metadata \<Rightarrow> path \<Rightarrow> string \<Rightarrow> unit io" where
  "check_package metadata repo x =
     bind (unless_none (find (\<lambda>p. package_key p = x) (packages metadata))
       (Preflight (''Cargo metadata has no package for resolved node '' @ x))) (\<lambda>package.
     if package_source package \<noteq> None then return_io ()
     else
       bind (canonicalize ''canonicalizing local package manifest'' (package_manifest_path package)) (\<lambda>manifest.
       bind (guard_io (prefix repo manifest)
         (Preflight (''reachable local package '' @ package_name package
            @ '' is outside the Git repository: '' @ display_path manifest))) (\<lambda>_.
       bind (require_tracked repo manifest ''reachable local package manifest'') (\<lambda>_.
       for_each (package_targets package) (check_local_target repo (package_name package))))))"

definition validate_reachable_local_graph ::
    "'m build_library_scheme \<Rightarrow> Metadata \<Rightarrow> string \<Rightarrow> path \<Rightarrow> unit io" where
  "validate_reachable_local_graph lib metadata root repo =
     bind (unless_none (resolved metadata)
       (Preflight ''Cargo metadata did not include a resolved graph'')) (\<lambda>graph.
     case reachable_packages graph [root] [] of
       Inl x \<Rightarrow> fail_io (Preflight (''Cargo resolve graph has no node for package '' @ x))
     | Inr reachable \<Rightarrow> for_each (hash_order lib reachable) (check_package metadata repo))"

section \<open>The coordinator's side of a Cargo process\<close>

definition install_build_signal_handlers :: "unit io" where
  "install_build_signal_handlers =
     for_each [''SIGHUP'', ''SIGINT'', ''SIGTERM''] (\<lambda>_. nop ''installing build cancellation handler'')"

definition remaining_build_time :: "nat \<Rightarrow> nat \<Rightarrow> nat io" where
  "remaining_build_time started limit =
     bind (elapsed started) (\<lambda>e.
     if e \<le> limit then return_io (limit - e)
     else fail_io (Preflight ''Cargo build timeout elapsed''))"

definition require_guardian_success :: "unit io" where
  "require_guardian_success =
     bind (wait_child ''reaping Cargo crash guardian'') (\<lambda>status.
     guard_io (exit_success status) (State (''Cargo crash guardian exited with '' @ exit_text status)))"

definition request_build_drain :: "path \<Rightarrow> unit io" where
  "request_build_drain drain =
     bind (atomic_write drain (''drain'' @ [CHR 0x0A])) (\<lambda>_. require_guardian_success)"

definition wait_for_cargo_body ::
    "'m build_library_scheme \<Rightarrow> nat \<Rightarrow> path \<Rightarrow> path \<Rightarrow> path \<Rightarrow> nat \<Rightarrow> BuildStatus option io" where
  "wait_for_cargo_body lib started ready drain status_path limit =
     bind (path_exists status_path) (\<lambda>there.
     if there
     then bind (fs_read ''reading Cargo status'' status_path) (\<lambda>bytes.
          bind (json ''reading Cargo status'' (build_status_from_slice lib bytes)) (\<lambda>status.
          bind require_guardian_success (\<lambda>_. return_io (Some status))))
     else
       bind (observe (\<lambda>n s. cancelled (host s) n)) (\<lambda>c.
       if c
       then bind (request_build_drain drain) (\<lambda>_. fail_io (Workload ''Cargo build cancelled by signal''))
       else
         bind (elapsed started) (\<lambda>e.
         if limit \<le> e
         then bind (request_build_drain drain) (\<lambda>_. fail_io (Preflight ''Cargo build timeout elapsed''))
         else
           bind (try_wait ''checking Cargo crash guardian'') (\<lambda>g.
           case g of
             Some status \<Rightarrow>
               fail_io (State (''Cargo crash guardian exited before recording status: '' @ exit_text status))
           | None \<Rightarrow>
               bind (path_exists ready) (\<lambda>started_up.
               bind (elapsed started) (\<lambda>e.
               if \<not> started_up \<and> 5000 \<le> e
               then bind (request_build_drain drain) (\<lambda>_.
                    fail_io (State ''Cargo crash guardian startup timed out''))
               else return_io None))))))"

definition wait_for_cargo ::
    "'m build_library_scheme \<Rightarrow> path \<Rightarrow> path \<Rightarrow> path \<Rightarrow> nat \<Rightarrow> BuildStatus io" where
  "wait_for_cargo lib ready drain status_path limit =
     bind (ask clock) (\<lambda>started.
     poll (rounds limit) (wait_for_cargo_body lib started ready drain status_path limit))"

definition build_guardian_command ::
    "path \<Rightarrow> u32 \<Rightarrow> path \<Rightarrow> path \<Rightarrow> path \<Rightarrow> path \<Rightarrow> path \<Rightarrow> string list \<Rightarrow> (string \<times> string) list \<Rightarrow> command" where
  "build_guardian_command exe me ready drain status out repo arguments env =
     \<lparr>argv =
        [display_path exe, ''__build-guardian'', ''--coordinator-pid'', show_u32 me,
         ''--ready'', display_path ready, ''--drain'', display_path drain,
         ''--status'', display_path status, ''--stdout'', display_path out,
         ''--repository'', display_path repo, ''--''] @ arguments,
      directory = None, credentials = None, settings = map (\<lambda>(k, v). (k, Some v)) env,
      own_group = True\<rparr>"

definition guarded_cargo ::
    "'m build_library_scheme \<Rightarrow> path \<Rightarrow> path \<Rightarrow> string list \<Rightarrow> nat \<Rightarrow> (string \<times> string) list
      \<Rightarrow> BuildStatus io" where
  "guarded_cargo lib repo out arguments limit env =
     bind (observe (\<lambda>n s. cancelled (host s) n)) (\<lambda>c.
     bind (guard_io (\<not> c) (Workload ''Cargo build cancelled by signal'')) (\<lambda>_.
     with_temporary ''creating build guardian state'' Directory (\<lambda>root.
       let ready = join root ''ready''; drain = join root ''drain''; status = join root ''status.json'' in
       bind (resolve_current_exe ''resolving Benchctl executable'') (\<lambda>exe.
       bind (ask (\<lambda>s. pid (host s))) (\<lambda>me.
       bind (spawn ''starting Cargo crash guardian''
         (build_guardian_command exe me ready drain status out repo arguments env)) (\<lambda>_.
       wait_for_cargo lib ready drain status limit))))))"

section \<open>The guardian's side\<close>

definition signal_cargo_group :: "int \<Rightarrow> signal \<Rightarrow> unit io" where
  "signal_cargo_group pgid sig = bind (killpg pgid (Some sig)) (\<lambda>r.
     case r of
       KillError e \<Rightarrow> fail_io (State (''cannot signal Cargo process group: '' @ e))
     | _ \<Rightarrow> return_io ())"

definition cargo_group_is_empty :: "int \<Rightarrow> bool io" where
  "cargo_group_is_empty pgid = bind (killpg pgid None) (\<lambda>r.
     case r of
       NoSuchGroup \<Rightarrow> return_io True
     | Delivered \<Rightarrow> return_io False
     | KillError e \<Rightarrow> fail_io (State (''cannot inspect Cargo process group: '' @ e)))"

definition CARGO_GRACE :: nat where "CARGO_GRACE = 5000"

definition drain_cargo_group :: "int \<Rightarrow> unit io" where
  "drain_cargo_group pgid =
     bind (signal_cargo_group pgid SIGTERM) (\<lambda>_.
     bind (drain_within CARGO_GRACE (cargo_group_is_empty pgid)) (\<lambda>gone.
     if gone then return_io ()
     else bind (signal_cargo_group pgid SIGKILL) (\<lambda>_.
          bind (drain_within CARGO_GRACE (cargo_group_is_empty pgid)) (\<lambda>gone.
          guard_io gone (State ''Cargo process group could not be proved empty'')))))"

definition reap_cargo_group :: "int \<Rightarrow> unit io" where
  "reap_cargo_group pgid =
     bind (signal_cargo_group pgid SIGTERM) (\<lambda>_.
     bind (drain_within CARGO_GRACE
       (bind (try_wait ''checking Cargo during drain'') (\<lambda>_. cargo_group_is_empty pgid))) (\<lambda>gone.
     if gone then return_io ()
     else bind (signal_cargo_group pgid SIGKILL) (\<lambda>_.
          bind (drain_within CARGO_GRACE
            (bind (try_wait ''reaping killed Cargo'') (\<lambda>_. cargo_group_is_empty pgid))) (\<lambda>gone.
          guard_io gone (State ''Cargo process group could not be proved empty'')))))"

definition terminate_cargo_group :: "u32 \<Rightarrow> unit io" where
  "terminate_cargo_group child =
     bind (unless_none (to_i32 child) (State ''Cargo PID is outside the process-group range''))
       reap_cargo_group"

definition monitor_cargo_body ::
    "'m build_library_scheme \<Rightarrow> BuildGuardianRequest \<Rightarrow> int \<Rightarrow> int \<Rightarrow> u32 \<Rightarrow> unit option io" where
  "monitor_cargo_body lib r coordinator_pid pgid child =
     bind (path_exists (build_drain r)) (\<lambda>requested.
     bind (if requested then return_io False else has_parent coordinator_pid) (\<lambda>alive.
     if \<not> alive then bind (terminate_cargo_group child) (\<lambda>_. return_io (Some ()))
     else
       bind (try_wait ''waiting for Cargo'') (\<lambda>w.
       case w of
         None \<Rightarrow> return_io None
       | Some status \<Rightarrow>
           bind (drain_cargo_group pgid) (\<lambda>_.
           bind (json ''serializing Cargo status'' (build_status_to_vec lib
             \<lparr>build_code = exit_status_code status, build_signal = exit_signal status\<rparr>)) (\<lambda>bytes.
           bind (atomic_write (build_status r) bytes) (\<lambda>_.
           return_io (Some ())))))))"

text \<open>
  The guardian's loop has no time limit; the first argument is the number of rounds it is
  followed for.
\<close>

definition monitor_cargo ::
    "nat \<Rightarrow> 'm build_library_scheme \<Rightarrow> BuildGuardianRequest \<Rightarrow> int \<Rightarrow> int \<Rightarrow> u32 \<Rightarrow> unit io" where
  "monitor_cargo watched lib r coordinator_pid pgid child =
     bind (atomic_write (build_ready r) (''ready'' @ [CHR 0x0A])) (\<lambda>_.
     poll watched (monitor_cargo_body lib r coordinator_pid pgid child))"

definition build_guardian ::
    "nat \<Rightarrow> 'm build_library_scheme \<Rightarrow> BuildGuardianRequest \<Rightarrow> unit io" where
  "build_guardian watched lib r =
     bind (unless_none (to_i32 (build_coordinator_pid r))
       (Usage ''coordinator PID is outside the PID range'')) (\<lambda>coordinator_pid.
     bind (has_parent coordinator_pid) (\<lambda>alive.
     if \<not> alive then return_io ()
     else
       bind (open_truncate ''opening Cargo message log'' (build_stdout r)) (\<lambda>_.
       bind (spawn ''starting Cargo''
         \<lparr>argv = ''cargo'' # cargo_arguments r, directory = Some (build_repository r),
          credentials = None, settings = [], own_group = True\<rparr>) (\<lambda>child.
       bind (unless_none (to_i32 child)
         (State ''Cargo PID is outside the process-group range'')) (\<lambda>pgid.
       bind (attempt (monitor_cargo watched lib r coordinator_pid pgid child)) (\<lambda>result.
       case result of
         Inr _ \<Rightarrow> return_io ()
       | Inl error \<Rightarrow>
           bind (attempt (terminate_cargo_group child)) (\<lambda>cleaned.
           case cleaned of
             Inr _ \<Rightarrow> fail_io error
           | Inl cleanup \<Rightarrow>
               fail_io (State (''Cargo guardian failed ('' @ display_BenchError error
                 @ ''); cleanup also failed ('' @ display_BenchError cleanup @ '')'')))))))))"

section \<open>The build\<close>

text \<open>What is known of a checkout before Cargo runs.\<close>

record Checkout =
  checkout_manifest :: path
  checkout_repository :: path
  checkout_toolchain :: string
  checkout_rustc :: string
  checkout_target :: string

definition host_line :: "string \<Rightarrow> string option" where
  "host_line line = strip_prefix ''host: '' line"

definition inspect_checkout :: "BuildRequest \<Rightarrow> Checkout io" where
  "inspect_checkout r =
     bind (guard_io (build_bench r \<noteq> [] \<and> [] \<notin> set (build_features r))
       (Usage ''bench and features must not be empty'')) (\<lambda>_.
     bind reject_environment_overrides (\<lambda>_.
     bind (canonicalize ''canonicalizing Cargo manifest'' (build_manifest_path r)) (\<lambda>manifest.
     bind (unless_none (parent_dir manifest) (Preflight ''Cargo manifest has no parent'')) (\<lambda>dir.
     bind (build_git_stdout dir [''rev-parse'', ''--show-toplevel''] ''finding Git repository'') (\<lambda>top.
     bind (canonicalize ''canonicalizing Git repository'' (Path_new (trim top))) (\<lambda>repo.
     bind (guard_io (prefix repo manifest)
       (Preflight ''Cargo manifest is outside its Git repository'')) (\<lambda>_.
     bind (verify_cargo_configuration repo) (\<lambda>_.
     bind (require_tracked repo manifest ''Cargo manifest'') (\<lambda>_.
     bind (pinned_toolchain repo) (\<lambda>channel.
     bind (validate_toolchain_override channel) (\<lambda>toolchain.
     bind (command_stdout (plain_command [''rustc'', ''--version'']) ''reading rustc version'') (\<lambda>ver.
     bind (guard_io (prefix (''rustc '' @ channel @ '' '') ver)
       (Preflight (''rustc does not match pinned toolchain '' @ channel @ '': '' @ trim ver))) (\<lambda>_.
     bind (command_stdout (plain_command [''rustc'', ''-vV'']) ''reading rustc identity'') (\<lambda>compiler.
     bind (case List.map_filter host_line (str_lines compiler) of
             [] \<Rightarrow> fail_io (Preflight ''rustc -vV did not report a host'')
           | target # _ \<Rightarrow> return_io target) (\<lambda>target.
     return_io \<lparr>checkout_manifest = manifest, checkout_repository = repo,
       checkout_toolchain = toolchain, checkout_rustc = compiler, checkout_target = target\<rparr>)))))))))))))))"

fun join_comma :: "string list \<Rightarrow> string" where
  "join_comma [] = []"
| "join_comma [f] = f"
| "join_comma (f # fs) = f @ '','' @ join_comma fs"

definition feature_arguments :: "string list \<Rightarrow> string list" where
  "feature_arguments fs = (if fs = [] then [] else [''--features'', join_comma fs])"

definition metadata_arguments :: "Checkout \<Rightarrow> string list \<Rightarrow> string list" where
  "metadata_arguments c fs =
     [''metadata'', ''--manifest-path'', display_path (checkout_manifest c), ''--locked'',
      ''--filter-platform'', checkout_target c, ''--format-version'', ''1''] @ feature_arguments fs"

definition read_metadata ::
    "'m build_library_scheme \<Rightarrow> BuildRequest \<Rightarrow> Checkout \<Rightarrow> nat \<Rightarrow> path \<Rightarrow> Metadata io" where
  "read_metadata lib r c cargo_started out =
     bind (remaining_build_time cargo_started (build_timeout r)) (\<lambda>left.
     bind (guarded_cargo lib (checkout_repository c) out
       (metadata_arguments c (build_features r)) left []) (\<lambda>status.
     bind (guard_io (BuildStatus_success status)
       (Preflight (''Cargo metadata exited with '' @ BuildStatus_display status))) (\<lambda>_.
     bind (fs_read ''reading Cargo metadata'' out) (\<lambda>bytes.
     json ''reading Cargo metadata'' (metadata_from_reader lib bytes)))))"

definition owns_bench :: "string \<Rightarrow> Package \<Rightarrow> bool" where
  "owns_bench b p = list_ex (\<lambda>t. target_name t = b \<and> BenchTarget \<in> set (target_kind t)) (package_targets p)"

text \<open>The workspace root and the package that owns the benchmark.\<close>

definition select_package ::
    "'m build_library_scheme \<Rightarrow> BuildRequest \<Rightarrow> Checkout \<Rightarrow> Metadata \<Rightarrow> (path \<times> Package) io" where
  "select_package lib r c metadata =
     bind (canonicalize ''canonicalizing Cargo workspace root'' (workspace_root metadata)) (\<lambda>root.
     bind (guard_io (prefix (checkout_repository c) root)
       (Preflight ''Cargo workspace root is outside its Git repository'')) (\<lambda>_.
     bind (require_tracked (checkout_repository c) (join root ''Cargo.toml'') ''workspace manifest'') (\<lambda>_.
     let selected = filter (owns_bench (build_bench r)) (packages metadata) in
     bind (guard_io (length selected = 1)
       (Preflight (''expected exactly one Cargo package owning bench '' @ build_bench r @ '', found ''
          @ show_nat (length selected)))) (\<lambda>_.
     let package = hd selected in
     bind (canonicalize ''canonicalizing selected package manifest''
       (package_manifest_path package)) (\<lambda>manifest.
     bind (require_tracked (checkout_repository c) manifest ''selected package manifest'') (\<lambda>_.
     bind (validate_reachable_local_graph lib metadata (package_key package) (checkout_repository c)) (\<lambda>_.
     return_io (root, package))))))))"

text \<open>The commit, the clean working tree and the lock file with its digest.\<close>

definition source_identity ::
    "'m library_scheme \<Rightarrow> Checkout \<Rightarrow> path \<Rightarrow> (string \<times> path \<times> string) io" where
  "source_identity lib c root =
     bind (build_git_stdout (checkout_repository c) [''rev-parse'', ''--verify'', ''HEAD'']
       ''reading source commit'') (\<lambda>commit.
     bind (build_git_stdout (checkout_repository c) [''status'', ''--porcelain'', ''--untracked-files=all'']
       ''checking working tree'') (\<lambda>status.
     bind (guard_io (status = [])
       (Preflight ''official builds require a clean working tree, including untracked files'')) (\<lambda>_.
     let lockfile = join root ''Cargo.lock'' in
     bind (require_tracked (checkout_repository c) lockfile ''Cargo lockfile'') (\<lambda>_.
     bind (file_digest lib lockfile ''digesting Cargo.lock'') (\<lambda>digest.
     return_io (trim commit, lockfile, digest))))))"

definition bench_arguments :: "BuildRequest \<Rightarrow> Checkout \<Rightarrow> string list" where
  "bench_arguments r c =
     [''bench'', ''--manifest-path'', display_path (checkout_manifest c), ''--bench'', build_bench r,
      ''--no-run'', ''--locked'', ''--message-format=json'', ''--target'', checkout_target c]
     @ feature_arguments (build_features r)"

definition benchmark_environment :: "Checkout \<Rightarrow> string \<Rightarrow> (string \<times> string) list" where
  "benchmark_environment c commit =
     [(''SNOOZER_BENCHMARK_COMMIT'', commit),
      (''SNOOZER_BENCHMARK_REPOSITORY'', display_path (checkout_repository c)),
      (''SNOOZER_BENCHMARK_DIRTY'', ''false''),
      (''SNOOZER_BENCHMARK_RUSTUP_TOOLCHAIN'', checkout_toolchain c),
      (''SNOOZER_BENCHMARK_RUSTC'', trim (checkout_rustc c))]"

text \<open>The executables of the benchmark among Cargo's messages, with their packages.\<close>

fun bench_executables :: "string \<Rightarrow> (string + Message) list \<Rightarrow> string + (path \<times> string) list" where
  "bench_executables b [] = Inr []"
| "bench_executables b (Inl e # ms) = Inl e"
| "bench_executables b (Inr m # ms) =
     (case bench_executables b ms of
        Inl e \<Rightarrow> Inl e
      | Inr found \<Rightarrow>
          Inr ((case m of
                  CompilerArtifact a \<Rightarrow>
                    (case artifact_executable a of
                       Some exe \<Rightarrow>
                         if target_name (artifact_target a) = b
                           \<and> BenchTarget \<in> set (target_kind (artifact_target a))
                         then [(exe, artifact_package_id a)] else []
                     | None \<Rightarrow> [])
                | OtherMessage \<Rightarrow> []) @ found))"

definition build_executable ::
    "'m build_library_scheme \<Rightarrow> BuildRequest \<Rightarrow> Checkout \<Rightarrow> string \<Rightarrow> string \<Rightarrow> nat \<Rightarrow> path \<Rightarrow> path io" where
  "build_executable lib r c commit selected cargo_started out =
     bind (remaining_build_time cargo_started (build_timeout r)) (\<lambda>left.
     bind (guarded_cargo lib (checkout_repository c) out (bench_arguments r c) left
       (benchmark_environment c commit)) (\<lambda>status.
     bind (guard_io (BuildStatus_success status)
       (Workload (''Cargo exited with '' @ BuildStatus_display status))) (\<lambda>_.
     bind (fs_read ''reading Cargo message log'' out) (\<lambda>bytes.
     bind (case bench_executables (build_bench r) (parse_stream lib bytes) of
             Inl e \<Rightarrow> fail_io (Preflight (''invalid Cargo JSON message: '' @ e))
           | Inr found \<Rightarrow> return_io found) (\<lambda>paths.
     bind (guard_io (length paths = 1)
       (Preflight (''expected exactly one executable for bench '' @ build_bench r @ '', found ''
          @ show_nat (length paths)))) (\<lambda>_.
     bind (guard_io (snd (hd paths) = selected)
       (Preflight ''Cargo artifact package differs from resolved benchmark package'')) (\<lambda>_.
     return_io (fst (hd paths)))))))))"

definition cargo_bench :: "'m build_library_scheme \<Rightarrow> BuildRequest \<Rightarrow> unit io" where
  "cargo_bench lib r =
     bind (inspect_checkout r) (\<lambda>c.
     bind install_build_signal_handlers (\<lambda>_.
     bind (ask clock) (\<lambda>cargo_started.
     with_temporary ''creating Cargo metadata log'' (File []) (\<lambda>metadata_output.
     bind (read_metadata lib r c cargo_started metadata_output) (\<lambda>metadata.
     bind (select_package lib r c metadata) (\<lambda>(root, package).
     bind (source_identity lib c root) (\<lambda>(commit, lockfile, lock_digest).
     with_temporary ''creating Cargo message log'' (File []) (\<lambda>cargo_messages.
     bind (build_executable lib r c commit (package_key package) cargo_started cargo_messages) (\<lambda>exe.
     bind (BuildReceipt_new lib
       \<lparr>provenance_manifest_path = checkout_manifest c, provenance_repository = checkout_repository c,
        provenance_source_commit = commit, provenance_lockfile_path = lockfile,
        provenance_lockfile_sha256 = lock_digest, provenance_package_id = package_key package,
        provenance_rustc = trim (checkout_rustc c), provenance_rustup_toolchain = checkout_toolchain c,
        provenance_target_triple = checkout_target c\<rparr>
       (build_bench r) (build_features r) exe) (\<lambda>receipt.
     bind (verify_checkout_unchanged lib (repository receipt) (source_commit receipt)
       (lockfile_path receipt) (lockfile_sha256 receipt)) (\<lambda>_.
     bind (store_receipt lib (build_receipt_path r) receipt) (\<lambda>_.
     print_line (display_path (build_receipt_path r))))))))))))))"

end
