(* ===== verification/Draining.thy ===== *)
theory Draining
  imports Build
begin

text \<open>
  Draining a process group. The code has four copies of the same two-phase drain, for the workload
  and for Cargo, with and without reaping the leader. The locale states what a copy is made of and
  proves once that a drain that succeeds has seen the group empty, which signals it sent and when,
  and that every drain returns; each copy is an interpretation.
\<close>

section \<open>Programs that only look\<close>

text \<open>From one state to a later one of the same process, with no signal sent in between.\<close>

definition later :: "system \<Rightarrow> system \<Rightarrow> bool" where
  "later s t = (host t = host s \<and> calls s \<le> calls t \<and> clock s \<le> clock t \<and> signals t = signals s)"

definition probing :: "'a io \<Rightarrow> bool" where
  "probing m = (\<forall>s. later s (snd (m s)))"

lemma later_refl [simp]: "later s s"
  by (simp add: later_def)

lemma later_trans: "later s t \<Longrightarrow> later t u \<Longrightarrow> later s u"
  by (auto simp: later_def)

lemma later_enter [simp]: "later s (enter s)"
  by (simp add: later_def enter_def put_nodes_def Let_def)

lemma probingD: "probing m \<Longrightarrow> m s = (r, t) \<Longrightarrow> later s t"
  by (metis probing_def snd_conv)

named_theorems probes

lemma probing_trivial [probes]:
  "probing (return_io x)" "probing (fail_io e)" "probing (ask f)" "probing sleep_forever"
  "probing (guard_io b e)" "probing (elapsed started)" "probing (sleep_millis d)"
  "probing (killpg g None)"
  by (simp_all add: probing_def return_io_def fail_io_def ask_def sleep_forever_def guard_io_def
      elapsed_def)
    (simp_all add: later_def sleep_millis_def killpg_def enter_def put_nodes_def Let_def)

lemma probing_bind [probes]: "probing m \<Longrightarrow> (\<And>x. probing (k x)) \<Longrightarrow> probing (bind m k)"
  unfolding probing_def bind_def
  by (auto split: prod.split answer.split) (metis later_trans snd_conv)+

lemma probing_try_wait [probes]: "probing (try_wait operation)"
  by (simp add: probing_def try_wait_def call_def call_as_def ask_def split: option.split)

lemma probing_if [probes]: "probing m \<Longrightarrow> probing m' \<Longrightarrow> probing (if b then m else m')"
  by simp

lemma poll_Ok:
  assumes "probing body"
  shows "poll n body s = (Ok x, u) \<Longrightarrow> \<exists>t. later s t \<and> body t = (Ok (Some x), u)"
proof (induction n arbitrary: s)
  case 0
  then show ?case by (simp add: sleep_forever_def)
next
  case (Suc n)
  then obtain r t where b: "body s = (Ok r, t)"
    and rest: "(case r of Some y \<Rightarrow> return_io y | None \<Rightarrow> bind (sleep_millis 10) (\<lambda>_. poll n body)) t = (Ok x, u)"
    by (auto dest!: bind_Ok)
  show ?case
  proof (cases r)
    case None
    with rest obtain v where "sleep_millis 10 t = (Ok (), v)" "poll n body v = (Ok x, u)"
      by (auto dest!: bind_Ok)
    moreover have "later s v"
      using probingD [OF assms b] probingD [OF probing_trivial(7) calculation(1)] by (rule later_trans)
    ultimately show ?thesis using Suc.IH later_trans by blast
  next
    case (Some y)
    with b rest show ?thesis by (auto simp: return_io_def intro!: exI [of _ s])
  qed
qed

lemma drain_within_Ok:
  assumes "probing check" "drain_within limit check s = (Ok gone, u)"
  shows "later s u" "gone \<Longrightarrow> \<exists>t. later s t \<and> check t = (Ok True, u)"
    "\<not> gone \<Longrightarrow> clock s + limit \<le> clock u"
proof -
  have body: "probing (drain_body (clock s) limit check)"
    unfolding drain_body_def by (intro probes assms(1))
  from assms(2) have "poll (rounds limit) (drain_body (clock s) limit check) s = (Ok gone, u)"
    by (simp add: drain_within_def bind_def ask_def)
  from poll_Ok [OF body this] obtain t where t: "later s t"
    and ends: "drain_body (clock s) limit check t = (Ok (Some gone), u)" by blast
  from t probingD [OF body ends] show "later s u" by (rule later_trans)
  from ends consider "limit \<le> clock t - clock s" "\<not> gone" "u = t"
    | "check t = (Ok True, u)" "gone"
    by (auto simp: drain_body_def elapsed_def ask_def return_io_def split: if_splits dest!: bind_Ok)
  then show "gone \<Longrightarrow> \<exists>t. later s t \<and> check t = (Ok True, u)" "\<not> gone \<Longrightarrow> clock s + limit \<le> clock u"
    using t by (cases; auto simp: later_def)+
qed

lemma drain_within_returns:
  assumes "steady check" "awake check"
  shows "awake (drain_within limit check)"
proof -
  have "fst (poll (rounds limit) (drain_body (clock s) limit check) s) \<noteq> Asleep" for s
  proof (rule poll_returns)
    show "gives_up (clock s + limit) (drain_body (clock s) limit check)"
      by (auto simp: gives_up_def drain_body_def bind_def elapsed_def ask_def return_io_def)
  qed (use assms in \<open>auto simp: drain_body_def intro!: keeps_time\<close>)
  then show ?thesis
    by (simp add: awake_def drain_within_def bind_def ask_def)
qed

section \<open>The drain\<close>

text \<open>Between the two states a probe of the group has answered that there is no such group.\<close>

definition seen_empty :: "system \<Rightarrow> system \<Rightarrow> bool" where
  "seen_empty s t = list_ex (\<lambda>n. killed (host s) n = NoSuchGroup) [calls s..<calls t]"

lemma seen_empty_later:
  assumes "later s t" "seen_empty t u" "calls u \<le> calls v"
  shows "seen_empty s v"
proof -
  from assms(2) obtain n where "calls t \<le> n" "n < calls u" "killed (host t) n = NoSuchGroup"
    by (auto simp: seen_empty_def list_ex_iff)
  with assms(1,3) show ?thesis by (auto simp: seen_empty_def list_ex_iff later_def intro!: bexI [of _ n])
qed

text \<open>What a successful drain has done: asked, and killed only after the grace period.\<close>

definition drained_by :: "int \<Rightarrow> system \<Rightarrow> system \<Rightarrow> bool" where
  "drained_by g s t =
     (seen_empty s t
       \<and> (signals t = signals s @ [(g, SIGTERM)]
           \<or> signals t = signals s @ [(g, SIGTERM), (g, SIGKILL)] \<and> clock s + 5000 \<le> clock t))"

locale group_drain =
  fixes send :: "int \<Rightarrow> signal \<Rightarrow> unit io"
    and grace probe :: "int \<Rightarrow> bool io"
    and drain :: "int \<Rightarrow> unit io"
    and message :: string
  assumes drain_phases:
      "drain g =
         bind (send g SIGTERM) (\<lambda>_.
         bind (drain_within 5000 (grace g)) (\<lambda>gone.
         if gone then return_io ()
         else bind (send g SIGKILL) (\<lambda>_.
              bind (drain_within 5000 (probe g)) (\<lambda>gone. guard_io gone (State message)))))"
    and send_once: "send g x s = (Ok (), t) \<Longrightarrow> later (s\<lparr>signals := signals s @ [(g, x)]\<rparr>) t"
    and send_time: "steady (send g x)" "awake (send g x)"
    and probe_looks: "probing (grace g)" "probing (probe g)"
    and probe_time: "steady (grace g)" "awake (grace g)" "steady (probe g)" "awake (probe g)"
    and probe_empty:
      "grace g s = (Ok True, t) \<Longrightarrow> seen_empty s t" "probe g s = (Ok True, t) \<Longrightarrow> seen_empty s t"
begin

lemma within_seen:
  assumes "probing check" "\<And>s t. check s = (Ok True, t) \<Longrightarrow> seen_empty s t"
    and "drain_within 5000 check s = (Ok True, u)"
  shows "seen_empty s u"
proof -
  from drain_within_Ok(2) [OF assms(1,3)] obtain t where "later s t" "check t = (Ok True, u)" by blast
  with assms(2) seen_empty_later show ?thesis by blast
qed

lemma drain_sound:
  assumes "drain g s = (Ok (), u)"
  shows "drained_by g s u"
proof -
  from assms obtain s1 s2 gone where ask1: "send g SIGTERM s = (Ok (), s1)"
    and wait: "drain_within 5000 (grace g) s1 = (Ok gone, s2)"
    and rest: "(if gone then return_io () else bind (send g SIGKILL) (\<lambda>_.
      bind (drain_within 5000 (probe g)) (\<lambda>gone. guard_io gone (State message)))) s2 = (Ok (), u)"
    unfolding drain_phases by (auto dest!: bind_Ok)
  have l1: "later (s\<lparr>signals := signals s @ [(g, SIGTERM)]\<rparr>) s1" using send_once [OF ask1] .
  have l2: "later s1 s2" using drain_within_Ok(1) [OF probe_looks(1) wait] .
  have early: "seen_empty s v" if "seen_empty s1 v" for v
    using that l1 by (auto simp: seen_empty_def list_ex_iff later_def)
  show ?thesis
  proof (cases gone)
    case True
    with rest have u: "u = s2" by (simp add: return_io_def)
    moreover have "seen_empty s1 s2"
      using within_seen [OF probe_looks(1) probe_empty(1)] wait True by simp
    ultimately show ?thesis using early l1 l2 by (auto simp: drained_by_def later_def)
  next
    case False
    with rest obtain s3 where kill: "send g SIGKILL s2 = (Ok (), s3)"
      and last: "drain_within 5000 (probe g) s3 = (Ok True, u)"
      by (auto simp: guard_io_def fail_io_def return_io_def split: if_splits dest!: bind_Ok)
    have l3: "later (s2\<lparr>signals := signals s2 @ [(g, SIGKILL)]\<rparr>) s3" using send_once [OF kill] .
    have l4: "later s3 u" using drain_within_Ok(1) [OF probe_looks(2) last] .
    have "seen_empty s3 u" using within_seen [OF probe_looks(2) probe_empty(2) last] by simp
    then have "seen_empty s1 u"
      using l2 l3 by (auto simp: seen_empty_def list_ex_iff later_def)
    moreover have "clock s1 + 5000 \<le> clock s2"
      using drain_within_Ok(3) [OF probe_looks(1) wait False] .
    ultimately show ?thesis using early l1 l2 l3 l4 by (auto simp: drained_by_def later_def)
  qed
qed

lemma drain_returns: "awake (drain g)"
  unfolding drain_phases
  by (intro keeps_time send_time drain_within_returns probe_time)

lemma drain_correct:
  "case drain g s of (Ok _, t) \<Rightarrow> drained_by g s t | (Err _, t) \<Rightarrow> True | (Asleep, t) \<Rightarrow> False"
proof -
  obtain r t where run: "drain g s = (r, t)" by fastforce
  with drain_returns [of g] have "r \<noteq> Asleep" by (auto simp: awake_def dest: spec [of _ s])
  with run drain_sound [of g s t] show ?thesis by (cases r) auto
qed

end

section \<open>The four copies\<close>

lemma killpg_later:
  "killpg g (Some x) s = (r, t) \<Longrightarrow> later (s\<lparr>signals := signals s @ [(g, x)]\<rparr>) t"
  by (auto simp: killpg_def later_def enter_def put_nodes_def Let_def)

lemma send_later:
  "signal_group g x s = (Ok (), t) \<Longrightarrow> later (s\<lparr>signals := signals s @ [(g, x)]\<rparr>) t"
  "signal_cargo_group g x s = (Ok (), t) \<Longrightarrow> later (s\<lparr>signals := signals s @ [(g, x)]\<rparr>) t"
  by (auto simp: signal_group_def signal_cargo_group_def return_io_def fail_io_def killpg_later
      split: kill_outcome.splits dest!: bind_Ok)

lemma time_kill [keeps_time]:
  "(\<And>e. steady (f e)) \<Longrightarrow> steady m \<Longrightarrow> steady m'
     \<Longrightarrow> steady (case r of Delivered \<Rightarrow> m | NoSuchGroup \<Rightarrow> m' | KillError e \<Rightarrow> f e)"
  "(\<And>e. awake (f e)) \<Longrightarrow> awake m \<Longrightarrow> awake m'
     \<Longrightarrow> awake (case r of Delivered \<Rightarrow> m | NoSuchGroup \<Rightarrow> m' | KillError e \<Rightarrow> f e)"
  by (cases r; simp)+

lemma time_groups [keeps_time]:
  "steady (signal_group g x)" "awake (signal_group g x)" "steady (group_is_empty g)"
  "awake (group_is_empty g)" "steady (signal_cargo_group g x)" "awake (signal_cargo_group g x)"
  "steady (cargo_group_is_empty g)" "awake (cargo_group_is_empty g)"
  unfolding signal_group_def group_is_empty_def signal_cargo_group_def cargo_group_is_empty_def
  by (intro keeps_time)+

lemma probing_kill [probes]:
  "(\<And>e. probing (f e)) \<Longrightarrow> probing m \<Longrightarrow> probing m'
     \<Longrightarrow> probing (case r of Delivered \<Rightarrow> m | NoSuchGroup \<Rightarrow> m' | KillError e \<Rightarrow> f e)"
  by (cases r) simp_all

lemma probing_groups [probes]: "probing (group_is_empty g)" "probing (cargo_group_is_empty g)"
  unfolding group_is_empty_def cargo_group_is_empty_def by (intro probes)+

lemma seen_empty_killpg:
  "killed (host s) (calls s) = NoSuchGroup \<Longrightarrow> killpg g None s = (r, t) \<Longrightarrow> seen_empty s t"
  by (auto simp: killpg_def seen_empty_def list_ex_iff enter_def put_nodes_def Let_def)

lemma seen_by_probe:
  "group_is_empty g s = (Ok True, t) \<Longrightarrow> seen_empty s t"
  "cargo_group_is_empty g s = (Ok True, t) \<Longrightarrow> seen_empty s t"
  by (auto simp: group_is_empty_def cargo_group_is_empty_def bind_def killpg_def return_io_def fail_io_def
      seen_empty_def list_ex_iff enter_def put_nodes_def Let_def split: kill_outcome.splits)

lemma seen_after_reaping:
  assumes "\<And>s t. m s = (Ok True, t) \<Longrightarrow> seen_empty s t"
    and "bind (try_wait operation) (\<lambda>_. m) s = (Ok True, t)"
  shows "seen_empty s t"
proof -
  from assms(2) obtain r u where "try_wait operation s = (Ok r, u)" "m u = (Ok True, t)"
    by (auto dest!: bind_Ok)
  with probingD [OF probing_try_wait] assms(1) seen_empty_later show ?thesis by blast
qed

lemmas drain_unfolds =
  terminate_and_drain_def terminate_and_reap_group_def drain_group_def drain_cargo_group_def
  reap_cargo_group_def STOP_GRACE_def DRAIN_LIMIT_def CARGO_GRACE_def

lemma seen_reaped:
  "bind (try_wait operation) (\<lambda>_. group_is_empty g) s = (Ok True, t) \<Longrightarrow> seen_empty s t"
  "bind (try_wait operation) (\<lambda>_. cargo_group_is_empty g) s = (Ok True, t) \<Longrightarrow> seen_empty s t"
  by (rule seen_after_reaping, erule seen_by_probe, assumption)+

lemmas drain_facts = send_later seen_by_probe seen_reaped
lemmas drain_times = keeps_time probes

interpretation workload: group_drain signal_group group_is_empty group_is_empty terminate_and_drain
    "''workload process group could not be proved empty''"
  by unfold_locales
    (simp only: drain_unfolds | erule drain_facts | intro drain_times)+

interpretation reaped_workload: group_drain signal_group
    "\<lambda>g. bind (try_wait ''reaping workload supervisor'') (\<lambda>_. group_is_empty g)"
    "\<lambda>g. bind (try_wait ''reaping workload supervisor'') (\<lambda>_. group_is_empty g)"
    terminate_and_reap_group "''workload process group could not be proved empty''"
  by unfold_locales
    (simp only: drain_unfolds | erule drain_facts | intro drain_times)+

interpretation cargo: group_drain signal_cargo_group cargo_group_is_empty cargo_group_is_empty
    drain_cargo_group "''Cargo process group could not be proved empty''"
  by unfold_locales
    (simp only: drain_unfolds | erule drain_facts | intro drain_times)+

interpretation reaped_cargo: group_drain signal_cargo_group
    "\<lambda>g. bind (try_wait ''checking Cargo during drain'') (\<lambda>_. cargo_group_is_empty g)"
    "\<lambda>g. bind (try_wait ''reaping killed Cargo'') (\<lambda>_. cargo_group_is_empty g)"
    reap_cargo_group "''Cargo process group could not be proved empty''"
  by unfold_locales
    (simp only: drain_unfolds | erule drain_facts | intro drain_times)+

section \<open>Properties\<close>


end
