(* ===== verification/Provenance.thy ===== *)
theory Provenance
  imports Draining
begin

text \<open>
  What a benchmark build establishes: the package search finds exactly the packages the benchmark
  depends on, and no override of the environment passes.
\<close>

section \<open>The package graph\<close>

definition depends :: "Node list \<Rightarrow> (string \<times> string) set" where
  "depends ns = {(x, y). \<exists>n. find_node ns x = Some n \<and> y \<in> set (node_deps n)}"

lemma find_node_id: "find_node ns x = Some n \<Longrightarrow> node_id n = x \<and> n \<in> set ns"
  by (auto simp: find_node_def find_Some_iff)

text \<open>The search keeps what it has, takes up what is pending and closes it under dependencies.\<close>

lemma reachable_closed:
  "reachable_packages ns pending seen = Inr out \<Longrightarrow> depends ns `` set seen \<subseteq> set seen \<union> set pending
     \<Longrightarrow> set seen \<union> set pending \<subseteq> set out \<and> depends ns `` set out \<subseteq> set out"
proof (induction ns pending seen rule: reachable_packages.induct)
  case (2 ns x pending seen)
  show ?case
  proof (cases "x \<in> set seen")
    case True
    with 2 show ?thesis by auto
  next
    case False
    with "2.prems"(1) obtain n where n: "find_node ns x = Some n"
      "reachable_packages ns (pending @ node_deps n) (seen @ [x]) = Inr out"
      by (auto split: option.splits)
    have "depends ns `` set (seen @ [x]) \<subseteq> set (seen @ [x]) \<union> set (pending @ node_deps n)"
      using "2.prems"(2) n(1) by (auto simp: depends_def)
    with "2.IH"(2) [OF False n(1) n(2)] show ?thesis by auto
  qed
qed auto

lemma reachable_only:
  "reachable_packages ns pending seen = Inr out \<Longrightarrow> set out \<subseteq> set seen \<union> (depends ns)\<^sup>* `` set pending"
proof (induction ns pending seen rule: reachable_packages.induct)
  case (2 ns x pending seen)
  show ?case
  proof (cases "x \<in> set seen")
    case True
    with 2 show ?thesis by auto
  next
    case False
    with "2.prems" obtain n where n: "find_node ns x = Some n"
      "reachable_packages ns (pending @ node_deps n) (seen @ [x]) = Inr out"
      by (auto split: option.splits)
    have "(x, y) \<in> depends ns" if "y \<in> set (node_deps n)" for y
      using that n(1) by (auto simp: depends_def)
    then have "(depends ns)\<^sup>* `` set (node_deps n) \<subseteq> (depends ns)\<^sup>* `` {x}"
      by (auto intro: converse_rtrancl_into_rtrancl)
    with "2.IH"(2) [OF False n(1) n(2)] show ?thesis by auto
  qed
qed auto

lemma reachable_found:
  "reachable_packages ns pending seen = Inr out \<Longrightarrow> distinct seen \<Longrightarrow> set seen \<subseteq> node_id ` set ns
     \<Longrightarrow> distinct out \<and> set out \<subseteq> node_id ` set ns"
proof (induction ns pending seen rule: reachable_packages.induct)
  case (2 ns x pending seen)
  then show ?case
    by (cases "x \<in> set seen") (auto split: option.splits dest: find_node_id)
qed auto

lemma reachable_missing:
  "reachable_packages ns pending seen = Inl x \<Longrightarrow> x \<in> (depends ns)\<^sup>* `` set pending \<and> find_node ns x = None"
proof (induction ns pending seen rule: reachable_packages.induct)
  case (2 ns y pending seen)
  show ?case
  proof (cases "y \<in> set seen")
    case True
    with 2 show ?thesis by auto
  next
    case False
    show ?thesis
    proof (cases "find_node ns y")
      case None
      with "2.prems" False show ?thesis by auto
    next
      case (Some n)
      have "(y, z) \<in> depends ns" if "z \<in> set (node_deps n)" for z
        using that Some by (auto simp: depends_def)
      with "2.IH"(2) [OF False Some] "2.prems" False Some show ?thesis
        by (auto intro: converse_rtrancl_into_rtrancl)
    qed
  qed
qed simp

text \<open>C37: The package search is exact. It ends for every graph, cyclic ones included, with the packages
  the root depends on directly or not, each once and each with a node, or with a package it depends
  on that has no node.\<close>

theorem reachable_packages_exact:
  "case reachable_packages ns [root] [] of
     Inr found \<Rightarrow>
       distinct found \<and> set found = (depends ns)\<^sup>* `` {root} \<and> set found \<subseteq> node_id ` set ns
   | Inl x \<Rightarrow> (root, x) \<in> (depends ns)\<^sup>* \<and> find_node ns x = None"
proof (cases "reachable_packages ns [root] []")
  case (Inl x)
  with reachable_missing [OF Inl] show ?thesis by simp
next
  case (Inr found)
  have closed: "root \<in> set found" "depends ns `` set found \<subseteq> set found"
    using reachable_closed [OF Inr] by auto
  have "y \<in> set found" if "(root, y) \<in> (depends ns)\<^sup>*" for y
    using that closed by (induction rule: rtrancl_induct) auto
  with reachable_only [OF Inr] reachable_found [OF Inr] Inr show ?thesis by auto
qed

end
