(* ===== verification/Execution.thy ===== *)
theory Execution
  imports Cpuidle
begin

text \<open>
  What the workload supervisor executes: one command at most, and that is the accepted build, under
  the invoking user's identity. Programs that start no process are \<open>discreet\<close>; the collection
  \<open>discreet\<close> carries the rules.
\<close>

section \<open>Programs that start no process\<close>

definition discreet :: "'a io \<Rightarrow> bool" where
  "discreet m = (\<forall>s. commands (snd (m s)) = commands s \<and> host (snd (m s)) = host s)"

named_theorems discreet_rules

lemma discreetD: "discreet m \<Longrightarrow> m s = (x, t) \<Longrightarrow> commands t = commands s \<and> host t = host s"
  by (auto simp: discreet_def dest: spec [of _ s])

lemma discreetI: "(\<And>s. commands (snd (m s)) = commands s \<and> host (snd (m s)) = host s) \<Longrightarrow> discreet m"
  by (simp add: discreet_def)

lemma discreet_put [simp]:
  "commands (put_nodes ns s) = commands s" "host (put_nodes ns s) = host s"
  "commands (enter s) = commands s" "host (enter s) = host s"
  by (simp_all add: put_nodes_def enter_def Let_def)

lemma discreet_trivial [discreet_rules]:
  "discreet (return_io x)" "discreet (fail_io e)" "discreet sleep_forever" "discreet (ask f)"
  "discreet (guard_io b e)" "discreet (unless_none v e)" "discreet (observe g)"
  "discreet (sleep_millis d)" "discreet (path_exists p)"
  by (auto intro!: discreetI simp: return_io_def fail_io_def sleep_forever_def ask_def guard_io_def
      unless_none_def observe_def sleep_millis_def path_exists_def split: option.split)

lemma discreet_bind [discreet_rules]:
  assumes "discreet m" "\<And>x. discreet (k x)"
  shows "discreet (bind m k)"
proof (rule discreetI)
  fix s
  obtain r t where "m s = (r, t)" by fastforce
  with discreetD [OF assms(1) this] assms(2) show "commands (snd (bind m k s)) = commands s
      \<and> host (snd (bind m k s)) = host s"
    by (cases r) (auto simp: bind_def discreet_def)
qed

lemma discreet_if [discreet_rules]: "discreet m \<Longrightarrow> discreet m' \<Longrightarrow> discreet (if b then m else m')"
  by simp

lemma discreet_cases [discreet_rules]:
  "(\<And>a b. discreet (f a b)) \<Longrightarrow> discreet (case x of (a, b) \<Rightarrow> f a b)"
  "(\<And>c. discreet (g c)) \<Longrightarrow> discreet m \<Longrightarrow> (\<And>t. discreet (l t))
     \<Longrightarrow> discreet (case k of File c \<Rightarrow> g c | Directory \<Rightarrow> m | Symlink t \<Rightarrow> l t)"
  by (cases x, simp) (cases k, simp_all)

lemma discreet_call [discreet_rules]: "(\<And>n. discreet (body n)) \<Longrightarrow> discreet (call operation body)"
  by (auto simp: discreet_def call_def call_as_def split: option.split)

lemma discreet_nop [discreet_rules]: "discreet (nop operation)"
  unfolding nop_def by (intro discreet_rules)

lemma discreet_reads [discreet_rules]:
  "discreet (fs_read operation p)" "discreet (read_to_string operation p)" "discreet (file_digest lib p operation)"
  "discreet (resolve_current_exe operation)" "discreet (json operation r)"
proof -
  show *: "discreet (fs_read operation p)" for operation
    unfolding fs_read_def
    by (intro discreet_rules) (auto simp: discreet_def Let_def split: option.split)
  then show "discreet (read_to_string operation p)" "discreet (file_digest lib p operation)"
    unfolding read_to_string_def file_digest_def by (intro discreet_rules *)+
  show "discreet (resolve_current_exe operation)"
    unfolding resolve_current_exe_def by (intro discreet_rules)
  show "discreet (json operation r)"
    unfolding json_def by (cases r) (auto intro: discreet_rules)
qed

lemma discreet_poll [discreet_rules]: "discreet body \<Longrightarrow> discreet (poll n body)"
  by (induction n) (auto intro!: discreet_rules split: option.split)

lemma discreet_create_dir_all [discreet_rules]: "discreet (create_dir_all operation p)"
proof -
  have "commands (add_directories t s) = commands s \<and> host (add_directories t s) = host s" for t s
    by (simp add: add_directories_def)
  then show ?thesis
    unfolding create_dir_all_def
    by (intro discreet_rules) (auto simp: discreet_def split: option.split)
qed

lemma discreet_atomic_write [discreet_rules]: "discreet (atomic_write p c)"
  unfolding atomic_write_def persist_def
  by (intro discreet_rules) (auto simp: discreet_def split: option.split)

text \<open>A pipe that takes the proof takes all of it.\<close>

lemma write_pipe_result:
  "commands (snd (write_pipe sent remaining s)) = commands s
     \<and> host (snd (write_pipe sent remaining s)) = host s
     \<and> (\<forall>x. fst (write_pipe sent remaining s) = Ok x \<longrightarrow> x = sent @ remaining)"
proof (induction sent remaining s rule: write_pipe.induct)
  case (1 sent remaining s)
  let ?call = "call ''writing production control proof'' (\<lambda>n. ask (\<lambda>s. min (accepted (host s) n) (length remaining)))"
  obtain r u where run: "?call s = (r, u)" by fastforce
  have "discreet ?call" by (intro discreet_rules)
  note same = discreetD [OF this run]
  show ?case
  proof (cases "remaining = []")
    case True
    then show ?thesis by (simp add: write_pipe.simps)
  next
    case left: False
    show ?thesis
    proof (cases r)
      case (Ok n)
      then have "write_pipe sent remaining s =
          (if n = 0 then (Err (State ''production control proof pipe accepted no bytes''), u)
           else write_pipe (sent @ take n remaining) (drop n remaining) u)"
        using left run by (subst write_pipe.simps) simp
      with "1.IH" [OF left run [symmetric] Ok] same show ?thesis by (cases "n = 0") simp_all
    qed (use left run same in \<open>simp_all add: write_pipe.simps\<close>)
  qed
qed

lemma discreet_write_pipe [discreet_rules]: "discreet (write_pipe sent remaining)"
  by (rule discreetI) (simp add: write_pipe_result)

lemma write_pipe_sends: "write_pipe sent remaining s = (Ok x, t) \<Longrightarrow> x = sent @ remaining"
  using write_pipe_result [of sent remaining s] by simp

section \<open>What the checks establish\<close>

text \<open>A receipt that carries its own identity, of a clean checkout.\<close>

definition sound_receipt :: "'m receipt_library_scheme \<Rightarrow> BuildReceipt \<Rightarrow> bool" where
  "sound_receipt lib receipt =
     (receipt_version receipt = RECEIPT_VERSION \<and> source_clean receipt \<and> \<not> invalid_identity_fields receipt
       \<and> (case identity_to_vec lib (identity receipt) of
            Inr bytes \<Rightarrow> build_id receipt = sha256 lib bytes | Inl _ \<Rightarrow> False))"

lemma guard_Ok: "guard_io b e s = (Ok x, t) \<Longrightarrow> b \<and> t = s"
  by (auto simp: guard_io_def return_io_def fail_io_def split: if_splits)

lemma json_Ok: "json operation r s = (Ok x, t) \<Longrightarrow> r = Inr x \<and> t = s"
  by (auto simp: json_def return_io_def fail_io_def split: sum.splits)

lemma return_Ok: "return_io x s = (Ok y, t) \<Longrightarrow> y = x \<and> t = s"
  by (simp add: return_io_def)

lemmas Ok_steps = bind_Ok guard_Ok json_Ok return_Ok

lemma verify_identity_sound: "verify_identity lib r s = (Ok (), t) \<Longrightarrow> sound_receipt lib r"
  by (auto simp: verify_identity_def identity_digest_def sound_receipt_def hex_digest_def dest!: Ok_steps)

lemma load_accepted_sound: "load_accepted lib p s = (Ok r, t) \<Longrightarrow> sound_receipt lib r"
  by (auto simp: load_accepted_def dest!: Ok_steps intro: verify_identity_sound)

fun handle_bytes :: "handle \<Rightarrow> string" where
  "handle_bytes (Handle _ bytes) = bytes"

lemma open_verified_sound:
  "open_verified_executable lib p digest s = (Ok exe, t) \<Longrightarrow> sha256 lib (handle_bytes exe) = digest"
  unfolding open_verified_executable_def
  by (auto split: kind.splits dest!: Ok_steps)

text \<open>The proof that a root coordinator controls the machine names the operation and the build.\<close>

definition proves ::
    "'m supervision_library_scheme \<Rightarrow> SupervisorRequest \<Rightarrow> BuildReceipt \<Rightarrow> handle \<Rightarrow> bool" where
  "proves lib r receipt reader =
     (proof_to_vec lib \<lparr>proof_version = ''benchctl-production-control-v1'',
        proof_operation_id = supervisor_operation_id r, proof_build_id = build_id receipt\<rparr>
      = Inr (handle_bytes reader))"

lemma create_production_proof_sound:
  "create_production_proof lib (supervisor_operation_id r) (build_id receipt) s = (Ok reader, t)
     \<Longrightarrow> euid (host s) = 0 \<and> proves lib r receipt reader"
  unfolding create_production_proof_def
  by (auto simp: proves_def ask_def dest!: Ok_steps write_pipe_sends)

section \<open>The supervisor\<close>

lemma discreet_checks [discreet_rules]:
  "discreet (verify_identity lib receipt)" "discreet (load_accepted lib p)"
  "discreet (create_production_proof lib oid build)" "discreet (open_verified_executable lib p digest)"
  "discreet (await_go_body started go coordinator_pid)"
proof -
  show *: "discreet (verify_identity lib receipt)" for receipt
    unfolding verify_identity_def identity_digest_def by (intro discreet_rules)
  show "discreet (load_accepted lib p)"
    unfolding load_accepted_def by (intro discreet_rules *)
  show "discreet (create_production_proof lib oid build)"
    unfolding create_production_proof_def require_host_root_mapping_def by (intro discreet_rules)
  show "discreet (open_verified_executable lib p digest)"
    unfolding open_verified_executable_def
    by (intro discreet_rules)
      (auto intro!: discreetI split: option.split kind.split)
  show "discreet (await_go_body started go coordinator_pid)"
    unfolding await_go_body_def elapsed_def has_parent_def by (intro discreet_rules)
qed

text \<open>The command that runs a verified build for a request, on behalf of a process with the given user.\<close>

definition accepted_workload ::
    "'m supervision_library_scheme \<Rightarrow> SupervisorRequest \<Rightarrow> u32 \<Rightarrow> command \<Rightarrow> bool" where
  "accepted_workload lib r me c =
     (\<exists>receipt exe receipt_json production_proof.
        c = workload_command r exe receipt_json production_proof
        \<and> sound_receipt lib receipt \<and> receipt_to_string lib receipt = Inr receipt_json
        \<and> sha256 lib (handle_bytes exe) = executable_sha256 receipt
        \<and> (case production_proof of
             None \<Rightarrow> \<not> supervisor_production_control r
           | Some reader \<Rightarrow> supervisor_production_control r \<and> me = 0 \<and> proves lib r receipt reader))"

definition workload_started :: "'m supervision_library_scheme \<Rightarrow> SupervisorRequest \<Rightarrow> system \<Rightarrow> system \<Rightarrow> bool" where
  "workload_started lib r s t =
     (commands t = commands s
       \<or> (\<exists>c. accepted_workload lib r (euid (host s)) c \<and> commands t = commands s @ [c]))"

lemma triple_discreet:
  assumes "discreet m"
    and "\<And>s x t. s \<in> S \<Longrightarrow> m s = (Ok x, t) \<Longrightarrow> b x"
    and "\<And>x. b x \<Longrightarrow> triple (\<lambda>s. s \<in> S) (k x) Q E"
    and "\<And>s t. s \<in> S \<Longrightarrow> commands t = commands s \<Longrightarrow> host t = host s \<Longrightarrow> t \<in> S"
    and "\<And>e s. s \<in> S \<Longrightarrow> E e s"
  shows "triple (\<lambda>s. s \<in> S) (bind m k) Q E"
proof (rule triple_bind [where R = "\<lambda>x s. b x \<and> s \<in> S"])
  show "triple (\<lambda>s. s \<in> S) m (\<lambda>x s. b x \<and> s \<in> S) E"
    unfolding triple_def
  proof (intro allI impI)
    fix s
    assume s: "s \<in> S"
    obtain r t where run: "m s = (r, t)" by fastforce
    with assms(4) [OF s] discreetD [OF assms(1) run] have "t \<in> S" by simp
    with assms(2) [OF s] assms(5) run
    show "case m s of (Ok x, t) \<Rightarrow> b x \<and> t \<in> S | (Err e, t) \<Rightarrow> E (Some e) t | (Asleep, t) \<Rightarrow> E None t"
      by (cases r) auto
  qed
qed (rule triple_pure, rule assms(3))

lemma supervisor_after:
  assumes "accepted_workload lib r (euid (host s)) c"
  shows "triple (\<lambda>t. t \<in> {t. commands t = commands s \<and> host t = host s})
    (bind (run_command operation c) (\<lambda>(status, _). bind (json operation' (f status)) (\<lambda>bytes.
     bind (atomic_write p bytes) (\<lambda>_. sleep_forever)))) (\<lambda>_ _. False) (\<lambda>_. workload_started lib r s)"
proof (rule triple_bind)
  let ?S = "{t. commands t = commands s @ [c]}"
  have ends: "t \<in> ?S \<Longrightarrow> workload_started lib r s t" for t
    using assms by (auto simp: workload_started_def)
  have tail: "triple (\<lambda>t. t \<in> ?S) (bind m k) (\<lambda>_ _. False) (\<lambda>_. workload_started lib r s)"
    if "discreet m" "\<And>x. triple (\<lambda>t. t \<in> ?S) (k x) (\<lambda>_ _. False) (\<lambda>_. workload_started lib r s)" for m :: "'z io" and k
    by (rule triple_discreet [where b = "\<lambda>_. True"]) (use that ends in auto)
  show "triple (\<lambda>t. t \<in> {t. commands t = commands s \<and> host t = host s}) (run_command operation c)
      (\<lambda>_ t. t \<in> ?S) (\<lambda>_. workload_started lib r s)"
    by (auto simp: triple_def run_command_def call_def call_as_def issue_def workload_started_def split: option.split)
  show "triple (\<lambda>t. t \<in> ?S) (case x of (status, _) \<Rightarrow> bind (json operation' (f status)) (\<lambda>bytes.
      bind (atomic_write p bytes) (\<lambda>_. sleep_forever))) (\<lambda>_ _. False) (\<lambda>_. workload_started lib r s)" for x
    unfolding case_prod_beta by (intro tail discreet_rules triple_asleep ends)
qed

lemma supervisor_check:
  assumes "discreet m" "\<And>t x u. t \<in> {t. commands t = commands s \<and> host t = host s} \<Longrightarrow> m t = (Ok x, u) \<Longrightarrow> b x"
    and "\<And>x. b x \<Longrightarrow> triple (\<lambda>t. t \<in> {t. commands t = commands s \<and> host t = host s}) (k x) Q (\<lambda>_. workload_started lib r s)"
  shows "triple (\<lambda>t. t \<in> {t. commands t = commands s \<and> host t = host s}) (bind m k) Q (\<lambda>_. workload_started lib r s)"
  by (rule triple_discreet [OF assms]) (auto simp: workload_started_def)

lemma supervisor_starts:
  "triple (\<lambda>t. t \<in> {t. commands t = commands s \<and> host t = host s}) (workload_supervisor lib r)
     (\<lambda>_ _. False) (\<lambda>_. workload_started lib r s)"
proof -
  let ?S = "{t. commands t = commands s \<and> host t = host s}"
  let ?proof = "\<lambda>receipt p. case p of None \<Rightarrow> \<not> supervisor_production_control r
    | Some reader \<Rightarrow> supervisor_production_control r \<and> euid (host s) = 0 \<and> proves lib r receipt reader"
  have proof_made: "?proof receipt x"
    if "t \<in> ?S" "(if supervisor_production_control r
           then bind (create_production_proof lib (supervisor_operation_id r) (build_id receipt))
                  (\<lambda>reader. return_io (Some reader))
           else return_io None) t = (Ok x, u)" for receipt x t u
    using that by (auto split: if_splits dest!: Ok_steps dest: create_production_proof_sound)
  show ?thesis
    unfolding workload_supervisor_def
  proof (rule supervisor_check [where b = "\<lambda>_. True"], rule discreet_trivial, simp,
      rule supervisor_check [where b = "\<lambda>_. True"], rule discreet_trivial, simp,
      rule supervisor_check [where b = "\<lambda>_. True"], intro discreet_rules, simp,
      rule supervisor_check [where b = "sound_receipt lib"], rule discreet_checks, erule load_accepted_sound)
    fix receipt
    assume receipt: "sound_receipt lib receipt"
    show "triple (\<lambda>t. t \<in> ?S)
     (bind (json ''serializing accepted build receipt'' (receipt_to_string lib receipt)) (\<lambda>receipt_json.
      bind (if supervisor_production_control r
            then bind (create_production_proof lib (supervisor_operation_id r) (build_id receipt))
                   (\<lambda>reader. return_io (Some reader))
            else return_io None) (\<lambda>production_proof.
      bind (open_verified_executable lib (supervisor_executable r) (executable_sha256 receipt)) (\<lambda>exe.
      bind (run_command ''starting unprivileged workload''
        (workload_command r exe receipt_json production_proof)) (\<lambda>(status, _).
      bind (json ''serializing workload status'' (status_to_vec lib
        \<lparr>status_success = exit_success status, status_code = exit_status_code status,
         status_signal = exit_signal status\<rparr>)) (\<lambda>bytes.
      bind (atomic_write (supervisor_status r) bytes) (\<lambda>_. sleep_forever)))))))
     (\<lambda>_ _. False) (\<lambda>_. workload_started lib r s)"
    proof (rule supervisor_check [where b = "\<lambda>receipt_json. receipt_to_string lib receipt = Inr receipt_json"],
        rule discreet_reads, simp add: json_Ok, rule supervisor_check [where b = "?proof receipt"], intro discreet_rules,
        erule (1) proof_made, rule supervisor_check [where b = "\<lambda>exe. sha256 lib (handle_bytes exe) = executable_sha256 receipt"],
        rule discreet_checks, erule open_verified_sound, rule supervisor_after)
      fix receipt_json production_proof exe
      assume "receipt_to_string lib receipt = Inr receipt_json" "?proof receipt production_proof"
        "sha256 lib (handle_bytes exe) = executable_sha256 receipt"
      with receipt show "accepted_workload lib r (euid (host s)) (workload_command r exe receipt_json production_proof)"
        unfolding accepted_workload_def by blast
    qed
  qed
qed

section \<open>Properties\<close>


end
