(* ===== verification/Cli.thy ===== *)
theory Cli
  imports Control Build
begin

text \<open>
  The command line (\<^verbatim>\<open>src/tools/benchctl/src/cli.rs\<close>, \<^verbatim>\<open>src/tools/benchctl/src/main.rs\<close>): the
  commands with their arguments, and the dispatch to the operations. The parser that the \<open>clap\<close>
  crate derives from these declarations is a parameter, \<open>try_parse_from\<close>, which gives the command
  or the text of a usage error. Timeouts are given in seconds, and requests carry milliseconds.
  The guardians watch other processes for as long as these live, so they have the number of rounds
  after which the model stops watching as a further argument, \<open>watched\<close>.
\<close>

section \<open>Arguments\<close>

record CargoBench =
  arg_manifest_path :: path
  arg_bench :: string
  arg_features :: "string list"
  arg_build_receipt :: path
  arg_build_timeout :: u64

datatype BuildCommand = CargoBench_command CargoBench

datatype CpuIdlePolicy = PollC1

record Run =
  arg_run_receipt :: path
  arg_run_operation_id :: "string option"
  arg_cpuidle :: CpuIdlePolicy
  arg_cpus :: "nat list"
  arg_run_timeout :: u64
  arg_run_sysfs_root :: path
  arg_run_state_root :: path
  arg_run_coordinator :: bool
  arg_client_pid :: "u32 option"
  arg_run_workload :: "string list"

record Control =
  arg_operation_id :: "string option"
  arg_sysfs_root :: path
  arg_state_root :: path
  arg_coordinator :: bool

record Workload =
  arg_go :: path
  arg_workload_status :: path
  arg_receipt :: path
  arg_executable :: path
  arg_workload_operation_id :: string
  arg_workload_coordinator_pid :: u32
  arg_uid :: u32
  arg_gid :: u32
  arg_production_control :: bool
  arg_workload :: "string list"

record Guardian =
  arg_coordinator_pid :: u32
  arg_pgid :: int
  arg_active_lock :: path
  arg_ready :: path
  arg_drain :: path
  arg_drained :: path

record BuildGuardian =
  arg_build_coordinator_pid :: u32
  arg_build_ready :: path
  arg_build_drain :: path
  arg_build_status :: path
  arg_build_stdout :: path
  arg_repository :: path
  arg_cargo_arguments :: "string list"

datatype Command =
    Build_command BuildCommand
  | Run_command Run
  | Status_command Control
  | Recover_command Control
  | Workload_command Workload
  | Guardian_command Guardian
  | BuildGuardian_command BuildGuardian

definition from_secs :: "u64 \<Rightarrow> nat" where
  "from_secs n = 1000 * unat n"

section \<open>Dispatch\<close>

fun build_request :: "BuildCommand \<Rightarrow> BuildRequest" where
  "build_request (CargoBench_command v) =
     \<lparr>build_manifest_path = arg_manifest_path v, build_bench = arg_bench v,
      build_features = arg_features v, build_receipt_path = arg_build_receipt v,
      build_timeout = from_secs (arg_build_timeout v)\<rparr>"

definition run_request :: "Run \<Rightarrow> RunRequest" where
  "run_request v =
     \<lparr>run_operation_id = arg_run_operation_id v, receipt_path = arg_run_receipt v,
      run_cpus = arg_cpus v, run_timeout = from_secs (arg_run_timeout v),
      workload = arg_run_workload v, sysfs_root = arg_run_sysfs_root v,
      state_root = arg_run_state_root v, is_coordinator = arg_run_coordinator v,
      client_pid = arg_client_pid v\<rparr>"

definition control_request :: "Control \<Rightarrow> ControlRequest" where
  "control_request v =
     \<lparr>control_operation_id = arg_operation_id v, control_sysfs_root = arg_sysfs_root v,
      control_state_root = arg_state_root v, control_coordinator = arg_coordinator v\<rparr>"

definition supervisor_request :: "Workload \<Rightarrow> SupervisorRequest" where
  "supervisor_request v =
     \<lparr>supervisor_go = arg_go v, supervisor_status = arg_workload_status v,
      supervisor_receipt = arg_receipt v, supervisor_executable = arg_executable v,
      supervisor_operation_id = arg_workload_operation_id v,
      supervisor_coordinator_pid = arg_workload_coordinator_pid v,
      supervisor_uid = arg_uid v, supervisor_gid = arg_gid v,
      supervisor_workload = arg_workload v,
      supervisor_production_control = arg_production_control v\<rparr>"

definition guardian_request :: "Guardian \<Rightarrow> GuardianRequest" where
  "guardian_request v =
     \<lparr>guardian_coordinator_pid = arg_coordinator_pid v, guardian_pgid = arg_pgid v,
      guardian_active_lock = arg_active_lock v, guardian_ready = arg_ready v,
      guardian_drain = arg_drain v, guardian_drained = arg_drained v\<rparr>"

definition build_guardian_request :: "BuildGuardian \<Rightarrow> BuildGuardianRequest" where
  "build_guardian_request v =
     \<lparr>build_coordinator_pid = arg_build_coordinator_pid v, build_ready = arg_build_ready v,
      build_drain = arg_build_drain v, build_status = arg_build_status v,
      build_stdout = arg_build_stdout v, build_repository = arg_repository v,
      cargo_arguments = arg_cargo_arguments v\<rparr>"

fun dispatch :: "nat \<Rightarrow> 'm build_library_scheme \<Rightarrow> Command \<Rightarrow> unit io" where
  "dispatch watched lib (Build_command v) = cargo_bench lib (build_request v)"
| "dispatch watched lib (Run_command v) = run lib (run_request v)"
| "dispatch watched lib (Status_command v) = status lib (control_request v)"
| "dispatch watched lib (Recover_command v) = recover lib (control_request v)"
| "dispatch watched lib (Workload_command v) = workload_supervisor lib (supervisor_request v)"
| "dispatch watched lib (Guardian_command v) = guardian watched (guardian_request v)"
| "dispatch watched lib (BuildGuardian_command v) =
     build_guardian watched lib (build_guardian_request v)"

definition cli_run ::
    "(string list \<Rightarrow> string + Command) \<Rightarrow> nat \<Rightarrow> 'm build_library_scheme \<Rightarrow> string list \<Rightarrow> unit io" where
  "cli_run try_parse_from watched lib arguments =
     (case try_parse_from arguments of
        Inl error \<Rightarrow> fail_io (Usage error)
      | Inr command \<Rightarrow> dispatch watched lib command)"

text \<open>The process: what it prints on standard error, its exit code, and the system it leaves.\<close>

definition main ::
    "(string list \<Rightarrow> string + Command) \<Rightarrow> nat \<Rightarrow> 'm build_library_scheme \<Rightarrow> string list
      \<Rightarrow> system \<Rightarrow> (string list \<times> nat) option \<times> system" where
  "main try_parse_from watched lib arguments s =
     (case cli_run try_parse_from watched lib arguments s of (r, s') \<Rightarrow> (run_from r, s'))"

end
