(* ===== verification/Spec2Isabelle.thy ===== *)
theory Spec2Isabelle
  imports Parker Preflight Recovery Provenance Execution Cli
begin

text \<open>
  Verification of snoozer (\<^verbatim>\<open>src/\<close>): the waiting library (\<^verbatim>\<open>src/src\<close>) and the benchmark control tool
  benchctl (\<^verbatim>\<open>src/tools/benchctl/src\<close>).

  \<^bold>\<open>The program.\<close> The library lets one thread wait until an atomic value differs from an expected one.
  A strategy spins, yields or sleeps in the processor (MONITORX/MWAITX on AMD, UMONITOR/UMWAIT on
  Intel); hardware strategies exist only after a process-wide gate has checked CPUID, calibrated the
  time stamp counter and probed that sleeps really end on stores. A parker is a one-token mailbox
  built on the strategies. The control tool builds a benchmark from a clean checkout and records it
  in a receipt; it then runs it with the deep idle states of some CPUs disabled: it writes the old
  values to a journal, changes them, runs the workload under a supervisor and a guardian, and puts
  the values back, itself or in a later recovery.

  \<^bold>\<open>Theories of the library.\<close>
  \<^item> \<open>Prelude\<close>: machine integers and their saturating operations, durations, results.
  \<^item> \<open>Machine\<close>: the execution model. A waiting thread runs against an arbitrary schedule of stores,
    read-modify-writes, passing time and interrupts; publication is kept by views.
  \<^item> \<open>Atomic\<close> (\<^verbatim>\<open>atomic.rs\<close>), \<open>Errors\<close> (\<^verbatim>\<open>error.rs\<close>), \<open>Capabilities\<close> (\<^verbatim>\<open>capabilities.rs\<close>).
  \<^item> \<open>Amd\<close>, \<open>Intel\<close>, \<open>Arch\<close> (\<^verbatim>\<open>arch/\<close>): CPUID decoding, calibration, the wait instructions, discovery;
    both calibrations interpret the locale \<open>tsc_timer\<close>. \<open>Once\<close>: one-time initialisation as a step
    relation over any number of callers.
  \<^item> \<open>Cycles\<close>, \<open>Waiting\<close>, \<open>Strategy\<close>, \<open>Preflight\<close> (\<^verbatim>\<open>strategy.rs\<close>): budgets, deadlines and monitor
    protocols; the five strategies and the public operations, proved once in the locale \<open>raw_wait\<close>
    and interpreted for each strategy; the hardware gate with its helper thread.
  \<^item> \<open>Parker\<close> (\<^verbatim>\<open>parker.rs\<close>): token, parks and the two producer handles, which interpret the locales
    \<open>notifier\<close> and \<open>coalescing\<close>.

  \<^bold>\<open>Theories of the tool.\<close>
  \<^item> \<open>Text\<close>, \<open>Bench_Errors\<close> (\<^verbatim>\<open>error.rs\<close>, \<^verbatim>\<open>lib.rs\<close>), \<open>Files\<close> (the operating system and \<^verbatim>\<open>runtime.rs\<close>):
    a program of type \<open>'a io\<close> maps a system to an answer (a value, an error, or sleeping forever) and
    a system. Any call may fail, any other process may write between calls, and every state the
    file system has been in is recorded in \<open>history\<close>.
  \<^item> \<open>Files_Logic\<close>: triples over such programs, frames for the files that others leave alone, and
    invariants of every state passed through. \<open>Calm\<close>: hosts on which no call fails.
  \<^item> \<open>Journal\<close> (\<^verbatim>\<open>journal.rs\<close>), \<open>Receipt\<close> (\<^verbatim>\<open>receipt.rs\<close>), \<open>Supervision\<close> (\<^verbatim>\<open>supervision.rs\<close>), \<open>Cpuidle\<close> and
    \<open>Control\<close> (\<^verbatim>\<open>cpuidle.rs\<close>), \<open>Build\<close> (\<^verbatim>\<open>build.rs\<close>), \<open>Cli\<close> (\<^verbatim>\<open>cli.rs\<close>, \<^verbatim>\<open>main.rs\<close>): the operations, one
    definition per function, long functions in the parts their comments and blocks suggest.
  \<^item> \<open>Restoration\<close>, \<open>Tame\<close>, \<open>Crash_Safety\<close>, \<open>Recovery\<close>: undoing, which failures speak of the
    workload, write-ahead journalling of a run, and recovery after any number of crashes.
  \<^item> \<open>Durability\<close>: stored records against an atomic register (locale \<open>publisher\<close>). \<open>Draining\<close>: the four
    copies of the drain (locale \<open>group_drain\<close>). \<open>Provenance\<close>: the package graph. \<open>Execution\<close>: what the
    supervisor starts. \<open>Sample\<close>: a concrete JSON library and host on which the theorems' assumptions
    hold.

  \<^bold>\<open>What is shown.\<close> Waiting: every sleep happens under an armed monitor after a recheck; a wait returns
  only for an observed change or, when bounded, after its deadline and a last check; it returns once
  a change stays or time passes; hardware budgets stay within the deadline. Parking: no notification
  is lost, tokens are consumed by exchange, and what producers published is visible. Gate: success
  means the processor supports the backend, the verdict is final and agreed on by all callers, and
  preflight ends. Tool: in every state a run passes through, a changed idle state is in a journal on
  disk; success and workload failure mean that the values are back; a recovery that reports success
  after any crashes has put them back; values of third parties are never overwritten; records on disk
  are old or new and never between; journals are well formed and come back as stored; drains end and
  have seen the group gone; only the build of a sound receipt is started; the package search is
  exact.

  \<^bold>\<open>Bounds and fuel.\<close> Loops of the library that may run forever are partial functions into \<open>option\<close>,
  and that they return is proved where the schedule lets them. The tool's polling loops sleep 10 ms
  and have a time limit, so \<open>rounds limit = limit div 10 + 2\<close> rounds are enough; that the drains do
  not run out of them is part of their theorem. The two guardians watch without limit; \<open>watched\<close> is
  the number of rounds they are followed for, and a guardian still watching then counts as asleep.
  Resolving a path follows 40 links, as Linux does. Clock values are milliseconds in the tool and
  nanoseconds in the library.

  \<^bold>\<open>Parameters.\<close> Serialisation and SHA-256 are fields of \<open>library\<close> and its extensions; theorems that
  read back assume only that parsing inverts printing (\<open>faithful\<close>). The types and parsers of
  \<open>cargo_metadata\<close>, the iteration order of hash sets and the parser that \<open>clap\<close> derives are parameters
  too. The kernel, other processes, signals, locks and process identities are oracles of \<open>host\<close>;
  theorems on files assume that others do not write the controlled paths (\<open>undisturbed\<close>). An open
  file keeps the bytes it had when it was opened. The two variables that make the tool's tests stop
  it on purpose are assumed unset where they would write (\<open>no_seams\<close>).

  \<^bold>\<open>Not modelled.\<close> The benchmark harness (\<^verbatim>\<open>src/benches\<close>), which only measures; the crate root, which only
  re-exports; the clap attributes of the argument structs; memory orderings weaker than the views
  express, in particular non-atomic data races, which Rust's types exclude.
\<close>

section \<open>Properties that span components\<close>



section \<open>From the command line to the idle states\<close>

lemma run_ends:
  assumes "faithful lib" "apart (state_root r) (sysfs_root r)" "no_seams (host s)"
    and "undisturbed (anchors (state_root r)) (controlled (state_root r) (sysfs_root r)) s"
    and "run lib r s = (x, t)" "x = Ok () \<or> (\<exists>m. x = Err (BenchError.Workload m))"
  shows "clean (sysfs_root r) (content (nodes s)) (content (nodes t))"
proof -
  note run = tripleD [OF run_run [OF assms(1-3) refl refl refl] untouched_start [OF assms(4)]]
  have "within (anchors (state_root r)) (controlled (state_root r) (sysfs_root r))
      (crash_safe lib (state_root r) (operation_ids r) (sysfs_root r) (content (nodes s))) (host s)
      (clean (sysfs_root r) (content (nodes s))) t"
    using assms(5,6) run(1,2) by (auto simp: ends_def is_some_and_def)
  then show ?thesis by (rule within_end) (simp add: clean_def controlled_def)
qed


definition sample_build_library :: build_library where
  "sample_build_library =
     supervision_library.extend sample_library
       (build_library.fields (\<lambda>b. Inr ''status'') (\<lambda>s. Inl ''malformed'') (\<lambda>s. Inl ''malformed'') (\<lambda>s. []) (\<lambda>ids. ids))"

definition sample_arguments :: Run where
  "sample_arguments =
     \<lparr>arg_run_receipt = [root_dir, ''receipt''], arg_run_operation_id = Some ''a'', arg_cpuidle = PollC1,
      arg_cpus = [0], arg_run_timeout = 1, arg_run_sysfs_root = sample_sysfs,
      arg_run_state_root = [root_dir, ''r''], arg_run_coordinator = False, arg_client_pid = None,
      arg_run_workload = [''w'']\<rparr>"


text \<open>Failures of the privileged coordinator. On the real idle states the process the user starts
  waits for the coordinator it starts through \<open>sudo\<close>; whatever that coordinator's failure is, and
  also when it asks for recovery with its own code 2, the user's process ends with code 1, the
  code of a failed workload.\<close>

theorem forwarded_failure_exit:
  "run_from (fst (forward_status c ''privileged coordinator'' s)) =
     (case fault (host s) (calls s) of
        Some e \<Rightarrow> run_from (Err (Io ''starting privileged coordinator'' e))
      | None \<Rightarrow>
          if exit_success (completed (host s) (calls s)) then Some ([], 0)
          else Some ([''benchctl: workload failed: privileged coordinator exited with ''
                 @ exit_text (completed (host s) (calls s)),
               ''retry: inspect workload output; a new operation is safe only after successful cleanup''], 1))"
  by (simp add: forward_status_def run_command_def call_def call_as_def pure_io run_from_def
      split: option.split)

end
